(* ===== verification/Prelude.thy ===== *)
theory Prelude
  imports Main "HOL-Library.AList" "HOL-Library.List_Lexorder" "HOL-Library.Char_ord"
begin

text \<open>
  What every component shares: the values a Python dictionary read from JSON or YAML can
  hold, dictionaries in insertion order, truthiness, sorting of names, and a state-exception
  computation with the rules that carry a relation between states through it.
\<close>

named_theorems pydict_simps \<open>reading and writing dictionaries\<close>
named_theorems keeps_intros \<open>rules that push a state relation through a computation\<close>
named_theorems table_simps \<open>facts about the rows of the transition tables\<close>

section \<open>Dynamic values\<close>

text \<open>
  A finite float is the exact dyadic number \<open>m * 2 ^ e\<close>.  A dictionary is the list of its
  entries in insertion order; keys are values because the trace has integer keys.
\<close>

datatype pyfloat = Finite int int | Infinite bool | NaN

datatype pyval =
    PNone
  | PBool bool
  | PInt int
  | PFloat pyfloat
  | PStr string
  | PList "pyval list"
  | PDict "(pyval \<times> pyval) list"

type_synonym pydict = "(pyval \<times> pyval) list"

fun truthy :: "pyval \<Rightarrow> bool" where
  "truthy PNone = False"
| "truthy (PBool b) = b"
| "truthy (PInt i) = (i \<noteq> 0)"
| "truthy (PFloat (Finite m e)) = (m \<noteq> 0)"
| "truthy (PFloat _) = True"
| "truthy (PStr s) = (s \<noteq> [])"
| "truthy (PList xs) = (xs \<noteq> [])"
| "truthy (PDict d) = (d \<noteq> [])"

text \<open>The two ways the code reads a key: \<open>d[k]\<close>, which may raise, and \<open>d.get(k)\<close>.\<close>

definition dlookup :: "pydict \<Rightarrow> string \<Rightarrow> pyval option" where
  "dlookup d k = map_of d (PStr k)"

definition dget :: "pydict \<Rightarrow> string \<Rightarrow> pyval" where
  "dget d k = (case dlookup d k of None \<Rightarrow> PNone | Some v \<Rightarrow> v)"

definition dhas :: "pydict \<Rightarrow> string \<Rightarrow> bool" where
  "dhas d k = (dlookup d k \<noteq> None)"

definition dput :: "string \<Rightarrow> pyval \<Rightarrow> pydict \<Rightarrow> pydict" where
  "dput k v d = AList.update (PStr k) v d"

text \<open>\<open>a or b\<close>, which is \<open>a\<close> unless \<open>a\<close> is falsy.\<close>

definition py_or :: "pyval \<Rightarrow> pyval \<Rightarrow> pyval" where
  "py_or a b = (if truthy a then a else b)"

text \<open>\<open>x.get(k)\<close> for a value that is a dictionary or stands for one as \<open>x or {}\<close>.\<close>

fun entries_of :: "pyval \<Rightarrow> pydict" where
  "entries_of (PDict d) = d"
| "entries_of _ = []"

fun items_of :: "pyval \<Rightarrow> pyval list" where
  "items_of (PList xs) = xs"
| "items_of _ = []"

fun is_pdict :: "pyval \<Rightarrow> bool" where
  "is_pdict (PDict _) = True"
| "is_pdict _ = False"

fun is_plist :: "pyval \<Rightarrow> bool" where
  "is_plist (PList _) = True"
| "is_plist _ = False"

fun is_pstr :: "pyval \<Rightarrow> bool" where
  "is_pstr (PStr _) = True"
| "is_pstr _ = False"

fun str_of :: "pyval \<Rightarrow> string" where
  "str_of (PStr s) = s"
| "str_of _ = []"

definition strs :: "string list \<Rightarrow> pyval" where
  "strs xs = PList (map PStr xs)"

text \<open>\<open>sorted\<close> of a collection of names, each once.\<close>

definition sorted_names :: "string list \<Rightarrow> string list" where
  "sorted_names xs = sort (remdups xs)"

lemma set_sorted_names [simp]: "set (sorted_names xs) = set xs"
  by (simp add: sorted_names_def)

lemma sorted_sorted_names: "sorted (sorted_names xs)"
  by (simp add: sorted_names_def)

lemma distinct_sorted_names: "distinct (sorted_names xs)"
  by (simp add: sorted_names_def)

lemma sorted_names_eq_iff: "sorted_names xs = sorted_names ys \<longleftrightarrow> set xs = set ys"
proof
  assume "sorted_names xs = sorted_names ys"
  then have "set (sorted_names xs) = set (sorted_names ys)" by simp
  then show "set xs = set ys" by simp
next
  assume "set xs = set ys"
  then show "sorted_names xs = sorted_names ys"
    by (intro sorted_distinct_set_unique)
      (simp_all add: sorted_sorted_names distinct_sorted_names)
qed

lemma dlookup_dput [pydict_simps]:
  "dlookup (dput k v d) k' = (if k' = k then Some v else dlookup d k')"
  by (simp add: dlookup_def dput_def update_conv')

lemma dget_dput [pydict_simps]: "dget (dput k v d) k' = (if k' = k then v else dget d k')"
  by (simp add: dget_def dlookup_dput)

lemma dlookup_Nil [simp]: "dlookup [] k = None"
  by (simp add: dlookup_def)

lemma dget_Nil [simp]: "dget [] k = PNone"
  by (simp add: dget_def)

lemma dlookup_Cons [simp]:
  "dlookup ((k, v) # d) k' = (if k = PStr k' then Some v else dlookup d k')"
  by (simp add: dlookup_def)

lemma dget_Cons [simp]: "dget ((k, v) # d) k' = (if k = PStr k' then v else dget d k')"
  by (simp add: dget_def)

text \<open>\<open>{**a, **b}\<close>: the entries of \<open>b\<close> written over \<open>a\<close>, in order.\<close>

definition dmerge :: "pydict \<Rightarrow> pydict \<Rightarrow> pydict" where
  "dmerge a b = fold (\<lambda>(k, v) d. AList.update k v d) b a"

lemma map_of_fold_update:
  "map_of (fold (\<lambda>(k, v) d. AList.update k v d) b a) k
     = (case map_of (rev b) k of Some v \<Rightarrow> Some v | None \<Rightarrow> map_of a k)"
  by (induction b arbitrary: a) (auto simp: map_add_def update_conv' split: option.splits)

lemma distinct_map_of_rev: "distinct (map fst b) \<Longrightarrow> map_of (rev b) = map_of b"
  by (metis distinct_rev map_of_inject_set rev_map set_rev)

lemma map_of_dmerge [pydict_simps]:
  "distinct (map fst b) \<Longrightarrow>
     map_of (dmerge a b) k = (case map_of b k of Some v \<Rightarrow> Some v | None \<Rightarrow> map_of a k)"
  by (simp add: dmerge_def map_of_fold_update distinct_map_of_rev)

text \<open>The whole number a value equals in Python, if it equals one.\<close>

fun as_int :: "pyval \<Rightarrow> int option" where
  "as_int (PInt i) = Some i"
| "as_int (PBool b) = Some (if b then 1 else 0)"
| "as_int (PFloat (Finite m e)) =
     (if 0 \<le> e then Some (m * 2 ^ nat e)
      else if m mod 2 ^ nat (- e) = 0 then Some (m div 2 ^ nat (- e)) else None)"
| "as_int _ = None"

text \<open>
  Python's \<open>==\<close>: dictionaries whatever their order, numbers by value.  A float is kept in
  lowest terms, so two floats that are equal are the same value.
\<close>

lemma size_entry: "(k, v) \<in> set d \<Longrightarrow> size v < Suc (size_list (size_prod size size) d)"
  by (induction d) auto

function (sequential) py_eq :: "pyval \<Rightarrow> pyval \<Rightarrow> bool" where
  "py_eq (PList xs) (PList ys) \<longleftrightarrow> length xs = length ys \<and> (\<forall>(x, y) \<in> set (zip xs ys). py_eq x y)"
| "py_eq (PDict a) (PDict b) \<longleftrightarrow> length a = length b \<and>
     (\<forall>(k, v) \<in> set a. case map_of b k of None \<Rightarrow> False | Some w \<Rightarrow> py_eq v w)"
| "py_eq x y \<longleftrightarrow> x = y \<or> (as_int x \<noteq> None \<and> as_int x = as_int y)"
  by pat_completeness auto
termination
proof (relation "measure (size \<circ> fst)", goal_cases)
  case 1 show ?case by simp
next
  case (2 xs ys z x y)
  then have "x \<in> set xs" by (auto dest: set_zip_leftD)
  then have "size x < Suc (size_list size xs)" by (induction xs) auto
  then show ?case by simp
next
  case (3 a b z k v w) then show ?case by (auto dest: size_entry)
qed

section \<open>Errors as values\<close>

fun ebind :: "'e + 'a \<Rightarrow> ('a \<Rightarrow> 'e + 'b) \<Rightarrow> 'e + 'b" where
  "ebind (Inl e) f = Inl e"
| "ebind (Inr x) f = f x"

text \<open>A comprehension whose element expression may raise: the first exception is the result.\<close>

fun traverse :: "('a \<Rightarrow> 'e + 'b) \<Rightarrow> 'a list \<Rightarrow> 'e + 'b list" where
  "traverse f [] = Inr []"
| "traverse f (x # xs) = ebind (f x) (\<lambda>y. ebind (traverse f xs) (\<lambda>ys. Inr (y # ys)))"

lemma ebind_eq_Inr [simp]: "ebind x f = Inr z \<longleftrightarrow> (\<exists>y. x = Inr y \<and> f y = Inr z)"
  by (cases x) auto

lemma traverse_eq_Inr:
  "traverse f xs = Inr ys \<longleftrightarrow> list_all2 (\<lambda>x y. f x = Inr y) xs ys"
  by (induction xs arbitrary: ys) (auto simp: list_all2_Cons1)

lemma traverse_pure: "traverse (\<lambda>x. Inr (g x)) xs = Inr (map g xs)"
  by (induction xs) auto

section \<open>Decimal text\<close>

fun digit :: "nat \<Rightarrow> char" where
  "digit n = char_of (48 + n)"

fun decimal :: "nat \<Rightarrow> string" where
  "decimal n = (if n < 10 then [digit n] else decimal (n div 10) @ [digit (n mod 10)])"

declare decimal.simps [simp del]

definition int_text :: "int \<Rightarrow> string" where
  "int_text i = (if i < 0 then CHR ''-'' # decimal (nat (- i)) else decimal (nat i))"

text \<open>The format \<open>04d\<close>: at least four digits.\<close>

definition decimal4 :: "nat \<Rightarrow> string" where
  "decimal4 n = (let d = decimal n in replicate (4 - length d) (CHR ''0'') @ d)"

end
