(* ===== verification/Effects.thy ===== *)
theory Effects
  imports Prelude
begin

text \<open>
  Computations that read and write a state and may raise.  The state written before an
  exception is kept, as in Python: a handler sees it.
\<close>

type_synonym ('s, 'e, 'a) comp = "'s \<Rightarrow> ('e + 'a) \<times> 's"

definition ret :: "'a \<Rightarrow> ('s, 'e, 'a) comp" where
  "ret x = (\<lambda>s. (Inr x, s))"

definition raise :: "'e \<Rightarrow> ('s, 'e, 'a) comp" where
  "raise e = (\<lambda>s. (Inl e, s))"

definition andthen :: "('s, 'e, 'a) comp \<Rightarrow> ('a \<Rightarrow> ('s, 'e, 'b) comp) \<Rightarrow> ('s, 'e, 'b) comp" where
  "andthen m f = (\<lambda>s. case m s of (Inl e, s') \<Rightarrow> (Inl e, s') | (Inr x, s') \<Rightarrow> f x s')"

definition gets :: "('s \<Rightarrow> 'a) \<Rightarrow> ('s, 'e, 'a) comp" where
  "gets f = (\<lambda>s. (Inr (f s), s))"

definition modify :: "('s \<Rightarrow> 's) \<Rightarrow> ('s, 'e, unit) comp" where
  "modify f = (\<lambda>s. (Inr (), f s))"

definition lift :: "('s \<Rightarrow> 'e + 'a) \<Rightarrow> ('s, 'e, 'a) comp" where
  "lift f = (\<lambda>s. (f s, s))"

definition handle :: "('s, 'e, 'a) comp \<Rightarrow> ('e \<Rightarrow> ('s, 'e, 'a) comp) \<Rightarrow> ('s, 'e, 'a) comp" where
  "handle m h = (\<lambda>s. case m s of (Inl e, s') \<Rightarrow> h e s' | (Inr x, s') \<Rightarrow> (Inr x, s'))"

definition unless_none :: "'e \<Rightarrow> 'a option \<Rightarrow> ('s, 'e, 'a) comp" where
  "unless_none e x = (case x of None \<Rightarrow> raise e | Some v \<Rightarrow> ret v)"

definition only_if :: "bool \<Rightarrow> ('s, 'e, unit) comp \<Rightarrow> ('s, 'e, unit) comp" where
  "only_if b m = (if b then m else ret ())"

text \<open>The statements of a block, in order.\<close>

fun block :: "('s, 'e, unit) comp list \<Rightarrow> ('s, 'e, unit) comp" where
  "block [] = ret ()"
| "block (m # ms) = andthen m (\<lambda>_. block ms)"

text \<open>A \<open>for\<close> loop, and one that carries an accumulator.\<close>

fun each :: "('a \<Rightarrow> ('s, 'e, unit) comp) \<Rightarrow> 'a list \<Rightarrow> ('s, 'e, unit) comp" where
  "each f [] = ret ()"
| "each f (x # xs) = andthen (f x) (\<lambda>_. each f xs)"

fun loop :: "('a \<Rightarrow> 'b \<Rightarrow> ('s, 'e, 'b) comp) \<Rightarrow> 'a list \<Rightarrow> 'b \<Rightarrow> ('s, 'e, 'b) comp" where
  "loop f [] acc = ret acc"
| "loop f (x # xs) acc = andthen (f x acc) (loop f xs)"

lemmas comp_defs = ret_def raise_def andthen_def gets_def modify_def lift_def handle_def
  unless_none_def

lemma andthen_ret [simp]: "andthen (ret x) f = f x"
  by (simp add: ret_def andthen_def fun_eq_iff)

lemma andthen_raise [simp]: "andthen (raise e) f = raise e"
  by (simp add: raise_def andthen_def fun_eq_iff)

lemma andthen_assoc: "andthen (andthen m f) g = andthen m (\<lambda>x. andthen (f x) g)"
  by (auto simp: andthen_def fun_eq_iff split: prod.splits sum.splits)

section \<open>Relations every outcome keeps\<close>

text \<open>
  A computation respects a relation when the state it ends in, by returning or by raising,
  is related to the state it started in.
\<close>

definition keeps :: "('s \<Rightarrow> 's \<Rightarrow> bool) \<Rightarrow> ('s, 'e, 'a) comp \<Rightarrow> bool" where
  "keeps R m \<longleftrightarrow> (\<forall>s. R s (snd (m s)))"

lemma keepsI: "(\<And>s. R s (snd (m s))) \<Longrightarrow> keeps R m"
  by (simp add: keeps_def)

lemma keepsD: "keeps R m \<Longrightarrow> m s = (x, s') \<Longrightarrow> R s s'"
  unfolding keeps_def by (metis snd_conv)

text \<open>
  The interface the frame properties use: a reflexive and transitive relation on states is
  kept by every combinator whose parts keep it.
\<close>

locale state_preorder =
  fixes R :: "'s \<Rightarrow> 's \<Rightarrow> bool"
  assumes same: "R s s"
    and compose: "R s t \<Longrightarrow> R t u \<Longrightarrow> R s u"
begin

lemma keeps_ret: "keeps R (ret x)"
  by (simp add: keeps_def ret_def same)

lemma keeps_raise: "keeps R (raise e)"
  by (simp add: keeps_def raise_def same)

lemma keeps_gets: "keeps R (gets f)"
  by (simp add: keeps_def gets_def same)

lemma keeps_lift: "keeps R (lift f)"
  by (simp add: keeps_def lift_def same)

lemma keeps_unless_none: "keeps R (unless_none e x)"
  by (simp add: unless_none_def keeps_ret keeps_raise split: option.split)

lemma keeps_modify: "(\<And>s. R s (f s)) \<Longrightarrow> keeps R (modify f)"
  by (simp add: keeps_def modify_def)

lemma keeps_andthen:
  assumes "keeps R m" and "\<And>x. keeps R (f x)"
  shows "keeps R (andthen m f)"
proof (rule keepsI)
  fix s
  obtain r s' where m: "m s = (r, s')" by fastforce
  then have "R s s'" using assms(1) by (rule keepsD [rotated])
  moreover have "R s' (snd (f x s'))" for x
    using assms(2) by (simp add: keeps_def)
  ultimately show "R s (snd (andthen m f s))"
    by (cases r) (auto simp: andthen_def m intro: compose)
qed

lemma keeps_handle:
  assumes "keeps R m" and "\<And>e. keeps R (h e)"
  shows "keeps R (handle m h)"
proof (rule keepsI)
  fix s
  obtain r s' where m: "m s = (r, s')" by fastforce
  then have "R s s'" using assms(1) by (rule keepsD [rotated])
  moreover have "R s' (snd (h e s'))" for e
    using assms(2) by (simp add: keeps_def)
  ultimately show "R s (snd (handle m h s))"
    by (cases r) (auto simp: handle_def m intro: compose)
qed

lemma keeps_each: "(\<And>x. keeps R (f x)) \<Longrightarrow> keeps R (each f xs)"
  by (induction xs) (auto intro: keeps_ret keeps_andthen)

lemma keeps_loop: "(\<And>x acc. keeps R (f x acc)) \<Longrightarrow> keeps R (loop f xs acc)"
  by (induction xs arbitrary: acc) (auto intro: keeps_ret keeps_andthen)

lemma keeps_only_if: "keeps R m \<Longrightarrow> keeps R (only_if b m)"
  by (simp add: only_if_def keeps_ret)

lemma keeps_block: "(\<And>m. m \<in> set ms \<Longrightarrow> keeps R m) \<Longrightarrow> keeps R (block ms)"
  by (induction ms) (auto intro: keeps_ret keeps_andthen)

lemma keeps_if_comp: "keeps R a \<Longrightarrow> keeps R b \<Longrightarrow> keeps R (if c then a else b)"
  by simp

lemmas combinators = keeps_ret keeps_raise keeps_gets keeps_lift keeps_unless_none
  keeps_andthen keeps_handle keeps_each keeps_loop keeps_only_if keeps_if_comp

end

end
