(* ===== verification/Vocabulary.thy ===== *)
theory Vocabulary
  imports Prelude
begin

text \<open>
  The names the two state machines are written in: the states of \<open>model/state-inventory.yaml\<close>,
  the events of \<open>model/event-catalog.yaml\<close> with the four reactions of
  \<open>machine/transition_table.py\<close>, the guard names of \<open>model/guards.yaml\<close>, and the shape of
  one row as \<open>machine/transition_table.py\<close> and \<open>machine/guard_expressions.py\<close> load it.
\<close>

section \<open>States\<close>

datatype rev_state =
    AwaitingBrief | BriefValidation | BriefFeasibility | OutlineDrafting | OutlineGuardrail
  | OutlineChecks | OutlineRepair | OutlineReview | ContentInProgress | ReadyForReview
  | WholeCourseChecks | PendingApproval | Approved | Published | StaleReview | Withdrawn
  | Superseded | Archived | BlockedFinal | BlockedRecoverable | ErrorRecovery

datatype node_state =
    Planned | ContentDrafting | Generated | OutputGuardrail | NodeChecks | NodeRepair
  | Validated | NodeApproved | NeedsRevalidation | NodeBlockedFinal | NodeRecovery | Removed

text \<open>A state of either machine; \<open>BlockedFinal\<close> names one in each, so it is always qualified.\<close>

datatype st = RevSt rev_state | NodeSt node_state

fun rev_state_name :: "rev_state \<Rightarrow> string" where
  "rev_state_name AwaitingBrief = ''AwaitingBrief''"
| "rev_state_name BriefValidation = ''BriefValidation''"
| "rev_state_name BriefFeasibility = ''BriefFeasibility''"
| "rev_state_name OutlineDrafting = ''OutlineDrafting''"
| "rev_state_name OutlineGuardrail = ''OutlineGuardrail''"
| "rev_state_name OutlineChecks = ''OutlineChecks''"
| "rev_state_name OutlineRepair = ''OutlineRepair''"
| "rev_state_name OutlineReview = ''OutlineReview''"
| "rev_state_name ContentInProgress = ''ContentInProgress''"
| "rev_state_name ReadyForReview = ''ReadyForReview''"
| "rev_state_name WholeCourseChecks = ''WholeCourseChecks''"
| "rev_state_name PendingApproval = ''PendingApproval''"
| "rev_state_name Approved = ''Approved''"
| "rev_state_name Published = ''Published''"
| "rev_state_name StaleReview = ''StaleReview''"
| "rev_state_name Withdrawn = ''Withdrawn''"
| "rev_state_name Superseded = ''Superseded''"
| "rev_state_name Archived = ''Archived''"
| "rev_state_name BlockedFinal = ''BlockedFinal''"
| "rev_state_name BlockedRecoverable = ''BlockedRecoverable''"
| "rev_state_name ErrorRecovery = ''ErrorRecovery''"

fun node_state_name :: "node_state \<Rightarrow> string" where
  "node_state_name Planned = ''Planned''"
| "node_state_name ContentDrafting = ''ContentDrafting''"
| "node_state_name Generated = ''Generated''"
| "node_state_name OutputGuardrail = ''OutputGuardrail''"
| "node_state_name NodeChecks = ''NodeChecks''"
| "node_state_name NodeRepair = ''NodeRepair''"
| "node_state_name Validated = ''Validated''"
| "node_state_name NodeApproved = ''NodeApproved''"
| "node_state_name NeedsRevalidation = ''NeedsRevalidation''"
| "node_state_name NodeBlockedFinal = ''BlockedFinal''"
| "node_state_name NodeRecovery = ''NodeRecovery''"
| "node_state_name Removed = ''Removed''"

fun st_name :: "st \<Rightarrow> string" where
  "st_name (RevSt s) = rev_state_name s"
| "st_name (NodeSt s) = node_state_name s"

definition all_rev_states :: "rev_state list" where
  "all_rev_states = [AwaitingBrief, BriefValidation, BriefFeasibility, OutlineDrafting,
     OutlineGuardrail, OutlineChecks, OutlineRepair, OutlineReview, ContentInProgress,
     ReadyForReview, WholeCourseChecks, PendingApproval, Approved, Published, StaleReview,
     Withdrawn, Superseded, Archived, BlockedFinal, BlockedRecoverable, ErrorRecovery]"

definition all_node_states :: "node_state list" where
  "all_node_states = [Planned, ContentDrafting, Generated, OutputGuardrail, NodeChecks,
     NodeRepair, Validated, NodeApproved, NeedsRevalidation, NodeBlockedFinal, NodeRecovery,
     Removed]"

lemma all_rev_states_complete [simp]: "s \<in> set all_rev_states"
  by (cases s) (simp_all add: all_rev_states_def)

lemma all_node_states_complete [simp]: "s \<in> set all_node_states"
  by (cases s) (simp_all add: all_node_states_def)

lemma rev_state_name_inject [simp]: "rev_state_name s = rev_state_name t \<longleftrightarrow> s = t"
  by (cases s; cases t; simp)

lemma node_state_name_inject [simp]: "node_state_name s = node_state_name t \<longleftrightarrow> s = t"
  by (cases s; cases t; simp)

section \<open>Events\<close>

text \<open>
  \<open>Unknown\<close> is any other text a caller may pass; \<open>Initial\<close> and \<open>Auto\<close> are the trace's own
  names, and the four after them are the reactions, which nothing outside the machine
  produces and no step records (their arrow is written \<open>->\<close> here).
\<close>

datatype event =
    BriefSubmitted | OutlineGenerated | NodeGenerated | GuardrailVerdict | CheckFailed
  | OutlineApproved | OutlineRejected | NodeApprovedEv | NodeRejected | ApprovalGranted
  | ApprovalRejected | NodeEdited | PolicyChanged | CatalogChanged | KBUpdated
  | GuardrailChanged | BlockedInputFixed | OutlineRevised | ReturnedToWork | DraftDiscarded
  | ServiceUnreachable | Timeout | ModelError | LivePointerMoved | LearnersNotified
  | PublishRequested | NodeGenerationRequested | CourseChecksRequested | ReviseRequested
  | RollbackRequested | WithdrawRequested | ArchiveRequested
  | Initial | Auto
  | NodeToBlockedFinal | NodeToRecovery | NodeStateChanged | DependencyChanged
  | Unknown string

fun event_name :: "event \<Rightarrow> string" where
  "event_name BriefSubmitted = ''BriefSubmitted''"
| "event_name OutlineGenerated = ''OutlineGenerated''"
| "event_name NodeGenerated = ''NodeGenerated''"
| "event_name GuardrailVerdict = ''GuardrailVerdict''"
| "event_name CheckFailed = ''CheckFailed''"
| "event_name OutlineApproved = ''OutlineApproved''"
| "event_name OutlineRejected = ''OutlineRejected''"
| "event_name NodeApprovedEv = ''NodeApproved''"
| "event_name NodeRejected = ''NodeRejected''"
| "event_name ApprovalGranted = ''ApprovalGranted''"
| "event_name ApprovalRejected = ''ApprovalRejected''"
| "event_name NodeEdited = ''NodeEdited''"
| "event_name PolicyChanged = ''PolicyChanged''"
| "event_name CatalogChanged = ''CatalogChanged''"
| "event_name KBUpdated = ''KBUpdated''"
| "event_name GuardrailChanged = ''GuardrailChanged''"
| "event_name BlockedInputFixed = ''BlockedInputFixed''"
| "event_name OutlineRevised = ''OutlineRevised''"
| "event_name ReturnedToWork = ''ReturnedToWork''"
| "event_name DraftDiscarded = ''DraftDiscarded''"
| "event_name ServiceUnreachable = ''ServiceUnreachable''"
| "event_name Timeout = ''Timeout''"
| "event_name ModelError = ''ModelError''"
| "event_name LivePointerMoved = ''LivePointerMoved''"
| "event_name LearnersNotified = ''LearnersNotified''"
| "event_name PublishRequested = ''PublishRequested''"
| "event_name NodeGenerationRequested = ''NodeGenerationRequested''"
| "event_name CourseChecksRequested = ''CourseChecksRequested''"
| "event_name ReviseRequested = ''ReviseRequested''"
| "event_name RollbackRequested = ''RollbackRequested''"
| "event_name WithdrawRequested = ''WithdrawRequested''"
| "event_name ArchiveRequested = ''ArchiveRequested''"
| "event_name Initial = ''(initial)''"
| "event_name Auto = ''(auto)''"
| "event_name NodeToBlockedFinal = ''(node -> BlockedFinal)''"
| "event_name NodeToRecovery = ''(node -> NodeRecovery)''"
| "event_name NodeStateChanged = ''(node state changed)''"
| "event_name DependencyChanged = ''(dependency changed)''"
| "event_name (Unknown s) = s"

definition catalog_events :: "event list" where
  "catalog_events = [BriefSubmitted, OutlineGenerated, NodeGenerated, GuardrailVerdict,
     CheckFailed, OutlineApproved, OutlineRejected, NodeApprovedEv, NodeRejected,
     ApprovalGranted, ApprovalRejected, NodeEdited, PolicyChanged, CatalogChanged, KBUpdated,
     GuardrailChanged, BlockedInputFixed, OutlineRevised, ReturnedToWork, DraftDiscarded,
     ServiceUnreachable, Timeout, ModelError, LivePointerMoved, LearnersNotified,
     PublishRequested, NodeGenerationRequested, CourseChecksRequested, ReviseRequested,
     RollbackRequested, WithdrawRequested, ArchiveRequested, Initial, Auto]"

text \<open>\<open>trace-schema.yaml\<close>, \<open>side_effecting\<close>.\<close>

definition side_effecting :: "event list" where
  "side_effecting = [OutlineGenerated, NodeGenerated, GuardrailVerdict, LivePointerMoved,
     LearnersNotified]"

text \<open>\<open>machine/transition_table.py\<close>, \<open>REACTIONS\<close>, in the order of the dictionary.\<close>

definition reactions :: "event list" where
  "reactions = [NodeToBlockedFinal, NodeToRecovery, NodeStateChanged, DependencyChanged]"

section \<open>Guards and rows\<close>

datatype gname =
    G_schema_valid | G_policy_allows | G_guardrail_clean | G_feasible | G_skills_grounded
  | G_grounded | G_references_live | G_no_permission_leak | G_ordering_acyclic
  | G_objectives_covered | G_content_approved | G_depends_on | G_trace_satisfies_ltl
  | G_block_schemas_valid | G_hand_edited | G_all_visuals_reviewed | G_course_state
  | G_outline_version | G_has_nodes | G_has_outline | G_reason_given
  | G_arithmetic_consistent | G_notice_approved | G_lost_live_pointer | G_blocked_at
  | G_in_outline | G_all_nodes_approved | G_no_stale_nodes | G_recovery_from
  | G_retry_budget_left | G_waiting_for_topics | G_idempotency_key_unused
  | G_versions_current | G_in_live_lineage | G_no_open_draft | G_is_draft_revision
  | G_differs_from_live | G_affected | G_has_active_readers | G_rollback_requested
  | G_approval_chain_satisfied
  | G_node_state

datatype comparison = Equals string | NotIn "string list"

text \<open>A literal of a guard; its \<open>raw\<close> text, which only messages print, is left out.\<close>

record literal =
  l_name :: gname
  l_negated :: bool
  l_arg :: "string option"
  l_compare :: "comparison option"
  l_qualifier :: "string option"

record guard =
  g_literals :: "literal list"
  g_exists_node :: bool
  g_complement :: bool

datatype mach = Revision | Node

datatype source_rule = LiveLineage | NonTerminalDraft | NotRemoved

datatype target_rule =
    StateThatBlocked | StateAfterOperation | StateThatIssued | CourseBlocked

datatype row_note =
    OutlineVersionPlus1 | ProposalDiscarded | BlockedAtNode | Spawn | NoticeRecorded
  | ConsentRecorded | Restamped | RecoveryFromGeneration | RecoveryFromGuardrail
  | RepairPlus1 | RepairZero | WaitingForTopics

record transition =
  t_machine :: mach
  t_row :: nat
  t_event :: event
  t_qualifier :: "string list option"
  t_sources :: "st list"
  t_source_rule :: "source_rule option"
  t_guard :: guard
  t_target :: "st option"
  t_target_rule :: "target_rule option"
  t_note :: "row_note option"
  t_spawn :: bool

record table =
  revision_rows :: "transition list"
  node_rows :: "transition list"

fun rows_of :: "table \<Rightarrow> mach \<Rightarrow> transition list" where
  "rows_of T Revision = revision_rows T"
| "rows_of T Node = node_rows T"

text \<open>
  The literals an \<open>any of the above fails\<close> row negates: those shared by every automatic row
  above it in the same state.  The code's key leaves out only \<open>raw\<close>, so literals are
  compared whole; \<open>None\<close> is the loader's refusal when there is no such row.
\<close>

fun rows_before :: "transition list \<Rightarrow> transition \<Rightarrow> transition list" where
  "rows_before [] t = []"
| "rows_before (r # rs) t = (if r = t then [] else r # rows_before rs t)"

definition complement_literals :: "table \<Rightarrow> transition \<Rightarrow> literal list option" where
  "complement_literals T t =
     (let rows = filter (\<lambda>r. t_event r = Auto \<and> set (t_sources r) = set (t_sources t)
                             \<and> \<not> g_complement (t_guard r))
                   (rows_before (rows_of T (t_machine t)) t)
      in case rows of
           [] \<Rightarrow> None
         | r # rs \<Rightarrow> Some (filter (\<lambda>l. \<forall>r' \<in> set rs. l \<in> set (g_literals (t_guard r')))
                             (g_literals (t_guard r))))"

end
