(* ===== verification/Spec_Tables.thy ===== *)
theory Spec_Tables
  imports Vocabulary
begin

text \<open>
  The two transition tables of \<open>model/transitions.yaml\<close> as \<open>machine/transition_table.py\<close>
  loads them: one row for each event of an event cell, in file order, numbered by the
  position of the cell's row.  A guard the table writes as a dash is \<open>free\<close>; text after a dash
  is prose and dropped, as \<open>guard_expressions.parse\<close> drops it.  In an argument the signs for
  and/or are spelled out, and no code reads those arguments.
\<close>

definition yes :: "gname \<Rightarrow> literal" where
  "yes g = \<lparr>l_name = g, l_negated = False, l_arg = None, l_compare = None, l_qualifier = None\<rparr>"

definition no :: "gname \<Rightarrow> literal" where
  "no g = (yes g)\<lparr>l_negated := True\<rparr>"

definition yes_of :: "gname \<Rightarrow> string \<Rightarrow> literal" where
  "yes_of g a = (yes g)\<lparr>l_arg := Some a\<rparr>"

definition no_of :: "gname \<Rightarrow> string \<Rightarrow> literal" where
  "no_of g a = (no g)\<lparr>l_arg := Some a\<rparr>"

definition cmp :: "gname \<Rightarrow> string option \<Rightarrow> comparison \<Rightarrow> literal" where
  "cmp g a c = (yes g)\<lparr>l_arg := a, l_compare := Some c\<rparr>"

definition under_current :: "gname \<Rightarrow> literal" where
  "under_current g = (yes g)\<lparr>l_qualifier := Some ''current_versions''\<rparr>"

definition all_of :: "literal list \<Rightarrow> guard" where
  "all_of ls = \<lparr>g_literals = ls, g_exists_node = False, g_complement = False\<rparr>"

definition free :: guard where
  "free = all_of []"

definition some_node :: "literal list \<Rightarrow> guard" where
  "some_node ls = \<lparr>g_literals = ls, g_exists_node = True, g_complement = False\<rparr>"

definition above_fails :: guard where
  "above_fails = \<lparr>g_literals = [], g_exists_node = False, g_complement = True\<rparr>"

text \<open>A row from named states to a named state, and the variations of it.\<close>

definition rev_row :: "nat \<Rightarrow> event \<Rightarrow> rev_state list \<Rightarrow> guard \<Rightarrow> rev_state \<Rightarrow> transition" where
  "rev_row i e ss g s = \<lparr>t_machine = Revision, t_row = i, t_event = e, t_qualifier = None,
     t_sources = map RevSt ss, t_source_rule = None, t_guard = g, t_target = Some (RevSt s),
     t_target_rule = None, t_note = None, t_spawn = False\<rparr>"

definition node_row :: "nat \<Rightarrow> event \<Rightarrow> node_state list \<Rightarrow> guard \<Rightarrow> node_state \<Rightarrow> transition" where
  "node_row i e ss g s = \<lparr>t_machine = Node, t_row = i, t_event = e, t_qualifier = None,
     t_sources = map NodeSt ss, t_source_rule = None, t_guard = g, t_target = Some (NodeSt s),
     t_target_rule = None, t_note = None, t_spawn = False\<rparr>"

definition only_for :: "string list \<Rightarrow> transition \<Rightarrow> transition" where
  "only_for q t = t\<lparr>t_qualifier := Some q\<rparr>"

definition noting :: "row_note \<Rightarrow> transition \<Rightarrow> transition" where
  "noting n t = t\<lparr>t_note := Some n\<rparr>"

definition from_rule :: "source_rule \<Rightarrow> transition \<Rightarrow> transition" where
  "from_rule r t = t\<lparr>t_sources := [], t_source_rule := Some r\<rparr>"

definition to_rule :: "target_rule \<Rightarrow> transition \<Rightarrow> transition" where
  "to_rule r t = t\<lparr>t_target := None, t_target_rule := Some r\<rparr>"

definition spawning :: "transition \<Rightarrow> transition" where
  "spawning t = t\<lparr>t_spawn := True\<rparr>"

lemmas row_defs = yes_def no_def yes_of_def no_of_def cmp_def under_current_def all_of_def
  free_def some_node_def above_fails_def rev_row_def node_row_def only_for_def noting_def
  from_rule_def to_rule_def spawning_def

definition spec_revision_rows :: "transition list" where
  "spec_revision_rows = [
     rev_row 0 BriefSubmitted [AwaitingBrief] free BriefValidation,
     rev_row 1 Auto [BriefValidation] (all_of [no_of G_schema_valid ''brief''])
       BlockedRecoverable,
     rev_row 2 Auto [BriefValidation] (all_of [yes G_schema_valid, no_of G_policy_allows
       ''author, audience'']) BlockedFinal,
     only_for [''deny''] (rev_row 3 GuardrailVerdict [BriefValidation] (all_of [yes
       G_schema_valid, yes G_policy_allows, no_of G_guardrail_clean ''brief'']) BlockedFinal),
     only_for [''allow''] (rev_row 4 GuardrailVerdict [BriefValidation] (all_of [yes
       G_schema_valid, yes G_policy_allows]) BriefFeasibility),
     rev_row 5 Timeout [BriefValidation] free ErrorRecovery,
     rev_row 5 ServiceUnreachable [BriefValidation] free ErrorRecovery,
     rev_row 6 Auto [BriefFeasibility] (all_of [yes_of G_feasible ''brief'']) OutlineDrafting,
     rev_row 7 Auto [BriefFeasibility] (all_of [no_of G_feasible ''brief''])
       BlockedRecoverable,
     rev_row 8 OutlineRevised [ContentInProgress, BlockedRecoverable] (all_of [yes
       G_is_draft_revision, yes_of G_has_outline ''revision'']) OutlineChecks,
     rev_row 9 BriefSubmitted [BlockedRecoverable] (all_of [cmp G_blocked_at None (Equals
       ''brief'')]) BriefValidation,
     rev_row 10 BlockedInputFixed [BlockedRecoverable] (all_of [cmp G_blocked_at None (Equals
       ''outline''), no_of G_has_outline ''revision'']) OutlineDrafting,
     to_rule StateThatBlocked (rev_row 11 BlockedInputFixed [BlockedRecoverable] (all_of [cmp
       G_blocked_at None (NotIn [''brief'', ''outline''])]) BlockedRecoverable),
     rev_row 12 OutlineGenerated [OutlineDrafting] free OutlineGuardrail,
     rev_row 13 Timeout [OutlineDrafting] free ErrorRecovery,
     rev_row 13 ModelError [OutlineDrafting] free ErrorRecovery,
     rev_row 14 Timeout [OutlineGuardrail] free ErrorRecovery,
     rev_row 14 ServiceUnreachable [OutlineGuardrail] free ErrorRecovery,
     only_for [''allow''] (rev_row 15 GuardrailVerdict [OutlineGuardrail] (all_of [yes_of
       G_guardrail_clean ''outline'']) OutlineChecks),
     only_for [''deny''] (rev_row 16 GuardrailVerdict [OutlineGuardrail] (all_of [no_of
       G_guardrail_clean ''outline'']) OutlineRepair),
     rev_row 17 Auto [OutlineChecks] (all_of [yes G_schema_valid, yes G_skills_grounded, yes
       G_policy_allows, yes G_feasible]) OutlineReview,
     only_for [''opa''] (rev_row 18 CheckFailed [OutlineChecks] (all_of [no_of
       G_policy_allows ''structure'']) BlockedFinal),
     only_for [''datalog'', ''z3'', ''schema''] (rev_row 19 CheckFailed [OutlineChecks]
       (all_of [yes G_policy_allows]) OutlineRepair),
     rev_row 20 Auto [OutlineRepair] (all_of [yes_of G_retry_budget_left ''revision'', no_of
       G_has_nodes ''revision'']) OutlineDrafting,
     rev_row 21 Auto [OutlineRepair] (all_of [yes_of G_has_nodes ''revision''])
       BlockedRecoverable,
     rev_row 22 Auto [OutlineRepair] (all_of [no_of G_retry_budget_left ''revision'', no_of
       G_has_nodes ''revision'']) BlockedRecoverable,
     rev_row 23 OutlineRejected [OutlineReview] (all_of [yes G_reason_given, no_of
       G_has_nodes ''revision'']) OutlineDrafting,
     noting ProposalDiscarded (rev_row 24 OutlineRejected [OutlineReview] (all_of [yes
       G_reason_given, yes_of G_has_nodes ''revision'']) ContentInProgress),
     rev_row 25 OutlineRevised [OutlineReview] (all_of [yes G_is_draft_revision, yes_of
       G_has_outline ''revision'']) OutlineChecks,
     noting OutlineVersionPlus1 (rev_row 26 OutlineApproved [OutlineReview] free
       ContentInProgress),
     rev_row 27 NodeToBlockedFinal [ContentInProgress] (some_node [cmp G_node_state None
       (Equals ''BlockedFinal'')]) BlockedRecoverable,
     noting BlockedAtNode (rev_row 28 NodeToRecovery [ContentInProgress] (some_node [cmp
       G_node_state None (Equals ''NodeRecovery''), no_of G_retry_budget_left ''node''])
       BlockedRecoverable),
     rev_row 29 NodeStateChanged [ContentInProgress] (all_of [yes G_all_nodes_approved, yes
       G_no_stale_nodes, yes G_differs_from_live]) ReadyForReview,
     rev_row 30 NodeEdited [ReadyForReview] (all_of [yes G_is_draft_revision])
       ContentInProgress,
     rev_row 31 NodeEdited [WholeCourseChecks, PendingApproval, Approved] (all_of [yes
       G_is_draft_revision]) ContentInProgress,
     rev_row 32 PolicyChanged [ReadyForReview, WholeCourseChecks, PendingApproval, Approved]
       (all_of [yes G_is_draft_revision, no_of G_versions_current ''revision''])
       ContentInProgress,
     rev_row 32 GuardrailChanged [ReadyForReview, WholeCourseChecks, PendingApproval,
       Approved] (all_of [yes G_is_draft_revision, no_of G_versions_current ''revision''])
       ContentInProgress,
     rev_row 32 CatalogChanged [ReadyForReview, WholeCourseChecks, PendingApproval, Approved]
       (all_of [yes G_is_draft_revision, no_of G_versions_current ''revision''])
       ContentInProgress,
     rev_row 32 KBUpdated [ReadyForReview, WholeCourseChecks, PendingApproval, Approved]
       (all_of [yes G_is_draft_revision, no_of G_versions_current ''revision''])
       ContentInProgress,
     rev_row 33 CourseChecksRequested [ReadyForReview] free WholeCourseChecks,
     rev_row 34 Auto [WholeCourseChecks] (all_of [yes G_objectives_covered, yes
       G_ordering_acyclic, yes G_no_permission_leak, yes G_trace_satisfies_ltl])
       PendingApproval,
     rev_row 35 CheckFailed [WholeCourseChecks] above_fails ContentInProgress,
     rev_row 36 ApprovalRejected [PendingApproval] (all_of [yes G_reason_given])
       ContentInProgress,
     rev_row 37 ApprovalGranted [PendingApproval] (all_of [yes G_approval_chain_satisfied])
       Approved,
     rev_row 38 ReturnedToWork [Approved] free ContentInProgress,
     rev_row 39 PublishRequested [Approved] (all_of [yes G_all_nodes_approved, yes
       G_no_stale_nodes, yes G_versions_current, yes G_differs_from_live]) Published,
     spawning (noting Spawn (rev_row 40 ReviseRequested [Published] (all_of [yes_of
       G_no_open_draft ''course'']) ContentInProgress)),
     rev_row 41 PolicyChanged [Published] (all_of [yes_of G_affected ''revision''])
       StaleReview,
     rev_row 41 GuardrailChanged [Published] (all_of [yes_of G_affected ''revision''])
       StaleReview,
     rev_row 41 CatalogChanged [Published] (all_of [yes_of G_affected ''revision''])
       StaleReview,
     rev_row 41 KBUpdated [Published] (all_of [yes_of G_affected ''revision'']) StaleReview,
     from_rule LiveLineage (rev_row 42 WithdrawRequested [] (all_of [yes_of G_in_live_lineage
       ''revision'', yes G_reason_given]) Withdrawn),
     rev_row 43 LivePointerMoved [Published] (all_of [yes_of G_lost_live_pointer
       ''revision'']) Superseded,
     noting NoticeRecorded (rev_row 44 LearnersNotified [Published] (all_of [yes_of
       G_notice_approved ''recipient_set'']) Published),
     noting ConsentRecorded (rev_row 45 ApprovalGranted [Published] (all_of [yes
       G_approval_chain_satisfied]) Published),
     noting Restamped (rev_row 46 Auto [StaleReview] (all_of [yes G_guardrail_clean, yes
       G_no_permission_leak, yes G_grounded, yes G_block_schemas_valid, under_current
       G_policy_allows, no_of G_lost_live_pointer ''revision'']) Published),
     noting Restamped (rev_row 47 Auto [StaleReview] (all_of [yes G_guardrail_clean, yes
       G_no_permission_leak, yes G_grounded, yes G_block_schemas_valid, under_current
       G_policy_allows, yes_of G_lost_live_pointer ''revision'', yes_of G_rollback_requested
       ''revision'']) Published),
     noting Restamped (rev_row 48 Auto [StaleReview] (all_of [yes G_guardrail_clean, yes
       G_no_permission_leak, yes G_grounded, yes G_block_schemas_valid, under_current
       G_policy_allows, yes_of G_lost_live_pointer ''revision'', no_of G_rollback_requested
       ''revision'']) Superseded),
     rev_row 49 Auto [StaleReview] above_fails Withdrawn,
     rev_row 50 Timeout [StaleReview] free ErrorRecovery,
     rev_row 50 ServiceUnreachable [StaleReview] free ErrorRecovery,
     rev_row 51 WithdrawRequested [StaleReview] (all_of [yes G_reason_given]) Withdrawn,
     rev_row 52 RollbackRequested [Superseded] (all_of [yes G_reason_given]) StaleReview,
     rev_row 53 PolicyChanged [Superseded] (all_of [yes_of G_affected ''revision'', yes
       G_has_active_readers]) StaleReview,
     rev_row 53 GuardrailChanged [Superseded] (all_of [yes_of G_affected ''revision'', yes
       G_has_active_readers]) StaleReview,
     rev_row 53 CatalogChanged [Superseded] (all_of [yes_of G_affected ''revision'', yes
       G_has_active_readers]) StaleReview,
     rev_row 53 KBUpdated [Superseded] (all_of [yes_of G_affected ''revision'', yes
       G_has_active_readers]) StaleReview,
     rev_row 54 ArchiveRequested [Superseded] (all_of [no G_has_active_readers]) Archived,
     noting NoticeRecorded (rev_row 55 LearnersNotified [Withdrawn] (all_of [yes_of
       G_notice_approved ''recipient_set'']) Withdrawn),
     noting ConsentRecorded (rev_row 56 ApprovalGranted [Withdrawn] (all_of [yes
       G_approval_chain_satisfied]) Withdrawn),
     rev_row 57 ArchiveRequested [Withdrawn] free Archived,
     spawning (noting Spawn (rev_row 58 ReviseRequested [Withdrawn] (all_of [yes_of
       G_no_open_draft ''course'']) ContentInProgress)),
     from_rule NonTerminalDraft (rev_row 59 DraftDiscarded [] (all_of [yes
       G_is_draft_revision]) Archived),
     to_rule StateAfterOperation (rev_row 60 Auto [ErrorRecovery] (all_of [no_of
       G_idempotency_key_unused ''op'']) BlockedRecoverable),
     to_rule StateThatIssued (rev_row 61 Auto [ErrorRecovery] (all_of [yes_of
       G_idempotency_key_unused ''op'', yes G_retry_budget_left]) BlockedRecoverable),
     rev_row 62 Auto [ErrorRecovery] (all_of [yes_of G_idempotency_key_unused ''op'', no
       G_retry_budget_left]) BlockedRecoverable]"

definition spec_node_rows :: "transition list" where
  "spec_node_rows = [
     node_row 0 NodeGenerationRequested [Planned] (all_of [cmp G_course_state None (Equals
       ''ContentInProgress''), yes G_is_draft_revision, yes_of G_policy_allows ''generate, node'',
       yes_of G_content_approved ''topics(node)'']) ContentDrafting,
     node_row 1 NodeGenerated [ContentDrafting] (all_of [cmp G_course_state None (Equals
       ''ContentInProgress''), yes_of G_content_approved ''topics(node)'']) Generated,
     noting RecoveryFromGeneration (node_row 2 Timeout [ContentDrafting] free NodeRecovery),
     noting RecoveryFromGeneration (node_row 2 ModelError [ContentDrafting] free
       NodeRecovery),
     node_row 3 Auto [Generated] free OutputGuardrail,
     noting RecoveryFromGuardrail (node_row 4 Timeout [OutputGuardrail] free NodeRecovery),
     noting RecoveryFromGuardrail (node_row 4 ServiceUnreachable [OutputGuardrail] free
       NodeRecovery),
     node_row 5 Auto [NodeRecovery] (all_of [cmp G_recovery_from (Some ''node'') (Equals
       ''generation''), no_of G_idempotency_key_unused ''op'']) Generated,
     noting RepairPlus1 (node_row 6 Auto [NodeRecovery] (all_of [cmp G_course_state None
       (Equals ''ContentInProgress''), cmp G_recovery_from (Some ''node'') (Equals
       ''generation''), yes_of G_idempotency_key_unused ''op'', yes_of G_retry_budget_left
       ''node'', yes_of G_content_approved ''topics(node)'']) ContentDrafting),
     noting RepairPlus1 (node_row 7 Auto [NodeRecovery] (all_of [cmp G_course_state None
       (Equals ''ContentInProgress''), cmp G_recovery_from (Some ''node'') (Equals
       ''guardrail''), yes_of G_retry_budget_left ''node'']) OutputGuardrail),
     noting RepairZero (node_row 8 BlockedInputFixed [NodeRecovery] (all_of [cmp
       G_course_state None (Equals ''ContentInProgress''), no_of G_retry_budget_left ''node'',
       cmp G_recovery_from (Some ''node'') (Equals ''generation''), yes_of G_content_approved
       ''topics(node)'']) ContentDrafting),
     noting RepairZero (node_row 9 BlockedInputFixed [NodeRecovery] (all_of [cmp
       G_course_state None (Equals ''ContentInProgress''), no_of G_retry_budget_left ''node'',
       cmp G_recovery_from (Some ''node'') (Equals ''guardrail'')]) OutputGuardrail),
     only_for [''allow''] (node_row 10 GuardrailVerdict [OutputGuardrail] (all_of [cmp
       G_course_state None (Equals ''ContentInProgress''),
       yes_of G_guardrail_clean ''text and images'']) NodeChecks),
     only_for [''deny''] (node_row 11 GuardrailVerdict [OutputGuardrail] (all_of [cmp
       G_course_state None (Equals ''ContentInProgress''),
       no_of G_guardrail_clean ''text and images'']) NodeRepair),
     node_row 12 Auto [NodeChecks] (all_of [yes G_block_schemas_valid, yes G_grounded, yes
       G_references_live, yes G_arithmetic_consistent, yes G_no_permission_leak, yes
       G_objectives_covered]) Validated,
     only_for [''opa''] (node_row 13 CheckFailed [NodeChecks] (all_of [no_of G_policy_allows
       ''content'']) NodeBlockedFinal),
     only_for [''datalog'', ''z3'', ''schema'', ''prolog''] (node_row 14 CheckFailed
       [NodeChecks] (all_of [yes G_policy_allows]) NodeRepair),
     node_row 15 Auto [NodeRepair] (all_of [cmp G_course_state None (Equals
       ''ContentInProgress''), no_of G_waiting_for_topics ''node'', yes_of G_retry_budget_left
       ''node'', yes_of G_content_approved ''topics(node)'']) ContentDrafting,
     node_row 16 Auto [NodeRepair] (all_of [cmp G_course_state None (Equals
       ''ContentInProgress''), yes_of G_waiting_for_topics ''node'', yes_of G_content_approved
       ''topics(node)'']) ContentDrafting,
     to_rule CourseBlocked (node_row 17 Auto [NodeRepair] (all_of [no_of G_waiting_for_topics
       ''node'', no_of G_retry_budget_left ''node'']) NodeRepair),
     noting RepairZero (node_row 18 BlockedInputFixed [NodeRepair] (all_of [cmp
       G_course_state None (Equals ''ContentInProgress''), no_of G_retry_budget_left ''node'',
       yes_of G_content_approved ''topics(node)'']) ContentDrafting),
     noting RepairZero (node_row 19 BlockedInputFixed [NodeRepair] (all_of [cmp
       G_course_state None (Equals ''ContentInProgress''), no_of G_waiting_for_topics ''node'',
       no_of G_retry_budget_left ''node'', no_of G_content_approved ''topics(node)''])
       NodeRepair),
     node_row 20 NodeApprovedEv [Validated] (all_of [yes_of G_all_visuals_reviewed ''node'',
       yes_of G_content_approved ''topics(node)'']) NodeApproved,
     node_row 21 NodeRejected [Validated] (all_of [yes G_reason_given]) NodeRepair,
     node_row 22 NodeEdited [NodeApproved] (all_of [yes G_is_draft_revision])
       NeedsRevalidation,
     node_row 23 PolicyChanged [NodeApproved, Validated] (all_of [yes G_is_draft_revision,
       no_of G_versions_current ''node'']) NeedsRevalidation,
     node_row 23 GuardrailChanged [NodeApproved, Validated] (all_of [yes G_is_draft_revision,
       no_of G_versions_current ''node'']) NeedsRevalidation,
     node_row 23 CatalogChanged [NodeApproved, Validated] (all_of [yes G_is_draft_revision,
       no_of G_versions_current ''node'']) NeedsRevalidation,
     node_row 23 KBUpdated [NodeApproved, Validated] (all_of [yes G_is_draft_revision, no_of
       G_versions_current ''node'']) NeedsRevalidation,
     node_row 24 DependencyChanged [NodeApproved] 
       (all_of [yes_of G_depends_on ''node, edited or removed'']) NeedsRevalidation,
     noting WaitingForTopics (node_row 25 DependencyChanged [ContentDrafting, NodeRecovery]
       (all_of [yes_of G_depends_on ''node, edited or removed'', no_of G_content_approved
       ''topics(node)'']) NodeRepair),
     node_row 26 Auto [NeedsRevalidation] (all_of [cmp G_course_state None (Equals
       ''ContentInProgress''), yes_of G_hand_edited ''node'']) OutputGuardrail,
     node_row 27 Auto [NeedsRevalidation] (all_of [cmp G_course_state None (Equals
       ''ContentInProgress''), no_of G_hand_edited ''node'', yes_of G_versions_current
       ''node'']) NodeChecks,
     node_row 28 Auto [NeedsRevalidation] (all_of [cmp G_course_state None (Equals
       ''ContentInProgress''), no_of G_hand_edited ''node'', no_of G_versions_current
       ''node'']) OutputGuardrail,
     from_rule NotRemoved (node_row 29 OutlineApproved [] (all_of [yes G_is_draft_revision,
       no_of G_in_outline ''node, committed_outline'', yes G_reason_given]) Removed)]"

definition spec_table :: table where
  "spec_table = \<lparr>revision_rows = spec_revision_rows, node_rows = spec_node_rows\<rparr>"

end
