(* ===== verification/State_Store.thy ===== *)
theory State_Store
  imports Effects Spec_Tables
begin

text \<open>
  What the machine remembers (\<open>machine/store.py\<close>), the exceptions a step can end in, and the
  step the store appends to the trace (\<open>machine/recording.py\<close>).

  A node id is a string: the outline's JSON Schema admits nothing else, and the model raises
  \<open>PyError\<close> where a proposal that never met that schema would put another value.  A field the
  code initialises with \<open>None\<close> and later fills with text or a structure is a \<open>pyval\<close>.
  A set the code only tests and prints sorted is a list without duplicates.
\<close>

section \<open>Records\<close>

type_synonym versions = "(string \<times> pyval) list"

record operation =
  op_key :: pyval
  op_issued_from :: st
  op_awaited :: event

record node_record =
  n_id :: string
  n_spec :: pyval
  n_state :: node_state
  n_content :: pyval
  n_recovery_from :: "string option"
  n_repair_count :: int
  n_waiting_for_topics :: bool
  n_hand_edited :: bool
  n_pending :: "operation option"
  n_stamps :: versions
  n_checked_stamps :: versions
  n_issued_key :: pyval
  n_last_refusal :: pyval

record screening =
  s_verdict :: pyval
  s_guardrail_version :: pyval

record revision_record =
  r_id :: int
  r_state :: rev_state
  r_brief :: pyval
  r_author :: pyval
  r_proposal :: pyval
  r_committed_outline :: "string list option"
  r_outline_version :: int
  r_nodes :: "(string \<times> node_record) list"
  r_forked_from :: "int option"
  r_ever_published :: bool
  r_blocked_at :: "string option"
  r_blocked_from :: "rev_state option"
  r_repair_count :: int
  r_pending :: "operation option"
  r_stamps :: versions
  r_checked_stamps :: versions
  r_approvals :: "pydict list"
  r_permission_checked :: "string list"
  r_used_restricted :: "string list"
  r_stale_nodes :: "string list"
  r_affected :: bool
  r_re_verified :: bool
  r_screened :: "(pyval \<times> screening) list"
  r_stale_via :: "event option"
  r_last_refusal :: pyval
  r_awaiting_pointer :: bool

record config =
  cfg_repair_budget :: int
  cfg_author :: pyval

record discarded_event =
  d_event :: event
  d_at_step :: nat

record store =
  st_config :: config
  st_current :: versions
  st_revisions :: "(int \<times> revision_record) list"
  st_live_pointer :: "int option"
  st_used_keys :: "pyval list"
  st_steps :: "pydict list"
  st_readers :: "(int \<times> int) list"
  st_enrolled_learners :: pyval
  st_discarded :: "discarded_event list"

definition new_node :: "string \<Rightarrow> pyval \<Rightarrow> node_record" where
  "new_node i spec = \<lparr>n_id = i, n_spec = spec, n_state = Planned, n_content = PNone,
     n_recovery_from = None, n_repair_count = 0, n_waiting_for_topics = False,
     n_hand_edited = False, n_pending = None, n_stamps = [], n_checked_stamps = [],
     n_issued_key = PNone, n_last_refusal = PNone\<rparr>"

definition new_revision_record :: "int \<Rightarrow> int option \<Rightarrow> revision_record" where
  "new_revision_record i parent = \<lparr>r_id = i, r_state = AwaitingBrief, r_brief = PNone,
     r_author = PNone, r_proposal = PNone, r_committed_outline = None, r_outline_version = 0,
     r_nodes = [], r_forked_from = parent, r_ever_published = False, r_blocked_at = None,
     r_blocked_from = None, r_repair_count = 0, r_pending = None, r_stamps = [],
     r_checked_stamps = [], r_approvals = [], r_permission_checked = [],
     r_used_restricted = [], r_stale_nodes = [], r_affected = False, r_re_verified = False,
     r_screened = [], r_stale_via = None, r_last_refusal = PNone,
     r_awaiting_pointer = False\<rparr>"

definition budget :: "store \<Rightarrow> int" where
  "budget S = cfg_repair_budget (st_config S)"

text \<open>\<open>Store.new_revision\<close>: the next id is one above the greatest, and the record is appended.\<close>

definition next_revision_id :: "store \<Rightarrow> int" where
  "next_revision_id S = foldr max (map fst (st_revisions S)) 0 + 1"

definition new_revision :: "store \<Rightarrow> int option \<Rightarrow> revision_record \<times> store" where
  "new_revision S parent =
     (let rv = new_revision_record (next_revision_id S) parent
      in (rv, S\<lparr>st_revisions := AList.update (r_id rv) rv (st_revisions S)\<rparr>))"

section \<open>The trace\<close>

fun opt_int :: "int option \<Rightarrow> pyval" where
  "opt_int None = PNone"
| "opt_int (Some i) = PInt i"

definition version_of :: "versions \<Rightarrow> string \<Rightarrow> versions \<Rightarrow> pyval" where
  "version_of stamps k current =
     (case map_of stamps k of Some v \<Rightarrow> v
      | None \<Rightarrow> (case map_of current k of Some v \<Rightarrow> v | None \<Rightarrow> PNone))"

definition current_version :: "store \<Rightarrow> string \<Rightarrow> pyval" where
  "current_version S k = (case map_of (st_current S) k of Some v \<Rightarrow> v | None \<Rightarrow> PNone)"

text \<open>\<open>Store.snapshot\<close>: the one place where the inventory's variables become trace fields.\<close>

definition snapshot :: "store \<Rightarrow> revision_record \<Rightarrow> pydict" where
  "snapshot S rv =
     (let live = map snd (r_nodes rv); revs = map snd (st_revisions S) in
      [(PStr ''revision'', PInt (r_id rv)),
       (PStr ''course_state'', PStr (rev_state_name (r_state rv))),
       (PStr ''node_states'', PDict (map (\<lambda>n. (PStr (n_id n), PStr (node_state_name (n_state n)))) live)),
       (PStr ''retry_budget_left'', PDict (map (\<lambda>n. (PStr (n_id n), PBool (n_repair_count n < budget S))) live)),
       (PStr ''committed_outline'', case r_committed_outline rv of None \<Rightarrow> PNone | Some ids \<Rightarrow> strs ids),
       (PStr ''approved_nodes'', strs (sort (map n_id (filter (\<lambda>n. n_state n = NodeApproved) live)))),
       (PStr ''permission_checked'', strs (sorted_names (r_permission_checked rv))),
       (PStr ''used_restricted'', strs (sorted_names (r_used_restricted rv))),
       (PStr ''stale_nodes'', strs (sorted_names (r_stale_nodes rv))),
       (PStr ''policy_version'', version_of (r_stamps rv) ''policy'' (st_current S)),
       (PStr ''current_policy_version'', current_version S ''policy''),
       (PStr ''guardrail_version'', version_of (r_stamps rv) ''guardrail'' (st_current S)),
       (PStr ''current_guardrail_version'', current_version S ''guardrail''),
       (PStr ''affected'', PBool (r_affected rv)),
       (PStr ''live_pointer'', opt_int (st_live_pointer S)),
       (PStr ''revision_states'', PDict (map (\<lambda>r. (PInt (r_id r), PStr (rev_state_name (r_state r)))) revs)),
       (PStr ''forked_from'', PDict (map (\<lambda>r. (PInt (r_id r), opt_int (r_forked_from r)))
           (filter (\<lambda>r. r_forked_from r \<noteq> None) revs))),
       (PStr ''re_verified'', PList (map PInt (sort (map r_id (filter r_re_verified revs)))))])"

text \<open>
  What an event carries: the caller's fields, and the event's own name, which \<open>_fire\<close> writes
  into the payload and a settling row does not have.
\<close>

record payload =
  p_event :: "event option"
  p_fields :: pydict

definition pget :: "payload \<Rightarrow> string \<Rightarrow> pyval" where
  "pget p k = dget (p_fields p) k"

definition phas :: "payload \<Rightarrow> string \<Rightarrow> bool" where
  "phas p k = dhas (p_fields p) k"

definition no_payload :: payload where
  "no_payload = \<lparr>p_event = None, p_fields = []\<rparr>"

definition of_fields :: "pydict \<Rightarrow> payload" where
  "of_fields d = \<lparr>p_event = None, p_fields = d\<rparr>"

definition payload_keys :: "string list" where
  "payload_keys = [''node'', ''artifact'', ''node_type'', ''topics'', ''rolled_back_to'',
     ''notice'', ''recipients'']"

definition event_id :: "nat \<Rightarrow> string" where
  "event_id n = ''e'' @ decimal4 n"

text \<open>
  \<open>Recording._record\<close>: the step dictionary, whose later keys replace earlier ones.  The
  lineage is named after revision 1, which every store has.
\<close>

definition step_of :: "store \<Rightarrow> revision_record \<Rightarrow> event \<Rightarrow> payload \<Rightarrow> string \<Rightarrow> pydict" where
  "step_of S rv ev p producer =
     (let n = length (st_steps S);
          carried = filter (\<lambda>(k, v). k \<in> set (map PStr payload_keys) \<and> v \<noteq> PNone) (p_fields p);
          base = (PStr ''event'', PStr (event_name ev)) # snapshot S rv;
          envelope = [(PStr ''event_id'', PStr (event_id n)),
            (PStr ''event_time'', PStr (''step-'' @ decimal4 n)),
            (PStr ''producer'', PStr producer),
            (PStr ''correlation_id'', PStr ''lineage-1''),
            (PStr ''causation_id'', PStr (if n = 0 then ''e0000'' else event_id (n - 1))),
            (PStr ''schema_version'', PStr ''1'')];
          spec = (case pget p ''node'' of
              PStr i \<Rightarrow> (if ev = NodeGenerated
                         then map_option (\<lambda>nd. entries_of (n_spec nd)) (map_of (r_nodes rv) i)
                         else None)
            | _ \<Rightarrow> None);
          generated = (case spec of None \<Rightarrow> []
            | Some d \<Rightarrow> (PStr ''node_type'', dget d ''type'')
                # (if truthy (dget d ''topics'') then [(PStr ''topics'', dget d ''topics'')] else []));
          keyed = (if ev \<in> set side_effecting
                   then [(PStr ''idempotency_key'', pget p ''idempotency_key'')] else [])
      in fold (\<lambda>(k, v) d. AList.update k v d) (carried @ envelope @ generated @ keyed) base)"

section \<open>Exceptions and the machine's own state\<close>

datatype exn =
    MachineRefused
  | ServiceDown
  | Undecidable
  | UncheckedOutline
  | PyError string
  | EngineUnavailable
  | RecursionLimit

record refusal =
  ref_kind :: string
  ref_summary :: string
  ref_detail :: pyval
  ref_engine :: string

datatype verdict = Allowed pydict | RefusedBy refusal

fun v_ok :: "verdict \<Rightarrow> bool" where
  "v_ok (Allowed _) = True"
| "v_ok (RefusedBy _) = False"

definition refuse :: "string \<Rightarrow> string \<Rightarrow> pyval \<Rightarrow> string \<Rightarrow> verdict" where
  "refuse kind summary detail engine = RefusedBy \<lparr>ref_kind = kind, ref_summary = summary,
     ref_detail = detail, ref_engine = engine\<rparr>"

record cache_key =
  k_name :: gname
  k_arg :: "string option"
  k_rev :: int
  k_node :: "string option"

record machine =
  m_store :: store
  m_current :: int
  m_cache :: "(cache_key \<times> verdict) list"
  m_cached_at :: int
  m_depth :: nat

type_synonym 'a act = "(machine, exn, 'a) comp"

text \<open>Where a guard is asked: a revision, a node of it when the row is a node's, a payload.\<close>

record ctx =
  c_rev :: int
  c_node :: "string option"
  c_payload :: payload

text \<open>The object a row moves.\<close>

datatype obj = ORev int | ONode int string

fun rev_of :: "obj \<Rightarrow> int" where
  "rev_of (ORev r) = r"
| "rev_of (ONode r n) = r"

fun mach_of :: "obj \<Rightarrow> mach" where
  "mach_of (ORev _) = Revision"
| "mach_of (ONode _ _) = Node"

fun node_of :: "obj \<Rightarrow> string option" where
  "node_of (ORev _) = None"
| "node_of (ONode _ n) = Some n"

definition revision :: "machine \<Rightarrow> int \<Rightarrow> revision_record option" where
  "revision m r = map_of (st_revisions (m_store m)) r"

definition node :: "machine \<Rightarrow> int \<Rightarrow> string \<Rightarrow> node_record option" where
  "node m r n = (case revision m r of None \<Rightarrow> None | Some rv \<Rightarrow> map_of (r_nodes rv) n)"

fun state_of :: "machine \<Rightarrow> obj \<Rightarrow> st option" where
  "state_of m (ORev r) = map_option (\<lambda>rv. RevSt (r_state rv)) (revision m r)"
| "state_of m (ONode r n) = map_option (\<lambda>nd. NodeSt (n_state nd)) (node m r n)"

definition on_store :: "(store \<Rightarrow> store) \<Rightarrow> machine \<Rightarrow> machine" where
  "on_store f m = m\<lparr>m_store := f (m_store m)\<rparr>"

text \<open>Writing an attribute of an object the code holds a reference to.\<close>

definition on_rev :: "int \<Rightarrow> (revision_record \<Rightarrow> revision_record) \<Rightarrow> machine \<Rightarrow> machine" where
  "on_rev r f m = on_store (\<lambda>S. S\<lparr>st_revisions := AList.map_entry r f (st_revisions S)\<rparr>) m"

definition on_node :: "int \<Rightarrow> string \<Rightarrow> (node_record \<Rightarrow> node_record) \<Rightarrow> machine \<Rightarrow> machine" where
  "on_node r n f = on_rev r (\<lambda>rv. rv\<lparr>r_nodes := AList.map_entry n f (r_nodes rv)\<rparr>)"

definition the_rev :: "int \<Rightarrow> revision_record act" where
  "the_rev r = andthen (gets (\<lambda>m. revision m r)) (unless_none (PyError ''KeyError''))"

definition the_node :: "int \<Rightarrow> string \<Rightarrow> node_record act" where
  "the_node r n = andthen (gets (\<lambda>m. node m r n)) (unless_none (PyError ''KeyError''))"

definition record_step :: "int \<Rightarrow> event \<Rightarrow> payload \<Rightarrow> string \<Rightarrow> unit act" where
  "record_step r ev p producer =
     andthen (the_rev r) (\<lambda>rv.
       modify (on_store (\<lambda>S. S\<lparr>st_steps := st_steps S @ [step_of S rv ev p producer]\<rparr>)))"

end
