(* ===== verification/Engine_Guards.thy ===== *)
theory Engine_Guards
  imports State_Store
begin

text \<open>
  The guards a formal engine answers (\<open>machine/engine_guards.py\<close>), over the organisation the
  platform hands the machine (\<open>machine/world.py\<close>).  \<open>IMPLEMENTED\<close> of
  \<open>engines/registry.py\<close> is a record of functions: the code looks each engine up by name at
  every call, so an adapter only picks its arguments out of the store and the world.
\<close>

section \<open>The world\<close>

record world =
  w_org :: pydict
  w_people :: "(string \<times> pydict) list"
  w_thresholds :: pydict
  w_catalog :: pydict
  w_articles :: "pyval list"
  w_visibility :: pydict
  w_block_types :: "string list"
  w_block_schemas :: pydict
  w_versions :: versions

definition org_approval :: "world \<Rightarrow> pyval" where
  "org_approval w = dget (w_org w) ''approval''"

definition policy_data :: "world \<Rightarrow> pydict" where
  "policy_data w =
     [(PStr ''grants'', PDict (map (\<lambda>(pid, p). (PStr pid,
         PDict [(PStr ''may_author_for'', dget p ''may_author_for'')])) (w_people w))),
      (PStr ''people'', PDict (map (\<lambda>(pid, p). (PStr pid,
         PDict [(PStr ''role'', dget p ''role'')])) (w_people w))),
      (PStr ''thresholds'', PDict (w_thresholds w)),
      (PStr ''approval'', org_approval w)]"

definition skills :: "world \<Rightarrow> string list" where
  "skills w = map (\<lambda>s. str_of (dget (entries_of s) ''id'')) (items_of (dget (w_catalog w) ''skills''))"

definition develops :: "world \<Rightarrow> (string \<times> pyval list) list" where
  "develops w = map (\<lambda>s. (s, [PStr s])) (skills w)"

section \<open>A node as the engines take it\<close>

definition outline_owned :: "string list" where
  "outline_owned = [''type'', ''skill'', ''topics'', ''requires'']"

definition content_fields :: "string list" where
  "content_fields = [''blocks'', ''cites'', ''minutes'', ''points_total'', ''questions'']"

definition stray_fields :: "node_record \<Rightarrow> string list" where
  "stray_fields n =
     sort (map str_of (filter (\<lambda>k. k \<notin> PStr ` set (content_fields @ outline_owned))
       (map fst (entries_of (n_content n)))))"

definition engine_node :: "node_record \<Rightarrow> pydict" where
  "engine_node n =
     (let content = filter (\<lambda>(k, v). k \<notin> PStr ` set outline_owned) (entries_of (n_content n))
      in dmerge (dmerge content (entries_of (n_spec n)))
           [(PStr ''id'', PStr (n_id n)), (PStr ''state'', PStr (node_state_name (n_state n)))])"

definition live_nodes :: "revision_record \<Rightarrow> node_record list" where
  "live_nodes rv = filter (\<lambda>n. n_state n \<noteq> Removed) (map snd (r_nodes rv))"

definition course_nodes :: "revision_record \<Rightarrow> pydict list" where
  "course_nodes rv = map engine_node (live_nodes rv)"

text \<open>\<open>len(x)\<close>, which raises on a value that has no length.\<close>

fun py_len :: "pyval \<Rightarrow> exn + int" where
  "py_len (PList xs) = Inr (int (length xs))"
| "py_len (PDict d) = Inr (int (length d))"
| "py_len (PStr s) = Inr (int (length s))"
| "py_len _ = Inl (PyError ''TypeError'')"

definition brief_entries :: "revision_record \<Rightarrow> pydict" where
  "brief_entries rv = entries_of (r_brief rv)"

definition brief_input :: "revision_record \<Rightarrow> exn + pydict" where
  "brief_input rv =
     ebind (py_len (py_or (dget (brief_entries rv) ''nodes'') (PList [])))
       (\<lambda>n. Inr (dmerge (brief_entries rv) [(PStr ''node_count'', PInt n)]))"

definition outline_entries :: "revision_record \<Rightarrow> pydict" where
  "outline_entries rv = entries_of (r_proposal rv)"

section \<open>The engines behind the registry\<close>

record implemented =
  i_schema_valid :: "pyval \<Rightarrow> string \<Rightarrow> exn + verdict"
  i_policy_allows :: "string \<Rightarrow> pydict \<Rightarrow> pydict \<Rightarrow> string \<Rightarrow> pydict \<Rightarrow> exn + verdict"
  i_feasible :: "pydict \<Rightarrow> pydict \<Rightarrow> exn + verdict"
  i_skills_grounded :: "pyval \<Rightarrow> string list \<Rightarrow> exn + verdict"
  i_grounded :: "pydict list \<Rightarrow> pyval list \<Rightarrow> exn + verdict"
  i_references_live :: "pydict list \<Rightarrow> string list \<Rightarrow> int \<Rightarrow> exn + verdict"
  i_no_permission_leak :: "pydict list \<Rightarrow> pyval list \<Rightarrow> pyval \<Rightarrow> pydict \<Rightarrow> exn + verdict"
  i_ordering_acyclic :: "pydict list \<Rightarrow> exn + verdict"
  i_objectives_covered :: "string \<Rightarrow> pyval list \<Rightarrow> pydict list \<Rightarrow> (string \<times> pyval list) list \<Rightarrow> string \<Rightarrow> exn + verdict"
  i_content_approved :: "pydict list \<Rightarrow> string list \<Rightarrow> string list \<Rightarrow> exn + verdict"
  i_trace_satisfies_ltl :: "pydict list \<Rightarrow> exn + verdict"
  i_block_schemas_valid :: "pydict \<Rightarrow> string list \<Rightarrow> pydict \<Rightarrow> string list \<Rightarrow> exn + verdict"
  i_arithmetic_consistent :: "pydict \<Rightarrow> pydict \<Rightarrow> exn + verdict"
  i_approval_chain_satisfied :: "int \<Rightarrow> pydict list \<Rightarrow> pydict \<Rightarrow> exn + verdict"
  i_depends_on :: "pydict list \<Rightarrow> pyval \<Rightarrow> exn + string list"

definition adapter_names :: "gname list" where
  "adapter_names = [G_schema_valid, G_policy_allows, G_feasible, G_skills_grounded, G_grounded,
     G_references_live, G_no_permission_leak, G_ordering_acyclic, G_objectives_covered,
     G_content_approved, G_trace_satisfies_ltl, G_block_schemas_valid,
     G_arithmetic_consistent, G_approval_chain_satisfied]"

section \<open>The adapters\<close>

text \<open>The revision and, where there is one, the node a guard is asked about.\<close>

definition rev_at :: "ctx \<Rightarrow> machine \<Rightarrow> exn + revision_record" where
  "rev_at c m = (case revision m (c_rev c) of None \<Rightarrow> Inl (PyError ''KeyError'') | Some rv \<Rightarrow> Inr rv)"

definition node_at :: "ctx \<Rightarrow> revision_record \<Rightarrow> exn + node_record" where
  "node_at c rv = (case c_node c of None \<Rightarrow> Inl (PyError ''AttributeError'')
     | Some n \<Rightarrow> (case map_of (r_nodes rv) n of None \<Rightarrow> Inl (PyError ''KeyError'') | Some nd \<Rightarrow> Inr nd))"

definition action_by_arg :: "string \<Rightarrow> string option" where
  "action_by_arg a = map_of [(''author, audience'', ''submit_brief''),
     (''structure'', ''generate_outline''), (''content'', ''generate_node''),
     (''generate, node'', ''generate_node'')] a"

fun action_by_state :: "rev_state \<Rightarrow> exn + string" where
  "action_by_state BriefValidation = Inr ''submit_brief''"
| "action_by_state OutlineChecks = Inr ''generate_outline''"
| "action_by_state StaleReview = Inr ''submit_brief''"
| "action_by_state _ = Inl (PyError ''KeyError'')"

fun arg_text :: "string option \<Rightarrow> string" where
  "arg_text None = []"
| "arg_text (Some a) = a"

definition ask_policy :: "implemented \<Rightarrow> world \<Rightarrow> literal \<Rightarrow> ctx \<Rightarrow> machine \<Rightarrow> exn + verdict" where
  "ask_policy I w l c m = ebind (rev_at c m) (\<lambda>rv.
     ebind (case action_by_arg (arg_text (l_arg l)) of Some a \<Rightarrow> Inr a
            | None \<Rightarrow> (if c_node c \<noteq> None then Inr ''generate_node'' else action_by_state (r_state rv)))
     (\<lambda>action.
        let actor_id = py_or (py_or (pget (c_payload c) ''actor'') (r_author rv))
                         (cfg_author (st_config (m_store m)))
        in case map_of (map (\<lambda>(k, v). (PStr k, v)) (w_people w)) actor_id of
             None \<Rightarrow> Inr (refuse ''named-rule''
                 (str_of actor_id @ '' is not a person in this organisation'')
                 (PDict [(PStr ''actor'', actor_id)]) ''opa'')
           | Some person \<Rightarrow> ebind (brief_input rv) (\<lambda>b.
               i_policy_allows I action
                 [(PStr ''id'', actor_id), (PStr ''role'', dget person ''role'')] b
                 (rev_state_name (r_state rv)) (policy_data w))))"

definition ask_schema :: "implemented \<Rightarrow> literal \<Rightarrow> revision_record \<Rightarrow> exn + verdict" where
  "ask_schema I l rv =
     (let shape = (case l_arg l of Some a \<Rightarrow> (if a = [] then (if r_state rv = BriefValidation then ''brief'' else ''outline'') else a)
                   | None \<Rightarrow> (if r_state rv = BriefValidation then ''brief'' else ''outline''));
          artifact = (if shape = ''brief'' then r_brief rv else py_or (r_proposal rv) (PDict []))
      in i_schema_valid I (py_or artifact (PDict [])) shape)"

definition nodes_in_scope :: "ctx \<Rightarrow> revision_record \<Rightarrow> exn + pydict list" where
  "nodes_in_scope c rv =
     (if c_node c \<noteq> None then ebind (node_at c rv) (\<lambda>n. Inr [engine_node n])
      else Inr (course_nodes rv))"

definition course_key :: "revision_record \<Rightarrow> string" where
  "course_key rv = ''rev-'' @ int_text (r_id rv)"

definition ask_coverage :: "implemented \<Rightarrow> world \<Rightarrow> ctx \<Rightarrow> revision_record \<Rightarrow> exn + verdict" where
  "ask_coverage I w c rv =
     (let objectives = items_of (dget (brief_entries rv) ''objectives'') in
      ebind (nodes_in_scope c rv) (\<lambda>ns.
        if c_node c = None
        then i_objectives_covered I (course_key rv) objectives ns (develops w) ''course''
        else ebind (node_at c rv) (\<lambda>n.
          let skill = dget (entries_of (n_spec n)) ''skill'' in
          if skill = PNone
          then i_objectives_covered I (course_key rv) [] ns (develops w) ''node''
          else i_objectives_covered I (course_key rv) [skill] ns
                 (map (\<lambda>(s, os). (s, filter (\<lambda>ob. ob \<in> set objectives) os)) (develops w)) ''node'')))"

definition with_lesson_minutes :: "world \<Rightarrow> revision_record \<Rightarrow> pydict" where
  "with_lesson_minutes w rv =
     (case dget (brief_entries rv) ''minutes_per_lesson'' of
        PInt i \<Rightarrow> dput ''lesson_minutes'' (PInt i) (w_thresholds w)
      | _ \<Rightarrow> w_thresholds w)"

text \<open>\<open>_every_node\<close>: a node guard asked of a whole revision refuses with its first refusal.\<close>

definition every_node :: "(pydict \<Rightarrow> string list \<Rightarrow> exn + verdict) \<Rightarrow> ctx \<Rightarrow> revision_record \<Rightarrow> exn + verdict" where
  "every_node check c rv =
     (if c_node c \<noteq> None
      then ebind (node_at c rv) (\<lambda>n. check (engine_node n) (stray_fields n))
      else ebind (traverse (\<lambda>n. check (engine_node n) (stray_fields n)) (live_nodes rv)) (\<lambda>vs.
        case find (\<lambda>v. \<not> v_ok v) vs of
          Some v \<Rightarrow> Inr v
        | None \<Rightarrow> (case vs of v # _ \<Rightarrow> Inr v | [] \<Rightarrow> check [(PStr ''blocks'', PNone)] [])))"

definition outline_ids :: "revision_record \<Rightarrow> string list" where
  "outline_ids rv = (case r_committed_outline rv of None \<Rightarrow> [] | Some ids \<Rightarrow> ids)"

definition approved_ids :: "revision_record \<Rightarrow> string list" where
  "approved_ids rv = sort (map n_id (filter (\<lambda>n. n_state n = NodeApproved) (map snd (r_nodes rv))))"

definition chain_of :: "revision_record \<Rightarrow> pydict list" where
  "chain_of rv = filter (\<lambda>a. dget a ''scope'' =
     PStr (if r_ever_published rv then ''notice'' else ''publication'')) (r_approvals rv)"

fun adapter :: "implemented \<Rightarrow> world \<Rightarrow> gname \<Rightarrow> literal \<Rightarrow> ctx \<Rightarrow> machine \<Rightarrow> exn + verdict" where
  "adapter I w G_schema_valid l c m = ebind (rev_at c m) (ask_schema I l)"
| "adapter I w G_policy_allows l c m = ask_policy I w l c m"
| "adapter I w G_feasible l c m = ebind (rev_at c m) (\<lambda>rv. i_feasible I (brief_entries rv) (w_thresholds w))"
| "adapter I w G_skills_grounded l c m = ebind (rev_at c m) (\<lambda>rv.
     i_skills_grounded I (py_or (dget (outline_entries rv) ''nodes'') (PList [])) (skills w))"
| "adapter I w G_grounded l c m = ebind (rev_at c m) (\<lambda>rv. ebind (nodes_in_scope c rv) (\<lambda>ns.
     i_grounded I ns (w_articles w)))"
| "adapter I w G_references_live l c m = ebind (rev_at c m) (\<lambda>rv. ebind (nodes_in_scope c rv) (\<lambda>ns.
     i_references_live I ns (outline_ids rv) (r_outline_version rv)))"
| "adapter I w G_no_permission_leak l c m = ebind (rev_at c m) (\<lambda>rv. ebind (nodes_in_scope c rv) (\<lambda>ns.
     i_no_permission_leak I ns (w_articles w)
       (py_or (dget (brief_entries rv) ''audience'') (PList [])) (w_visibility w)))"
| "adapter I w G_ordering_acyclic l c m = ebind (rev_at c m) (\<lambda>rv. i_ordering_acyclic I (course_nodes rv))"
| "adapter I w G_objectives_covered l c m = ebind (rev_at c m) (ask_coverage I w c)"
| "adapter I w G_content_approved l c m = ebind (rev_at c m) (\<lambda>rv. ebind (node_at c rv) (\<lambda>n.
     i_content_approved I [engine_node n] (outline_ids rv) (approved_ids rv)))"
| "adapter I w G_trace_satisfies_ltl l c m = i_trace_satisfies_ltl I (st_steps (m_store m))"
| "adapter I w G_block_schemas_valid l c m = ebind (rev_at c m) (every_node (\<lambda>nd stray.
     i_block_schemas_valid I nd (w_block_types w) (w_block_schemas w) stray) c)"
| "adapter I w G_arithmetic_consistent l c m = ebind (rev_at c m) (\<lambda>rv. ebind (node_at c rv) (\<lambda>n.
     i_arithmetic_consistent I (engine_node n) (with_lesson_minutes w rv)))"
| "adapter I w G_approval_chain_satisfied l c m = ebind (rev_at c m) (\<lambda>rv.
     i_approval_chain_satisfied I (r_id rv) (chain_of rv) (policy_data w))"
| "adapter I w _ l c m = Inl (PyError ''KeyError'')"

end
