(* ===== verification/Store_Guards.thy ===== *)
theory Store_Guards
  imports Engine_Guards
begin

text \<open>
  The guards the state store answers (\<open>machine/store_guards.py\<close>), with the endpoint rules
  they share (\<open>machine/endpoints.py\<close>).  A guard with no fact to stand on raises
  \<open>Undecidable\<close>; a guardrail that does not answer raises \<open>ServiceDown\<close>; neither is ever a
  boolean.  Only \<open>guardrail_clean\<close> writes: it records the screening it asked for.
\<close>

text \<open>
  What the machine is deployed with: the loaded tables, the organisation, the engines, the
  screening port (absent when none is attached) and the digest of a JSON value, which is
  sha256 over \<open>json.dumps(..., sort_keys=True)\<close>.
\<close>

datatype screen_reply = Answered pyval pyval | NotReached | Unreadable

record env =
  e_table :: table
  e_world :: world
  e_impl :: implemented
  e_screener :: "(revision_record \<Rightarrow> pyval \<Rightarrow> screen_reply) option"
  e_digest :: "pyval \<Rightarrow> string"

section \<open>Endpoints\<close>

definition live_lineage :: "rev_state list" where
  "live_lineage = [Published, Superseded, StaleReview, ErrorRecovery, BlockedRecoverable]"

definition terminal :: "rev_state list" where
  "terminal = [Archived, BlockedFinal, Withdrawn]"

fun phase_of :: "st \<Rightarrow> string option" where
  "phase_of (RevSt AwaitingBrief) = Some ''brief''"
| "phase_of (RevSt BriefValidation) = Some ''brief''"
| "phase_of (RevSt BriefFeasibility) = Some ''brief''"
| "phase_of (RevSt OutlineDrafting) = Some ''outline''"
| "phase_of (RevSt OutlineGuardrail) = Some ''outline''"
| "phase_of (RevSt OutlineChecks) = Some ''outline''"
| "phase_of (RevSt OutlineRepair) = Some ''outline''"
| "phase_of (RevSt OutlineReview) = Some ''outline''"
| "phase_of (RevSt ContentInProgress) = Some ''node''"
| "phase_of (RevSt ReadyForReview) = Some ''node''"
| "phase_of (RevSt WholeCourseChecks) = Some ''node''"
| "phase_of (RevSt PendingApproval) = Some ''node''"
| "phase_of (RevSt Approved) = Some ''node''"
| "phase_of _ = None"

text \<open>
  The three resolvers, each for the machine its rows belong to; a row that named the other
  machine's rule would read an attribute its object does not have.
\<close>

fun source_holds :: "source_rule \<Rightarrow> machine \<Rightarrow> obj \<Rightarrow> bool" where
  "source_holds LiveLineage m (ORev r) =
     (case revision m r of None \<Rightarrow> False | Some rv \<Rightarrow> r_state rv \<in> set live_lineage)"
| "source_holds LiveLineage m (ONode r n) = False"
| "source_holds NonTerminalDraft m (ORev r) =
     (case revision m r of None \<Rightarrow> False
      | Some rv \<Rightarrow> r_state rv \<notin> set terminal \<and> \<not> r_ever_published rv)"
| "source_holds NonTerminalDraft m (ONode r n) = False"
| "source_holds NotRemoved m (ORev r) = (revision m r \<noteq> None)"
| "source_holds NotRemoved m (ONode r n) =
     (case node m r n of None \<Rightarrow> False | Some nd \<Rightarrow> n_state nd \<noteq> Removed)"

section \<open>Versions\<close>

text \<open>\<open>all(current[k] == v for k, v in a.items())\<close>, which raises on a kind no longer in force.\<close>

fun all_current :: "versions \<Rightarrow> versions \<Rightarrow> exn + bool" where
  "all_current cur [] = Inr True"
| "all_current cur ((k, v) # a) =
     (case map_of cur k of
        None \<Rightarrow> Inl (PyError ''KeyError'')
      | Some v' \<Rightarrow> (if v' = v then all_current cur a else Inr False))"

fun every_current :: "versions \<Rightarrow> versions list \<Rightarrow> exn + bool" where
  "every_current cur [] = Inr True"
| "every_current cur (a # as) =
     (if a = [] then Inr False
      else ebind (all_current cur a) (\<lambda>b. if b then every_current cur as else Inr False))"

definition versions_current :: "literal \<Rightarrow> ctx \<Rightarrow> machine \<Rightarrow> exn + bool" where
  "versions_current l c m = ebind (rev_at c m) (\<lambda>rv.
     let cur = st_current (m_store m) in
     if l_arg l = Some ''node''
     then ebind (node_at c rv) (\<lambda>n. every_current cur [n_checked_stamps n])
     else
       let own = (if r_checked_stamps rv \<noteq> [] then r_checked_stamps rv
                  else if r_ever_published rv then r_stamps rv else cur);
           stamped = map (\<lambda>n. if n_checked_stamps n \<noteq> [] then n_checked_stamps n else n_stamps n)
                       (live_nodes rv)
       in every_current cur (own # stamped))"

section \<open>Facts of the store\<close>

definition is_draft :: "revision_record \<Rightarrow> bool" where
  "is_draft rv \<longleftrightarrow> \<not> r_ever_published rv \<and> r_state rv \<noteq> Archived \<and> r_state rv \<noteq> BlockedFinal"

fun compare :: "string option \<Rightarrow> literal \<Rightarrow> exn + bool" where
  "compare actual l = (case l_compare l of
       None \<Rightarrow> Inl Undecidable
     | Some (Equals v) \<Rightarrow> Inr (actual = Some v)
     | Some (NotIn vs) \<Rightarrow> Inr (actual \<notin> Some ` set vs))"

text \<open>\<open>_obj\<close>: the node when the row is a node's, unless the literal says \<open>(revision)\<close>.\<close>

definition about_node :: "literal \<Rightarrow> ctx \<Rightarrow> bool" where
  "about_node l c \<longleftrightarrow> c_node c \<noteq> None \<and> l_arg l \<noteq> Some ''revision''"

definition repair_count_at :: "literal \<Rightarrow> ctx \<Rightarrow> revision_record \<Rightarrow> exn + int" where
  "repair_count_at l c rv =
     (if about_node l c then ebind (node_at c rv) (\<lambda>n. Inr (n_repair_count n))
      else Inr (r_repair_count rv))"

definition pending_at :: "literal \<Rightarrow> ctx \<Rightarrow> revision_record \<Rightarrow> exn + operation" where
  "pending_at l c rv =
     ebind (if about_node l c then ebind (node_at c rv) (\<lambda>n. Inr (n_pending n))
            else Inr (r_pending rv))
       (\<lambda>op. case op of None \<Rightarrow> Inl Undecidable | Some x \<Rightarrow> Inr x)"

definition key_unused :: "literal \<Rightarrow> ctx \<Rightarrow> machine \<Rightarrow> exn + bool" where
  "key_unused l c m = ebind (rev_at c m) (\<lambda>rv. ebind (pending_at l c rv) (\<lambda>op.
     if op_awaited op = GuardrailVerdict then Inr True
     else Inr (op_key op \<notin> set (st_used_keys (m_store m)))))"

definition fingerprint :: "env \<Rightarrow> revision_record \<Rightarrow> string" where
  "fingerprint E rv = e_digest E (PDict
     [(PStr ''outline'', PList (map (\<lambda>i. case map_of (r_nodes rv) i of Some n \<Rightarrow> n_spec n | None \<Rightarrow> PNone)
         (filter (\<lambda>i. map_of (r_nodes rv) i \<noteq> None) (outline_ids rv)))),
      (PStr ''nodes'', PDict (map (\<lambda>n. (PStr (n_id n), n_content n)) (live_nodes rv)))])"

definition differs_from_live :: "env \<Rightarrow> ctx \<Rightarrow> machine \<Rightarrow> exn + bool" where
  "differs_from_live E c m = ebind (rev_at c m) (\<lambda>rv.
     case st_live_pointer (m_store m) of
       None \<Rightarrow> Inr True
     | Some p \<Rightarrow> (if p = r_id rv then Inr True
         else case revision m p of None \<Rightarrow> Inl (PyError ''KeyError'')
              | Some served \<Rightarrow> Inr (fingerprint E rv \<noteq> fingerprint E served)))"

text \<open>\<open>{n["id"] for n in proposal["nodes"]}\<close>.\<close>

fun entry_id :: "pyval \<Rightarrow> exn + pyval" where
  "entry_id (PDict d) = (case dlookup d ''id'' of None \<Rightarrow> Inl (PyError ''KeyError'') | Some v \<Rightarrow> Inr v)"
| "entry_id _ = Inl (PyError ''TypeError'')"

fun proposal_nodes :: "pyval \<Rightarrow> exn + pyval list" where
  "proposal_nodes (PDict d) = (case dlookup d ''nodes'' of
       None \<Rightarrow> Inl (PyError ''KeyError'')
     | Some (PList xs) \<Rightarrow> Inr xs
     | Some _ \<Rightarrow> Inl (PyError ''TypeError''))"
| "proposal_nodes _ = Inl (PyError ''TypeError'')"

definition in_outline :: "ctx \<Rightarrow> machine \<Rightarrow> exn + bool" where
  "in_outline c m = ebind (rev_at c m) (\<lambda>rv.
     let proposal = py_or (pget (c_payload c) ''outline'') (r_proposal rv) in
     if \<not> truthy proposal then Inl Undecidable
     else ebind (node_at c rv) (\<lambda>n. ebind (proposal_nodes proposal) (\<lambda>ns.
       ebind (traverse entry_id ns) (\<lambda>ids. Inr (PStr (n_id n) \<in> set ids)))))"

fun block_type :: "pyval \<Rightarrow> exn + pyval" where
  "block_type (PDict d) = Inr (dget d ''type'')"
| "block_type _ = Inl (PyError ''AttributeError'')"

definition visual_types :: "world \<Rightarrow> pyval list" where
  "visual_types w = map (\<lambda>b. dget (entries_of b) ''id'')
     (filter (\<lambda>b. truthy (dget (entries_of b) ''requires_visual_review''))
       (items_of (dget (w_catalog w) ''blocks'')))"

definition visual_name :: "string \<Rightarrow> nat \<Rightarrow> string" where
  "visual_name n i = n @ ''.blocks['' @ decimal i @ '']''"

definition all_visuals_reviewed :: "env \<Rightarrow> ctx \<Rightarrow> machine \<Rightarrow> exn + bool" where
  "all_visuals_reviewed E c m = ebind (rev_at c m) (\<lambda>rv. ebind (node_at c rv) (\<lambda>n.
     let blocks = items_of (dget (entries_of (n_content n)) ''blocks'') in
     ebind (traverse block_type blocks) (\<lambda>kinds.
       let queue = map (\<lambda>(i, k). PStr (visual_name (n_id n) i))
             (filter (\<lambda>(i, k). k \<in> set (visual_types (e_world E))) (enumerate 0 kinds));
           reviewed = items_of (pget (c_payload c) ''visuals_reviewed'')
       in Inr (set queue \<subseteq> set reviewed))))"

fun changed_kind :: "event \<Rightarrow> string option" where
  "changed_kind PolicyChanged = Some ''policy''"
| "changed_kind GuardrailChanged = Some ''guardrail''"
| "changed_kind CatalogChanged = Some ''catalog''"
| "changed_kind KBUpdated = Some ''kb''"
| "changed_kind _ = None"

definition affected :: "ctx \<Rightarrow> machine \<Rightarrow> exn + bool" where
  "affected c m = ebind (rev_at c m) (\<lambda>rv.
     let to = pget (c_payload c) ''to'';
         kind = (case p_event (c_payload c) of None \<Rightarrow> None | Some e \<Rightarrow> changed_kind e)
     in case kind of
          None \<Rightarrow> Inl Undecidable
        | Some k \<Rightarrow>
            if to = PNone then Inl Undecidable
            else if map_of (r_stamps rv) k = Some to then Inr False
            else (case map_of (entries_of (pget (c_payload c) ''reaches'')) (PInt (r_id rv)) of
                    None \<Rightarrow> Inl Undecidable
                  | Some v \<Rightarrow> Inr (truthy v)))"

definition has_active_readers :: "ctx \<Rightarrow> machine \<Rightarrow> exn + bool" where
  "has_active_readers c m =
     (case map_of (st_readers (m_store m)) (c_rev c) of
        None \<Rightarrow> Inl Undecidable | Some k \<Rightarrow> Inr (k > 0))"

section \<open>Consent to a notice\<close>

definition unspent :: "string \<Rightarrow> pydict \<Rightarrow> bool" where
  "unspent scope a \<longleftrightarrow> dget a ''scope'' = PStr scope \<and> \<not> truthy (dget a ''spent'')"

definition unspent_consents :: "revision_record \<Rightarrow> pydict list" where
  "unspent_consents rv =
     (let fresh = filter (unspent ''notice'') (r_approvals rv)
      in if fresh \<noteq> [] then fresh else filter (unspent ''publication'') (r_approvals rv))"

definition notice_approved :: "ctx \<Rightarrow> machine \<Rightarrow> exn + bool" where
  "notice_approved c m = ebind (rev_at c m) (\<lambda>rv.
     let p = c_payload c; S = m_store m; screening = pget p ''notice_screening'' in
     if \<not> truthy (pget p ''actor'') then Inr False
     else if \<not> is_pdict screening then Inl Undecidable
     else if dget (entries_of screening) ''guardrail_version'' \<noteq> current_version S ''guardrail''
       then Inl Undecidable
     else case st_enrolled_learners S of
       PInt enrolled \<Rightarrow>
         (if enrolled < 1 then Inl Undecidable
          else let shown = map (\<lambda>a. entries_of (dget a ''what_was_shown'')) (unspent_consents rv)
               in Inr (dget (entries_of screening) ''verdict'' = PStr ''allow''
                    \<and> as_int (pget p ''recipients'') = Some enrolled
                    \<and> shown \<noteq> []
                    \<and> (\<forall>s \<in> set shown. as_int (dget s ''recipients'') = Some enrolled)
                    \<and> (\<forall>s \<in> set shown. dget s ''notice'' = pget p ''notice'')))
     | _ \<Rightarrow> Inl Undecidable)"

section \<open>The guardrail\<close>

text \<open>
  A verdict that came with the event is judged by the version that gave it.  Without one, the
  machine asks the screening port, once per guardrail version.
\<close>

definition ask_screener :: "env \<Rightarrow> int \<Rightarrow> revision_record \<Rightarrow> pyval \<Rightarrow> bool act" where
  "ask_screener E r rv in_force =
     (case e_screener E of
        None \<Rightarrow> raise Undecidable
      | Some screener \<Rightarrow>
          (case screener rv in_force of
             NotReached \<Rightarrow> raise ServiceDown
           | Unreadable \<Rightarrow> raise ServiceDown
           | Answered v answered_as \<Rightarrow>
               (if answered_as \<noteq> in_force then raise ServiceDown
                else andthen (modify (on_rev r (\<lambda>x. x\<lparr>r_screened := AList.update (PStr ''revision'')
                       \<lparr>s_verdict = v, s_guardrail_version = answered_as\<rparr> (r_screened x)\<rparr>)))
                     (\<lambda>_. ret (v = PStr ''allow'')))))"

definition guardrail_clean :: "env \<Rightarrow> ctx \<Rightarrow> bool act" where
  "guardrail_clean E c =
     (let p = c_payload c in
      andthen (gets (\<lambda>m. current_version (m_store m) ''guardrail'')) (\<lambda>in_force.
      if phas p ''verdict''
      then (let answered_as = pget p ''guardrail_version'' in
            if answered_as \<noteq> PNone \<and> answered_as \<noteq> in_force then raise ServiceDown
            else ret (pget p ''verdict'' = PStr ''allow''))
      else
        andthen (the_rev (c_rev c)) (\<lambda>rv.
          case map_of (r_screened rv) (PStr ''revision'') of
            None \<Rightarrow> ask_screener E (c_rev c) rv in_force
          | Some seen \<Rightarrow>
              (if s_guardrail_version seen \<noteq> in_force then ask_screener E (c_rev c) rv in_force
               else ret (s_verdict seen = PStr ''allow'')))))"

section \<open>The table of store guards\<close>

definition depends_on :: "env \<Rightarrow> ctx \<Rightarrow> machine \<Rightarrow> exn + bool" where
  "depends_on E c m = ebind (rev_at c m) (\<lambda>rv.
     let edited = pget (c_payload c) ''node'' in
     if edited = PNone then Inl Undecidable
     else ebind (i_depends_on (e_impl E) (course_nodes rv) edited) (\<lambda>reached.
       ebind (node_at c rv) (\<lambda>n. Inr (n_id n \<in> set reached \<and> PStr (n_id n) \<noteq> edited))))"

definition of_rev :: "ctx \<Rightarrow> machine \<Rightarrow> (revision_record \<Rightarrow> exn + 'b) \<Rightarrow> exn + 'b" where
  "of_rev c m f = ebind (rev_at c m) f"

definition of_node :: "ctx \<Rightarrow> machine \<Rightarrow> (node_record \<Rightarrow> exn + 'b) \<Rightarrow> exn + 'b" where
  "of_node c m f = ebind (rev_at c m) (\<lambda>rv. ebind (node_at c rv) f)"

fun store_fact :: "env \<Rightarrow> literal \<Rightarrow> ctx \<Rightarrow> gname \<Rightarrow> machine \<Rightarrow> exn + bool" where
  "store_fact E l c G_course_state m =
     of_rev c m (\<lambda>rv. compare (Some (rev_state_name (r_state rv))) l)"
| "store_fact E l c G_blocked_at m = of_rev c m (\<lambda>rv. compare (r_blocked_at rv) l)"
| "store_fact E l c G_recovery_from m = of_node c m (\<lambda>n. compare (n_recovery_from n) l)"
| "store_fact E l c G_has_nodes m = of_rev c m (\<lambda>rv. Inr (r_nodes rv \<noteq> []))"
| "store_fact E l c G_has_outline m =
     of_rev c m (\<lambda>rv. Inr (truthy (r_proposal rv) \<or> outline_ids rv \<noteq> []))"
| "store_fact E l c G_reason_given m = Inr (truthy (pget (c_payload c) ''reason''))"
| "store_fact E l c G_is_draft_revision m = of_rev c m (\<lambda>rv. Inr (is_draft rv))"
| "store_fact E l c G_no_open_draft m =
     Inr (\<not> (\<exists>x \<in> set (st_revisions (m_store m)). is_draft (snd x)))"
| "store_fact E l c G_in_live_lineage m =
     of_rev c m (\<lambda>rv. Inr (r_ever_published rv \<and> r_state rv \<in> set live_lineage))"
| "store_fact E l c G_lost_live_pointer m =
     Inr (st_live_pointer (m_store m) \<notin> {None, Some (c_rev c)})"
| "store_fact E l c G_retry_budget_left m =
     of_rev c m (\<lambda>rv. ebind (repair_count_at l c rv) (\<lambda>k. Inr (k < budget (m_store m))))"
| "store_fact E l c G_waiting_for_topics m = of_node c m (\<lambda>n. Inr (n_waiting_for_topics n))"
| "store_fact E l c G_idempotency_key_unused m = key_unused l c m"
| "store_fact E l c G_hand_edited m = of_node c m (\<lambda>n. Inr (n_hand_edited n))"
| "store_fact E l c G_in_outline m = in_outline c m"
| "store_fact E l c G_all_nodes_approved m =
     of_rev c m (\<lambda>rv. Inr (\<forall>n \<in> set (live_nodes rv). n_state n = NodeApproved))"
| "store_fact E l c G_no_stale_nodes m =
     of_rev c m (\<lambda>rv. Inr (r_stale_nodes rv = []
       \<and> (\<forall>x \<in> set (r_nodes rv). n_state (snd x) \<noteq> NeedsRevalidation)))"
| "store_fact E l c G_versions_current m = versions_current l c m"
| "store_fact E l c G_differs_from_live m = differs_from_live E c m"
| "store_fact E l c G_all_visuals_reviewed m = all_visuals_reviewed E c m"
| "store_fact E l c G_notice_approved m = notice_approved c m"
| "store_fact E l c G_affected m = affected c m"
| "store_fact E l c G_has_active_readers m = has_active_readers c m"
| "store_fact E l c G_depends_on m = depends_on E c m"
| "store_fact E l c G_rollback_requested m =
     of_rev c m (\<lambda>rv. Inr (r_stale_via rv = Some RollbackRequested))"
| "store_fact E l c _ m = Inl (PyError ''KeyError'')"

definition store_guard_names :: "gname list" where
  "store_guard_names = [G_course_state, G_blocked_at, G_recovery_from, G_has_nodes,
     G_has_outline, G_reason_given, G_is_draft_revision, G_no_open_draft, G_in_live_lineage,
     G_lost_live_pointer, G_retry_budget_left, G_waiting_for_topics, G_idempotency_key_unused,
     G_hand_edited, G_in_outline, G_all_nodes_approved, G_no_stale_nodes, G_versions_current,
     G_differs_from_live, G_all_visuals_reviewed, G_notice_approved, G_guardrail_clean,
     G_affected, G_has_active_readers, G_depends_on, G_rollback_requested]"

definition store_guard :: "env \<Rightarrow> literal \<Rightarrow> ctx \<Rightarrow> bool act" where
  "store_guard E l c =
     (if l_name l = G_guardrail_clean then guardrail_clean E c
      else lift (store_fact E l c (l_name l)))"

end
