(* ===== verification/Evaluation.thy ===== *)
theory Evaluation
  imports Store_Guards
begin

text \<open>
  Deciding a row's guard (\<open>machine/evaluation.py\<close>).  A guard is true, false or undecidable:
  \<open>Some True\<close>, \<open>Some False\<close> or \<open>None\<close>.  \<open>ServiceDown\<close> is not folded into the third value;
  the table has a row for it.  The reasons the code prints are not modelled.
\<close>

section \<open>Literals\<close>

text \<open>
  \<open>_note_rights\<close>: what the leak check found is written down where the trace can carry it.
\<close>

definition note_rights :: "literal \<Rightarrow> ctx \<Rightarrow> verdict \<Rightarrow> unit act" where
  "note_rights l c v =
     (if l_name l \<noteq> G_no_permission_leak then ret ()
      else andthen (the_rev (c_rev c)) (\<lambda>rv.
        let checked = (case c_node c of Some n \<Rightarrow> [n] | None \<Rightarrow> map fst (r_nodes rv));
            leaked = (case v of Allowed _ \<Rightarrow> []
              | RefusedBy r \<Rightarrow> map (\<lambda>p. str_of (dget (entries_of p) ''node'')) (items_of (ref_detail r)))
        in modify (on_rev (c_rev c) (\<lambda>x. x\<lparr>
             r_permission_checked := fold List.insert checked (r_permission_checked x),
             r_used_restricted := fold List.insert leaked (r_used_restricted x)\<rparr>))))"

definition key_of :: "literal \<Rightarrow> ctx \<Rightarrow> cache_key" where
  "key_of l c = \<lparr>k_name = l_name l, k_arg = l_arg l, k_rev = c_rev c, k_node = c_node c\<rparr>"

text \<open>\<open>Evaluator.verdict\<close>: the cache is emptied whenever the number of steps has changed.\<close>

definition refresh :: "machine \<Rightarrow> machine" where
  "refresh m = (let steps = int (length (st_steps (m_store m))) in
     if steps \<noteq> m_cached_at m then m\<lparr>m_cache := [], m_cached_at := steps\<rparr> else m)"

definition engine_verdict :: "env \<Rightarrow> literal \<Rightarrow> ctx \<Rightarrow> verdict act" where
  "engine_verdict E l c =
     andthen (modify refresh) (\<lambda>_.
     andthen (gets (\<lambda>m. map_of (m_cache m) (key_of l c))) (\<lambda>cached.
     case cached of
       Some v \<Rightarrow> ret v
     | None \<Rightarrow>
         andthen (lift (adapter (e_impl E) (e_world E) (l_name l) l c)) (\<lambda>v.
         andthen (modify (\<lambda>m. m\<lparr>m_cache := AList.update (key_of l c) v (m_cache m)\<rparr>)) (\<lambda>_.
         andthen (note_rights l c v) (\<lambda>_. ret v)))))"

definition forget :: "machine \<Rightarrow> machine" where
  "forget m = m\<lparr>m_cache := []\<rparr>"

definition node_in_state :: "literal \<Rightarrow> ctx \<Rightarrow> machine \<Rightarrow> exn + bool" where
  "node_in_state l c m = of_node c m (\<lambda>n.
     Inr (case l_compare l of Some (Equals s) \<Rightarrow> node_state_name (n_state n) = s | _ \<Rightarrow> False))"

definition literal_value :: "env \<Rightarrow> literal \<Rightarrow> ctx \<Rightarrow> bool act" where
  "literal_value E l c =
     (if l_name l = G_node_state then lift (node_in_state l c)
      else if l_name l \<in> set store_guard_names then store_guard E l c
      else andthen (engine_verdict E l c) (\<lambda>v. ret (v_ok v)))"

section \<open>Rows\<close>

text \<open>
  A conjunction is read left to right and stops at the first literal that does not hold or
  cannot be decided.
\<close>

fun conjunction :: "env \<Rightarrow> literal list \<Rightarrow> ctx \<Rightarrow> bool option act" where
  "conjunction E [] c = ret (Some True)"
| "conjunction E (l # ls) c =
     andthen (handle (andthen (literal_value E l c) (\<lambda>b. ret (Some b)))
                (\<lambda>e. if e = Undecidable then ret None else raise e)) (\<lambda>value.
       case value of
         None \<Rightarrow> ret None
       | Some b \<Rightarrow> (if b = l_negated l then ret (Some False) else conjunction E ls c))"

text \<open>\<open>\<exists> node\<close>: true of the first node it holds of; a node it is undecided of leaves it undecided.\<close>

fun some_node_holds :: "env \<Rightarrow> guard \<Rightarrow> int \<Rightarrow> payload \<Rightarrow> string list \<Rightarrow> bool \<Rightarrow> bool option act" where
  "some_node_holds E g r p [] undecided = ret (if undecided then None else Some False)"
| "some_node_holds E g r p (n # ns) undecided =
     andthen (conjunction E (g_literals g) \<lparr>c_rev = r, c_node = Some n, c_payload = p\<rparr>) (\<lambda>value.
       if value = Some True then ret (Some True)
       else some_node_holds E g r p ns (undecided \<or> value = None))"

definition decide :: "env \<Rightarrow> transition \<Rightarrow> int \<Rightarrow> string option \<Rightarrow> payload \<Rightarrow> bool option act" where
  "decide E t r n p =
     (let g = t_guard t; c = \<lparr>c_rev = r, c_node = n, c_payload = p\<rparr> in
      if g_complement g
      then (case complement_literals (e_table E) t of
              None \<Rightarrow> raise (PyError ''UnreadableGuard'')
            | Some ls \<Rightarrow> andthen (conjunction E ls c) (\<lambda>value. ret (map_option Not value)))
      else if g_exists_node g
      then andthen (the_rev r) (\<lambda>rv. some_node_holds E g r p (map fst (r_nodes rv)) False)
      else conjunction E (g_literals g) c)"

section \<open>A batch of checks that fails becomes an event\<close>

definition check_states :: "st list" where
  "check_states = [RevSt OutlineChecks, RevSt WholeCourseChecks, NodeSt NodeChecks]"

definition refusal_value :: "refusal \<Rightarrow> pyval" where
  "refusal_value r = PDict [(PStr ''kind'', PStr (ref_kind r)), (PStr ''summary'', PStr (ref_summary r)),
     (PStr ''detail'', ref_detail r), (PStr ''engine'', PStr (ref_engine r))]"

text \<open>The engine literals of the failure rows, then of the pass rows, each name and argument once.\<close>

fun first_of_each :: "literal list \<Rightarrow> (gname \<times> string option) list \<Rightarrow> literal list" where
  "first_of_each [] seen = []"
| "first_of_each (l # ls) seen =
     (if l_name l \<in> set adapter_names \<and> (l_name l, l_arg l) \<notin> set seen
      then l # first_of_each ls ((l_name l, l_arg l) # seen)
      else first_of_each ls seen)"

definition check_literals :: "table \<Rightarrow> mach \<Rightarrow> st \<Rightarrow> literal list" where
  "check_literals T k s =
     (let here = filter (\<lambda>t. s \<in> set (t_sources t)) (rows_of T k);
          ordered = filter (\<lambda>t. t_event t = CheckFailed) here @ filter (\<lambda>t. t_event t = Auto) here
      in first_of_each (concat (map (g_literals \<circ> t_guard) ordered)) [])"

definition failure_of :: "obj \<Rightarrow> refusal \<Rightarrow> pydict" where
  "failure_of x r =
     [(PStr ''layer'', PStr (ref_engine r)), (PStr ''reason'', PStr (ref_summary r)),
      (PStr ''refusal'', refusal_value r)]
     @ (case node_of x of
          Some n \<Rightarrow> [(PStr ''node'', PStr n)]
        | None \<Rightarrow> (if is_plist (ref_detail r)
            then [(PStr ''nodes'', strs (sorted_names (map (\<lambda>d. str_of (dget (entries_of d) ''node''))
                   (filter (\<lambda>d. dhas (entries_of d) ''node'') (items_of (ref_detail r))))))]
            else []))"

fun first_failure :: "env \<Rightarrow> obj \<Rightarrow> ctx \<Rightarrow> literal list \<Rightarrow> pydict option act" where
  "first_failure E x c [] = ret None"
| "first_failure E x c (l # ls) =
     andthen (engine_verdict E l c) (\<lambda>v. case v of
         RefusedBy r \<Rightarrow> ret (Some (failure_of x r))
       | Allowed _ \<Rightarrow> first_failure E x c ls)"

definition check_failure :: "env \<Rightarrow> obj \<Rightarrow> pydict option act" where
  "check_failure E x =
     andthen (gets (\<lambda>m. state_of m x)) (\<lambda>s. case s of
         None \<Rightarrow> raise (PyError ''KeyError'')
       | Some s \<Rightarrow>
           (if s \<notin> set check_states then ret None
            else first_failure E x \<lparr>c_rev = rev_of x, c_node = node_of x, c_payload = no_payload\<rparr>
                   (check_literals (e_table E) (mach_of x) s)))"

end
