(* ===== verification/Bookkeeping.thy ===== *)
theory Bookkeeping
  imports Evaluation
begin

text \<open>
  What an event records before its guards are read and what a transition writes besides the
  state it moves to (\<open>machine/bookkeeping.py\<close>), with the two operations of
  \<open>machine/machine.py\<close> it calls: where an answered operation lands, and the fork.
\<close>

definition changed_events :: "event list" where
  "changed_events = [PolicyChanged, GuardrailChanged, CatalogChanged, KBUpdated]"

text \<open>\<open>AWAITED\<close>: which event would have answered an operation issued from each state.\<close>

fun awaited :: "st \<Rightarrow> event option" where
  "awaited (RevSt BriefValidation) = Some GuardrailVerdict"
| "awaited (RevSt OutlineDrafting) = Some OutlineGenerated"
| "awaited (RevSt OutlineGuardrail) = Some GuardrailVerdict"
| "awaited (RevSt StaleReview) = Some GuardrailVerdict"
| "awaited (NodeSt ContentDrafting) = Some NodeGenerated"
| "awaited (NodeSt OutputGuardrail) = Some GuardrailVerdict"
| "awaited _ = None"

definition key_error :: exn where
  "key_error = PyError ''KeyError''"

definition attribute_error :: exn where
  "attribute_error = PyError ''AttributeError''"

definition current_stamps :: "versions act" where
  "current_stamps = gets (\<lambda>m. st_current (m_store m))"

text \<open>\<open>f"{a}:{b}:{len(steps)}"\<close>, the key the machine makes up when the event brings none.\<close>

definition own_key :: "string \<Rightarrow> nat \<Rightarrow> pyval" where
  "own_key stem n = PStr (stem @ '':'' @ decimal n)"

section \<open>Fields both machines' objects have\<close>

definition set_repair :: "obj \<Rightarrow> (int \<Rightarrow> int) \<Rightarrow> unit act" where
  "set_repair x f = modify (case x of
       ORev r \<Rightarrow> on_rev r (\<lambda>rv. rv\<lparr>r_repair_count := f (r_repair_count rv)\<rparr>)
     | ONode r n \<Rightarrow> on_node r n (\<lambda>nd. nd\<lparr>n_repair_count := f (n_repair_count nd)\<rparr>))"

definition set_refusal :: "obj \<Rightarrow> pyval \<Rightarrow> unit act" where
  "set_refusal x v = modify (case x of
       ORev r \<Rightarrow> on_rev r (\<lambda>rv. rv\<lparr>r_last_refusal := v\<rparr>)
     | ONode r n \<Rightarrow> on_node r n (\<lambda>nd. nd\<lparr>n_last_refusal := v\<rparr>))"

definition use_key :: "payload \<Rightarrow> unit act" where
  "use_key p = andthen (unless_none key_error (dlookup (p_fields p) ''idempotency_key'')) (\<lambda>k.
     modify (on_store (\<lambda>S. S\<lparr>st_used_keys := List.insert k (st_used_keys S)\<rparr>)))"

section \<open>Facts an event carries\<close>

definition is_node :: "obj \<Rightarrow> bool" where
  "is_node x = (mach_of x = Node)"

definition note_change :: "obj \<Rightarrow> event \<Rightarrow> payload \<Rightarrow> unit act" where
  "note_change x e p = (case changed_kind e of
       Some k \<Rightarrow> only_if (\<not> is_node x)
         (andthen (unless_none key_error (dlookup (p_fields p) ''to'')) (\<lambda>to.
            modify (on_store (\<lambda>S. S\<lparr>st_current := AList.update k to (st_current S)\<rparr>))))
     | None \<Rightarrow> ret ())"

definition refuse_unchecked :: "obj \<Rightarrow> event \<Rightarrow> payload \<Rightarrow> unit act" where
  "refuse_unchecked x e p =
     only_if (e \<in> {OutlineApproved, OutlineRejected} \<and> \<not> is_node x)
       (andthen (the_rev (rev_of x)) (\<lambda>rv.
          let offered = pget p ''outline'' in
          only_if (offered \<noteq> PNone \<and> \<not> py_eq offered (r_proposal rv)) (raise UncheckedOutline)))"

definition note_refusal :: "obj \<Rightarrow> event \<Rightarrow> payload \<Rightarrow> unit act" where
  "note_refusal x e p = block
     [only_if (truthy (pget p ''reason'')
         \<and> (e = OutlineRejected \<and> \<not> is_node x \<or> e = NodeRejected \<and> is_node x))
        (set_refusal x (pget p ''reason'')),
      only_if (e = CheckFailed \<or> e = GuardrailVerdict \<and> pget p ''verdict'' = PStr ''deny'')
        (let reason = py_or (pget p ''reason'') (pget p ''category'') in
         only_if (truthy reason) (set_refusal x reason))]"

definition note_screening :: "obj \<Rightarrow> payload \<Rightarrow> unit act" where
  "note_screening x p =
     (let k = (case node_of x of Some n \<Rightarrow> PStr n
               | None \<Rightarrow> (if phas p ''artifact'' then pget p ''artifact'' else PStr ''revision''))
      in modify (\<lambda>m. on_rev (rev_of x) (\<lambda>rv. rv\<lparr>r_screened := AList.update k
           \<lparr>s_verdict = pget p ''verdict'',
            s_guardrail_version = py_or (pget p ''guardrail_version'')
              (current_version (m_store m) ''guardrail'')\<rparr> (r_screened rv)\<rparr>) m))"

definition note_signatures :: "int \<Rightarrow> payload \<Rightarrow> unit act" where
  "note_signatures r p =
     andthen (the_rev r) (\<lambda>rv.
       let scope = (if r_ever_published rv then ''notice'' else ''publication'');
           kept = (if r_ever_published rv
                   then filter (\<lambda>a. dget a ''scope'' \<noteq> PStr ''notice'') (r_approvals rv)
                   else r_approvals rv);
           given = map (\<lambda>s. dput ''scope'' (PStr scope) (entries_of s))
                     (items_of (pget p ''signatures''))
       in modify (on_rev r (\<lambda>x. x\<lparr>r_approvals := kept @ given\<rparr>)))"

fun event_fact :: "obj \<Rightarrow> event \<Rightarrow> payload \<Rightarrow> unit act" where
  "event_fact (ORev r) BriefSubmitted p =
     andthen (unless_none key_error (dlookup (p_fields p) ''brief'')) (\<lambda>b.
       modify (\<lambda>m. on_rev r (\<lambda>rv. rv\<lparr>r_brief := b,
         r_author := py_or (pget p ''actor'') (cfg_author (st_config (m_store m)))\<rparr>) m))"
| "event_fact x OutlineGenerated p = block
     [modify (on_rev (rev_of x) (\<lambda>rv. rv\<lparr>r_proposal := pget p ''outline''\<rparr>)), use_key p]"
| "event_fact (ONode r n) NodeGenerated p = block
     [modify (on_node r n (\<lambda>nd. nd\<lparr>n_content := pget p ''content'', n_hand_edited := False\<rparr>)),
      use_key p]"
| "event_fact (ONode r n) NodeEdited p =
     modify (on_node r n (\<lambda>nd. nd\<lparr>n_content := if phas p ''content'' then pget p ''content''
        else n_content nd, n_hand_edited := True\<rparr>))"
| "event_fact x GuardrailVerdict p = note_screening x p"
| "event_fact (ORev r) ApprovalGranted p = note_signatures r p"
| "event_fact x e p = ret ()"

definition on_event :: "obj \<Rightarrow> event \<Rightarrow> payload \<Rightarrow> unit act" where
  "on_event x e p = block
     [note_change x e p,
      refuse_unchecked x e p,
      only_if (e = OutlineRevised \<and> \<not> is_node x \<and> truthy (pget p ''outline''))
        (modify (on_rev (rev_of x) (\<lambda>rv. rv\<lparr>r_proposal := pget p ''outline''\<rparr>))),
      (case x of
         ONode r n \<Rightarrow> only_if (e = NodeGenerationRequested)
           (modify (\<lambda>m. on_node r n (\<lambda>nd. nd\<lparr>n_issued_key := py_or (pget p ''idempotency_key'')
              (own_key (''generate:'' @ n) (length (st_steps (m_store m))))\<rparr>) m))
       | ORev r \<Rightarrow> ret ()),
      note_refusal x e p,
      event_fact x e p]"

section \<open>Where a row goes\<close>

definition pending_of :: "machine \<Rightarrow> obj \<Rightarrow> operation option" where
  "pending_of m x = (case x of
       ORev r \<Rightarrow> Option.bind (revision m r) r_pending
     | ONode r n \<Rightarrow> Option.bind (node m r n) n_pending)"

definition the_pending :: "obj \<Rightarrow> operation act" where
  "the_pending x = andthen (gets (\<lambda>m. pending_of m x)) (unless_none attribute_error)"

text \<open>\<open>landing_state\<close>: where the table sends the awaited event from the state that issued it.\<close>

definition answers :: "operation \<Rightarrow> transition \<Rightarrow> bool" where
  "answers op t \<longleftrightarrow> t_event t = op_awaited op \<and> op_issued_from op \<in> set (t_sources t)
     \<and> (case t_qualifier t of None \<Rightarrow> True | Some q \<Rightarrow> ''allow'' \<in> set q)"

definition landing_state :: "table \<Rightarrow> obj \<Rightarrow> operation \<Rightarrow> exn + st option" where
  "landing_state T x op = (case find (answers op) (rows_of T (mach_of x)) of
       None \<Rightarrow> Inl MachineRefused | Some t \<Rightarrow> Inr (t_target t))"

datatype landing = To "st option" | CourseStops

fun target_of :: "env \<Rightarrow> target_rule \<Rightarrow> obj \<Rightarrow> landing act" where
  "target_of E StateThatBlocked x = (case x of
       ORev r \<Rightarrow> andthen (the_rev r) (\<lambda>rv. ret (To (map_option RevSt (r_blocked_from rv))))
     | ONode r n \<Rightarrow> raise attribute_error)"
| "target_of E StateAfterOperation x = andthen (the_pending x) (\<lambda>op.
     andthen (lift (\<lambda>m. landing_state (e_table E) x op)) (\<lambda>s. ret (To s)))"
| "target_of E StateThatIssued x = andthen (the_pending x) (\<lambda>op. ret (To (Some (op_issued_from op))))"
| "target_of E CourseBlocked x = ret CourseStops"

section \<open>The fork\<close>

definition add_node :: "int \<Rightarrow> string \<Rightarrow> node_record \<Rightarrow> unit act" where
  "add_node r i nd = modify (on_rev r (\<lambda>rv. rv\<lparr>r_nodes := AList.update i nd (r_nodes rv)\<rparr>))"

definition inherited :: "string \<Rightarrow> node_record \<Rightarrow> node_record" where
  "inherited i nd = (new_node i (n_spec nd))\<lparr>n_state := n_state nd, n_content := n_content nd,
     n_stamps := n_stamps nd, n_checked_stamps := n_checked_stamps nd\<rparr>"

definition inherit :: "int \<Rightarrow> revision_record \<Rightarrow> string \<times> node_record \<Rightarrow> unit act" where
  "inherit child rv = (\<lambda>(i, nd). block
     [add_node child i (inherited i nd),
      only_if (n_state nd = NodeApproved \<or> n_state nd = Validated)
        (andthen (lift (\<lambda>m. all_current (st_current (m_store m)) (n_checked_stamps nd))) (\<lambda>same.
           only_if (\<not> same) (modify (on_node child i (\<lambda>x. x\<lparr>n_state := NeedsRevalidation\<rparr>))))),
      (case map_of (r_screened rv) (PStr i) of
         None \<Rightarrow> ret ()
       | Some s \<Rightarrow> modify (on_rev child (\<lambda>x. x\<lparr>r_screened := AList.update (PStr i) s (r_screened x)\<rparr>)))])"

definition fork :: "int \<Rightarrow> unit act" where
  "fork r = andthen (the_rev r) (\<lambda>rv.
     andthen (gets (\<lambda>m. next_revision_id (m_store m))) (\<lambda>child. block
       [modify (on_store (\<lambda>S. snd (new_revision S (Some r)))),
        modify (on_rev child (\<lambda>x. x\<lparr>r_brief := r_brief rv, r_author := r_author rv,
          r_proposal := r_proposal rv, r_committed_outline := r_committed_outline rv,
          r_outline_version := r_outline_version rv, r_stamps := r_stamps rv\<rparr>)),
        each (inherit child rv) (r_nodes rv),
        modify (on_rev child (\<lambda>x. x\<lparr>r_state := ContentInProgress\<rparr>)),
        modify (\<lambda>m. m\<lparr>m_current := child\<rparr>)]))"

section \<open>The notes of the tables\<close>

fun spec_id :: "pyval \<Rightarrow> exn + string" where
  "spec_id d = ebind (entry_id d) (\<lambda>v. case v of PStr i \<Rightarrow> Inr i | _ \<Rightarrow> Inl (PyError ''TypeError''))"

definition commit_node :: "int \<Rightarrow> pyval \<Rightarrow> unit act" where
  "commit_node r spec = andthen (lift (\<lambda>_. spec_id spec)) (\<lambda>i.
     andthen (the_rev r) (\<lambda>rv.
       if map_of (r_nodes rv) i = None then add_node r i (new_node i spec)
       else modify (on_node r i (\<lambda>nd. nd\<lparr>n_spec := spec\<rparr>))))"

definition advance_outline :: "int \<Rightarrow> unit act" where
  "advance_outline r = andthen (the_rev r) (\<lambda>rv. block
     [modify (on_rev r (\<lambda>x. x\<lparr>r_outline_version := r_outline_version x + 1,
        r_last_refusal := PNone\<rparr>)),
      andthen (lift (\<lambda>_. proposal_nodes (r_proposal rv))) (\<lambda>specs.
      andthen (lift (\<lambda>_. traverse spec_id specs)) (\<lambda>ids. block
        [modify (on_rev r (\<lambda>x. x\<lparr>r_committed_outline := Some ids\<rparr>)),
         each (commit_node r) specs,
         modify (on_rev r (\<lambda>x. x\<lparr>r_repair_count := 0\<rparr>))]))])"

definition discard_proposal :: "int \<Rightarrow> unit act" where
  "discard_proposal r = andthen (the_rev r) (\<lambda>rv.
     andthen (lift (\<lambda>_. traverse (\<lambda>i. case map_of (r_nodes rv) i of
         None \<Rightarrow> Inl key_error | Some nd \<Rightarrow> Inr (n_spec nd)) (outline_ids rv))) (\<lambda>specs.
     modify (on_rev r (\<lambda>x. x\<lparr>r_proposal := PDict [(PStr ''nodes'', PList specs)]\<rparr>))))"

definition restamp_node :: "versions \<Rightarrow> node_record \<Rightarrow> node_record" where
  "restamp_node cur nd = (if n_state nd = Removed then nd
     else nd\<lparr>n_stamps := cur, n_checked_stamps := cur\<rparr>)"

definition restamp :: "int \<Rightarrow> unit act" where
  "restamp r = andthen (the_rev r) (\<lambda>rv. andthen current_stamps (\<lambda>cur.
     let live = map (PStr \<circ> n_id) (live_nodes rv);
         in_force = (case map_of cur ''guardrail'' of Some v \<Rightarrow> v | None \<Rightarrow> PNone)
     in modify (on_rev r (\<lambda>x. x\<lparr>r_stamps := cur, r_checked_stamps := cur,
          r_nodes := map (\<lambda>(i, nd). (i, restamp_node cur nd)) (r_nodes x),
          r_screened := map (\<lambda>(k, s). (k, if k \<in> set live
             then s\<lparr>s_guardrail_version := in_force\<rparr> else s)) (r_screened x),
          r_stale_nodes := [], r_affected := False, r_re_verified := True,
          r_awaiting_pointer := (r_stale_via x = Some RollbackRequested)\<rparr>))))"

definition spend_consent :: "int \<Rightarrow> unit act" where
  "spend_consent r = andthen (the_rev r) (\<lambda>rv.
     let spent = set (unspent_consents rv) in
     modify (on_rev r (\<lambda>x. x\<lparr>r_approvals := map (\<lambda>a. if a \<in> spent
        then dput ''spent'' (PBool True) a else a) (r_approvals x)\<rparr>)))"

definition recover_from :: "obj \<Rightarrow> string \<Rightarrow> unit act" where
  "recover_from x v = (case x of
       ORev r \<Rightarrow> ret ()
     | ONode r n \<Rightarrow> modify (on_node r n (\<lambda>nd. nd\<lparr>n_recovery_from := Some v\<rparr>)))"

text \<open>
  A note of the revision table, on a node, would read an attribute nodes do not have.  An
  attribute a node note sets on a revision is one nothing reads.
\<close>

definition rev_note :: "obj \<Rightarrow> (int \<Rightarrow> unit act) \<Rightarrow> unit act" where
  "rev_note x f = (case x of ORev r \<Rightarrow> f r | ONode r n \<Rightarrow> raise attribute_error)"

fun note_effect :: "row_note \<Rightarrow> obj \<Rightarrow> st \<Rightarrow> unit act" where
  "note_effect OutlineVersionPlus1 x old = rev_note x advance_outline"
| "note_effect ProposalDiscarded x old = rev_note x discard_proposal"
| "note_effect BlockedAtNode x old = rev_note x (\<lambda>r. case old of
     RevSt s \<Rightarrow> modify (on_rev r (\<lambda>rv. rv\<lparr>r_blocked_at := Some ''node'', r_blocked_from := Some s\<rparr>))
   | NodeSt s \<Rightarrow> ret ())"
| "note_effect Spawn x old = rev_note x fork"
| "note_effect NoticeRecorded x old = rev_note x spend_consent"
| "note_effect ConsentRecorded x old = ret ()"
| "note_effect Restamped x old = rev_note x restamp"
| "note_effect RecoveryFromGeneration x old = recover_from x ''generation''"
| "note_effect RecoveryFromGuardrail x old = recover_from x ''guardrail''"
| "note_effect RepairPlus1 x old = set_repair x (\<lambda>k. k + 1)"
| "note_effect RepairZero x old = set_repair x (\<lambda>_. 0)"
| "note_effect WaitingForTopics x old = (case x of
     ORev r \<Rightarrow> ret ()
   | ONode r n \<Rightarrow> modify (on_node r n (\<lambda>nd. nd\<lparr>n_waiting_for_topics := True\<rparr>)))"

section \<open>What a transition writes\<close>

text \<open>
  The implicit rules of \<open>after_transition\<close>, in the order the code applies them; each names the
  state it enters or leaves.
\<close>

definition enter_block :: "int \<Rightarrow> rev_state \<Rightarrow> unit act" where
  "enter_block r old =
     andthen (if old = ErrorRecovery
              then andthen (the_pending (ORev r)) (\<lambda>op. ret (op_issued_from op))
              else ret (RevSt old)) (\<lambda>issued.
     modify (on_rev r (\<lambda>x. x\<lparr>r_blocked_at := phase_of issued,
       r_blocked_from := (case issued of RevSt s \<Rightarrow> Some s | NodeSt _ \<Rightarrow> None)\<rparr>)))"

definition leave_block :: "int \<Rightarrow> unit act" where
  "leave_block r = modify (on_rev r (\<lambda>x. x\<lparr>r_blocked_at := None, r_blocked_from := None,
     r_repair_count := 0\<rparr>))"

definition back_to_work :: "int \<Rightarrow> unit act" where
  "back_to_work r = modify (on_rev r (\<lambda>x. x\<lparr>
     r_approvals := filter (\<lambda>a. dget a ''scope'' \<noteq> PStr ''publication'') (r_approvals x),
     r_checked_stamps := []\<rparr>))"

definition operation_of :: "pyval \<Rightarrow> st \<Rightarrow> operation act" where
  "operation_of k old = andthen (unless_none key_error (awaited old)) (\<lambda>e.
     ret \<lparr>op_key = k, op_issued_from = old, op_awaited = e\<rparr>)"

definition enter_recovery :: "int \<Rightarrow> rev_state \<Rightarrow> payload \<Rightarrow> unit act" where
  "enter_recovery r old p = andthen (gets (\<lambda>m. length (st_steps (m_store m)))) (\<lambda>n.
     andthen (operation_of (py_or (pget p ''idempotency_key'')
        (own_key (rev_state_name old @ '':'' @ int_text r) n)) (RevSt old)) (\<lambda>op.
     modify (on_rev r (\<lambda>x. x\<lparr>r_pending := Some op\<rparr>))))"

definition leave_recovery :: "int \<Rightarrow> rev_state \<Rightarrow> unit act" where
  "leave_recovery r new = andthen (the_pending (ORev r)) (\<lambda>op. block
     [only_if (RevSt new = op_issued_from op) (set_repair (ORev r) (\<lambda>k. k + 1)),
      modify (on_rev r (\<lambda>x. x\<lparr>r_pending := None\<rparr>))])"

definition stamp_brief :: "int \<Rightarrow> unit act" where
  "stamp_brief r = andthen current_stamps (\<lambda>cur.
     andthen (unless_none key_error (map_of cur ''policy'')) (\<lambda>pv.
     andthen (unless_none key_error (map_of cur ''guardrail'')) (\<lambda>gv.
     modify (on_rev r (\<lambda>x. x\<lparr>r_stamps := AList.update ''guardrail'' gv
       (AList.update ''policy'' pv (r_stamps x))\<rparr>)))))"

definition enter_stale_review :: "int \<Rightarrow> transition \<Rightarrow> payload \<Rightarrow> unit act" where
  "enter_stale_review r t p =
     (let via = (case p_event p of Some e \<Rightarrow> e | None \<Rightarrow> t_event t) in block
       [modify (on_rev r (\<lambda>x. x\<lparr>r_re_verified := False, r_stale_via := Some via,
          r_affected := (via \<in> set changed_events)\<rparr>)),
        andthen (the_rev r) (\<lambda>rv. andthen current_stamps (\<lambda>cur.
          andthen (lift (\<lambda>_. traverse (\<lambda>n. ebind (all_current cur (n_stamps n))
             (\<lambda>same. Inr (n_id n, same))) (live_nodes rv))) (\<lambda>judged.
          modify (on_rev r (\<lambda>x. x\<lparr>r_stale_nodes :=
             map fst (filter (\<lambda>(i, same). \<not> same) judged)\<rparr>)))))])"

definition clear_pointer :: "int \<Rightarrow> unit act" where
  "clear_pointer r = modify (on_store (\<lambda>S.
     if st_live_pointer S = Some r then S\<lparr>st_live_pointer := None\<rparr> else S))"

definition after_revision :: "transition \<Rightarrow> int \<Rightarrow> rev_state \<Rightarrow> rev_state \<Rightarrow> payload \<Rightarrow> unit act" where
  "after_revision t r old new p = block
     [only_if (new = BlockedRecoverable \<and> old \<noteq> BlockedRecoverable) (enter_block r old),
      only_if (old = BlockedRecoverable \<and> new \<noteq> old) (leave_block r),
      only_if (new = ContentInProgress \<and> old \<noteq> new) (back_to_work r),
      only_if (new = PendingApproval \<and> old \<noteq> new)
        (andthen current_stamps (\<lambda>cur. modify (on_rev r (\<lambda>x. x\<lparr>r_checked_stamps := cur\<rparr>)))),
      only_if (new = Approved \<and> old = PendingApproval)
        (modify (on_rev r (\<lambda>x. x\<lparr>r_stamps := r_checked_stamps x\<rparr>))),
      only_if (new = ErrorRecovery \<and> old \<noteq> new) (enter_recovery r old p),
      only_if (old = ErrorRecovery \<and> new \<noteq> old) (leave_recovery r new),
      only_if (old = OutlineRepair \<and> new = OutlineDrafting) (set_repair (ORev r) (\<lambda>k. k + 1)),
      only_if (new = BriefValidation) (stamp_brief r),
      only_if (new = StaleReview \<and> old \<noteq> new) (enter_stale_review r t p),
      only_if (new = Withdrawn) (clear_pointer r),
      only_if (new = Published \<and> old = Approved)
        (modify (on_rev r (\<lambda>x. x\<lparr>r_ever_published := True, r_awaiting_pointer := True\<rparr>)))]"

definition node_validated :: "int \<Rightarrow> string \<Rightarrow> unit act" where
  "node_validated r n = andthen (the_rev r) (\<lambda>rv. andthen current_stamps (\<lambda>cur.
     let gv = (case map_of (r_screened rv) (PStr n) of Some s \<Rightarrow> s_guardrail_version s | None \<Rightarrow> PNone)
     in modify (on_node r n (\<lambda>nd. nd\<lparr>n_checked_stamps := AList.update ''guardrail'' gv cur\<rparr>))))"

definition node_approved :: "int \<Rightarrow> string \<Rightarrow> payload \<Rightarrow> unit act" where
  "node_approved r n p = block
     [modify (on_node r n (\<lambda>nd. nd\<lparr>n_last_refusal := PNone, n_stamps := n_checked_stamps nd,
        n_repair_count := 0\<rparr>)),
      modify (on_rev r (\<lambda>x. x\<lparr>r_approvals := r_approvals x @
        [[(PStr ''actor'', pget p ''actor''), (PStr ''scope'', PStr n),
          (PStr ''at'', pget p ''event_time''),
          (PStr ''what_was_shown'', pget p ''what_was_shown'')]]\<rparr>))]"

definition node_recovers :: "int \<Rightarrow> string \<Rightarrow> node_state \<Rightarrow> payload \<Rightarrow> unit act" where
  "node_recovers r n old p = andthen (gets (\<lambda>m. length (st_steps (m_store m)))) (\<lambda>k.
     andthen (the_node r n) (\<lambda>nd.
     andthen (operation_of (py_or (pget p ''idempotency_key'')
        (py_or (n_issued_key nd) (own_key n k))) (NodeSt old)) (\<lambda>op.
     modify (on_node r n (\<lambda>x. x\<lparr>n_pending := Some op\<rparr>)))))"

definition after_node :: "int \<Rightarrow> string \<Rightarrow> node_state \<Rightarrow> node_state \<Rightarrow> payload \<Rightarrow> unit act" where
  "after_node r n old new p = block
     [only_if (new = NodeRecovery \<and> old \<noteq> new) (node_recovers r n old p),
      only_if (old = NodeRecovery \<and> new \<noteq> old) (modify (on_node r n (\<lambda>x. x\<lparr>n_pending := None\<rparr>))),
      only_if (old = NodeRepair \<and> new = ContentDrafting)
        (modify (on_node r n (\<lambda>x. x\<lparr>n_repair_count := n_repair_count x
           + (if n_waiting_for_topics x then 0 else 1)\<rparr>))),
      only_if (old = NodeRepair \<and> new \<noteq> old)
        (modify (on_node r n (\<lambda>x. x\<lparr>n_waiting_for_topics := False\<rparr>))),
      only_if (new = Validated) (node_validated r n),
      only_if (new = NodeApproved) (node_approved r n p)]"

definition after_transition :: "transition \<Rightarrow> obj \<Rightarrow> st \<Rightarrow> payload \<Rightarrow> unit act" where
  "after_transition t x old p = andthen (gets (\<lambda>m. state_of m x)) (\<lambda>new. block
     [(case (x, old, new) of
         (ORev r, RevSt s, Some (RevSt s')) \<Rightarrow> after_revision t r s s' p
       | (ONode r n, NodeSt s, Some (NodeSt s')) \<Rightarrow> after_node r n s s' p
       | _ \<Rightarrow> raise key_error),
      (case t_note t of None \<Rightarrow> ret () | Some k \<Rightarrow> note_effect k x old)])"

end
