(* ===== verification/Machine_Core.thy ===== *)
theory Machine_Core
  imports Bookkeeping
begin

text \<open>
  The two machines, driven by the table (\<open>machine/machine.py\<close>), and how they come to rest
  (\<open>machine/settling.py\<close>).  Firing and settling call each other; each function that may fire
  an event takes the firing as an argument, and \<open>fire_upto\<close> ties the knot with the
  interpreter's recursion limit as fuel: running out of it is the exception Python raises.
\<close>

section \<open>Taking a row\<close>

definition qualifies :: "transition \<Rightarrow> payload \<Rightarrow> bool" where
  "qualifies t p = (case t_qualifier t of
       None \<Rightarrow> True
     | Some q \<Rightarrow> q = [] \<or> pget p ''verdict'' \<in> PStr ` set q \<or> pget p ''layer'' \<in> PStr ` set q)"

definition stands_at :: "transition \<Rightarrow> machine \<Rightarrow> obj \<Rightarrow> bool" where
  "stands_at t m x = (case t_source_rule t of
       Some r \<Rightarrow> source_holds r m x
     | None \<Rightarrow> (case state_of m x of None \<Rightarrow> False | Some s \<Rightarrow> s \<in> set (t_sources t)))"

definition in_state :: "machine \<Rightarrow> int \<Rightarrow> rev_state \<Rightarrow> bool" where
  "in_state m r s = (case revision m r of None \<Rightarrow> False | Some rv \<Rightarrow> r_state rv = s)"

definition candidate :: "transition \<Rightarrow> obj \<Rightarrow> event \<Rightarrow> payload \<Rightarrow> machine \<Rightarrow> bool" where
  "candidate t x e p m \<longleftrightarrow> t_event t = e \<and> qualifies t p
     \<and> (t_target_rule t = Some CourseBlocked \<longrightarrow> in_state m (rev_of x) ContentInProgress)
     \<and> stands_at t m x"

text \<open>
  A state of the other machine is never written: the loader keeps the tables apart, and the
  model raises where a row of one would name a state of the other.
\<close>

definition set_state :: "obj \<Rightarrow> st \<Rightarrow> unit act" where
  "set_state x s = (case (x, s) of
       (ORev r, RevSt s') \<Rightarrow> modify (on_rev r (\<lambda>rv. rv\<lparr>r_state := s'\<rparr>))
     | (ONode r n, NodeSt s') \<Rightarrow> modify (on_node r n (\<lambda>nd. nd\<lparr>n_state := s'\<rparr>))
     | _ \<Rightarrow> raise (PyError ''TypeError''))"

definition the_state :: "obj \<Rightarrow> st act" where
  "the_state x = andthen (gets (\<lambda>m. state_of m x)) (unless_none key_error)"

definition move :: "transition \<Rightarrow> obj \<Rightarrow> st \<Rightarrow> payload \<Rightarrow> unit act" where
  "move t x s p = andthen (the_state x) (\<lambda>old. block
     [set_state x s, after_transition t x old p])"

definition apply_row :: "env \<Rightarrow> transition \<Rightarrow> obj \<Rightarrow> payload \<Rightarrow> unit act" where
  "apply_row E t x p = andthen (the_state x) (\<lambda>old.
     if t_spawn t then after_transition t x old p
     else andthen (case t_target_rule t of Some r \<Rightarrow> target_of E r x
                   | None \<Rightarrow> ret (To (t_target t))) (\<lambda>l.
       case l of
         CourseStops \<Rightarrow> move t (ORev (rev_of x)) (RevSt BlockedRecoverable) p
       | To None \<Rightarrow> raise MachineRefused
       | To (Some s) \<Rightarrow> move t x s p))"

text \<open>
  The rows are read in table order; the first that is a candidate and whose guard is true is
  taken.  The second component says that a row read before it could not be decided.
\<close>

fun take_first :: "env \<Rightarrow> transition list \<Rightarrow> obj \<Rightarrow> event \<Rightarrow> payload \<Rightarrow> bool \<Rightarrow> (bool \<times> bool) act" where
  "take_first E [] x e p undecided = ret (False, undecided)"
| "take_first E (t # ts) x e p undecided =
     andthen (gets (candidate t x e p)) (\<lambda>eligible.
       if \<not> eligible then take_first E ts x e p undecided
       else andthen (decide E t (rev_of x) (node_of x) p) (\<lambda>value.
         if value = Some True then andthen (apply_row E t x p) (\<lambda>_. ret (True, undecided))
         else take_first E ts x e p (undecided \<or> value = None)))"

definition take_row :: "env \<Rightarrow> obj \<Rightarrow> event \<Rightarrow> payload \<Rightarrow> (bool \<times> bool) act" where
  "take_row E x e p = take_first E (rows_of (e_table E) (mach_of x)) x e p False"

definition takes :: "env \<Rightarrow> obj \<Rightarrow> event \<Rightarrow> payload \<Rightarrow> bool act" where
  "takes E x e p = andthen (take_row E x e p) (\<lambda>(taken, _). ret taken)"

section \<open>Reactions and dependencies\<close>

fun first_taken :: "env \<Rightarrow> obj \<Rightarrow> event list \<Rightarrow> bool act" where
  "first_taken E x [] = ret False"
| "first_taken E x (e # es) = andthen (takes E x e no_payload) (\<lambda>taken.
     if taken then ret True else first_taken E x es)"

definition course_reactions :: "event list" where
  "course_reactions = filter (\<lambda>e. e \<noteq> DependencyChanged) reactions"

fun react_upto :: "nat \<Rightarrow> env \<Rightarrow> int \<Rightarrow> unit act" where
  "react_upto 0 E r = raise MachineRefused"
| "react_upto (Suc k) E r = andthen (first_taken E (ORev r) course_reactions) (\<lambda>taken.
     if taken then react_upto k E r else ret ())"

definition react :: "env \<Rightarrow> int \<Rightarrow> unit act" where
  "react E r = react_upto (length reactions + 1) E r"

definition dependency_keys :: "string list" where
  "dependency_keys = [''topics'', ''requires'', ''refers_to'']"

text \<open>\<open>_dependencies\<close>: what each node rests on, as its outline entry says.\<close>

definition rests_on :: "node_record \<Rightarrow> string list" where
  "rests_on nd = concat (map (\<lambda>k. map str_of (filter is_pstr
     (items_of (dget (entries_of (n_spec nd)) k)))) dependency_keys)"

definition dependencies :: "revision_record \<Rightarrow> (string \<times> string list) list" where
  "dependencies rv = map (\<lambda>(i, nd). (i, rests_on nd)) (r_nodes rv)"

definition on_node_key :: "string \<Rightarrow> payload" where
  "on_node_key i = of_fields [(PStr ''node'', PStr i)]"

definition dependencies_added :: "env \<Rightarrow> int \<Rightarrow> (string \<times> string list) list \<Rightarrow> unit act" where
  "dependencies_added E r prior = andthen (the_rev r) (\<lambda>rv.
     each (\<lambda>(i, now).
       let old = (case map_of prior i of None \<Rightarrow> [] | Some ds \<Rightarrow> ds) in
       each (\<lambda>added. andthen (the_rev r) (\<lambda>x.
           only_if (map_of (r_nodes x) added \<noteq> None)
             (andthen (takes E (ONode r i) DependencyChanged (on_node_key added)) (\<lambda>_. ret ()))))
         (sorted_names (filter (\<lambda>d. d \<notin> set old) now)))
       (dependencies rv))"

definition dependency_changed :: "env \<Rightarrow> int \<Rightarrow> string \<Rightarrow> unit act" where
  "dependency_changed E r edited = andthen (the_rev r) (\<lambda>rv.
     only_if (is_draft rv)
       (each (\<lambda>i. only_if (i \<noteq> edited)
          (andthen (takes E (ONode r i) DependencyChanged (on_node_key edited)) (\<lambda>_. ret ())))
        (map fst (r_nodes rv))))"

section \<open>Settling\<close>

type_synonym firing = "event \<Rightarrow> pydict \<Rightarrow> string \<Rightarrow> unit act"

definition standing :: "obj \<Rightarrow> machine \<Rightarrow> st option \<times> st option \<times> nat" where
  "standing x m = (state_of m x, state_of m (ORev (rev_of x)), length (st_revisions (m_store m)))"

text \<open>
  What follows an automatic row: \<open>None\<close> when the guardrail did not answer, otherwise whether
  a row was taken.  A row whose effect was already in place is not a step.
\<close>

definition after_auto :: "env \<Rightarrow> firing \<Rightarrow> obj \<Rightarrow> st option \<times> st option \<times> nat \<Rightarrow> bool option \<Rightarrow> bool act" where
  "after_auto E fire x prior taken = (case taken of
       None \<Rightarrow> andthen (fire ServiceUnreachable (case x of
                   ONode r n \<Rightarrow> [(PStr ''node'', PStr n)]
                 | ORev r \<Rightarrow> [(PStr ''revision'', PInt r)]) ''gateway'') (\<lambda>_. ret True)
     | Some b \<Rightarrow>
         (if \<not> b then ret False
          else andthen (gets (standing x)) (\<lambda>now.
            if now = prior then ret False
            else andthen (react E (rev_of x)) (\<lambda>_.
                 andthen (record_step (rev_of x) Auto (case x of
                     ONode r n \<Rightarrow> on_node_key n | ORev r \<Rightarrow> no_payload) ''machine'') (\<lambda>_.
                 ret True)))))"

definition auto :: "env \<Rightarrow> firing \<Rightarrow> obj \<Rightarrow> bool act" where
  "auto E fire x = andthen (check_failure E x) (\<lambda>failure. case failure of
     Some f \<Rightarrow> andthen (fire CheckFailed f ''checks'') (\<lambda>_. ret True)
   | None \<Rightarrow>
       andthen (gets (standing x)) (\<lambda>prior.
       andthen (handle (andthen (takes E x Auto no_payload) (\<lambda>b. ret (Some b)))
                  (\<lambda>e. if e = ServiceDown then ret None else raise e))
         (after_auto E fire x prior)))"

fun settle_nodes :: "env \<Rightarrow> firing \<Rightarrow> int \<Rightarrow> string list \<Rightarrow> bool act" where
  "settle_nodes E fire r [] = ret False"
| "settle_nodes E fire r (i # is) = andthen (auto E fire (ONode r i)) (\<lambda>moved.
     if moved then ret True else settle_nodes E fire r is)"

text \<open>The system moves the pointer to a revision that awaits it.\<close>

definition move_pointer :: "firing \<Rightarrow> int \<Rightarrow> revision_record \<Rightarrow> unit act" where
  "move_pointer fire r rv = andthen (modify (on_rev r (\<lambda>x. x\<lparr>r_awaiting_pointer := False\<rparr>))) (\<lambda>_.
     fire LivePointerMoved ((PStr ''to'', PInt r)
       # (if r_stale_via rv = Some RollbackRequested
          then [(PStr ''rolled_back_to'', PInt r)] else [])) ''system'')"

fun settle_revisions :: "env \<Rightarrow> firing \<Rightarrow> int list \<Rightarrow> bool act" where
  "settle_revisions E fire [] = ret False"
| "settle_revisions E fire (r # rs) = andthen (the_rev r) (\<lambda>rv.
     if r_awaiting_pointer rv then andthen (move_pointer fire r rv) (\<lambda>_. ret True)
     else andthen (settle_nodes E fire r (if is_draft rv then map fst (r_nodes rv) else [])) (\<lambda>moved.
       if moved then ret True
       else andthen (auto E fire (ORev r)) (\<lambda>moved'.
         if moved' then ret True else settle_revisions E fire rs)))"

definition settle_once :: "env \<Rightarrow> firing \<Rightarrow> bool act" where
  "settle_once E fire = andthen (gets (\<lambda>m. map fst (st_revisions (m_store m))))
     (settle_revisions E fire)"

definition settle_limit :: nat where
  "settle_limit = 500"

fun settle_upto :: "nat \<Rightarrow> env \<Rightarrow> firing \<Rightarrow> unit act" where
  "settle_upto 0 E fire = raise MachineRefused"
| "settle_upto (Suc k) E fire = andthen (settle_once E fire) (\<lambda>moved.
     if moved then settle_upto k E fire else ret ())"

definition settle :: "env \<Rightarrow> firing \<Rightarrow> unit act" where
  "settle E fire = settle_upto settle_limit E fire"

section \<open>Firing an event\<close>

definition new_content :: "event list" where
  "new_content = [NodeEdited, NodeGenerated]"

definition broadcast :: "event list" where
  "broadcast = [PolicyChanged, GuardrailChanged, CatalogChanged, KBUpdated, LivePointerMoved]"

definition all_nodes :: "event list" where
  "all_nodes = [OutlineApproved, BlockedInputFixed]"

text \<open>
  \<open>{**payload, "event": event}\<close>, with the idempotency key a side-effecting event is given when
  its producer sent none.
\<close>

definition incoming :: "event \<Rightarrow> pydict \<Rightarrow> nat \<Rightarrow> payload" where
  "incoming e kv n = \<lparr>p_event = Some e, p_fields =
     (if e \<in> set side_effecting \<and> \<not> dhas kv ''idempotency_key''
      then dput ''idempotency_key'' (own_key (event_name e) n) kv else kv)\<rparr>"

text \<open>\<open>rid not in self.store.revisions\<close>, for a value that need not be a number.\<close>

definition named_revision :: "store \<Rightarrow> pyval \<Rightarrow> exn + int option" where
  "named_revision S v = (case v of
       PList _ \<Rightarrow> Inl (PyError ''TypeError'')
     | PDict _ \<Rightarrow> Inl (PyError ''TypeError'')
     | _ \<Rightarrow> Inr (case as_int v of None \<Rightarrow> None
              | Some r \<Rightarrow> (if map_of (st_revisions S) r = None then None else Some r)))"

definition revisions_for :: "event \<Rightarrow> payload \<Rightarrow> machine \<Rightarrow> exn + int list" where
  "revisions_for e p m =
     (if e \<in> set broadcast then Inr (map fst (st_revisions (m_store m)))
      else let rid = pget p ''revision'' in
        if rid = PNone then Inr [m_current m]
        else ebind (named_revision (m_store m) rid) (\<lambda>found. case found of
               None \<Rightarrow> Inl MachineRefused
             | Some r \<Rightarrow> Inr (if truthy rid then [r] else [m_current m])))"

definition has_node_named :: "machine \<Rightarrow> pyval \<Rightarrow> int \<Rightarrow> bool" where
  "has_node_named m v r = (case v of PStr i \<Rightarrow> node m r i \<noteq> None | _ \<Rightarrow> False)"

definition validate_targets :: "event \<Rightarrow> payload \<Rightarrow> int list \<Rightarrow> machine \<Rightarrow> exn + unit" where
  "validate_targets e p revs m =
     ebind (if pget p ''revision'' = PNone then Inr ()
            else ebind (named_revision (m_store m) (pget p ''revision'')) (\<lambda>found.
              if found = None then Inl MachineRefused else Inr ())) (\<lambda>_.
     ebind (if truthy (pget p ''node'') \<and> \<not> list_ex (has_node_named m (pget p ''node'')) revs
            then Inl MachineRefused else Inr ()) (\<lambda>_.
     if e \<noteq> LivePointerMoved then Inr ()
     else ebind (named_revision (m_store m) (pget p ''to'')) (\<lambda>found. case found of
            None \<Rightarrow> Inl MachineRefused
          | Some r \<Rightarrow> (if in_state m r Published then Inr () else Inl MachineRefused))))"

definition point_at :: "payload \<Rightarrow> unit act" where
  "point_at p = andthen (unless_none key_error (dlookup (p_fields p) ''to'')) (\<lambda>to.
     modify (on_store (\<lambda>S. S\<lparr>st_live_pointer := as_int to\<rparr>)))"

definition nodes_for :: "int \<Rightarrow> event \<Rightarrow> payload \<Rightarrow> machine \<Rightarrow> string list" where
  "nodes_for r e p m = (case revision m r of
       None \<Rightarrow> []
     | Some rv \<Rightarrow>
         (if \<not> is_draft rv then []
          else if truthy (pget p ''node'')
          then (case pget p ''node'' of
                  PStr i \<Rightarrow> (if map_of (r_nodes rv) i = None then [] else [i])
                | _ \<Rightarrow> [])
          else if e \<in> set (all_nodes @ broadcast) then map fst (r_nodes rv) else []))"

text \<open>What the loop over the revisions has gathered: moved, undecided, the first that acted.\<close>

record gathered =
  a_moved :: bool
  a_undecided :: bool
  a_acted :: "int option"

definition gather :: "int \<Rightarrow> bool \<times> bool \<Rightarrow> gathered \<Rightarrow> gathered" where
  "gather r outcome g = \<lparr>a_moved = (a_moved g \<or> fst outcome),
     a_undecided = (a_undecided g \<or> snd outcome),
     a_acted = (if fst outcome \<and> a_acted g = None then Some r else a_acted g)\<rparr>"

definition removed_now :: "machine \<Rightarrow> int \<Rightarrow> string \<Rightarrow> bool" where
  "removed_now m r i = (case node m r i of None \<Rightarrow> False | Some nd \<Rightarrow> n_state nd = Removed)"

definition fire_node :: "env \<Rightarrow> int \<Rightarrow> event \<Rightarrow> payload \<Rightarrow> string \<Rightarrow> gathered \<Rightarrow> gathered act" where
  "fire_node E r e p i g =
     andthen (gets (\<lambda>m. removed_now m r i)) (\<lambda>prior.
     andthen (on_event (ONode r i) e p) (\<lambda>_.
     andthen (take_row E (ONode r i) e p) (\<lambda>outcome.
     andthen (gets (\<lambda>m. removed_now m r i)) (\<lambda>after.
     andthen (only_if (fst outcome \<and> after \<and> \<not> prior) (dependency_changed E r i)) (\<lambda>_.
     ret (gather r outcome g))))))"

definition fire_revision :: "env \<Rightarrow> event \<Rightarrow> payload \<Rightarrow> int \<Rightarrow> gathered \<Rightarrow> gathered act" where
  "fire_revision E e p r g =
     andthen (on_event (ORev r) e p) (\<lambda>_.
     andthen (take_row E (ORev r) e p) (\<lambda>outcome.
     let g' = gather r outcome g in
     if e \<in> set all_nodes \<and> \<not> fst outcome \<and> e \<noteq> BlockedInputFixed then ret g'
     else andthen (gets (nodes_for r e p)) (\<lambda>ns. loop (fire_node E r e p) ns g')))"

definition subject :: "payload \<Rightarrow> machine \<Rightarrow> exn + int" where
  "subject p m =
     ebind (named_revision (m_store m) (py_or (pget p ''to'') (pget p ''revision''))) (\<lambda>found.
       Inr (case found of Some r \<Rightarrow> r | None \<Rightarrow> m_current m))"

definition dependencies_at :: "int \<Rightarrow> (int \<times> (string \<times> string list) list) act" where
  "dependencies_at r = andthen (the_rev r) (\<lambda>rv. ret (r, dependencies rv))"

fun collect :: "('a \<Rightarrow> 'b act) \<Rightarrow> 'a list \<Rightarrow> 'b list act" where
  "collect f [] = ret []"
| "collect f (x # xs) = andthen (f x) (\<lambda>y. andthen (collect f xs) (\<lambda>ys. ret (y # ys)))"

definition edited_node :: "event \<Rightarrow> payload \<Rightarrow> string option" where
  "edited_node e p = (if e \<in> set new_content \<and> truthy (pget p ''node'')
     then Some (str_of (pget p ''node'')) else None)"

text \<open>What follows the loop over the revisions the event reached.\<close>

definition conclude :: "env \<Rightarrow> firing \<Rightarrow> event \<Rightarrow> payload \<Rightarrow> string \<Rightarrow> int list
    \<Rightarrow> (int \<times> (string \<times> string list) list) list \<Rightarrow> gathered \<Rightarrow> unit act" where
  "conclude E fire e p producer revs rested g = block
     [only_if (a_undecided g \<and> e \<in> set broadcast) (raise MachineRefused),
      (case edited_node e p of
         Some i \<Rightarrow> dependency_changed E (hd revs) i
       | None \<Rightarrow> ret ()),
      each (\<lambda>(r, prior). dependencies_added E r prior) rested,
      only_if (\<not> a_moved g \<and> e \<notin> set broadcast) (raise MachineRefused),
      each (react E) revs,
      andthen (lift (\<lambda>m. case a_acted g of Some r \<Rightarrow> Inr r | None \<Rightarrow> subject p m)) (\<lambda>r.
        record_step r e p producer),
      settle E fire]"

definition carry_out :: "env \<Rightarrow> firing \<Rightarrow> event \<Rightarrow> payload \<Rightarrow> string \<Rightarrow> int list \<Rightarrow> unit act" where
  "carry_out E fire e p producer revs =
     andthen (only_if (e = LivePointerMoved) (point_at p)) (\<lambda>_.
     andthen (collect dependencies_at (if e = OutlineApproved then revs else [])) (\<lambda>rested.
     andthen (loop (fire_revision E e p) revs
                \<lparr>a_moved = False, a_undecided = False, a_acted = None\<rparr>)
       (conclude E fire e p producer revs rested)))"

definition fire_body :: "env \<Rightarrow> firing \<Rightarrow> event \<Rightarrow> payload \<Rightarrow> string \<Rightarrow> unit act" where
  "fire_body E fire e p producer =
     andthen (lift (revisions_for e p)) (\<lambda>revs.
     andthen (lift (validate_targets e p revs)) (\<lambda>_.
     carry_out E fire e p producer revs))"

definition fire_inner :: "env \<Rightarrow> firing \<Rightarrow> firing" where
  "fire_inner E fire e kv producer =
     andthen (gets (\<lambda>m. length (st_steps (m_store m)))) (\<lambda>n.
       fire_body E fire e (incoming e kv n) producer)"

section \<open>The public surface\<close>

definition restore :: "store \<Rightarrow> int \<Rightarrow> event option \<Rightarrow> machine \<Rightarrow> machine" where
  "restore S current ev m = forget (m\<lparr>m_current := current, m_store :=
     (case ev of None \<Rightarrow> S
      | Some e \<Rightarrow> S\<lparr>st_discarded := st_discarded S @
          [\<lparr>d_event = e, d_at_step = length (st_steps S)\<rparr>]\<rparr>)\<rparr>)"

definition deeper :: "machine \<Rightarrow> machine" where
  "deeper m = m\<lparr>m_depth := m_depth m + 1\<rparr>"

definition shallower :: "machine \<Rightarrow> machine" where
  "shallower m = m\<lparr>m_depth := m_depth m - 1\<rparr>"

text \<open>\<open>Machine.fire\<close>: one event, all or nothing, unless an event is already being handled.\<close>

definition fire_with :: "env \<Rightarrow> firing \<Rightarrow> firing" where
  "fire_with E nested e kv producer = (\<lambda>m.
     if m_depth m \<noteq> 0 then fire_inner E nested e kv producer m
     else case fire_inner E nested e kv producer (deeper m) of
       (Inr u, m') \<Rightarrow> (Inr u, shallower m')
     | (Inl x, m') \<Rightarrow>
         (if x \<in> {UncheckedOutline, ServiceDown, MachineRefused}
          then (Inl MachineRefused, shallower (restore (m_store m) (m_current m) (Some e) m'))
          else (Inl x, shallower (restore (m_store m) (m_current m) None m'))))"

primrec fire_upto :: "nat \<Rightarrow> env \<Rightarrow> firing" where
  "fire_upto 0 E = (\<lambda>e kv producer. raise RecursionLimit)"
| "fire_upto (Suc k) E = fire_with E (fire_upto k E)"

text \<open>\<open>Machine.permits\<close>: run the event and put everything back.\<close>

definition permits :: "nat \<Rightarrow> env \<Rightarrow> event \<Rightarrow> pydict \<Rightarrow> bool act" where
  "permits k E e kv = (\<lambda>m.
     case fire_inner E (fire_upto k E) e kv ''membrane'' (deeper m) of
       (outcome, m') \<Rightarrow>
         ((case outcome of
             Inr _ \<Rightarrow> Inr True
           | Inl x \<Rightarrow> (if x \<in> {MachineRefused, ServiceDown} then Inr False else Inl x)),
          restore (m_store m) (m_current m) None (shallower m')))"

text \<open>\<open>Machine.__init__\<close>.\<close>

definition empty_store :: "config \<Rightarrow> versions \<Rightarrow> (int \<times> int) list \<Rightarrow> pyval \<Rightarrow> store" where
  "empty_store cfg cur readers enrolled = \<lparr>st_config = cfg, st_current = cur, st_revisions = [],
     st_live_pointer = None, st_used_keys = [], st_steps = [], st_readers = readers,
     st_enrolled_learners = enrolled, st_discarded = []\<rparr>"

definition new_machine :: "world \<Rightarrow> config \<Rightarrow> (int \<times> int) list \<Rightarrow> pyval \<Rightarrow> machine" where
  "new_machine w cfg readers enrolled =
     (let (rv, S) = new_revision (empty_store cfg (w_versions w) readers enrolled) None
      in snd (record_step (r_id rv) Initial no_payload ''store''
           \<lparr>m_store = S, m_current = r_id rv, m_cache = [], m_cached_at = -1, m_depth = 0\<rparr>))"

end
