(* ===== verification/Machine_Frame.thy ===== *)
theory Machine_Frame
  imports Machine_Core "HOL-Library.Sublist"
begin

text \<open>
  The frame of every operation: what a computation of the machine may never change, whatever
  the event, the guards and the engines.  \<open>decision_frame\<close> is the contract of deciding a
  guard; \<open>grows\<close> is the relation every step keeps.
\<close>

section \<open>Case distinctions inside a computation\<close>

lemma keeps_case_option:
  "keeps R a \<Longrightarrow> (\<And>x. keeps R (f x)) \<Longrightarrow> keeps R (case v of None \<Rightarrow> a | Some x \<Rightarrow> f x)"
  by (cases v) auto

lemma keeps_case_prod: "(\<And>a b. keeps R (f a b)) \<Longrightarrow> keeps R (case v of (a, b) \<Rightarrow> f a b)"
  by (cases v) auto

lemma keeps_case_obj:
  "(\<And>r. keeps R (f r)) \<Longrightarrow> (\<And>r n. keeps R (g r n)) \<Longrightarrow>
     keeps R (case v of ORev r \<Rightarrow> f r | ONode r n \<Rightarrow> g r n)"
  by (cases v) auto

lemma keeps_case_st:
  "(\<And>s. keeps R (f s)) \<Longrightarrow> (\<And>s. keeps R (g s)) \<Longrightarrow>
     keeps R (case v of RevSt s \<Rightarrow> f s | NodeSt s \<Rightarrow> g s)"
  by (cases v) auto

lemma keeps_case_verdict:
  "(\<And>d. keeps R (f d)) \<Longrightarrow> (\<And>r. keeps R (g r)) \<Longrightarrow>
     keeps R (case v of Allowed d \<Rightarrow> f d | RefusedBy r \<Rightarrow> g r)"
  by (cases v) auto

lemma keeps_case_landing:
  "(\<And>s. keeps R (f s)) \<Longrightarrow> keeps R b \<Longrightarrow> keeps R (case v of To s \<Rightarrow> f s | CourseStops \<Rightarrow> b)"
  by (cases v) auto

lemma keeps_case_screen_reply:
  "(\<And>a b. keeps R (f a b)) \<Longrightarrow> keeps R g \<Longrightarrow> keeps R h \<Longrightarrow>
     keeps R (case v of Answered a b \<Rightarrow> f a b | NotReached \<Rightarrow> g | Unreadable \<Rightarrow> h)"
  by (cases v) auto

lemma keeps_let: "keeps R (f x) \<Longrightarrow> keeps R (let y = x in f y)"
  by simp

lemmas keeps_cases = keeps_case_option keeps_case_prod keeps_case_obj keeps_case_st
  keeps_case_verdict keeps_case_landing keeps_case_screen_reply keeps_let

section \<open>What deciding a guard may write\<close>

locale decision_frame = state_preorder R for R :: "machine \<Rightarrow> machine \<Rightarrow> bool" +
  assumes cache: "R m (m\<lparr>m_cache := c, m_cached_at := k\<rparr>)"
    and rights: "R m (on_rev r (\<lambda>x. x\<lparr>r_permission_checked := fold List.insert a (r_permission_checked x),
        r_used_restricted := fold List.insert b (r_used_restricted x)\<rparr>) m)"
    and screened: "R m (on_rev r (\<lambda>x. x\<lparr>r_screened := f (r_screened x)\<rparr>) m)"
begin

lemma cache_only: "R m (m\<lparr>m_cache := c\<rparr>)"
  using cache [where m = m and c = c and k = "m_cached_at m"] by simp

lemma refreshed: "R m (refresh m)"
  by (simp add: refresh_def Let_def cache same)

lemma keeps_the_rev: "keeps R (the_rev r)"
  by (simp add: the_rev_def combinators)

lemma keeps_the_node: "keeps R (the_node r n)"
  by (simp add: the_node_def combinators)

lemma keeps_note_rights: "keeps R (note_rights l c v)"
  unfolding note_rights_def Let_def
  by (intro combinators keeps_the_rev keeps_modify rights)

lemma keeps_engine_verdict: "keeps R (engine_verdict E l c)"
  unfolding engine_verdict_def
  by (intro combinators keeps_cases keeps_modify keeps_note_rights refreshed cache_only)

lemma keeps_ask_screener: "keeps R (ask_screener E r rv v)"
  unfolding ask_screener_def
  by (intro combinators keeps_cases keeps_modify screened)

lemma keeps_guardrail_clean: "keeps R (guardrail_clean E c)"
  unfolding guardrail_clean_def Let_def
  by (intro combinators keeps_cases keeps_the_rev keeps_ask_screener)

lemma keeps_literal_value: "keeps R (literal_value E l c)"
  unfolding literal_value_def store_guard_def
  by (intro combinators keeps_guardrail_clean keeps_engine_verdict)

lemma keeps_conjunction: "keeps R (conjunction E ls c)"
  by (induction ls) (auto intro!: combinators keeps_cases keeps_literal_value)

lemma keeps_some_node_holds: "keeps R (some_node_holds E g r p ns u)"
  by (induction ns arbitrary: u) (auto intro!: combinators keeps_conjunction)

lemma keeps_decide: "keeps R (decide E t r n p)"
  unfolding decide_def Let_def
  by (intro combinators keeps_cases keeps_conjunction keeps_the_rev keeps_some_node_holds)

lemma keeps_first_failure: "keeps R (first_failure E x c ls)"
  by (induction ls) (auto intro!: combinators keeps_cases keeps_engine_verdict)

lemma keeps_check_failure: "keeps R (check_failure E x)"
  unfolding check_failure_def
  by (intro combinators keeps_cases keeps_first_failure)

end

section \<open>What every step keeps\<close>

text \<open>
  A revision keeps its id, its parent and its nodes; a publication is never taken back; what
  the leak check found is never unwritten.
\<close>

definition rev_grows :: "revision_record \<Rightarrow> revision_record \<Rightarrow> bool" where
  "rev_grows x y \<longleftrightarrow> r_id y = r_id x \<and> r_forked_from y = r_forked_from x
     \<and> (r_ever_published x \<longrightarrow> r_ever_published y)
     \<and> set (r_permission_checked x) \<subseteq> set (r_permission_checked y)
     \<and> set (r_used_restricted x) \<subseteq> set (r_used_restricted y)
     \<and> prefix (map fst (r_nodes x)) (map fst (r_nodes y))"

text \<open>Every recorded step carries its own place in the trace and names the step before it.\<close>

definition numbered :: "pydict list \<Rightarrow> bool" where
  "numbered steps \<longleftrightarrow> (\<forall>i < length steps.
     dget (steps ! i) ''event_id'' = PStr (event_id i)
     \<and> dget (steps ! i) ''causation_id'' = PStr (event_id (i - 1)))"

definition revs_grow :: "(int \<times> revision_record) list \<Rightarrow> (int \<times> revision_record) list \<Rightarrow> bool" where
  "revs_grow A B \<longleftrightarrow> (\<forall>r x. map_of A r = Some x \<longrightarrow>
     (\<exists>y. map_of B r = Some y \<and> rev_grows x y))"

definition store_grows :: "store \<Rightarrow> store \<Rightarrow> bool" where
  "store_grows S U \<longleftrightarrow> st_config U = st_config S \<and> st_readers U = st_readers S
     \<and> st_enrolled_learners U = st_enrolled_learners S
     \<and> prefix (st_discarded S) (st_discarded U)
     \<and> set (st_used_keys S) \<subseteq> set (st_used_keys U)
     \<and> prefix (st_steps S) (st_steps U)
     \<and> (numbered (st_steps S) \<longrightarrow> numbered (st_steps U))
     \<and> prefix (map fst (st_revisions S)) (map fst (st_revisions U))
     \<and> revs_grow (st_revisions S) (st_revisions U)"

definition grows :: "machine \<Rightarrow> machine \<Rightarrow> bool" where
  "grows m m' \<longleftrightarrow> m_depth m' = m_depth m \<and> store_grows (m_store m) (m_store m')"

lemma rev_grows_refl [simp]: "rev_grows x x"
  by (simp add: rev_grows_def)

lemma rev_grows_trans: "rev_grows x y \<Longrightarrow> rev_grows y z \<Longrightarrow> rev_grows x z"
  unfolding rev_grows_def by (auto intro: prefix_order.trans)

lemma revs_grow_trans: "revs_grow A B \<Longrightarrow> revs_grow B C \<Longrightarrow> revs_grow A C"
  unfolding revs_grow_def by (meson rev_grows_trans)

lemma store_grows_refl [simp]: "store_grows S S"
  by (simp add: store_grows_def revs_grow_def)

lemma store_grows_trans: "store_grows S U \<Longrightarrow> store_grows U V \<Longrightarrow> store_grows S V"
  unfolding store_grows_def by (auto intro: prefix_order.trans revs_grow_trans)

lemma map_fst_map_entry [simp]: "map fst (AList.map_entry k f al) = map fst al"
  by (induction al) auto

lemma map_fst_update:
  "map fst (AList.update k v al) = (if k \<in> fst ` set al then map fst al else map fst al @ [k])"
  by (induction al) auto

lemma lookup_map_entry:
  "map_of (AList.map_entry k f al) k'
     = (if k' = k then map_option f (map_of al k) else map_of al k')"
  by (induction al) auto

lemma grows_on_rev:
  assumes "\<And>x. rev_grows x (f x)"
  shows "grows m (on_rev r f m)"
  using assms by (auto simp: grows_def store_grows_def revs_grow_def on_rev_def on_store_def lookup_map_entry)

lemma grows_on_node: "grows m (on_node r n f m)"
  unfolding on_node_def by (rule grows_on_rev) (simp add: rev_grows_def)

lemma grows_on_store: "(\<And>S. store_grows S (f S)) \<Longrightarrow> grows m (on_store f m)"
  by (simp add: grows_def on_store_def)

lemma set_fold_insert: "set (fold List.insert xs ys) = set xs \<union> set ys"
  by (induction xs arbitrary: ys) auto

section \<open>The writes of the operations\<close>

lemma next_revision_id_fresh: "map_of (st_revisions S) (next_revision_id S) = None"
proof -
  have "k \<in> set ks \<Longrightarrow> k \<le> foldr max ks (0::int)" for k ks
    by (induction ks) auto
  then have "k \<in> fst ` set (st_revisions S) \<Longrightarrow> k < next_revision_id S" for k
    by (force simp: next_revision_id_def)
  then show ?thesis by (auto simp: map_of_eq_None_iff)
qed

lemma store_grows_new_revision: "store_grows S (snd (new_revision S p))"
proof -
  have "next_revision_id S \<notin> fst ` set (st_revisions S)"
    using next_revision_id_fresh by (simp add: map_of_eq_None_iff)
  then show ?thesis
    by (auto simp: new_revision_def new_revision_record_def Let_def store_grows_def revs_grow_def
        map_fst_update update_conv' next_revision_id_fresh)
qed

text \<open>A key of the envelope is read from it: neither layer written after it has that key.\<close>

lemma dget_layers:
  assumes "PStr k \<notin> fst ` set G" "PStr k \<notin> fst ` set K" "map_of (rev E) (PStr k) = Some v"
  shows "dget (fold (\<lambda>(k, v) d. AList.update k v d) (C @ E @ G @ K) base) k = v"
proof -
  have "map_of (rev G) (PStr k) = None" "map_of (rev K) (PStr k) = None"
    using assms(1,2) by (simp_all add: map_of_eq_None_iff)
  then show ?thesis
    using assms(3) by (simp add: dget_def dlookup_def map_of_fold_update map_add_def del: fold_append)
qed

lemma event_id_0: "event_id 0 = ''e0000''"
  by code_simp

lemma dget_step_of:
  "dget (step_of S rv e p producer) ''event_id'' = PStr (event_id (length (st_steps S)))"
  "dget (step_of S rv e p producer) ''causation_id'' = PStr (event_id (length (st_steps S) - 1))"
  unfolding step_of_def Let_def
  by (rule dget_layers; auto simp: event_id_0 split: option.splits)+

lemma numbered_append:
  "numbered steps \<Longrightarrow> dget s ''event_id'' = PStr (event_id (length steps)) \<Longrightarrow>
     dget s ''causation_id'' = PStr (event_id (length steps - 1)) \<Longrightarrow> numbered (steps @ [s])"
  by (auto simp: numbered_def nth_append less_Suc_eq)

lemma store_grows_step:
  "store_grows S (S\<lparr>st_steps := st_steps S @ [step_of S rv e p producer]\<rparr>)"
  by (auto simp: store_grows_def revs_grow_def dget_step_of intro: numbered_append)

lemma store_grows_writes:
  "store_grows S (S\<lparr>st_current := c\<rparr>)"
  "store_grows S (S\<lparr>st_live_pointer := p\<rparr>)"
  "set (st_used_keys S) \<subseteq> set ks \<Longrightarrow> store_grows S (S\<lparr>st_used_keys := ks\<rparr>)"
  by (auto simp: store_grows_def revs_grow_def)

text \<open>A write that leaves the trace alone.\<close>

definition calm :: "store \<Rightarrow> store \<Rightarrow> bool" where
  "calm S U \<longleftrightarrow> store_grows S U \<and> st_steps U = st_steps S"

lemma calm_writes:
  "calm S (S\<lparr>st_current := c\<rparr>)"
  "calm S (S\<lparr>st_live_pointer := p\<rparr>)"
  "set (st_used_keys S) \<subseteq> set ks \<Longrightarrow> calm S (S\<lparr>st_used_keys := ks\<rparr>)"
  by (simp_all add: calm_def store_grows_writes)

lemma calm_refl [simp]: "calm S S"
  by (simp add: calm_def)

lemma calm_new_revision: "calm S (snd (new_revision S p))"
  by (simp add: calm_def store_grows_new_revision) (simp add: new_revision_def Let_def)

section \<open>What a relation must allow for every operation to keep it\<close>

text \<open>
  The interface between a property of histories and the machine: the relation allows the
  writes the bookkeeping makes, a step appended for an event of \<open>P\<close>, and what \<open>fire\<close> does
  around an event.  Then every operation keeps it, and so does every event of \<open>P\<close>.
\<close>

locale machine_frame = decision_frame R for R :: "machine \<Rightarrow> machine \<Rightarrow> bool" +
  fixes P :: "event \<Rightarrow> bool"
  assumes writes_rev: "(\<And>x. rev_grows x (f x)) \<Longrightarrow> R m (on_rev r f m)"
    and writes_store: "(\<And>S. calm S (g S)) \<Longrightarrow> R m (on_store g m)"
    and writes_current: "R m (m\<lparr>m_current := c\<rparr>)"
    and appends: "P e \<Longrightarrow> R m (on_store (\<lambda>S. S\<lparr>st_steps := st_steps S @ [step_of S rv e p w]\<rparr>) m)"
    and surfaces: "R (deeper m) m' \<Longrightarrow> R m (shallower m')"
    and restores: "R (deeper m) m' \<Longrightarrow> R m (shallower (restore (m_store m) c ev m'))"
    and internal: "P Auto" "P CheckFailed" "P ServiceUnreachable" "P LivePointerMoved"
begin

lemma writes_node: "R m (on_node r n f m)"
  unfolding on_node_def by (rule writes_rev) (simp add: rev_grows_def)

lemmas growing = combinators keeps_cases keeps_the_rev keeps_the_node
  keeps_block keeps_modify writes_node

lemma keeps_add_node: "keeps R (add_node r i nd)"
  unfolding add_node_def
  by (intro growing writes_rev) (simp add: rev_grows_def map_fst_update)

lemma keeps_record_step: "P e \<Longrightarrow> keeps R (record_step r e p producer)"
  unfolding record_step_def by (intro growing appends)

text \<open>The bookkeeping.\<close>

lemmas growing_writes = growing writes_rev writes_store calm_writes

lemma keeps_current_stamps: "keeps R current_stamps"
  unfolding current_stamps_def by (intro growing)

lemma keeps_the_pending: "keeps R (the_pending x)"
  unfolding the_pending_def by (intro growing)

lemma keeps_set_repair: "keeps R (set_repair x f)"
  unfolding set_repair_def
  by (cases x) (auto intro!: growing_writes simp: rev_grows_def)

lemma keeps_set_refusal: "keeps R (set_refusal x v)"
  unfolding set_refusal_def
  by (cases x) (auto intro!: growing_writes simp: rev_grows_def)

lemma keeps_use_key: "keeps R (use_key p)"
  unfolding use_key_def by (intro growing_writes) auto

lemma keeps_note_change: "keeps R (note_change x e p)"
  unfolding note_change_def by (intro growing_writes)

lemma keeps_refuse_unchecked: "keeps R (refuse_unchecked x e p)"
  unfolding refuse_unchecked_def Let_def by (intro growing_writes)

lemma keeps_note_refusal: "keeps R (note_refusal x e p)"
  unfolding note_refusal_def Let_def
  by (auto intro!: growing_writes keeps_set_refusal)

lemma keeps_note_screening: "keeps R (note_screening x p)"
  unfolding note_screening_def Let_def by (intro growing_writes) (simp add: rev_grows_def)

lemma keeps_note_signatures: "keeps R (note_signatures r p)"
  unfolding note_signatures_def Let_def by (intro growing_writes) (simp add: rev_grows_def)

lemma keeps_event_fact: "keeps R (event_fact x e p)"
  by (cases "(x, e, p)" rule: event_fact.cases)
    (auto intro!: growing_writes keeps_use_key keeps_note_screening keeps_note_signatures
      simp: rev_grows_def)

lemma keeps_on_event: "keeps R (on_event x e p)"
  unfolding on_event_def
  by (auto intro!: growing_writes keeps_note_change keeps_refuse_unchecked keeps_note_refusal
      keeps_event_fact simp: rev_grows_def)

lemma keeps_inherit: "keeps R (inherit c rv x)"
  unfolding inherit_def
  by (auto intro!: growing_writes keeps_add_node split: prod.split simp: rev_grows_def)

lemma keeps_fork: "keeps R (fork r)"
  unfolding fork_def
  by (auto intro!: growing_writes keeps_inherit calm_new_revision writes_current
      simp: rev_grows_def)

lemma keeps_commit_node: "keeps R (commit_node r d)"
  unfolding commit_node_def by (auto intro!: growing_writes keeps_add_node)

lemma keeps_advance_outline: "keeps R (advance_outline r)"
  unfolding advance_outline_def
  by (auto intro!: growing_writes keeps_commit_node simp: rev_grows_def)

lemma keeps_discard_proposal: "keeps R (discard_proposal r)"
  unfolding discard_proposal_def by (intro growing_writes) (simp add: rev_grows_def)

lemma keeps_restamp: "keeps R (restamp r)"
  unfolding restamp_def Let_def
  by (intro growing_writes keeps_current_stamps) (simp add: rev_grows_def case_prod_unfold comp_def)

lemma keeps_spend_consent: "keeps R (spend_consent r)"
  unfolding spend_consent_def Let_def by (intro growing_writes) (simp add: rev_grows_def)

lemma keeps_recover_from: "keeps R (recover_from x v)"
  unfolding recover_from_def by (intro growing_writes)

lemma keeps_note_effect: "keeps R (note_effect k x old)"
  by (cases k) (auto simp: rev_note_def rev_grows_def intro!: growing_writes keeps_advance_outline
      keeps_discard_proposal keeps_fork keeps_spend_consent keeps_restamp keeps_recover_from
      keeps_set_repair)

lemma keeps_operation_of: "keeps R (operation_of k s)"
  unfolding operation_of_def by (intro growing)

lemma keeps_after_revision: "keeps R (after_revision t r old new p)"
  unfolding after_revision_def enter_block_def leave_block_def back_to_work_def enter_recovery_def
    leave_recovery_def stamp_brief_def enter_stale_review_def clear_pointer_def Let_def
  by (auto intro!: growing_writes keeps_the_pending keeps_current_stamps keeps_set_repair
      keeps_operation_of simp: rev_grows_def)

lemma keeps_after_node: "keeps R (after_node r n old new p)"
  unfolding after_node_def node_validated_def node_approved_def node_recovers_def Let_def
  by (auto intro!: growing_writes keeps_current_stamps keeps_operation_of simp: rev_grows_def)

lemma keeps_after_transition: "keeps R (after_transition t x old p)"
  unfolding after_transition_def
  by (auto intro!: growing_writes keeps_after_revision keeps_after_node keeps_note_effect
      split: obj.split st.split option.split)

text \<open>Rows, reactions and settling.\<close>

lemma keeps_set_state: "keeps R (set_state x s)"
  unfolding set_state_def
  by (auto intro!: growing_writes simp: rev_grows_def split: obj.split st.split)

lemma keeps_the_state: "keeps R (the_state x)"
  unfolding the_state_def by (intro growing)

lemma keeps_move: "keeps R (move t x s p)"
  unfolding move_def
  by (auto intro!: growing keeps_the_state keeps_set_state keeps_after_transition)

lemma keeps_target_of: "keeps R (target_of E k x)"
  by (cases k) (auto intro!: growing keeps_the_pending)

lemma keeps_apply_row: "keeps R (apply_row E t x p)"
  unfolding apply_row_def
  by (intro growing keeps_the_state keeps_after_transition keeps_target_of keeps_move)

lemma keeps_take_first: "keeps R (take_first E ts x e p u)"
  by (induction ts arbitrary: u) (auto intro!: growing keeps_decide keeps_apply_row)

lemma keeps_take_row: "keeps R (take_row E x e p)"
  unfolding take_row_def by (rule keeps_take_first)

lemma keeps_takes: "keeps R (takes E x e p)"
  unfolding takes_def by (intro growing keeps_take_row)

lemma keeps_first_taken: "keeps R (first_taken E x es)"
  by (induction es) (auto intro!: growing keeps_takes)

lemma keeps_react_upto: "keeps R (react_upto k E r)"
  by (induction k) (auto intro!: growing keeps_first_taken)

lemma keeps_react: "keeps R (react E r)"
  unfolding react_def by (rule keeps_react_upto)

lemma keeps_dependencies_added: "keeps R (dependencies_added E r prior)"
  unfolding dependencies_added_def Let_def by (intro growing keeps_takes)

lemma keeps_dependency_changed: "keeps R (dependency_changed E r i)"
  unfolding dependency_changed_def by (intro growing keeps_takes)

text \<open>The operations that fire events keep the relation when the firing does.\<close>

lemma keeps_auto: "(\<And>e kv w. P e \<Longrightarrow> keeps R (fire e kv w)) \<Longrightarrow> keeps R (auto E fire x)"
  unfolding auto_def after_auto_def
  by (auto intro!: growing keeps_check_failure keeps_takes keeps_react keeps_record_step internal)

lemma keeps_settle_nodes:
  "(\<And>e kv w. P e \<Longrightarrow> keeps R (fire e kv w)) \<Longrightarrow> keeps R (settle_nodes E fire r is)"
  by (induction "is") (auto intro!: growing keeps_auto)

lemma keeps_move_pointer:
  "(\<And>e kv w. P e \<Longrightarrow> keeps R (fire e kv w)) \<Longrightarrow> keeps R (move_pointer fire r rv)"
  unfolding move_pointer_def by (auto intro!: growing_writes internal simp: rev_grows_def)

lemma keeps_settle_revisions:
  "(\<And>e kv w. P e \<Longrightarrow> keeps R (fire e kv w)) \<Longrightarrow> keeps R (settle_revisions E fire rs)"
  by (induction rs) (auto intro!: growing keeps_auto keeps_settle_nodes keeps_move_pointer)

lemma keeps_settle_upto:
  "(\<And>e kv w. P e \<Longrightarrow> keeps R (fire e kv w)) \<Longrightarrow> keeps R (settle_upto k E fire)"
  by (induction k) (auto simp: settle_once_def intro!: growing keeps_settle_revisions)

lemma keeps_settle: "(\<And>e kv w. P e \<Longrightarrow> keeps R (fire e kv w)) \<Longrightarrow> keeps R (settle E fire)"
  unfolding settle_def by (rule keeps_settle_upto)

text \<open>Firing.\<close>

lemma keeps_collect: "(\<And>x. keeps R (f x)) \<Longrightarrow> keeps R (collect f xs)"
  by (induction xs) (auto intro!: growing)

lemma keeps_fire_node: "keeps R (fire_node E r e p i g)"
  unfolding fire_node_def
  by (intro growing keeps_on_event keeps_take_row keeps_dependency_changed)

lemma keeps_fire_revision: "keeps R (fire_revision E e p r g)"
  unfolding fire_revision_def Let_def
  by (intro growing keeps_on_event keeps_take_row keeps_fire_node)

lemma keeps_fire_body:
  "(\<And>e kv w. P e \<Longrightarrow> keeps R (fire e kv w)) \<Longrightarrow> P e \<Longrightarrow>
     keeps R (fire_body E fire e p producer)"
  unfolding fire_body_def carry_out_def conclude_def point_at_def dependencies_at_def
  by (auto intro!: growing_writes keeps_collect keeps_fire_revision keeps_dependency_changed
      keeps_dependencies_added keeps_react keeps_record_step keeps_settle)

lemma keeps_fire_inner:
  "(\<And>e kv w. P e \<Longrightarrow> keeps R (fire e kv w)) \<Longrightarrow> P e \<Longrightarrow>
     keeps R (fire_inner E fire e kv w)"
  unfolding fire_inner_def by (intro growing keeps_fire_body)

lemma keeps_fire_with:
  assumes "\<And>e kv w. P e \<Longrightarrow> keeps R (nested e kv w)" and "P e"
  shows "keeps R (fire_with E nested e kv w)"
proof (rule keepsI)
  fix m
  have inner: "keeps R (fire_inner E nested e kv w)" by (rule keeps_fire_inner [OF assms])
  show "R m (snd (fire_with E nested e kv w m))"
  proof (cases "m_depth m = 0")
    case False
    then show ?thesis using inner by (simp add: fire_with_def keeps_def)
  next
    case True
    obtain res m' where run: "fire_inner E nested e kv w (deeper m) = (res, m')" by fastforce
    then have "R (deeper m) m'" using inner by (rule keepsD [rotated])
    then show ?thesis
      using True by (cases res) (simp_all add: fire_with_def run surfaces restores)
  qed
qed

lemma keeps_fire_upto: "P e \<Longrightarrow> keeps R (fire_upto k E e kv w)"
  by (induction k arbitrary: e kv w) (auto intro: keeps_raise keeps_fire_with)

end

section \<open>Growth\<close>

lemma store_grows_discard: "store_grows S (S\<lparr>st_discarded := st_discarded S @ ds\<rparr>)"
  by (simp add: store_grows_def revs_grow_def)

lemma grows_restored:
  "grows (deeper m) m' \<Longrightarrow> grows m (shallower (restore (m_store m) c ev m'))"
  by (auto simp: grows_def deeper_def shallower_def restore_def forget_def store_grows_discard
      split: option.split)

interpretation growth: machine_frame grows "\<lambda>e. True"
proof
  show "grows m m" for m by (simp add: grows_def)
  show "grows s t \<Longrightarrow> grows t u \<Longrightarrow> grows s u" for s t u
    by (auto simp: grows_def intro: store_grows_trans)
  show "grows m (m\<lparr>m_cache := c, m_cached_at := k\<rparr>)" for m c k by (simp add: grows_def)
  show "(\<And>S. calm S (f S)) \<Longrightarrow> grows m (on_store f m)" for m f
    by (rule grows_on_store) (simp add: calm_def)
  show "grows m (on_store (\<lambda>S. S\<lparr>st_steps := st_steps S @ [step_of S rv e p w]\<rparr>) m)" for m rv e p w
    by (rule grows_on_store) (rule store_grows_step)
  show "grows m (m\<lparr>m_current := c\<rparr>)" for m c by (simp add: grows_def)
  show "grows (deeper m) m' \<Longrightarrow> grows m (shallower m')" for m m'
    by (simp add: grows_def deeper_def shallower_def)
qed (auto intro!: grows_on_rev grows_restored simp: rev_grows_def set_fold_insert)

lemmas fire_upto_grows = growth.keeps_fire_upto [OF TrueI, THEN keepsD]

end
