(* ===== verification/Firing.thy ===== *)
theory Firing
  imports Machine_Frame
begin

text \<open>
  What one event does to the machine as a whole: it is handled all or not at all, asking
  whether it is legal changes nothing, and the trace only grows.
\<close>

section \<open>Histories\<close>

text \<open>
  The machine after its construction and any sequence of calls of its public surface, whatever
  they returned.  A call that ran out of the recursion limit is one that raised.
\<close>

inductive reached :: "nat \<Rightarrow> env \<Rightarrow> machine \<Rightarrow> machine \<Rightarrow> bool" for k E where
  here: "reached k E m m"
| fired: "reached k E m m' \<Longrightarrow> fire_upto (Suc k) E e kv w m' = (res, m'') \<Longrightarrow> reached k E m m''"
| asked: "reached k E m m' \<Longrightarrow> permits k E e kv m' = (res, m'') \<Longrightarrow> reached k E m m''"

inductive_cases reachedE: "reached k E m m'"

section \<open>One event, all or nothing\<close>

definition discarding :: "event \<Rightarrow> store \<Rightarrow> store" where
  "discarding e S = S\<lparr>st_discarded := st_discarded S @
     [\<lparr>d_event = e, d_at_step = length (st_steps S)\<rparr>]\<rparr>"

lemma inner_depth: "fire_inner E (fire_upto k E) e kv w m = (res, m') \<Longrightarrow> m_depth m' = m_depth m"
  using growth.keeps_fire_inner [OF growth.keeps_fire_upto TrueI, THEN keepsD] by (fastforce simp: grows_def)

lemma fire_outcome:
  assumes "m_depth m = 0" "fire_upto (Suc k) E e kv w m = (res, m')"
  shows "case res of Inr _ \<Rightarrow> True | Inl x \<Rightarrow>
     m_store m' = (if x = MachineRefused then discarding e (m_store m) else m_store m)
     \<and> m_current m' = m_current m \<and> m_cache m' = [] \<and> x \<notin> {ServiceDown, UncheckedOutline}"
proof -
  obtain r m1 where run: "fire_inner E (fire_upto k E) e kv w (deeper m) = (r, m1)" by fastforce
  then show ?thesis
    using assms by (cases r)
      (auto simp: fire_with_def shallower_def restore_def forget_def discarding_def split: if_splits)
qed

end
