(* ===== verification/Outcomes.thy ===== *)
theory Outcomes
  imports Machine_Frame
begin

text \<open>
  A computation judged only on the outcomes the code carries on from: a value, or an exception
  some handler of the machine catches.  Any other exception is undone by \<open>fire\<close>, so a state
  it leaves half written is never seen.
\<close>

section \<open>Outcomes the code carries on from\<close>

fun goes_on :: "exn + 'a \<Rightarrow> bool" where
  "goes_on (Inr _) = True"
| "goes_on (Inl e) = (e = ServiceDown \<or> e = Undecidable)"

definition sustains :: "('s \<Rightarrow> 's \<Rightarrow> bool) \<Rightarrow> ('s, exn, 'a) comp \<Rightarrow> bool" where
  "sustains R c \<longleftrightarrow> (\<forall>s x s'. c s = (x, s') \<longrightarrow> goes_on x \<longrightarrow> R s s')"

lemma sustainsD: "sustains R c \<Longrightarrow> c s = (x, s') \<Longrightarrow> goes_on x \<Longrightarrow> R s s'"
  by (simp add: sustains_def)

lemma keeps_sustains: "keeps R c \<Longrightarrow> sustains R c"
  unfolding sustains_def by (metis keepsD)

lemma sustains_mono: "sustains R c \<Longrightarrow> (\<And>s s'. R s s' \<Longrightarrow> Q s s') \<Longrightarrow> sustains Q c"
  by (simp add: sustains_def)

lemma sustains_raise_other: "e \<noteq> ServiceDown \<Longrightarrow> e \<noteq> Undecidable \<Longrightarrow> sustains R (raise e)"
  by (auto simp: sustains_def raise_def)

lemma andthen_eq:
  "andthen c f s = (x, s'') \<longleftrightarrow>
     (\<exists>y s'. c s = (Inr y, s') \<and> f y s' = (x, s'')) \<or> (\<exists>e. c s = (Inl e, s'') \<and> x = Inl e)"
  by (cases "c s"; cases "fst (c s)") (auto simp: andthen_def)

lemma handle_eq:
  "handle c h s = (x, s'') \<longleftrightarrow>
     (\<exists>y. c s = (Inr y, s'') \<and> x = Inr y) \<or> (\<exists>e s'. c s = (Inl e, s') \<and> h e s' = (x, s''))"
  by (cases "c s"; cases "fst (c s)") (auto simp: handle_def)

lemma gets_eq [simp]: "gets f s = (x, s') \<longleftrightarrow> x = Inr (f s) \<and> s' = s"
  by (auto simp: gets_def)

lemma modify_eq [simp]: "modify f s = (x, s') \<longleftrightarrow> x = Inr () \<and> s' = f s"
  by (auto simp: modify_def)

lemma ret_eq [simp]: "ret a s = (x, s') \<longleftrightarrow> x = Inr a \<and> s' = s"
  by (auto simp: ret_def)

lemma raise_eq [simp]: "raise e s = (x, s') \<longleftrightarrow> x = Inl e \<and> s' = s"
  by (auto simp: raise_def)

lemma lift_eq [simp]: "lift f s = (x, s') \<longleftrightarrow> x = f s \<and> s' = s"
  by (auto simp: lift_def)

lemma unless_none_eq [simp]:
  "unless_none e v s = (x, s') \<longleftrightarrow> s' = s \<and> x = (case v of None \<Rightarrow> Inl e | Some y \<Rightarrow> Inr y)"
  by (auto simp: unless_none_def split: option.split)

lemma the_rev_eq [simp]:
  "the_rev r m = (x, m') \<longleftrightarrow> m' = m \<and>
     x = (case revision m r of None \<Rightarrow> Inl (PyError ''KeyError'') | Some rv \<Rightarrow> Inr rv)"
  by (auto simp: the_rev_def andthen_eq)

lemma sustains_case_option:
  "sustains R a \<Longrightarrow> (\<And>x. sustains R (f x)) \<Longrightarrow>
     sustains R (case v of None \<Rightarrow> a | Some x \<Rightarrow> f x)"
  by (cases v) auto

lemma sustains_case_prod: "(\<And>a b. sustains R (f a b)) \<Longrightarrow> sustains R (case v of (a, b) \<Rightarrow> f a b)"
  by (cases v) auto

lemma sustains_case_obj:
  "(\<And>r. sustains R (f r)) \<Longrightarrow> (\<And>r n. sustains R (g r n)) \<Longrightarrow>
     sustains R (case v of ORev r \<Rightarrow> f r | ONode r n \<Rightarrow> g r n)"
  by (cases v) auto

lemma sustains_let: "sustains R (f x) \<Longrightarrow> sustains R (let y = x in f y)"
  by simp

lemmas sustains_cases = sustains_case_option sustains_case_prod sustains_case_obj sustains_let

context state_preorder
begin

lemma sustains_andthen:
  assumes "sustains R c" and "\<And>x. sustains R (f x)"
  shows "sustains R (andthen c f)"
  unfolding sustains_def
proof (intro allI impI)
  fix s x s'' assume "andthen c f s = (x, s'')" and x: "goes_on x"
  then consider y s' where "c s = (Inr y, s')" "f y s' = (x, s'')"
    | e where "c s = (Inl e, s'')" "x = Inl e"
    by (auto simp: andthen_eq)
  then show "R s s''"
  proof cases
    case 1
    then show ?thesis
      using assms x by (meson compose goes_on.simps(1) sustainsD)
  next
    case 2
    then show ?thesis using assms(1) x by (auto simp: sustains_def)
  qed
qed

lemma sustains_handle:
  assumes "sustains R c" and "\<And>e. sustains R (h e)"
    and "\<And>e s. \<not> goes_on (Inl e :: exn + 'b) \<Longrightarrow> h e s = (Inl e, s)"
  shows "sustains R (handle c h :: ('s, exn, 'b) comp)"
  unfolding sustains_def
proof (intro allI impI)
  fix s x s'' assume "handle c h s = (x, s'')" and x: "goes_on x"
  then consider y where "c s = (Inr y, s'')"
    | e s' where "c s = (Inl e, s')" "h e s' = (x, s'')" "goes_on (Inl e :: exn + 'b)"
    using assms(3) by (fastforce simp: handle_eq)
  then show "R s s''"
  proof cases
    case 1
    then show ?thesis using assms(1) by (auto simp: sustains_def)
  next
    case 2
    then show ?thesis using assms(1,2) x by (meson compose goes_on.simps sustainsD)
  qed
qed

lemma sustains_ret: "sustains R (ret x)"
  by (rule keeps_sustains) (rule keeps_ret)

lemma sustains_raise: "sustains R (raise e)"
  by (rule keeps_sustains) (rule keeps_raise)

lemma sustains_gets: "sustains R (gets f)"
  by (rule keeps_sustains) (rule keeps_gets)

lemma sustains_lift: "sustains R (lift f)"
  by (rule keeps_sustains) (rule keeps_lift)

lemma sustains_unless_none: "sustains R (unless_none e x)"
  by (rule keeps_sustains) (rule keeps_unless_none)

lemma sustains_only_if: "sustains R c \<Longrightarrow> sustains R (only_if b c)"
  by (simp add: only_if_def sustains_ret)

lemma sustains_block: "(\<And>c. c \<in> set cs \<Longrightarrow> sustains R c) \<Longrightarrow> sustains R (block cs)"
  by (induction cs) (auto intro: sustains_ret sustains_andthen)

lemma sustains_each: "(\<And>x. sustains R (f x)) \<Longrightarrow> sustains R (each f xs)"
  by (induction xs) (auto intro: sustains_ret sustains_andthen)

lemma sustains_loop: "(\<And>x acc. sustains R (f x acc)) \<Longrightarrow> sustains R (loop f xs acc)"
  by (induction xs arbitrary: acc) (auto intro: sustains_ret sustains_andthen)

lemma sustains_if: "sustains R a \<Longrightarrow> sustains R b \<Longrightarrow> sustains R (if c then a else b)"
  by simp

lemmas sustaining = sustains_ret sustains_raise sustains_gets sustains_lift sustains_unless_none
  sustains_andthen sustains_only_if sustains_block sustains_each sustains_loop sustains_if

end

section \<open>Computations that never stop on a question\<close>

text \<open>An exception of such a computation is never one the code carries on from.\<close>

definition sturdy :: "('s, exn, 'a) comp \<Rightarrow> bool" where
  "sturdy c \<longleftrightarrow> (\<forall>s e s'. c s = (Inl e, s') \<longrightarrow> e \<noteq> ServiceDown \<and> e \<noteq> Undecidable)"

definition sturdy_value :: "exn + 'a \<Rightarrow> bool" where
  "sturdy_value v \<longleftrightarrow> v \<noteq> Inl ServiceDown \<and> v \<noteq> Inl Undecidable"

lemma sturdyD: "sturdy c \<Longrightarrow> c s = (Inl e, s') \<Longrightarrow> \<not> goes_on (Inl e :: exn + 'b)"
  by (auto simp: sturdy_def)

lemma sturdy_ret: "sturdy (ret x)"
  by (simp add: sturdy_def)

lemma sturdy_raise: "e \<noteq> ServiceDown \<Longrightarrow> e \<noteq> Undecidable \<Longrightarrow> sturdy (raise e)"
  by (simp add: sturdy_def)

lemma sturdy_gets: "sturdy (gets f)"
  by (simp add: sturdy_def)

lemma sturdy_modify: "sturdy (modify f)"
  by (simp add: sturdy_def)

lemma sturdy_lift: "(\<And>s. sturdy_value (f s)) \<Longrightarrow> sturdy (lift f)"
  by (fastforce simp: sturdy_def sturdy_value_def)

lemma sturdy_unless_none: "e \<noteq> ServiceDown \<Longrightarrow> e \<noteq> Undecidable \<Longrightarrow> sturdy (unless_none e x)"
  by (auto simp: sturdy_def split: option.splits)

lemma sturdy_andthen: "sturdy c \<Longrightarrow> (\<And>x. sturdy (f x)) \<Longrightarrow> sturdy (andthen c f)"
  unfolding sturdy_def andthen_eq by blast

lemma sturdy_only_if: "sturdy c \<Longrightarrow> sturdy (only_if b c)"
  by (simp add: only_if_def sturdy_ret)

lemma sturdy_if: "sturdy a \<Longrightarrow> sturdy b \<Longrightarrow> sturdy (if c then a else b)"
  by simp

lemma sturdy_block: "(\<And>c. c \<in> set cs \<Longrightarrow> sturdy c) \<Longrightarrow> sturdy (block cs)"
  by (induction cs) (auto intro: sturdy_ret sturdy_andthen)

lemma sturdy_each: "(\<And>x. sturdy (f x)) \<Longrightarrow> sturdy (each f xs)"
  by (induction xs) (auto intro: sturdy_ret sturdy_andthen)

lemma sturdy_case_option:
  "sturdy a \<Longrightarrow> (\<And>x. sturdy (f x)) \<Longrightarrow> sturdy (case v of None \<Rightarrow> a | Some x \<Rightarrow> f x)"
  by (cases v) auto

lemma sturdy_case_obj:
  "(\<And>r. sturdy (f r)) \<Longrightarrow> (\<And>r n. sturdy (g r n)) \<Longrightarrow>
     sturdy (case v of ORev r \<Rightarrow> f r | ONode r n \<Rightarrow> g r n)"
  by (cases v) auto

lemma sturdy_case_landing:
  "(\<And>s. sturdy (f s)) \<Longrightarrow> sturdy b \<Longrightarrow> sturdy (case v of To s \<Rightarrow> f s | CourseStops \<Rightarrow> b)"
  by (cases v) auto

lemma sturdy_let: "sturdy (f x) \<Longrightarrow> sturdy (let y = x in f y)"
  by simp

lemma sturdy_value_ebind:
  "sturdy_value v \<Longrightarrow> (\<And>x. sturdy_value (f x)) \<Longrightarrow> sturdy_value (ebind v f)"
  by (cases v) (auto simp: sturdy_value_def)

lemma sturdy_value_traverse: "(\<And>x. sturdy_value (f x)) \<Longrightarrow> sturdy_value (traverse f xs)"
  by (induction xs) (auto intro!: sturdy_value_ebind, auto simp: sturdy_value_def)

lemma sturdy_value_Inr: "sturdy_value (Inr x)"
  by (simp add: sturdy_value_def)

lemma sturdy_value_error: "sturdy_value (Inl (PyError e))"
  by (simp add: sturdy_value_def)

lemma sturdy_all_current: "sturdy_value (all_current cur a)"
  by (induction cur a rule: all_current.induct) (auto simp: sturdy_value_def split: option.split)

lemma sturdy_the_rev: "sturdy (the_rev r)"
  by (simp add: the_rev_def sturdy_andthen sturdy_gets sturdy_unless_none)

lemma sturdy_the_node: "sturdy (the_node r n)"
  by (simp add: the_node_def sturdy_andthen sturdy_gets sturdy_unless_none)

lemma sturdy_current_stamps: "sturdy current_stamps"
  by (simp add: current_stamps_def sturdy_gets)

lemma sturdy_the_pending: "sturdy (the_pending x)"
  by (simp add: the_pending_def attribute_error_def sturdy_andthen sturdy_gets sturdy_unless_none)

lemma sturdy_set_repair: "sturdy (set_repair x f)"
  by (simp add: set_repair_def sturdy_modify)

lemmas sturdy_intros = sturdy_ret sturdy_gets sturdy_modify sturdy_lift sturdy_andthen
  sturdy_only_if sturdy_if sturdy_block sturdy_each sturdy_case_option sturdy_case_obj
  sturdy_case_landing sturdy_let sturdy_value_ebind sturdy_value_traverse sturdy_value_Inr
  sturdy_value_error sturdy_all_current sturdy_the_rev sturdy_the_node sturdy_current_stamps
  sturdy_the_pending sturdy_set_repair

lemma sturdy_entry_id: "sturdy_value (entry_id d)"
  by (cases d) (auto simp: sturdy_value_def split: option.split)

lemma sturdy_spec_id: "sturdy_value (spec_id d)"
  by (auto intro!: sturdy_intros sturdy_entry_id split: pyval.split)

lemma sturdy_proposal_nodes: "sturdy_value (proposal_nodes d)"
  by (cases d) (auto simp: sturdy_value_def split: option.split pyval.split)

lemma sturdy_inherit: "sturdy (inherit c rv x)"
  unfolding inherit_def add_node_def
  by (cases x) (auto intro!: sturdy_intros)

lemma sturdy_fork: "sturdy (fork r)"
  unfolding fork_def by (auto intro!: sturdy_intros sturdy_inherit)

lemma sturdy_advance_outline: "sturdy (advance_outline r)"
  unfolding advance_outline_def commit_node_def add_node_def
  by (auto intro!: sturdy_intros sturdy_spec_id sturdy_proposal_nodes simp del: spec_id.simps)

lemma sturdy_discard_proposal: "sturdy (discard_proposal r)"
  unfolding discard_proposal_def key_error_def
  by (intro sturdy_intros) (auto intro: sturdy_intros split: option.split)

lemma sturdy_note_effect: "sturdy (note_effect k x old)"
  by (cases k) (auto simp: rev_note_def attribute_error_def restamp_def spend_consent_def recover_from_def Let_def
      intro!: sturdy_intros sturdy_advance_outline sturdy_discard_proposal sturdy_fork sturdy_raise split: obj.split st.split)

lemma sturdy_operation_of: "sturdy (operation_of k s)"
  unfolding operation_of_def key_error_def by (intro sturdy_intros sturdy_unless_none) simp_all

lemma sturdy_after_revision: "sturdy (after_revision t r old new p)"
  unfolding after_revision_def enter_block_def leave_block_def back_to_work_def enter_recovery_def
    leave_recovery_def stamp_brief_def enter_stale_review_def clear_pointer_def Let_def key_error_def
  by (auto intro!: sturdy_intros sturdy_operation_of sturdy_unless_none)

lemma sturdy_after_node: "sturdy (after_node r n old new p)"
  unfolding after_node_def node_validated_def node_approved_def node_recovers_def Let_def
  by (auto intro!: sturdy_intros sturdy_operation_of)

lemma sturdy_after_transition: "sturdy (after_transition t x old p)"
  unfolding after_transition_def key_error_def
  by (auto intro!: sturdy_intros sturdy_after_revision sturdy_after_node sturdy_note_effect
      sturdy_raise split: obj.split st.split option.split)

lemma sturdy_move: "sturdy (move t x s p)"
  unfolding move_def the_state_def set_state_def key_error_def
  by (auto intro!: sturdy_intros sturdy_after_transition sturdy_raise sturdy_unless_none
      split: obj.split st.split)

lemma sturdy_target_of: "sturdy (target_of E k x)"
  by (cases k) (auto simp: attribute_error_def landing_state_def sturdy_value_def
      intro!: sturdy_intros sturdy_raise split: obj.split option.split)

lemma sturdy_apply_row: "sturdy (apply_row E t x p)"
  unfolding apply_row_def the_state_def key_error_def
  by (intro sturdy_intros sturdy_after_transition sturdy_target_of sturdy_move sturdy_raise
      sturdy_unless_none) simp_all

end
