(* ===== verification/Lifecycle.thy ===== *)
theory Lifecycle
  imports Outcomes
begin

text \<open>
  What a revision's state says about it.  A \<open>view\<close> is the part of a revision the life cycle
  turns on; most operations leave it as it is, and a row of the revision table changes it by
  the few rules this theory isolates.
\<close>

section \<open>Views\<close>

record view =
  v_state :: rev_state
  v_ever :: bool
  v_pending :: "operation option"
  v_at :: "string option"
  v_from :: "rev_state option"
  v_body :: "(string \<times> node_state \<times> pyval \<times> pyval) list"
  v_outline :: "string list option"
  v_version :: int

definition node_text :: "node_record \<Rightarrow> node_state \<times> pyval \<times> pyval" where
  "node_text n = (n_state n, n_content n, n_spec n)"

definition view_of :: "revision_record \<Rightarrow> view" where
  "view_of rv = \<lparr>v_state = r_state rv, v_ever = r_ever_published rv, v_pending = r_pending rv,
     v_at = r_blocked_at rv, v_from = r_blocked_from rv,
     v_body = map (\<lambda>(i, n). (i, node_text n)) (r_nodes rv),
     v_outline = r_committed_outline rv, v_version = r_outline_version rv\<rparr>"

definition views :: "machine \<Rightarrow> int \<Rightarrow> view option" where
  "views m r = map_option view_of (revision m r)"

definition pointer :: "machine \<Rightarrow> int option" where
  "pointer m = st_live_pointer (m_store m)"

definition v_draft :: "view \<Rightarrow> bool" where
  "v_draft v \<longleftrightarrow> \<not> v_ever v \<and> v_state v \<noteq> Archived \<and> v_state v \<noteq> BlockedFinal"

lemma v_draft_view_of [simp]: "v_draft (view_of rv) = is_draft rv"
  by (auto simp: v_draft_def view_of_def is_draft_def)

lemma revision_on_rev:
  "revision (on_rev r f m) r' = (if r' = r then map_option f (revision m r) else revision m r')"
  by (simp add: revision_def on_rev_def on_store_def lookup_map_entry)

lemma views_on_rev:
  "views (on_rev r f m) r'
     = (if r' = r then map_option (view_of \<circ> f) (revision m r) else views m r')"
  by (simp add: views_def revision_on_rev option.map_comp)

lemma pointer_on_rev [simp]: "pointer (on_rev r f m) = pointer m"
  by (simp add: pointer_def on_rev_def on_store_def)

section \<open>Operations that leave every view\<close>

definition same_views :: "machine \<Rightarrow> machine \<Rightarrow> bool" where
  "same_views m m' \<longleftrightarrow> views m' = views m \<and> (pointer m' = pointer m \<or> pointer m' = None)"

lemma same_views_on_rev:
  assumes "\<And>x. view_of (f x) = view_of x"
  shows "same_views m (on_rev r f m)"
  using assms
  by (auto simp: same_views_def views_def revision_on_rev option.map_comp comp_def fun_eq_iff)

lemma same_views_on_store:
  "st_revisions (f (m_store m)) = st_revisions (m_store m) \<Longrightarrow>
     st_live_pointer (f (m_store m)) \<in> {st_live_pointer (m_store m), None} \<Longrightarrow>
     same_views m (on_store f m)"
  by (auto simp: same_views_def views_def revision_def on_store_def pointer_def fun_eq_iff)

interpretation viewing: decision_frame same_views
proof
  show "same_views s s" for s by (simp add: same_views_def)
  show "same_views s t \<Longrightarrow> same_views t u \<Longrightarrow> same_views s u" for s t u
    by (auto simp: same_views_def)
  show "same_views m (m\<lparr>m_cache := c, m_cached_at := k\<rparr>)" for m c k
    by (simp add: same_views_def views_def revision_def pointer_def fun_eq_iff)
qed (rule same_views_on_rev, simp add: view_of_def)+

lemmas dull = viewing.combinators keeps_cases viewing.keeps_the_rev viewing.keeps_the_node
  viewing.keeps_block viewing.keeps_modify same_views_on_rev same_views_on_store

lemma dull_current_stamps: "keeps same_views current_stamps"
  unfolding current_stamps_def by (intro dull)

lemma dull_the_pending: "keeps same_views (the_pending x)"
  unfolding the_pending_def by (intro dull)

lemma dull_set_repair: "keeps same_views (set_repair (ORev r) f)"
  unfolding set_repair_def by (auto intro!: dull simp: view_of_def)

lemma dull_use_key: "keeps same_views (use_key p)"
  unfolding use_key_def by (intro dull) auto

lemma dull_note_change: "keeps same_views (note_change x e p)"
  unfolding note_change_def by (intro dull) auto

lemma dull_refuse_unchecked: "keeps same_views (refuse_unchecked x e p)"
  unfolding refuse_unchecked_def Let_def by (intro dull)

lemma dull_note_refusal: "keeps same_views (note_refusal (ORev r) e p)"
  unfolding note_refusal_def set_refusal_def Let_def
  by (auto intro!: dull simp: view_of_def)

lemma dull_note_screening: "keeps same_views (note_screening x p)"
  unfolding note_screening_def Let_def by (intro dull) (simp add: view_of_def)

lemma dull_note_signatures: "keeps same_views (note_signatures r p)"
  unfolding note_signatures_def Let_def by (intro dull) (simp add: view_of_def)

lemma dull_event_fact: "keeps same_views (event_fact (ORev r) e p)"
  by (cases e) (auto intro!: dull dull_use_key dull_note_screening dull_note_signatures
      simp: view_of_def)

lemma dull_on_event: "keeps same_views (on_event (ORev r) e p)"
  unfolding on_event_def
  by (auto intro!: dull dull_note_change dull_refuse_unchecked dull_note_refusal dull_event_fact
      simp: view_of_def)

lemma dull_discard_proposal: "keeps same_views (discard_proposal r)"
  unfolding discard_proposal_def by (intro dull) (simp add: view_of_def)

lemma dull_restamp: "keeps same_views (restamp r)"
  unfolding restamp_def Let_def
  by (intro dull dull_current_stamps)
    (simp add: view_of_def case_prod_unfold comp_def node_text_def restamp_node_def)

lemma dull_spend_consent: "keeps same_views (spend_consent r)"
  unfolding spend_consent_def Let_def by (intro dull) (simp add: view_of_def)

lemma dull_record_step: "keeps same_views (record_step r e p producer)"
  unfolding record_step_def by (intro dull) auto

section \<open>Operations on one revision's view\<close>

definition acts :: "int \<Rightarrow> (view \<Rightarrow> view \<Rightarrow> bool) \<Rightarrow> machine \<Rightarrow> machine \<Rightarrow> bool" where
  "acts r P m m' \<longleftrightarrow> (\<forall>r'. r' \<noteq> r \<longrightarrow> views m' r' = views m r')
     \<and> rel_option P (views m r) (views m' r) \<and> (pointer m' = pointer m \<or> pointer m' = None)"

definition does :: "int \<Rightarrow> (view \<Rightarrow> view \<Rightarrow> bool) \<Rightarrow> 'a act \<Rightarrow> bool" where
  "does r P c \<longleftrightarrow> (\<forall>m x m'. c m = (Inr x, m') \<longrightarrow> acts r P m m')"

lemma acts_mono: "acts r P m m' \<Longrightarrow> (\<And>v v'. P v v' \<Longrightarrow> Q v v') \<Longrightarrow> acts r Q m m'"
  by (auto simp: acts_def elim: option.rel_mono_strong)

lemma acts_trans: "acts r P m m' \<Longrightarrow> acts r Q m' m'' \<Longrightarrow> acts r (P OO Q) m m''"
  by (auto simp: acts_def option.rel_compp)

lemma same_views_acts: "same_views m m' \<Longrightarrow> acts r (=) m m'"
  by (auto simp: same_views_def acts_def option.rel_eq)

lemma does_dull: "keeps same_views c \<Longrightarrow> does r (=) c"
  unfolding does_def by (metis keepsD same_views_acts)

lemma does_andthen: "does r P c \<Longrightarrow> (\<And>x. does r Q (f x)) \<Longrightarrow> does r (P OO Q) (andthen c f)"
  unfolding does_def andthen_eq by (blast intro: acts_trans)

lemma does_after_dull: "keeps same_views c \<Longrightarrow> (\<And>x. does r P (f x)) \<Longrightarrow> does r P (andthen c f)"
  using does_andthen [of r "(=)" c P f] by (simp add: does_dull eq_OO)

lemma does_before_dull: "does r P c \<Longrightarrow> (\<And>x. keeps same_views (f x)) \<Longrightarrow> does r P (andthen c f)"
  using does_andthen [of r P c "(=)" f] by (simp add: does_dull OO_eq)

definition only_v :: "bool \<Rightarrow> (view \<Rightarrow> view \<Rightarrow> bool) \<Rightarrow> view \<Rightarrow> view \<Rightarrow> bool" where
  "only_v b P v v' \<longleftrightarrow> (if b then P v v' else v' = v)"

lemma does_only_if: "(b \<Longrightarrow> does r P c) \<Longrightarrow> does r (only_v b P) (only_if b c)"
  by (cases b) (auto simp: only_if_def only_v_def [abs_def] eq_commute
      intro: does_dull viewing.keeps_ret)

lemma does_ret: "does r (=) (ret x)"
  by (intro does_dull viewing.keeps_ret)

lemma does_block_dull: "keeps same_views c \<Longrightarrow> does r P (block cs) \<Longrightarrow> does r P (block (c # cs))"
  by (simp add: does_after_dull)

lemma does_block_step: "does r P c \<Longrightarrow> does r Q (block cs) \<Longrightarrow> does r (P OO Q) (block (c # cs))"
  by (simp add: does_andthen)

lemma does_block_last: "does r P c \<Longrightarrow> does r P (block [c])"
  by (simp add: does_before_dull viewing.keeps_ret)

lemma acts_on_rev:
  "(\<And>x. revision m r = Some x \<Longrightarrow> P (view_of x) (view_of (f x))) \<Longrightarrow> acts r P m (on_rev r f m)"
  by (cases "revision m r") (auto simp: acts_def views_def revision_on_rev)

lemma does_on_rev: "(\<And>x. P (view_of x) (view_of (f x))) \<Longrightarrow> does r P (modify (on_rev r f))"
  by (auto simp: does_def intro!: acts_on_rev)

definition enter_v :: "rev_state \<Rightarrow> view \<Rightarrow> view \<Rightarrow> bool" where
  "enter_v old v v' \<longleftrightarrow> (\<exists>issued.
     (if old = ErrorRecovery then map_option op_issued_from (v_pending v) = Some issued
      else issued = RevSt old)
     \<and> v' = v\<lparr>v_at := phase_of issued, v_from := (case issued of RevSt s \<Rightarrow> Some s | NodeSt _ \<Rightarrow> None)\<rparr>)"

definition leave_v :: "view \<Rightarrow> view \<Rightarrow> bool" where
  "leave_v v v' \<longleftrightarrow> v' = v\<lparr>v_at := None, v_from := None\<rparr>"

definition recover_v :: "rev_state \<Rightarrow> view \<Rightarrow> view \<Rightarrow> bool" where
  "recover_v old v v' \<longleftrightarrow> (\<exists>k e. awaited (RevSt old) = Some e
     \<and> v' = v\<lparr>v_pending := Some \<lparr>op_key = k, op_issued_from = RevSt old, op_awaited = e\<rparr>\<rparr>)"

definition answer_v :: "view \<Rightarrow> view \<Rightarrow> bool" where
  "answer_v v v' \<longleftrightarrow> v' = v\<lparr>v_pending := None\<rparr>"

definition publish_v :: "view \<Rightarrow> view \<Rightarrow> bool" where
  "publish_v v v' \<longleftrightarrow> v' = v\<lparr>v_ever := True\<rparr>"

definition state_v :: "rev_state \<Rightarrow> view \<Rightarrow> view \<Rightarrow> bool" where
  "state_v s v v' \<longleftrightarrow> v' = v\<lparr>v_state := s\<rparr>"

lemma does_enter_block: "does r (enter_v old) (enter_block r old)"
  unfolding does_def
proof (intro allI impI)
  fix m x m' assume "enter_block r old m = (Inr x, m')"
  then obtain issued where i: "if old = ErrorRecovery then map_option op_issued_from (pending_of m (ORev r)) = Some issued
      else issued = RevSt old"
    and m': "m' = on_rev r (\<lambda>x. x\<lparr>r_blocked_at := phase_of issued,
       r_blocked_from := (case issued of RevSt s \<Rightarrow> Some s | NodeSt _ \<Rightarrow> None)\<rparr>) m"
    by (auto simp: enter_block_def andthen_eq the_pending_def split: if_splits option.splits)
  show "acts r (enter_v old) m m'"
    unfolding m' using i
    by (intro acts_on_rev) (auto simp: view_of_def enter_v_def pending_of_def split: if_splits)
qed

lemma does_leave_block: "does r leave_v (leave_block r)"
  unfolding leave_block_def by (rule does_on_rev) (simp add: leave_v_def view_of_def)

lemma does_enter_recovery: "does r (recover_v old) (enter_recovery r old p)"
  unfolding does_def enter_recovery_def operation_of_def
  by (auto simp: andthen_eq view_of_def recover_v_def split: option.splits intro!: acts_on_rev)

lemma does_leave_recovery: "does r answer_v (leave_recovery r new)"
  unfolding leave_recovery_def
  by (intro does_after_dull dull_the_pending does_block_dull does_block_last does_on_rev
      viewing.keeps_only_if dull_set_repair) (simp add: answer_v_def view_of_def)

lemma dull_after_revision_parts:
  "keeps same_views (back_to_work r)" "keeps same_views (stamp_brief r)"
  "keeps same_views (enter_stale_review r t p)" "keeps same_views (clear_pointer r)"
  unfolding back_to_work_def stamp_brief_def enter_stale_review_def clear_pointer_def Let_def
  by (auto intro!: dull dull_current_stamps simp: view_of_def)

definition after_v :: "rev_state \<Rightarrow> rev_state \<Rightarrow> view \<Rightarrow> view \<Rightarrow> bool" where
  "after_v old new =
     only_v (new = BlockedRecoverable \<and> old \<noteq> BlockedRecoverable) (enter_v old)
     OO only_v (old = BlockedRecoverable \<and> new \<noteq> old) leave_v
     OO only_v (new = ErrorRecovery \<and> old \<noteq> new) (recover_v old)
     OO only_v (old = ErrorRecovery \<and> new \<noteq> old) answer_v
     OO only_v (new = Published \<and> old = Approved) publish_v"

lemma dull_only_if: "keeps same_views c \<Longrightarrow> keeps same_views (only_if b c)"
  by (rule viewing.keeps_only_if)

lemma dull_stamps:
  "keeps same_views (andthen current_stamps (\<lambda>cur. modify (on_rev r (\<lambda>x. x\<lparr>r_checked_stamps := cur\<rparr>))))"
  "keeps same_views (modify (on_rev r (\<lambda>x. x\<lparr>r_stamps := r_checked_stamps x\<rparr>)))"
  by (auto intro!: dull dull_current_stamps simp: view_of_def)

lemma does_publish:
  "does r publish_v (modify (on_rev r (\<lambda>x. x\<lparr>r_ever_published := True, r_awaiting_pointer := True\<rparr>)))"
  by (rule does_on_rev) (simp add: view_of_def publish_v_def)

lemma does_after_revision: "does r (after_v old new) (after_revision t r old new p)"
  unfolding after_revision_def after_v_def
  apply (rule does_block_step [OF does_only_if [OF does_enter_block]])
  apply (rule does_block_step [OF does_only_if [OF does_leave_block]])
  apply (rule does_block_dull [OF dull_only_if [OF dull_after_revision_parts(1)]])
  apply (rule does_block_dull [OF dull_only_if [OF dull_stamps(1)]])
  apply (rule does_block_dull [OF dull_only_if [OF dull_stamps(2)]])
  apply (rule does_block_step [OF does_only_if [OF does_enter_recovery]])
  apply (rule does_block_step [OF does_only_if [OF does_leave_recovery]])
  apply (rule does_block_dull [OF dull_only_if [OF dull_set_repair]])
  apply (rule does_block_dull [OF dull_only_if [OF dull_after_revision_parts(2)]])
  apply (rule does_block_dull [OF dull_only_if [OF dull_after_revision_parts(3)]])
  apply (rule does_block_dull [OF dull_only_if [OF dull_after_revision_parts(4)]])
  apply (rule does_block_last [OF does_only_if [OF does_publish]])
  done

section \<open>A row of the revision table\<close>

text \<open>Everything but the outline, its version and the text of the nodes is as it was.\<close>

definition text_v :: "view \<Rightarrow> view \<Rightarrow> bool" where
  "text_v v v' \<longleftrightarrow> v' = v\<lparr>v_body := v_body v', v_outline := v_outline v', v_version := v_version v'\<rparr>
     \<and> (distinct (map fst (v_body v)) \<longrightarrow> distinct (map fst (v_body v')))"

lemma text_v_refl: "text_v v v"
  by (simp add: text_v_def)

lemma text_v_iff: "text_v v v' \<longleftrightarrow> v_state v' = v_state v \<and> v_ever v' = v_ever v
    \<and> v_pending v' = v_pending v \<and> v_at v' = v_at v \<and> v_from v' = v_from v
    \<and> (distinct (map fst (v_body v)) \<longrightarrow> distinct (map fst (v_body v')))"
  by (cases v; cases v') (auto simp: text_v_def)

lemma text_v_trans: "text_v OO text_v = text_v"
  by (auto simp: fun_eq_iff text_v_iff intro: relcomppI)

lemma does_mono: "does r P c \<Longrightarrow> (\<And>v v'. P v v' \<Longrightarrow> Q v v') \<Longrightarrow> does r Q c"
  unfolding does_def by (blast intro: acts_mono)

lemma does_text_dull: "keeps same_views c \<Longrightarrow> does r text_v c"
  by (rule does_mono [OF does_dull]) (auto simp: text_v_refl)

lemma does_text_andthen:
  "does r text_v c \<Longrightarrow> (\<And>x. does r text_v (f x)) \<Longrightarrow> does r text_v (andthen c f)"
  using does_andthen [of r text_v c text_v f] by (simp add: text_v_trans)

lemma does_text_each: "(\<And>x. does r text_v (f x)) \<Longrightarrow> does r text_v (each f xs)"
  by (induction xs) (auto intro: does_text_andthen does_text_dull viewing.keeps_ret)

lemma does_text_block: "(\<And>c. c \<in> set cs \<Longrightarrow> does r text_v c) \<Longrightarrow> does r text_v (block cs)"
  by (induction cs) (auto intro: does_text_andthen does_text_dull viewing.keeps_ret)

lemma does_text_on_rev:
  "(\<And>x. text_v (view_of x) (view_of (f x))) \<Longrightarrow> does r text_v (modify (on_rev r f))"
  by (rule does_on_rev)

lemma does_text_if: "does r text_v a \<Longrightarrow> does r text_v b \<Longrightarrow> does r text_v (if c then a else b)"
  by simp

lemmas texting = does_text_andthen does_text_each does_text_block does_text_if
  does_text_dull [OF viewing.keeps_lift] does_text_dull [OF viewing.keeps_the_rev]
  does_text_dull [OF viewing.keeps_the_node] does_text_dull [OF viewing.keeps_ret]

lemma fst_case_prod [simp]: "fst \<circ> (\<lambda>(i, n). (i, f n)) = fst"
  by auto

lemma distinct_keys_update:
  "distinct (map fst al) \<Longrightarrow> distinct (map fst (AList.update k v al))"
  by (rule distinct_update)

lemma does_add_node: "does r text_v (add_node r i nd)"
  unfolding add_node_def
  by (rule does_on_rev) (simp add: text_v_iff view_of_def distinct_keys_update)

lemma does_text_on_node: "does r text_v (modify (on_node r n f))"
  unfolding on_node_def by (rule does_on_rev) (simp add: text_v_iff view_of_def)

lemma does_commit_node: "does r text_v (commit_node r d)"
  unfolding commit_node_def by (intro texting does_add_node does_text_on_node)

lemma does_advance_outline: "does r text_v (advance_outline r)"
  unfolding advance_outline_def
  by (auto intro!: texting does_commit_node does_text_on_rev simp: text_v_iff view_of_def)

definition note_v :: "row_note option \<Rightarrow> rev_state \<Rightarrow> view \<Rightarrow> view \<Rightarrow> bool" where
  "note_v k old v v' \<longleftrightarrow> (case k of
       Some OutlineVersionPlus1 \<Rightarrow> text_v v v'
     | Some BlockedAtNode \<Rightarrow> v' = v\<lparr>v_at := Some ''node'', v_from := Some old\<rparr>
     | _ \<Rightarrow> v' = v)"

lemma does_note_effect:
  "k \<noteq> Spawn \<Longrightarrow> does r (note_v (Some k) old) (note_effect k (ORev r) (RevSt old))"
proof (cases k)
  case OutlineVersionPlus1
  then show ?thesis by (simp add: rev_note_def note_v_def [abs_def] does_advance_outline)
next
  case BlockedAtNode
  then show ?thesis
    by (auto simp: rev_note_def note_v_def view_of_def intro: does_on_rev)
qed (auto simp: rev_note_def note_v_def [abs_def] eq_commute recover_from_def intro!: does_dull
  dull_discard_proposal dull_spend_consent dull_restamp dull_set_repair viewing.keeps_ret)

text \<open>What taking a row that does not spawn does to the view of the revision it moves.\<close>

definition moved_v :: "row_note option \<Rightarrow> rev_state \<Rightarrow> view \<Rightarrow> view \<Rightarrow> bool" where
  "moved_v k s v v' \<longleftrightarrow>
     (state_v s OO after_v (v_state v) s OO note_v k (v_state v)) v v'"

lemma revision_views: "views m r = Some v \<Longrightarrow> \<exists>rv. revision m r = Some rv \<and> v = view_of rv"
  by (auto simp: views_def)

lemma acts_state: "acts r (state_v s) m (on_rev r (\<lambda>rv. rv\<lparr>r_state := s\<rparr>) m)"
  by (rule acts_on_rev) (simp add: state_v_def view_of_def)

lemma after_transition_rev:
  assumes "after_transition t (ORev r) (RevSt old) p m = (Inr x, m')" "t_note t \<noteq> Some Spawn"
    and "in_state m r s"
  shows "acts r (after_v old s OO note_v (t_note t) old) m m'"
proof -
  obtain rv where "revision m r = Some rv" "r_state rv = s"
    using assms(3) by (auto simp: in_state_def split: option.splits)
  then have "block [after_revision t r old s p,
      case t_note t of None \<Rightarrow> ret () | Some k \<Rightarrow> note_effect k (ORev r) (RevSt old)] m = (Inr x, m')"
    using assms(1) by (simp add: after_transition_def andthen_eq)
  moreover have "does r (note_v (t_note t) old)
      (case t_note t of None \<Rightarrow> ret () | Some k \<Rightarrow> note_effect k (ORev r) (RevSt old))"
  proof (cases "t_note t")
    case None
    then show ?thesis by (simp add: note_v_def [abs_def] eq_commute does_ret)
  next
    case (Some k)
    then show ?thesis using assms(2) by (simp add: does_note_effect)
  qed
  then have "does r (after_v old s OO note_v (t_note t) old) (block [after_revision t r old s p,
      case t_note t of None \<Rightarrow> ret () | Some k \<Rightarrow> note_effect k (ORev r) (RevSt old)])"
    by (intro does_block_step does_block_last does_after_revision)
  ultimately show ?thesis unfolding does_def by blast
qed

lemma move_rev:
  assumes "move t (ORev r) (RevSt s) p m = (Inr x, m')" "t_note t \<noteq> Some Spawn"
  shows "\<exists>v. views m r = Some v \<and> acts r (\<lambda>v0. moved_v (t_note t) s v) m m'"
proof -
  obtain rv where rv: "revision m r = Some rv"
    and after: "after_transition t (ORev r) (RevSt (r_state rv)) p
      (on_rev r (\<lambda>rv. rv\<lparr>r_state := s\<rparr>) m) = (Inr x, m')"
    using assms(1)
    by (auto simp: move_def the_state_def set_state_def andthen_eq split: option.splits)
  have "in_state (on_rev r (\<lambda>rv. rv\<lparr>r_state := s\<rparr>) m) r s"
    by (simp add: in_state_def revision_on_rev rv)
  from acts_trans [OF acts_state after_transition_rev [OF after assms(2) this]]
  have "acts r (state_v s OO after_v (r_state rv) s OO note_v (t_note t) (r_state rv)) m m'" .
  moreover have "v_state (view_of rv) = r_state rv" by (simp add: view_of_def)
  ultimately show ?thesis
    by (cases "revision m' r") (auto simp: acts_def moved_v_def views_def rv)
qed

end
