(* ===== verification/Sealing.thy ===== *)
theory Sealing
  imports Lifecycle
begin

text \<open>
  The invariant of a revision's life, and the seal: once a revision is no longer a draft, it
  never is one again, and no operation changes its outline or the state, content or
  specification of its nodes.
\<close>

section \<open>The invariant\<close>

definition working :: "rev_state list" where
  "working = [AwaitingBrief, BriefValidation, BriefFeasibility, OutlineDrafting,
     OutlineGuardrail, OutlineChecks, OutlineRepair, OutlineReview, ContentInProgress,
     ReadyForReview, WholeCourseChecks, PendingApproval, Approved]"

definition shown :: "rev_state list" where
  "shown = [Published, StaleReview, Superseded, Withdrawn]"

lemma working_members [simp]:
  "AwaitingBrief \<in> set working" "BriefValidation \<in> set working" "BriefFeasibility \<in> set working"
  "OutlineDrafting \<in> set working" "OutlineGuardrail \<in> set working" "OutlineChecks \<in> set working"
  "OutlineRepair \<in> set working" "OutlineReview \<in> set working" "ContentInProgress \<in> set working"
  "ReadyForReview \<in> set working" "WholeCourseChecks \<in> set working" "PendingApproval \<in> set working"
  "Approved \<in> set working" "Published \<notin> set working" "StaleReview \<notin> set working"
  "Withdrawn \<notin> set working" "Superseded \<notin> set working" "Archived \<notin> set working"
  "BlockedFinal \<notin> set working" "BlockedRecoverable \<notin> set working" "ErrorRecovery \<notin> set working"
  by (simp_all add: working_def)

lemma shown_members [simp]:
  "AwaitingBrief \<notin> set shown" "BriefValidation \<notin> set shown" "BriefFeasibility \<notin> set shown"
  "OutlineDrafting \<notin> set shown" "OutlineGuardrail \<notin> set shown" "OutlineChecks \<notin> set shown"
  "OutlineRepair \<notin> set shown" "OutlineReview \<notin> set shown" "ContentInProgress \<notin> set shown"
  "ReadyForReview \<notin> set shown" "WholeCourseChecks \<notin> set shown" "PendingApproval \<notin> set shown"
  "Approved \<notin> set shown" "Published \<in> set shown" "StaleReview \<in> set shown"
  "Withdrawn \<in> set shown" "Superseded \<in> set shown" "Archived \<notin> set shown"
  "BlockedFinal \<notin> set shown" "BlockedRecoverable \<notin> set shown" "ErrorRecovery \<notin> set shown"
  by (simp_all add: shown_def)

text \<open>A revision held up came from a working state, or from a re-verification if it was published.\<close>

definition held_from :: "view \<Rightarrow> rev_state \<Rightarrow> bool" where
  "held_from v s \<longleftrightarrow> (if v_ever v then s = StaleReview else s \<in> set working)"

definition view_ok :: "view \<Rightarrow> bool" where
  "view_ok v \<longleftrightarrow> distinct (map fst (v_body v))
     \<and> (v_state v \<in> set shown \<longrightarrow> v_ever v)
     \<and> (v_ever v \<longrightarrow> v_state v \<notin> set working \<and> v_state v \<noteq> BlockedFinal)
     \<and> (v_state v = ErrorRecovery \<longrightarrow> (\<exists>op s. v_pending v = Some op \<and> op_issued_from op = RevSt s
          \<and> awaited (RevSt s) = Some (op_awaited op) \<and> held_from v s))
     \<and> (v_state v = BlockedRecoverable \<longrightarrow> (\<exists>s. v_from v = Some s \<and> v_at v = phase_of (RevSt s)
          \<and> held_from v s))"

definition sealed_v :: "view \<Rightarrow> view \<Rightarrow> bool" where
  "sealed_v v v' \<longleftrightarrow> (\<not> v_draft v \<longrightarrow> \<not> v_draft v' \<and> v_body v' = v_body v
     \<and> v_outline v' = v_outline v \<and> v_version v' = v_version v)"

section \<open>The effect of a move, by where it leads\<close>

lemmas after_defs = after_v_def only_v_def relcompp_apply

lemma after_plain:
  "old \<notin> {BlockedRecoverable, ErrorRecovery} \<Longrightarrow> s \<notin> {BlockedRecoverable, ErrorRecovery} \<Longrightarrow>
     \<not> (s = Published \<and> old = Approved) \<Longrightarrow> after_v old s v v' \<longleftrightarrow> v' = v"
  by (auto simp: after_defs)

lemma after_block:
  "old \<notin> {BlockedRecoverable, ErrorRecovery} \<Longrightarrow> after_v old BlockedRecoverable v v'
     \<longleftrightarrow> v' = v\<lparr>v_at := phase_of (RevSt old), v_from := Some old\<rparr>"
  by (simp add: after_defs enter_v_def)

lemma after_recover:
  "old \<notin> {BlockedRecoverable, ErrorRecovery} \<Longrightarrow>
     after_v old ErrorRecovery v v' \<longleftrightarrow> recover_v old v v'"
  by (simp add: after_defs)

lemma after_answer:
  "s \<notin> {BlockedRecoverable, ErrorRecovery} \<Longrightarrow> after_v ErrorRecovery s v v' \<longleftrightarrow> answer_v v v'"
  by (simp add: after_defs)

lemma after_answer_block:
  "after_v ErrorRecovery BlockedRecoverable v v' \<longleftrightarrow> (\<exists>w. enter_v ErrorRecovery v w \<and> answer_v w v')"
  by (simp add: after_defs)

lemma after_unblock:
  "s \<notin> {BlockedRecoverable, ErrorRecovery} \<Longrightarrow> after_v BlockedRecoverable s v v' \<longleftrightarrow> leave_v v v'"
  by (simp add: after_defs)

lemma after_publish: "after_v Approved Published v v' \<longleftrightarrow> publish_v v v'"
  by (simp add: after_defs)

lemmas move_defs = state_v_def recover_v_def answer_v_def leave_v_def publish_v_def enter_v_def

text \<open>The moves that need nothing of the guard.\<close>

definition safe_pair :: "rev_state \<Rightarrow> rev_state \<Rightarrow> bool" where
  "safe_pair old s \<longleftrightarrow>
     (old \<in> set working \<and> (s \<in> set working \<or> s \<in> {BlockedFinal, BlockedRecoverable, ErrorRecovery}
        \<or> old = Approved \<and> s = Published))
     \<or> (old \<in> set shown \<and> (s \<in> set shown \<or> s = Archived))
     \<or> (old = StaleReview \<and> s = ErrorRecovery)
     \<or> (old = ErrorRecovery \<and> s = BlockedRecoverable)"

definition bare_move :: "rev_state \<Rightarrow> view \<Rightarrow> view \<Rightarrow> bool" where
  "bare_move s v v' \<longleftrightarrow> after_v (v_state v) s (v\<lparr>v_state := s\<rparr>) v'"

definition safe :: "view \<Rightarrow> view \<Rightarrow> bool" where
  "safe v v' \<longleftrightarrow> view_ok v' \<and> sealed_v v v'"

lemma awaited_held: "awaited (RevSt s) = Some e \<Longrightarrow> s \<in> set working \<or> s = StaleReview"
  by (cases s) simp_all

lemma working_not:
  "s \<in> set working \<Longrightarrow> s \<notin> {BlockedRecoverable, ErrorRecovery, BlockedFinal, Archived, Published} \<and> s \<notin> set shown"
  by (cases s) simp_all

lemma shown_not:
  "s \<in> set shown \<Longrightarrow> s \<notin> {BlockedRecoverable, ErrorRecovery, BlockedFinal, Archived, Approved} \<and> s \<notin> set working"
  by (cases s) simp_all

lemmas safe_defs = safe_def view_ok_def sealed_v_def v_draft_def held_from_def

lemma bare_to_working_or_end:
  assumes "view_ok v" "v_state v \<in> set working" "s \<in> set working \<or> s \<in> {BlockedFinal, Archived}" "bare_move s v v'"
  shows "safe v v'"
proof -
  have "v' = v\<lparr>v_state := s\<rparr>"
    using assms working_not [of "v_state v"] working_not [of s]
    by (auto simp: bare_move_def after_plain)
  then show ?thesis
    using assms working_not [of "v_state v"] working_not [of s]
    by (auto simp: safe_defs)
qed

lemma bare_to_blocked:
  assumes "view_ok v" "v_state v \<in> set working" "bare_move BlockedRecoverable v v'"
  shows "safe v v'"
  using assms working_not [of "v_state v"]
  by (auto simp: bare_move_def after_block safe_defs)

lemma bare_to_recovery:
  assumes "view_ok v" "v_state v \<in> set working \<or> v_state v = StaleReview" "bare_move ErrorRecovery v v'"
  shows "safe v v'"
  using assms working_not [of "v_state v"]
  by (auto simp: bare_move_def after_recover recover_v_def safe_defs)

lemma bare_publish:
  assumes "view_ok v" "v_state v = Approved" "bare_move Published v v'"
  shows "safe v v'"
  using assms by (auto simp: bare_move_def after_publish publish_v_def safe_defs)

lemma bare_shown:
  assumes "view_ok v" "v_state v \<in> set shown" "s \<in> set shown \<or> s = Archived" "bare_move s v v'"
  shows "safe v v'"
proof -
  have "v' = v\<lparr>v_state := s\<rparr>"
    using assms shown_not [of "v_state v"] shown_not [of s]
    by (auto simp: bare_move_def after_plain)
  then show ?thesis
    using assms shown_not [of "v_state v"] shown_not [of s]
    by (auto simp: safe_defs)
qed

lemma bare_recovery_blocked:
  assumes "view_ok v" "v_state v = ErrorRecovery" "bare_move BlockedRecoverable v v'"
  shows "safe v v'"
  using assms
  by (auto simp: bare_move_def after_answer_block enter_v_def answer_v_def safe_defs)

lemma bare_safe_pair: "view_ok v \<Longrightarrow> safe_pair (v_state v) s \<Longrightarrow> bare_move s v v' \<Longrightarrow> safe v v'"
  unfolding safe_pair_def
  by (auto intro: bare_to_working_or_end bare_to_blocked bare_to_recovery bare_publish bare_shown
      bare_recovery_blocked)

section \<open>The moves that rest on a guard or on what was recorded\<close>

lemma bare_unblock:
  assumes "view_ok v" "v_state v = BlockedRecoverable" "\<not> v_ever v" "s \<in> set working \<or> s = Archived"
    "bare_move s v v'"
  shows "safe v v'"
  using assms working_not [of s]
  by (auto simp: bare_move_def after_unblock leave_v_def safe_defs)

lemma bare_back:
  assumes "view_ok v" "v_state v = BlockedRecoverable" "v_from v = Some s" "bare_move s v v'"
  shows "safe v v'"
  using assms working_not [of s]
  by (auto simp: bare_move_def after_unblock leave_v_def safe_defs split: if_splits)

lemma bare_withdraw:
  assumes "view_ok v" "v_ever v" "v_state v \<in> set live_lineage" "bare_move Withdrawn v v'"
  shows "safe v v'"
proof -
  have "v_state v \<in> set shown \<or> v_state v = ErrorRecovery \<or> v_state v = BlockedRecoverable"
    using assms(3) by (auto simp: live_lineage_def)
  then consider "v_state v \<in> set shown" | "v_state v = ErrorRecovery" | "v_state v = BlockedRecoverable"
    by blast
  then show ?thesis
  proof cases
    case 1 then show ?thesis using assms by (intro bare_shown) auto
  next
    case 2 then show ?thesis
      using assms by (auto simp: bare_move_def after_answer answer_v_def safe_defs)
  next
    case 3 then show ?thesis
      using assms by (auto simp: bare_move_def after_unblock leave_v_def safe_defs)
  qed
qed

lemma bare_discard:
  assumes "view_ok v" "\<not> v_ever v" "v_state v \<notin> set terminal" "bare_move Archived v v'"
  shows "safe v v'"
proof -
  have "v_state v \<in> set working \<or> v_state v = ErrorRecovery \<or> v_state v = BlockedRecoverable"
    using assms(1,2,3) by (cases "v_state v") (auto simp: view_ok_def terminal_def)
  then consider "v_state v \<in> set working" | "v_state v = ErrorRecovery" | "v_state v = BlockedRecoverable"
    by blast
  then show ?thesis
  proof cases
    case 1 then show ?thesis using assms by (intro bare_to_working_or_end) auto
  next
    case 2 then show ?thesis
      using assms by (auto simp: bare_move_def after_answer answer_v_def safe_defs)
  next
    case 3 then show ?thesis using assms by (intro bare_unblock) auto
  qed
qed

lemma bare_answered:
  assumes "view_ok v" "v_state v = ErrorRecovery" "\<not> v_ever v" "s \<in> set working" "bare_move s v v'"
  shows "safe v v'"
  using assms working_not [of s]
  by (auto simp: bare_move_def after_answer answer_v_def safe_defs)

lemma bare_reissued:
  assumes "view_ok v" "v_state v = ErrorRecovery" "v_pending v = Some op"
    "op_issued_from op = RevSt s" "bare_move s v v'"
  shows "safe v v'"
  using assms working_not [of s]
  by (auto simp: bare_move_def after_answer answer_v_def safe_defs split: if_splits)

section \<open>The revision table keeps the invariant\<close>

text \<open>What the literals a life turns on say of a view.\<close>

definition fact_v :: "literal \<Rightarrow> view \<Rightarrow> bool" where
  "fact_v l v \<longleftrightarrow>
     (l_name l = G_is_draft_revision \<longrightarrow> v_draft v \<noteq> l_negated l)
     \<and> (l_name l = G_in_live_lineage \<longrightarrow> (v_ever v \<and> v_state v \<in> set live_lineage) \<noteq> l_negated l)
     \<and> (l_name l = G_blocked_at \<longrightarrow> compare (v_at v) l = Inr (\<not> l_negated l))"

definition plain_guard :: "transition \<Rightarrow> bool" where
  "plain_guard t \<longleftrightarrow> \<not> g_complement (t_guard t) \<and> \<not> g_exists_node (t_guard t)"

definition guard_v :: "transition \<Rightarrow> view \<Rightarrow> bool" where
  "guard_v t v \<longleftrightarrow> (plain_guard t \<longrightarrow> (\<forall>l \<in> set (g_literals (t_guard t)). fact_v l v))"

definition has_literal :: "transition \<Rightarrow> literal \<Rightarrow> bool" where
  "has_literal t l \<longleftrightarrow> plain_guard t \<and> l \<in> set (g_literals (t_guard t))"

definition freeing :: "transition \<Rightarrow> bool" where
  "freeing t \<longleftrightarrow> has_literal t (yes G_is_draft_revision)
     \<or> has_literal t (cmp G_blocked_at None (Equals ''brief''))
     \<or> has_literal t (cmp G_blocked_at None (Equals ''outline''))"

fun plain_row_safe :: "transition \<Rightarrow> st option \<Rightarrow> st \<Rightarrow> bool" where
  "plain_row_safe t (Some (RevSt s)) (RevSt old) = (safe_pair old s
     \<or> old = BlockedRecoverable \<and> s \<in> set working \<and> freeing t)"
| "plain_row_safe t _ _ = False"

definition note_safe :: "transition \<Rightarrow> bool" where
  "note_safe t \<longleftrightarrow> t_note t \<noteq> Some Spawn
     \<and> (t_note t = Some OutlineVersionPlus1 \<longrightarrow> t_source_rule t = None
          \<and> t_sources t = [RevSt OutlineReview])
     \<and> (t_note t = Some BlockedAtNode \<longrightarrow> t_source_rule t = None \<and> t_target_rule t = None
          \<and> t_sources t = [RevSt ContentInProgress] \<and> t_target t = Some (RevSt BlockedRecoverable))"

definition row_safe :: "transition \<Rightarrow> bool" where
  "row_safe t \<longleftrightarrow> t_spawn t \<and> t_note t = Some Spawn \<or> \<not> t_spawn t \<and> note_safe t \<and> (case t_source_rule t of
       None \<Rightarrow> (case t_target_rule t of
           None \<Rightarrow> (\<forall>old \<in> set (t_sources t). plain_row_safe t (t_target t) old)
         | Some StateThatBlocked \<Rightarrow> t_sources t = [RevSt BlockedRecoverable]
         | Some CourseBlocked \<Rightarrow> False
         | Some _ \<Rightarrow> t_sources t = [RevSt ErrorRecovery])
     | Some LiveLineage \<Rightarrow> t_target_rule t = None \<and> t_target t = Some (RevSt Withdrawn)
         \<and> has_literal t (yes_of G_in_live_lineage ''revision'')
     | Some NonTerminalDraft \<Rightarrow> t_target_rule t = None \<and> t_target t = Some (RevSt Archived)
     | Some NotRemoved \<Rightarrow> False)"

lemma revision_rows_safe: "\<forall>t \<in> set spec_revision_rows. row_safe t"
  by code_simp

text \<open>Where an operation that was answered lands: in no case on a published revision.\<close>

definition landings :: "rev_state \<Rightarrow> exn + st option" where
  "landings s = landing_state spec_table (ORev 0)
     \<lparr>op_key = PNone, op_issued_from = RevSt s, op_awaited = the (awaited (RevSt s))\<rparr>"

lemma landings_simps:
  "landings BriefValidation = Inr (Some (RevSt BriefFeasibility))"
  "landings OutlineDrafting = Inr (Some (RevSt OutlineGuardrail))"
  "landings OutlineGuardrail = Inr (Some (RevSt OutlineChecks))"
  "landings StaleReview = Inl MachineRefused"
  by code_simp+

lemma landing_state_landings:
  assumes "op_issued_from op = RevSt s" "awaited (RevSt s) = Some (op_awaited op)"
  shows "landing_state spec_table (ORev r) op = landings s"
proof -
  have "answers op = answers \<lparr>op_key = PNone, op_issued_from = RevSt s, op_awaited = the (awaited (RevSt s))\<rparr>"
    using assms by (auto simp: answers_def fun_eq_iff)
  then show ?thesis by (simp add: landings_def landing_state_def)
qed

lemma landings_working: "awaited (RevSt s) = Some e \<Longrightarrow> landings s = Inr (Some (RevSt s')) \<Longrightarrow>
    s' \<in> set working \<and> s \<noteq> StaleReview"
  by (cases s) (auto simp: landings_simps)

text \<open>The states a row may send a revision to, read off its view.\<close>

definition lands :: "transition \<Rightarrow> view \<Rightarrow> rev_state \<Rightarrow> bool" where
  "lands t v s \<longleftrightarrow> (case t_target_rule t of
       None \<Rightarrow> t_target t = Some (RevSt s)
     | Some StateThatBlocked \<Rightarrow> v_from v = Some s
     | Some StateThatIssued \<Rightarrow> map_option op_issued_from (v_pending v) = Some (RevSt s)
     | Some StateAfterOperation \<Rightarrow>
         (\<exists>op. v_pending v = Some op \<and> landing_state spec_table (ORev 0) op = Inr (Some (RevSt s)))
     | Some CourseBlocked \<Rightarrow> False)"

definition stands_v :: "transition \<Rightarrow> view \<Rightarrow> bool" where
  "stands_v t v \<longleftrightarrow> (case t_source_rule t of
       None \<Rightarrow> RevSt (v_state v) \<in> set (t_sources t)
     | Some LiveLineage \<Rightarrow> v_state v \<in> set live_lineage
     | Some NonTerminalDraft \<Rightarrow> v_state v \<notin> set terminal \<and> \<not> v_ever v
     | Some NotRemoved \<Rightarrow> True)"

lemma freeing_unpublished:
  assumes "freeing t" "guard_v t v" "view_ok v" "v_state v = BlockedRecoverable"
  shows "\<not> v_ever v"
proof -
  from assms(1,2) have "fact_v (yes G_is_draft_revision) v \<or> fact_v (cmp G_blocked_at None (Equals ''brief'')) v
      \<or> fact_v (cmp G_blocked_at None (Equals ''outline'')) v"
    by (auto simp: freeing_def has_literal_def guard_v_def)
  then have "v_draft v \<or> v_at v = Some ''brief'' \<or> v_at v = Some ''outline''"
    by (auto simp: fact_v_def yes_def cmp_def)
  then show ?thesis
    using assms(3,4) by (auto simp: view_ok_def held_from_def v_draft_def)
qed

lemma row_bare_safe:
  assumes t: "row_safe t" "\<not> t_spawn t" and v: "view_ok v" "stands_v t v" "guard_v t v" "lands t v s"
    and move: "bare_move s v v'"
  shows "safe v v'"
proof (cases "t_source_rule t")
  case (Some rule)
  then consider "rule = LiveLineage" | "rule = NonTerminalDraft"
    using t by (cases rule) (auto simp: row_safe_def)
  then show ?thesis
  proof cases
    case 1
    then have "s = Withdrawn" "has_literal t (yes_of G_in_live_lineage ''revision'')"
      using t v Some by (auto simp: row_safe_def lands_def)
    then have "s = Withdrawn" "fact_v (yes_of G_in_live_lineage ''revision'') v"
      using v(3) by (auto simp: guard_v_def has_literal_def)
    then show ?thesis
      using v(1) move by (auto simp: fact_v_def yes_of_def yes_def intro: bare_withdraw)
  next
    case 2
    then have "s = Archived" using t v Some by (auto simp: row_safe_def lands_def)
    then show ?thesis
      using 2 v move Some by (auto simp: stands_v_def intro: bare_discard)
  qed
next
  case None
  then have here: "RevSt (v_state v) \<in> set (t_sources t)" using v(2) by (simp add: stands_v_def)
  show ?thesis
  proof (cases "t_target_rule t")
    case t': None
    then have "plain_row_safe t (Some (RevSt s)) (RevSt (v_state v))"
      using here t v(4) None by (auto simp: row_safe_def lands_def)
    then consider "safe_pair (v_state v) s"
      | "v_state v = BlockedRecoverable" "s \<in> set working" "freeing t" by auto
    then show ?thesis
      using v move by cases (auto intro: bare_safe_pair bare_unblock dest: freeing_unpublished)
  next
    case (Some rule)
    show ?thesis
    proof (cases rule)
      case StateThatBlocked
      then show ?thesis
        using t v move here None Some by (auto simp: row_safe_def lands_def intro: bare_back)
    next
      case StateThatIssued
      then show ?thesis
        using t v move here None Some by (auto simp: row_safe_def lands_def intro: bare_reissued)
    next
      case StateAfterOperation
      then have er: "v_state v = ErrorRecovery"
        using t here None Some by (auto simp: row_safe_def)
      obtain op where op: "v_pending v = Some op" "landing_state spec_table (ORev 0) op = Inr (Some (RevSt s))"
        using v(4) Some StateAfterOperation by (auto simp: lands_def)
      obtain s0 where s0: "op_issued_from op = RevSt s0" "awaited (RevSt s0) = Some (op_awaited op)" "held_from v s0"
        using v(1) er op by (auto simp: view_ok_def)
      then have "landings s0 = Inr (Some (RevSt s))" using landing_state_landings op by metis
      with s0 have "s \<in> set working" "s0 \<noteq> StaleReview" using landings_working by blast+
      then show ?thesis
        using v(1) er s0 move by (auto simp: held_from_def intro!: bare_answered split: if_splits)
    next
      case CourseBlocked
      then show ?thesis using t None Some by (auto simp: row_safe_def)
    qed
  qed
qed

text \<open>The note of the row keeps what the move established.\<close>

lemma view_ok_text: "text_v w v' \<Longrightarrow> view_ok w \<Longrightarrow> view_ok v'"
  by (auto simp: text_v_iff view_ok_def held_from_def)

lemma safe_text: "safe v w \<Longrightarrow> text_v w v' \<Longrightarrow> v_draft v \<Longrightarrow> safe v v'"
  by (auto simp: safe_def view_ok_text sealed_v_def)

lemma row_moved_safe:
  assumes t: "row_safe t" "\<not> t_spawn t" and v: "view_ok v" "stands_v t v" "guard_v t v" "lands t v s"
    and move: "moved_v (t_note t) s v v'"
  shows "safe v v'"
proof -
  obtain w where w: "bare_move s v w" and n: "note_v (t_note t) (v_state v) w v'"
    using move by (auto simp: moved_v_def bare_move_def state_v_def)
  from row_bare_safe [OF t v w] have safe: "safe v w" .
  have ns: "note_safe t" using t by (auto simp: row_safe_def)
  consider "t_note t = Some OutlineVersionPlus1" | "t_note t = Some BlockedAtNode" | "v' = w"
    using n by (auto simp: note_v_def split: option.splits row_note.splits)
  then show ?thesis
  proof cases
    case 1
    then have "v_state v = OutlineReview"
      using ns v(2) by (auto simp: note_safe_def stands_v_def)
    then have "v_draft v" using v(1) by (auto simp: v_draft_def view_ok_def)
    then show ?thesis using safe n 1 by (auto simp: note_v_def intro: safe_text)
  next
    case 2
    then have "v_state v = ContentInProgress" "s = BlockedRecoverable"
      using ns v(2,4) by (auto simp: note_safe_def stands_v_def lands_def)
    then have "v' = w" using n w 2 by (auto simp: note_v_def bare_move_def after_block)
    then show ?thesis using safe by simp
  next
    case 3
    then show ?thesis using safe by simp
  qed
qed

end
