(* ===== verification/Sealed_Machine.thy ===== *)
theory Sealed_Machine
  imports Sealing
begin

text \<open>
  The seal carried through the machine: taking rows, working on the nodes of a draft,
  reacting, settling and firing.
\<close>

section \<open>How a row is taken\<close>

text \<open>
  Reading the rows ends in one of two ways: no row was taken and no view has changed, or one
  row was, from a machine with the same views, after its guard was found true.
\<close>

definition row_taken :: "env \<Rightarrow> transition \<Rightarrow> obj \<Rightarrow> event \<Rightarrow> payload \<Rightarrow> machine \<Rightarrow> machine \<Rightarrow> bool" where
  "row_taken E t x e p m m' \<longleftrightarrow> (\<exists>m0 m1. same_views m m0 \<and> candidate t x e p m0
     \<and> decide E t (rev_of x) (node_of x) p m0 = (Inr (Some True), m1)
     \<and> apply_row E t x p m1 = (Inr (), m'))"

lemma take_first_cases:
  assumes "take_first E ts x e p u m = (res, m')" "goes_on res"
  shows "(same_views m m' \<and> (\<forall>u'. res \<noteq> Inr (True, u')))
     \<or> (\<exists>t \<in> set ts. row_taken E t x e p m m') \<and> (\<exists>u'. res = Inr (True, u'))"
  using assms(1)
proof (induction ts arbitrary: u m)
  case Nil
  then show ?case by (auto simp: viewing.same)
next
  case (Cons t ts)
  show ?case
  proof (cases "candidate t x e p m")
    case False
    then have "take_first E ts x e p u m = (res, m')" using Cons.prems by (auto simp: andthen_eq)
    from Cons.IH [OF this] show ?thesis by auto
  next
    case True
    obtain y m1 where d: "decide E t (rev_of x) (node_of x) p m = (y, m1)" by fastforce
    have same: "same_views m m1" by (rule keepsD [OF viewing.keeps_decide d])
    consider "y = Inr (Some True)" | e where "y = Inl e" | w where "y = Inr w" "w \<noteq> Some True"
      by (cases y) auto
    then show ?thesis
    proof cases
      case 1
      then have *: "andthen (apply_row E t x p) (\<lambda>_. ret (True, u)) m1 = (res, m')"
        using Cons.prems True d by (auto simp: andthen_eq)
      then have "apply_row E t x p m1 = (Inr (), m')" "res = Inr (True, u)"
        using assms(2) sturdyD [OF sturdy_apply_row] by (fastforce simp: andthen_eq)+
      then show ?thesis using True d 1 viewing.same by (fastforce simp: row_taken_def)
    next
      case 2
      then show ?thesis using Cons.prems True d same by (auto simp: andthen_eq)
    next
      case 3
      then have "take_first E ts x e p (u \<or> w = None) m1 = (res, m')"
        using Cons.prems True d by (auto simp: andthen_eq)
      from Cons.IH [OF this] show ?thesis
        using same viewing.compose by (fastforce simp: row_taken_def)
    qed
  qed
qed

section \<open>What a true guard tells\<close>

lemma conjunction_true:
  "conjunction E ls c m = (Inr (Some True), m') \<Longrightarrow> l \<in> set ls \<Longrightarrow>
     \<exists>m1 m2. same_views m m1 \<and> literal_value E l c m1 = (Inr (\<not> l_negated l), m2)"
proof (induction ls arbitrary: m)
  case (Cons a ls)
  then obtain b m1 where first: "literal_value E a c m = (Inr b, m1)" and b: "b \<noteq> l_negated a"
    and rest: "conjunction E ls c m1 = (Inr (Some True), m')"
    by (auto simp: andthen_eq handle_eq split: if_splits)
  have m1: "same_views m m1" using first viewing.keeps_literal_value by (auto dest: keepsD)
  show ?case
  proof (cases "l = a")
    case True
    then show ?thesis using first b viewing.same [of m] by (cases b) auto
  next
    case False
    with Cons.prems have "l \<in> set ls" by simp
    from Cons.IH [OF rest this] m1 show ?thesis using viewing.compose by blast
  qed
qed simp

lemma literal_fact:
  assumes "literal_value E l c m = (Inr (\<not> l_negated l), m')" "views m (c_rev c) = Some v"
  shows "fact_v l v"
proof -
  obtain rv where rv: "rev_at c m = Inr rv" "v = view_of rv"
    using assms(2) by (auto simp: rev_at_def views_def)
  have fact: "store_fact E l c (l_name l) m = Inr (\<not> l_negated l)"
    if "l_name l \<in> {G_is_draft_revision, G_in_live_lineage, G_blocked_at}"
    using assms(1) that
    by (auto simp: literal_value_def store_guard_def store_guard_names_def)
  have "is_draft rv = (\<not> l_negated l)" if "l_name l = G_is_draft_revision"
    using fact that rv by (simp add: of_rev_def)
  moreover have "(r_ever_published rv \<and> r_state rv \<in> set live_lineage) = (\<not> l_negated l)"
    if "l_name l = G_in_live_lineage"
    using fact that rv by (simp add: of_rev_def)
  moreover have "compare (r_blocked_at rv) l = Inr (\<not> l_negated l)" if "l_name l = G_blocked_at"
    using fact that rv by (simp add: of_rev_def)
  moreover have "v_ever v = r_ever_published rv" "v_state v = r_state rv" "v_at v = r_blocked_at rv"
    by (simp_all add: rv view_of_def)
  moreover have "v_draft v = is_draft rv" by (simp add: rv)
  ultimately show ?thesis unfolding fact_v_def by simp
qed

lemma decide_guard:
  assumes "decide E t r n p m = (Inr (Some True), m')" "views m r = Some v"
  shows "guard_v t v"
  unfolding guard_v_def
proof (intro impI ballI)
  fix l assume plain: "plain_guard t" and l: "l \<in> set (g_literals (t_guard t))"
  let ?c = "\<lparr>c_rev = r, c_node = n, c_payload = p\<rparr>"
  have "conjunction E (g_literals (t_guard t)) ?c m = (Inr (Some True), m')"
    using assms(1) plain by (simp add: decide_def plain_guard_def)
  from conjunction_true [OF this l] obtain m1 m2 where
    "same_views m m1" "literal_value E l ?c m1 = (Inr (\<not> l_negated l), m2)" by blast
  then show "fact_v l v" using assms(2) by (intro literal_fact) (auto simp: same_views_def)
qed

section \<open>The relation every step keeps\<close>

definition all_ok :: "machine \<Rightarrow> bool" where
  "all_ok m \<longleftrightarrow> (\<forall>r v. views m r = Some v \<longrightarrow> view_ok v)
     \<and> (\<forall>p. pointer m = Some p \<longrightarrow> (\<exists>v. views m p = Some v \<and> v_ever v))"

definition keeps_revs :: "machine \<Rightarrow> machine \<Rightarrow> bool" where
  "keeps_revs m m' \<longleftrightarrow> (\<forall>r v. views m r = Some v \<longrightarrow> (\<exists>v'. views m' r = Some v' \<and> sealed_v v v'
     \<and> (v_ever v \<longrightarrow> v_ever v')))"

definition seals :: "machine \<Rightarrow> machine \<Rightarrow> bool" where
  "seals m m' \<longleftrightarrow> (all_ok m \<longrightarrow> all_ok m' \<and> keeps_revs m m')"

lemma sealed_v_refl [simp]: "sealed_v v v"
  by (simp add: sealed_v_def)

lemma sealed_v_trans: "sealed_v u v \<Longrightarrow> sealed_v v w \<Longrightarrow> sealed_v u w"
  by (auto simp: sealed_v_def)

interpretation sealing: state_preorder seals
proof
  show "seals m m" for m by (auto simp: seals_def keeps_revs_def)
  fix s t u assume "seals s t" "seals t u"
  then show "seals s u"
    unfolding seals_def keeps_revs_def by (meson sealed_v_trans)
qed

lemma same_views_seals: "same_views m m' \<Longrightarrow> seals m m'"
  by (auto simp: seals_def all_ok_def keeps_revs_def same_views_def)

lemma dull_sustains: "keeps same_views c \<Longrightarrow> sustains seals c"
  using keeps_sustains sustains_mono same_views_seals by blast

lemma acts_seals:
  assumes "acts r P m m'" "\<And>v v'. views m r = Some v \<Longrightarrow> P v v' \<Longrightarrow> view_ok v \<Longrightarrow>
      view_ok v' \<and> sealed_v v v' \<and> (v_ever v \<longrightarrow> v_ever v')"
  shows "seals m m'"
  unfolding seals_def
proof (intro impI conjI)
  assume ok: "all_ok m"
  have *: "\<exists>v'. views m' r' = Some v' \<and> view_ok v' \<and> sealed_v v v' \<and> (v_ever v \<longrightarrow> v_ever v')"
    if here: "views m r' = Some v" for r' v
  proof (cases "r' = r")
    case True
    with here have v: "views m r = Some v" by simp
    then obtain v' where v': "views m' r = Some v'" "P v v'"
      using assms(1) by (auto simp: acts_def option_rel_Some1)
    have "view_ok v" using ok here unfolding all_ok_def by blast
    then show ?thesis using assms(2) [OF v v'(2)] v' True by blast
  next
    case False
    then have "views m' r' = Some v" using assms(1) here by (simp add: acts_def)
    then show ?thesis using ok here by (auto simp: all_ok_def)
  qed
  have dom: "views m' r' = Some v' \<Longrightarrow> \<exists>v. views m r' = Some v" for r' v'
    using assms(1) by (cases "r' = r") (auto simp: acts_def option_rel_Some2)
  show "keeps_revs m m'" using * by (fastforce simp: keeps_revs_def)
  have "view_ok v'" if "views m' r' = Some v'" for r' v'
    using dom [OF that] * that by fastforce
  moreover have "\<exists>v. views m' p = Some v \<and> v_ever v" if "pointer m' = Some p" for p
  proof -
    have "pointer m = Some p" using assms(1) that by (auto simp: acts_def)
    then show ?thesis using ok * by (fastforce simp: all_ok_def)
  qed
  ultimately show "all_ok m'" by (simp add: all_ok_def)
qed

section \<open>Forking\<close>

lemma views_new_revision:
  assumes "c = next_revision_id (m_store m)"
  shows "views (on_store (\<lambda>S. snd (new_revision S p)) m)
    = (views m)(c \<mapsto> view_of (new_revision_record c p))"
  by (auto simp: assms views_def revision_def on_store_def new_revision_def Let_def update_conv'
      new_revision_record_def fun_eq_iff)

lemma fresh_view: "views m (next_revision_id (m_store m)) = None"
  by (simp add: views_def revision_def next_revision_id_fresh)

lemma does_inherit: "does c text_v (inherit c rv x)"
proof (cases x)
  case (Pair i nd)
  have "does c text_v (modify (on_rev c (\<lambda>x. x\<lparr>r_screened := f x\<rparr>)))" for f
    by (rule does_on_rev) (simp add: text_v_iff view_of_def)
  then show ?thesis
    unfolding inherit_def Pair
    by (auto intro!: texting does_add_node does_text_on_node does_text_dull [OF viewing.keeps_ret]
        simp: only_if_def split: option.split)
qed

lemma fork_seals:
  assumes "fork r m = (Inr x, m')"
  shows "seals m m'"
proof -
  let ?c = "next_revision_id (m_store m)"
  let ?m1 = "on_store (\<lambda>S. snd (new_revision S (Some r))) m"
  obtain rv where rv: "revision m r = Some rv" and run: "block
       [modify (on_rev ?c (\<lambda>x. x\<lparr>r_brief := r_brief rv, r_author := r_author rv,
          r_proposal := r_proposal rv, r_committed_outline := r_committed_outline rv,
          r_outline_version := r_outline_version rv, r_stamps := r_stamps rv\<rparr>)),
        each (inherit ?c rv) (r_nodes rv),
        modify (on_rev ?c (\<lambda>x. x\<lparr>r_state := ContentInProgress\<rparr>)),
        modify (\<lambda>m. m\<lparr>m_current := ?c\<rparr>)] ?m1 = (Inr x, m')"
    using assms by (auto simp: fork_def andthen_eq split: option.splits)
  have cur: "keeps same_views (modify (\<lambda>m. m\<lparr>m_current := ?c\<rparr>))"
    by (rule viewing.keeps_modify) (simp add: same_views_def views_def revision_def pointer_def fun_eq_iff)
  have "acts ?c (text_v OO text_v OO state_v ContentInProgress OO (=)) ?m1 m'"
    using run
    by (rule does_def [THEN iffD1, rule_format, rotated])
      (intro does_block_step does_block_last does_on_rev does_text_each does_inherit
        does_dull [OF cur]; simp add: text_v_iff state_v_def view_of_def)
  then have acts: "acts ?c (text_v OO text_v OO state_v ContentInProgress OO (=)) ?m1 m'" .
  have others: "views m' r' = views m r'" if "r' \<noteq> ?c" for r'
    using acts that by (simp add: acts_def views_new_revision)
  obtain v' where v': "views m' ?c = Some v'" "v_state v' = ContentInProgress" "\<not> v_ever v'"
    "distinct (map fst (v_body v'))"
    using acts
    by (fastforce simp: acts_def views_new_revision option_rel_Some1 text_v_iff state_v_def
        view_of_def new_revision_record_def relcompp_apply)
  have ptr: "pointer m' = pointer m \<or> pointer m' = None"
    using acts by (simp add: acts_def pointer_def on_store_def new_revision_def Let_def)
  show ?thesis
    unfolding seals_def
  proof (intro impI conjI)
    assume ok: "all_ok m"
    have "view_ok v" if "views m' r' = Some v" for r' v
      using that others [of r'] ok v' by (cases "r' = ?c") (auto simp: all_ok_def view_ok_def)
    moreover have "\<exists>v. views m' p = Some v \<and> v_ever v" if here: "pointer m' = Some p" for p
    proof -
      have "pointer m = Some p" using ptr here by auto
      then obtain v where "views m p = Some v" "v_ever v" using ok by (auto simp: all_ok_def)
      moreover then have "p \<noteq> ?c" using fresh_view [of m] by auto
      ultimately show ?thesis using others by simp
    qed
    ultimately show "all_ok m'" by (simp add: all_ok_def)
    show "keeps_revs m m'"
      unfolding keeps_revs_def using others fresh_view [of m] by (metis option.simps(3) sealed_v_refl)
  qed
qed

section \<open>Taking a row of the revision table\<close>

definition ever_kept :: "(view \<Rightarrow> view \<Rightarrow> bool) \<Rightarrow> bool" where
  "ever_kept P \<longleftrightarrow> (\<forall>v v'. P v v' \<longrightarrow> v_ever v \<longrightarrow> v_ever v')"

lemma ever_kept_parts:
  "ever_kept P \<Longrightarrow> ever_kept Q \<Longrightarrow> ever_kept (P OO Q)"
  "ever_kept P \<Longrightarrow> ever_kept (only_v b P)"
  "ever_kept (enter_v old)" "ever_kept leave_v" "ever_kept (recover_v old)" "ever_kept answer_v"
  "ever_kept publish_v" "ever_kept (state_v s)" "ever_kept (note_v k old)"
  by (auto simp: ever_kept_def only_v_def move_defs note_v_def text_v_iff
      split: option.splits row_note.splits)

lemma moved_ever: "moved_v k s v v' \<Longrightarrow> v_ever v \<Longrightarrow> v_ever v'"
proof -
  have "ever_kept (state_v s OO after_v (v_state v) s OO note_v k (v_state v))"
    unfolding after_v_def by (intro ever_kept_parts)
  then show "moved_v k s v v' \<Longrightarrow> v_ever v \<Longrightarrow> v_ever v'"
    unfolding moved_v_def ever_kept_def by blast
qed

lemma stands_at_view:
  "stands_at t m (ORev r) \<Longrightarrow> views m r = Some v \<Longrightarrow> stands_v t v"
  by (auto simp: stands_at_def stands_v_def views_def view_of_def
      split: option.splits source_rule.splits)

lemma target_of_stays:
  "target_of E k (ORev r) m = (Inr l, m1) \<Longrightarrow> k \<noteq> CourseBlocked \<Longrightarrow> m1 = m \<and> l \<noteq> CourseStops"
  by (cases k) (auto simp: the_pending_def andthen_eq split: option.splits)

lemma lands_move:
  assumes "apply_row E t (ORev r) p m = (Inr x, m')" "\<not> t_spawn t" "t_target_rule t \<noteq> Some CourseBlocked"
    and "e_table E = spec_table" "views m r = Some v"
  shows "\<exists>s. lands t v s \<and> move t (ORev r) (RevSt s) p m = (Inr x, m')"
proof -
  obtain rv where rv: "revision m r = Some rv" "v = view_of rv" using assms(5) by (auto simp: views_def)
  have node: "move t (ORev r) (NodeSt s) p m \<noteq> (Inr x, m')" for s
    by (auto simp: move_def set_state_def andthen_eq)
  have vs: "v_pending v = r_pending rv" "v_from v = r_blocked_from rv" by (simp_all add: rv view_of_def)
  have land: "landing_state T (ORev r) op = landing_state T (ORev 0) op" for T op
    by (simp add: landing_state_def)
  obtain l m1 where l: "(case t_target_rule t of Some k \<Rightarrow> target_of E k (ORev r)
        | None \<Rightarrow> ret (To (t_target t))) m = (Inr l, m1)"
    and rest: "(case l of CourseStops \<Rightarrow> move t (ORev r) (RevSt BlockedRecoverable) p
        | To None \<Rightarrow> raise MachineRefused | To (Some s) \<Rightarrow> move t (ORev r) s p) m1 = (Inr x, m')"
    using assms(1,2) rv(1) by (auto simp: apply_row_def andthen_eq the_state_def)
  have "m1 = m" "l \<noteq> CourseStops"
    using l assms(3) target_of_stays by (auto split: option.splits)
  then obtain s where s: "move t (ORev r) s p m = (Inr x, m')" "l = To (Some s)"
    using rest by (auto split: landing.splits option.splits)
  then obtain s' where s': "s = RevSt s'" using node by (cases s) auto
  have "lands t v s'"
  proof (cases "t_target_rule t")
    case None
    then show ?thesis using l s s' by (simp add: lands_def)
  next
    case (Some k)
    then have "target_of E k (ORev r) m = (Inr (To (Some (RevSt s'))), m1)" using l s s' by simp
    then show ?thesis
      using assms(3,4) rv(1) land vs Some
      by (cases k) (auto simp: lands_def the_pending_def pending_of_def andthen_eq
          dest!: sym [of "Some _" "map_option _ _"] split: option.splits)
  qed
  then show ?thesis using s s' by blast
qed

lemma after_same: "after_v s s = (=)"
  by (auto simp: fun_eq_iff after_defs)

lemma spawn_seals:
  assumes "after_transition t (ORev r) (RevSt s) p m = (Inr x, m')" "t_note t = Some Spawn"
    and "in_state m r s"
  shows "seals m m'"
proof -
  obtain rv where "revision m r = Some rv" "r_state rv = s"
    using assms(3) by (auto simp: in_state_def split: option.splits)
  then obtain m1 where "after_revision t r s s p m = (Inr (), m1)" "fork r m1 = (Inr (), m')"
    using assms(1,2) by (auto simp: after_transition_def andthen_eq rev_note_def)
  moreover then have "seals m m1"
    using does_after_revision [of r s s t p]
    by (intro acts_seals [of r "(=)"]) (auto simp: does_def after_same)
  ultimately show ?thesis using fork_seals sealing.compose by blast
qed

lemma row_seals:
  assumes t: "t \<in> set spec_revision_rows" "e_table E = spec_table"
    and m: "candidate t (ORev r) e p m" "decide E t r n p m = (Inr (Some True), m1)"
    and run: "apply_row E t (ORev r) p m1 = (Inr x, m')"
  shows "seals m m'"
proof -
  have same: "same_views m m1" by (rule keepsD [OF viewing.keeps_decide m(2)])
  have safe: "row_safe t" using t(1) revision_rows_safe by blast
  obtain rv where rv: "revision m1 r = Some rv"
    using run by (auto simp: apply_row_def andthen_eq the_state_def split: option.splits)
  define v where "v = view_of rv"
  have v1: "views m1 r = Some v" using rv by (simp add: v_def views_def)
  then have v: "views m r = Some v" using same by (simp add: same_views_def)
  have "seals m1 m'"
  proof (cases "t_spawn t")
    case True
    then have "t_note t = Some Spawn" using safe by (auto simp: row_safe_def)
    then show ?thesis
      using run True rv
      by (intro spawn_seals [of t r "r_state rv" p]) (auto simp: apply_row_def andthen_eq the_state_def in_state_def)
  next
    case False
    then have course: "t_target_rule t \<noteq> Some CourseBlocked" and spawn: "t_note t \<noteq> Some Spawn"
      using safe by (auto simp: row_safe_def note_safe_def split: option.splits source_rule.splits)
    from lands_move [OF run False course t(2) v1] obtain s where
      s: "lands t v s" "move t (ORev r) (RevSt s) p m1 = (Inr x, m')" by blast
    from move_rev [OF s(2) spawn] v1
    have acts: "acts r (\<lambda>v0. moved_v (t_note t) s v) m1 m'" by auto
    have "stands_v t v" using m(1) v by (auto simp: candidate_def intro: stands_at_view)
    moreover have "guard_v t v" using decide_guard [OF m(2) v] .
    ultimately show ?thesis
      using acts_seals [OF acts] row_moved_safe [OF safe False _ _ _ s(1)] moved_ever v1
      by (fastforce simp: safe_def)
  qed
  then show ?thesis using same same_views_seals sealing.compose by blast
qed

lemma row_taken_seals:
  assumes "t \<in> set spec_revision_rows" "e_table E = spec_table" "row_taken E t (ORev r) e p m m'"
  shows "seals m m'"
  using assms row_seals same_views_seals sealing.compose by (fastforce simp: row_taken_def)

lemma take_row_seals:
  assumes "e_table E = spec_table"
  shows "sustains seals (take_row E (ORev r) e p)"
  unfolding sustains_def take_row_def
  using take_first_cases row_taken_seals assms same_views_seals
  by (fastforce simp: spec_table_def)

section \<open>Work on the nodes of a draft\<close>

text \<open>Work on a revision's nodes leaves every other revision, and leaves a draft a draft.\<close>

definition works_v :: "view \<Rightarrow> view \<Rightarrow> bool" where
  "works_v v v' \<longleftrightarrow> (view_ok v \<longrightarrow> view_ok v' \<and> (v_draft v \<longrightarrow> v_draft v') \<and> (v_ever v \<longrightarrow> v_ever v'))"

definition node_work :: "int \<Rightarrow> machine \<Rightarrow> machine \<Rightarrow> bool" where
  "node_work r = acts r works_v"

lemma text_works: "text_v v v' \<Longrightarrow> works_v v v'"
  unfolding works_v_def using view_ok_text [of v v'] by (auto simp: text_v_iff v_draft_def)

interpretation node_working: decision_frame "node_work r" for r
proof
  show same: "node_work r m m" for m
    by (auto simp: node_work_def acts_def works_v_def intro!: option.rel_refl)
  show "node_work r s t \<Longrightarrow> node_work r t u \<Longrightarrow> node_work r s u" for s t u
    unfolding node_work_def
    by (rule acts_mono [OF acts_trans]) (auto simp: works_v_def)
  have dull: "same_views m m' \<Longrightarrow> node_work r m m'" for m m'
    unfolding node_work_def by (rule acts_mono [OF same_views_acts]) (auto simp: works_v_def)
  show "node_work r m (m\<lparr>m_cache := c, m_cached_at := k\<rparr>)" for m c k
    by (rule dull [OF viewing.cache])
  show "node_work r m (on_rev r' (\<lambda>x. x\<lparr>r_permission_checked := fold List.insert a (r_permission_checked x),
        r_used_restricted := fold List.insert b (r_used_restricted x)\<rparr>) m)" for m r' a b
    by (rule dull [OF viewing.rights])
  show "node_work r m (on_rev r' (\<lambda>x. x\<lparr>r_screened := f (r_screened x)\<rparr>) m)" for m r' f
    by (rule dull [OF viewing.screened])
qed

lemma same_views_node_work: "same_views m m' \<Longrightarrow> node_work r m m'"
  unfolding node_work_def by (rule acts_mono [OF same_views_acts]) (auto simp: works_v_def)

lemma dull_node_work: "keeps same_views c \<Longrightarrow> keeps (node_work r) c"
  by (auto simp: keeps_def intro: same_views_node_work)

lemma node_work_on_rev:
  "(\<And>x. text_v (view_of x) (view_of (f x))) \<Longrightarrow> node_work r m (on_rev r f m)"
  unfolding node_work_def by (rule acts_on_rev) (simp add: text_works)

lemma node_work_on_node: "node_work r m (on_node r n f m)"
  unfolding on_node_def by (rule node_work_on_rev) (simp add: text_v_iff view_of_def)

lemmas node_steps = node_working.combinators keeps_cases node_working.keeps_the_rev
  node_working.keeps_the_node node_working.keeps_block node_working.keeps_modify
  node_work_on_node node_work_on_rev

lemma node_work_dull_parts:
  "keeps (node_work r) current_stamps" "keeps (node_work r) (the_pending x)"
  "keeps (node_work r) (use_key p)" "keeps (node_work r) (note_screening x p)"
  "keeps (node_work r) (note_change x e p)" "keeps (node_work r) (refuse_unchecked x e p)"
  "keeps (node_work r) (record_step r' e p w)"
  by (intro dull_node_work dull_current_stamps dull_the_pending dull_use_key dull_note_screening
      dull_note_change dull_refuse_unchecked dull_record_step)+

lemma node_work_event_fact: "keeps (node_work r) (event_fact (ONode r n) e p)"
  by (cases e) (auto intro!: node_steps node_work_dull_parts simp: text_v_iff view_of_def)

lemma node_work_on_event: "keeps (node_work r) (on_event (ONode r n) e p)"
  unfolding on_event_def note_refusal_def set_refusal_def Let_def
  by (auto intro!: node_steps node_work_dull_parts node_work_event_fact
      simp: text_v_iff view_of_def)

lemma node_work_after_node: "keeps (node_work r) (after_node r n old new p)"
  unfolding after_node_def node_recovers_def node_validated_def node_approved_def operation_of_def Let_def
  by (auto intro!: node_steps node_work_dull_parts simp: text_v_iff view_of_def)

lemma node_work_note_effect: "keeps (node_work r) (note_effect k (ONode r n) old)"
  by (cases k) (auto simp: rev_note_def recover_from_def set_repair_def
      intro!: node_steps)

lemma node_work_move: "keeps (node_work r) (move t (ONode r n) s p)"
  unfolding move_def the_state_def set_state_def after_transition_def
  by (auto intro!: node_steps node_work_after_node node_work_note_effect
      split: st.split option.split)

lemma in_state_views: "in_state m r s \<longleftrightarrow> (\<exists>v. views m r = Some v \<and> v_state v = s)"
  by (auto simp: in_state_def views_def view_of_def split: option.splits)

lemma node_rows_plain: "\<forall>t \<in> set spec_node_rows. \<not> t_spawn t \<and>
    (t_target_rule t = None \<or> t_target_rule t = Some CourseBlocked \<and> t_note t = None)"
  by code_simp

lemma course_blocked_works:
  assumes "move t (ORev r) (RevSt BlockedRecoverable) p m = (Inr x, m')" "t_note t = None"
    and "in_state m r ContentInProgress"
  shows "node_work r m m'"
proof -
  obtain v where v: "views m r = Some v" and acts: "acts r (\<lambda>v0. moved_v None BlockedRecoverable v) m m'"
    using move_rev [OF assms(1)] assms(2) by auto
  have vs: "v_state v = ContentInProgress"
    using assms(3) v by (auto simp: in_state_def views_def view_of_def split: option.splits)
  have "works_v v v'" if "moved_v None BlockedRecoverable v v'" for v'
    unfolding works_v_def
  proof (intro impI)
    assume ok: "view_ok v"
    have w: "bare_move BlockedRecoverable v v'"
      using that by (auto simp: moved_v_def bare_move_def state_v_def note_v_def)
    then have "safe v v'" using ok vs by (intro bare_to_blocked) simp_all
    moreover have "\<not> v_ever v" using ok vs by (auto simp: view_ok_def)
    moreover have "v_state v' = BlockedRecoverable \<and> v_ever v' = v_ever v"
      using w vs by (simp add: bare_move_def after_block)
    ultimately show "view_ok v' \<and> (v_draft v \<longrightarrow> v_draft v') \<and> (v_ever v \<longrightarrow> v_ever v')"
      by (simp add: safe_def v_draft_def)
  qed
  then show ?thesis
    using acts v by (auto simp: node_work_def acts_def option_rel_Some1)
qed

lemma node_row_works:
  assumes t: "t \<in> set spec_node_rows" "candidate t (ONode r n) e p m"
    and d: "decide E t r (Some n) p m = (y, m1)"
    and run: "apply_row E t (ONode r n) p m1 = (Inr x, m')"
  shows "node_work r m m'"
proof -
  have same: "same_views m m1" by (rule keepsD [OF viewing.keeps_decide d])
  have row: "\<not> t_spawn t" "t_target_rule t = None \<or> t_target_rule t = Some CourseBlocked \<and> t_note t = None"
    using node_rows_plain t(1) by blast+
  have "node_work r m1 m'"
  proof (cases "t_target_rule t")
    case None
    then obtain s where "move t (ONode r n) s p m1 = (Inr x, m')"
      using run row by (auto simp: apply_row_def the_state_def andthen_eq split: option.splits)
    then show ?thesis by (rule keepsD [OF node_work_move])
  next
    case (Some k)
    then have k: "k = CourseBlocked" "t_note t = None" using row by auto
    have "in_state m r ContentInProgress" using t(2) Some k by (simp add: candidate_def)
    then have "in_state m1 r ContentInProgress"
      using same by (simp add: in_state_views same_views_def)
    moreover have "move t (ORev r) (RevSt BlockedRecoverable) p m1 = (Inr x, m')"
      using run row Some k by (auto simp: apply_row_def the_state_def andthen_eq)
    ultimately show ?thesis using course_blocked_works k by blast
  qed
  then show ?thesis using same_views_node_work [OF same] node_working.compose by blast
qed

lemma row_taken_works:
  assumes "t \<in> set spec_node_rows" "row_taken E t (ONode r n) e p m m'"
  shows "node_work r m m'"
  using assms node_row_works same_views_node_work node_working.compose
  by (fastforce simp: row_taken_def)

lemma take_row_works:
  assumes "e_table E = spec_table"
  shows "sustains (node_work r) (take_row E (ONode r n) e p)"
  unfolding sustains_def take_row_def
  using take_first_cases row_taken_works assms same_views_node_work
  by (fastforce simp: spec_table_def)

text \<open>Work on a draft's nodes keeps the seal; on any other revision the code does not start it.\<close>

definition drafting :: "int \<Rightarrow> machine \<Rightarrow> bool" where
  "drafting r m \<longleftrightarrow> (\<exists>v. views m r = Some v \<and> v_draft v)"

lemma node_work_seals: "node_work r m m' \<Longrightarrow> drafting r m \<Longrightarrow> seals m m'"
  unfolding node_work_def
  by (erule acts_seals) (auto simp: works_v_def drafting_def sealed_v_def)

lemma node_work_drafting: "node_work r m m' \<Longrightarrow> all_ok m \<Longrightarrow> drafting r m \<Longrightarrow> drafting r m'"
  unfolding node_work_def
  by (fastforce simp: acts_def drafting_def works_v_def all_ok_def option_rel_Some1)

lemma node_work_all_ok: "node_work r m m' \<Longrightarrow> all_ok m \<Longrightarrow> drafting r m \<Longrightarrow> all_ok m'"
  using node_work_seals by (auto simp: seals_def)

end
