(* ===== verification/Sealed_Firing.thy ===== *)
theory Sealed_Firing
  imports Sealed_Machine
begin

text \<open>
  The seal through reactions, settling and firing, and what it says of every machine a history
  of calls can reach.
\<close>

section \<open>Reactions and dependencies\<close>

lemma dull_seals: "keeps same_views c \<Longrightarrow> sustains seals c"
  by (rule dull_sustains)

lemma takes_seals: "e_table E = spec_table \<Longrightarrow> sustains seals (takes E (ORev r) e p)"
  unfolding takes_def by (intro sealing.sustaining sustains_cases take_row_seals)

lemma takes_works: "e_table E = spec_table \<Longrightarrow> sustains (node_work r) (takes E (ONode r n) e p)"
  unfolding takes_def by (intro node_working.sustaining sustains_cases take_row_works)

lemma first_taken_seals: "e_table E = spec_table \<Longrightarrow> sustains seals (first_taken E (ORev r) es)"
  by (induction es) (auto intro!: sealing.sustaining takes_seals)

lemma react_seals: "e_table E = spec_table \<Longrightarrow> sustains seals (react E r)"
proof -
  assume T: "e_table E = spec_table"
  have "sustains seals (react_upto k E r)" for k
    by (induction k) (auto intro!: sealing.sustaining first_taken_seals T)
  then show ?thesis unfolding react_def by blast
qed

lemma the_rev_works: "sustains (node_work r) (the_rev r')"
  by (rule keeps_sustains [OF node_working.keeps_the_rev])

lemma the_rev_seals: "sustains seals (the_rev r)"
  by (rule dull_seals [OF viewing.keeps_the_rev])

lemma dependencies_added_works:
  "e_table E = spec_table \<Longrightarrow> sustains (node_work r) (dependencies_added E r prior)"
  unfolding dependencies_added_def Let_def
  by (intro node_working.sustaining sustains_cases the_rev_works takes_works)

lemma dependency_changed_works:
  "e_table E = spec_table \<Longrightarrow> sustains (node_work r) (dependency_changed E r i)"
  unfolding dependency_changed_def
  by (intro node_working.sustaining sustains_cases the_rev_works takes_works)

lemma drafting_revision: "revision m r = Some rv \<Longrightarrow> drafting r m \<longleftrightarrow> is_draft rv"
  by (simp add: drafting_def views_def)

lemma works_seals:
  "sustains (node_work r) c \<Longrightarrow> c m = (x, m') \<Longrightarrow> goes_on x \<Longrightarrow> drafting r m \<Longrightarrow> seals m m'"
  by (rule node_work_seals) (rule sustainsD)

lemma dependency_changed_seals:
  assumes "e_table E = spec_table"
  shows "sustains seals (dependency_changed E r i)"
  unfolding sustains_def
proof (intro allI impI)
  fix m x m' assume run: "dependency_changed E r i m = (x, m')" and x: "goes_on x"
  show "seals m m'"
  proof (cases "drafting r m")
    case True
    then show ?thesis by (rule works_seals [OF dependency_changed_works [OF assms] run x])
  next
    case False
    then have "m' = m"
      using run drafting_revision
      by (fastforce simp: dependency_changed_def andthen_eq only_if_def split: option.splits if_splits)
    then show ?thesis by (simp add: sealing.same)
  qed
qed

section \<open>Settling\<close>

definition fires_sealed :: "firing \<Rightarrow> bool" where
  "fires_sealed fire \<longleftrightarrow> (\<forall>e kv w. sustains seals (fire e kv w))"

lemma record_step_seals: "sustains seals (record_step r e p w)"
  by (rule dull_seals [OF dull_record_step])

lemma after_auto_seals:
  "e_table E = spec_table \<Longrightarrow> fires_sealed fire \<Longrightarrow> sustains seals (after_auto E fire x prior taken)"
  unfolding after_auto_def fires_sealed_def
  by (auto intro!: sealing.sustaining sustains_cases react_seals record_step_seals)

lemma after_auto_still: "after_auto E fire x prior taken m = (Inr False, m') \<Longrightarrow> m' = m"
  by (auto simp: after_auto_def andthen_eq split: option.splits if_splits)

text \<open>What \<open>auto\<close> does for either machine: work of its own kind, then steps that keep the seal.\<close>

lemma auto_outcome:
  assumes T: "e_table E = spec_table" and fire: "fires_sealed fire"
    and Q: "sustains Q (takes E x Auto no_payload)" "\<And>m m'. same_views m m' \<Longrightarrow> Q m m'"
      "\<And>m m' m''. Q m m' \<Longrightarrow> Q m' m'' \<Longrightarrow> Q m m''"
    and run: "auto E fire x m = (res, m')" and g: "goes_on res"
  shows "\<exists>m1. Q m m1 \<and> seals m1 m' \<and> (res = Inr False \<longrightarrow> m1 = m')"
proof -
  obtain f m1 where f: "check_failure E x m = (f, m1)" by fastforce
  have q1: "Q m m1" using keepsD [OF viewing.keeps_check_failure f] Q(2) by blast
  consider e where "f = Inl e" | kv where "f = Inr (Some kv)" | "f = Inr None"
    by (cases f) auto
  then show ?thesis
  proof cases
    case 1
    then have "m1 = m'" using run f by (simp add: auto_def andthen_eq)
    then show ?thesis using q1 sealing.same by blast
  next
    case 2
    let ?c = "andthen (fire CheckFailed kv ''checks'') (\<lambda>_. ret True)"
    have c: "?c m1 = (res, m')" using 2 run f by (simp add: auto_def andthen_eq)
    have "sustains seals ?c"
      using fire by (auto simp: fires_sealed_def intro!: sealing.sustaining)
    then have "seals m1 m'" using c g by (rule sustainsD)
    moreover have "res \<noteq> Inr False" using c by (auto simp: andthen_eq)
    ultimately show ?thesis using q1 by blast
  next
    case 3
    obtain y m2 where t: "takes E x Auto no_payload m1 = (y, m2)" by fastforce
    have rest: "(\<exists>b. y = Inr b \<and> after_auto E fire x (standing x m1) (Some b) m2 = (res, m'))
        \<or> (y = Inl ServiceDown \<and> after_auto E fire x (standing x m1) None m2 = (res, m'))
        \<or> (\<exists>e. y = Inl e \<and> e \<noteq> ServiceDown \<and> res = Inl e \<and> m' = m2)"
      using run f 3 t by (auto simp: auto_def andthen_eq handle_eq split: if_splits)
    then have "goes_on y" using g by auto
    then have "Q m m2" using q1 Q(3) sustainsD [OF Q(1) t] by blast
    moreover have "seals m2 m'"
      using rest g sustainsD [OF after_auto_seals [OF T fire]] sealing.same by blast
    moreover have "res = Inr False \<longrightarrow> m2 = m'" using rest after_auto_still by blast
    ultimately show ?thesis by blast
  qed
qed

lemma auto_rev_seals:
  assumes "e_table E = spec_table" "fires_sealed fire"
  shows "sustains seals (auto E fire (ORev r))"
  unfolding sustains_def
proof (intro allI impI)
  fix m x m' assume "auto E fire (ORev r) m = (x, m')" "goes_on x"
  then obtain m1 where "seals m m1" "seals m1 m'"
    using auto_outcome [where Q = seals, OF assms takes_seals [OF assms(1)]] same_views_seals
      sealing.compose by blast
  then show "seals m m'" by (rule sealing.compose)
qed

lemma settle_nodes_seals:
  assumes T: "e_table E = spec_table" and fire: "fires_sealed fire"
  shows "settle_nodes E fire r is m = (res, m') \<Longrightarrow> goes_on res \<Longrightarrow> drafting r m \<Longrightarrow> seals m m'"
proof (induction "is" arbitrary: m)
  case Nil
  then show ?case by (simp add: sealing.same)
next
  case (Cons i "is")
  obtain y m1 where a: "auto E fire (ONode r i) m = (y, m1)" by fastforce
  have y: "goes_on y" and rest: "y = Inr False \<longrightarrow> settle_nodes E fire r is m1 = (res, m')"
    "y \<noteq> Inr False \<longrightarrow> m1 = m'"
    using Cons.prems(1,2) a by (cases y; auto simp: andthen_eq split: if_splits)+
  obtain m2 where m2: "node_work r m m2" "seals m2 m1" "y = Inr False \<longrightarrow> m2 = m1"
    using auto_outcome [where Q = "node_work r", OF T fire takes_works [OF T] _ _ a y]
      same_views_node_work node_working.compose by blast
  have s: "seals m m1" using m2 node_work_seals Cons.prems(3) sealing.compose by blast
  show ?case
  proof (cases "y = Inr False")
    case True
    then show ?thesis
    proof (cases "all_ok m")
      case ok: True
      then have "drafting r m1" using node_work_drafting m2 True Cons.prems(3) by blast
      then show ?thesis using Cons.IH rest True Cons.prems(2) s sealing.compose by blast
    qed (simp add: seals_def)
  next
    case False
    then show ?thesis using rest s by simp
  qed
qed

lemma move_pointer_seals: "fires_sealed fire \<Longrightarrow> sustains seals (move_pointer fire r rv)"
proof -
  assume "fires_sealed fire"
  moreover have "sustains seals (modify (on_rev r (\<lambda>x. x\<lparr>r_awaiting_pointer := False\<rparr>)))"
    by (intro dull_seals viewing.keeps_modify same_views_on_rev) (simp add: view_of_def)
  ultimately show ?thesis
    unfolding move_pointer_def fires_sealed_def by (intro sealing.sustains_andthen) auto
qed

lemma settle_revisions_seals:
  assumes T: "e_table E = spec_table" and fire: "fires_sealed fire"
  shows "sustains seals (settle_revisions E fire rs)"
proof (induction rs)
  case Nil
  then show ?case by (simp add: sealing.sustains_ret)
next
  case (Cons r rs)
  have nodes: "seals m m'"
    if "revision m r = Some rv" "settle_nodes E fire r (if is_draft rv then ns else []) m = (x, m')" "goes_on x"
    for m rv ns x m'
    using that settle_nodes_seals [OF T fire that(2,3)] drafting_revision [OF that(1)]
    by (cases "is_draft rv") (auto simp: sealing.same)
  define c where "c = (\<lambda>moved. if moved then ret True else andthen (auto E fire (ORev r)) (\<lambda>moved'.
         if moved' then ret True else settle_revisions E fire rs))"
  have c: "sustains seals (c b)" for b
    unfolding c_def by (intro sealing.sustaining auto_rev_seals [OF T fire] Cons.IH)
  have p: "sustains seals (andthen (move_pointer fire r rv) (\<lambda>_. ret True))" for rv
    by (intro sealing.sustaining move_pointer_seals fire)
  show ?case
    unfolding sustains_def
  proof (intro allI impI)
    fix m x m' assume run: "settle_revisions E fire (r # rs) m = (x, m')" and x: "goes_on x"
    show "seals m m'"
    proof (cases "revision m r")
      case None
      then show ?thesis using run x by (simp add: andthen_eq)
    next
      case (Some rv)
      show ?thesis
      proof (cases "r_awaiting_pointer rv")
        case True
        then have "andthen (move_pointer fire r rv) (\<lambda>_. ret True) m = (x, m')"
          using run Some by (simp add: andthen_eq)
        then show ?thesis by (rule sustainsD [OF p _ x])
      next
        case False
        obtain y m1 where y: "settle_nodes E fire r (if is_draft rv then map fst (r_nodes rv) else []) m = (y, m1)"
          by fastforce
        have "andthen (settle_nodes E fire r (if is_draft rv then map fst (r_nodes rv) else [])) c m = (x, m')"
          using run Some False unfolding settle_revisions.simps c_def [symmetric]
          by (simp add: andthen_eq [of "the_rev r"])
        then have rest: "(\<exists>b. y = Inr b \<and> c b m1 = (x, m')) \<or> (\<exists>e. y = Inl e \<and> x = Inl e \<and> m1 = m')"
          using y by (auto simp: andthen_eq)
        then have "goes_on y" using x by auto
        then have "seals m m1" using nodes [OF Some y] by blast
        then show ?thesis using rest x sustainsD [OF c] sealing.compose by blast
      qed
    qed
  qed
qed

lemma settle_seals:
  assumes "e_table E = spec_table" "fires_sealed fire"
  shows "sustains seals (settle E fire)"
proof -
  have "sustains seals (settle_upto k E fire)" for k
    by (induction k) (auto simp: settle_once_def
        intro!: sealing.sustaining settle_revisions_seals assms)
  then show ?thesis by (simp add: settle_def)
qed

section \<open>One event\<close>

lemma fire_node_works:
  "e_table E = spec_table \<Longrightarrow> sustains (node_work r) (fire_node E r e p i g)"
  unfolding fire_node_def
  by (intro node_working.sustaining keeps_sustains [OF node_work_on_event] take_row_works
      dependency_changed_works)

lemma on_event_seals: "sustains seals (on_event (ORev r) e p)"
  by (rule dull_seals [OF dull_on_event])

lemma nodes_for_draft: "\<not> drafting r m \<Longrightarrow> nodes_for r e p m = []"
  by (auto simp: nodes_for_def drafting_def views_def split: option.splits)

definition work_nodes :: "env \<Rightarrow> int \<Rightarrow> event \<Rightarrow> payload \<Rightarrow> gathered \<Rightarrow> gathered act" where
  "work_nodes E r e p g = andthen (gets (nodes_for r e p)) (\<lambda>ns. loop (fire_node E r e p) ns g)"

lemma work_nodes_works: "e_table E = spec_table \<Longrightarrow> sustains (node_work r) (work_nodes E r e p g)"
  unfolding work_nodes_def by (intro node_working.sustaining fire_node_works)

lemma work_nodes_seals:
  assumes "e_table E = spec_table"
  shows "sustains seals (work_nodes E r e p g)"
  unfolding sustains_def
proof (intro allI impI)
  fix m x m' assume run: "work_nodes E r e p g m = (x, m')" and x: "goes_on x"
  show "seals m m'"
  proof (cases "drafting r m")
    case True
    then show ?thesis by (rule works_seals [OF work_nodes_works [OF assms] run x])
  next
    case False
    then show ?thesis using run by (auto simp: work_nodes_def andthen_eq nodes_for_draft sealing.same)
  qed
qed

lemma fire_revision_work:
  "fire_revision E e p r g = andthen (on_event (ORev r) e p) (\<lambda>_. andthen (take_row E (ORev r) e p)
     (\<lambda>outcome. if e \<in> set all_nodes \<and> \<not> fst outcome \<and> e \<noteq> BlockedInputFixed
        then ret (gather r outcome g) else work_nodes E r e p (gather r outcome g)))"
  unfolding fire_revision_def work_nodes_def Let_def by (rule refl)

lemma fire_revision_seals:
  "e_table E = spec_table \<Longrightarrow> sustains seals (fire_revision E e p r g)"
  unfolding fire_revision_work
  by (intro sealing.sustaining on_event_seals take_row_seals work_nodes_seals)

section \<open>An approved outline\<close>

text \<open>
  The one write on nodes the code does not guard with \<open>is_draft\<close> is the re-check of what an
  approved outline added.  An outline is approved only in a draft, so a revision that is none
  rests on what it rested on and nothing is added.
\<close>

lemma outline_rows: "\<forall>t \<in> set spec_revision_rows. t_event t = OutlineApproved \<longrightarrow>
    \<not> t_spawn t \<and> t_target_rule t = None \<and> t_target t = Some (RevSt ContentInProgress)
    \<and> t_note t \<noteq> Some Spawn"
  by code_simp

definition state_kept :: "(view \<Rightarrow> view \<Rightarrow> bool) \<Rightarrow> bool" where
  "state_kept P \<longleftrightarrow> (\<forall>v v'. P v v' \<longrightarrow> v_state v' = v_state v)"

lemma state_kept_parts:
  "state_kept P \<Longrightarrow> state_kept Q \<Longrightarrow> state_kept (P OO Q)"
  "state_kept P \<Longrightarrow> state_kept (only_v b P)"
  "state_kept (enter_v old)" "state_kept leave_v" "state_kept (recover_v old)"
  "state_kept answer_v" "state_kept publish_v" "state_kept (note_v k old)"
  by (auto simp: state_kept_def only_v_def move_defs note_v_def text_v_iff
      split: option.splits row_note.splits)

lemma moved_state:
  assumes "moved_v k s v v'"
  shows "v_state v' = s"
proof -
  have kept: "state_kept (after_v (v_state v) s OO note_v k (v_state v))"
    unfolding after_v_def by (intro state_kept_parts)
  obtain w where w: "state_v s v w" "(after_v (v_state v) s OO note_v k (v_state v)) w v'"
    using assms unfolding moved_v_def by (rule relcomppE)
  have "v_state w = s" using w(1) by (simp add: state_v_def)
  moreover have "v_state v' = v_state w" using kept w(2) unfolding state_kept_def by blast
  ultimately show ?thesis by simp
qed

lemma outline_taken_draft:
  assumes T: "e_table E = spec_table" and t: "t \<in> set spec_revision_rows"
    and taken: "row_taken E t (ORev r) OutlineApproved p m m'" and ok: "all_ok m"
  shows "drafting r m'"
proof -
  obtain m0 m1 where m0: "candidate t (ORev r) OutlineApproved p m0"
    and run: "apply_row E t (ORev r) p m1 = (Inr (), m')"
    using taken by (auto simp: row_taken_def)
  then have row: "\<not> t_spawn t" "t_target_rule t = None" "t_target t = Some (RevSt ContentInProgress)"
      "t_note t \<noteq> Some Spawn"
    using outline_rows t by (auto simp: candidate_def)
  then have "move t (ORev r) (RevSt ContentInProgress) p m1 = (Inr (), m')"
    using run by (auto simp: apply_row_def the_state_def andthen_eq)
  from move_rev [OF this row(4)] obtain v v' where "views m' r = Some v'"
      "moved_v (t_note t) ContentInProgress v v'"
    by (auto simp: acts_def option_rel_Some1)
  then have v': "views m' r = Some v'" "v_state v' = ContentInProgress" using moved_state by auto
  have "seals m m'" using row_taken_seals [OF t T taken] .
  then have "all_ok m'" using ok by (simp add: seals_def)
  then have "view_ok v'" using v' by (auto simp: all_ok_def)
  then show ?thesis using v' by (auto simp: drafting_def v_draft_def view_ok_def)
qed

lemma fire_revision_outline:
  assumes T: "e_table E = spec_table" and ok: "all_ok m"
    and run: "fire_revision E OutlineApproved p r g m = (Inr g', m')"
  shows "views m' r = views m r \<or> drafting r m'"
proof -
  obtain m1 outcome m2 where m1: "on_event (ORev r) OutlineApproved p m = (Inr (), m1)"
    and m2: "take_row E (ORev r) OutlineApproved p m1 = (Inr outcome, m2)"
    and rest: "(if \<not> fst outcome then ret (gather r outcome g)
       else work_nodes E r OutlineApproved p (gather r outcome g)) m2 = (Inr g', m')"
    using run by (auto simp: fire_revision_work andthen_eq all_nodes_def)
  have s1: "same_views m m1" by (rule keepsD [OF dull_on_event m1])
  then have ok1: "all_ok m1" using ok same_views_seals by (auto simp: seals_def)
  from take_first_cases [OF m2 [unfolded take_row_def]]
  consider "same_views m1 m2" "\<not> fst outcome"
    | t where "t \<in> set spec_revision_rows" "row_taken E t (ORev r) OutlineApproved p m1 m2" "fst outcome"
    using T by (cases outcome) (auto simp: spec_table_def)
  then show ?thesis
  proof cases
    case 1
    then show ?thesis using rest s1 by (auto simp: same_views_def)
  next
    case 2
    then have d: "drafting r m2" using outline_taken_draft [OF T _ _ ok1] by blast
    have "all_ok m2" using row_taken_seals [OF 2(1) T 2(2)] ok1 by (simp add: seals_def)
    moreover have "node_work r m2 m'"
      using sustainsD [OF work_nodes_works [OF T]] rest 2 by auto
    ultimately show ?thesis using node_work_drafting d by blast
  qed
qed

lemma each_still: "(\<And>x. x \<in> set xs \<Longrightarrow> f x m = (Inr (), m)) \<Longrightarrow> each f xs m = (Inr (), m)"
  by (induction xs) (auto simp: andthen_def)

lemma rests_on_text: "node_text n = node_text n' \<Longrightarrow> rests_on n = rests_on n'"
  by (simp add: node_text_def rests_on_def)

lemma dependencies_body:
  "v_body (view_of x) = v_body (view_of y) \<Longrightarrow> dependencies x = dependencies y"
proof -
  have "dependencies x = map (\<lambda>(i, t). (i, concat (map (\<lambda>k. map str_of (filter is_pstr
     (items_of (dget (entries_of (snd (snd t))) k)))) dependency_keys))) (v_body (view_of x))" for x
    by (simp add: dependencies_def view_of_def node_text_def rests_on_def case_prod_unfold comp_def)
  then show "v_body (view_of x) = v_body (view_of y) \<Longrightarrow> dependencies x = dependencies y" by simp
qed

lemma body_keys: "map fst (v_body (view_of rv)) = map fst (r_nodes rv)"
  by (simp add: view_of_def)

lemma dependencies_added_still:
  assumes "revision m r = Some rv" "distinct (map fst (r_nodes rv))"
  shows "dependencies_added E r (dependencies rv) m = (Inr (), m)"
proof -
  have "map_of (dependencies rv) i = Some now" if "(i, now) \<in> set (dependencies rv)" for i now
    using that assms(2) by (intro map_of_is_SomeI) (simp_all add: dependencies_def)
  then show ?thesis
    unfolding dependencies_added_def
    by (auto simp: andthen_def the_rev_def gets_def unless_none_def ret_def assms(1) sorted_names_def
        Let_def intro!: each_still split: prod.split)
qed

section \<open>Firing\<close>

lemma conclude_seals:
  assumes T: "e_table E = spec_table" and fire: "fires_sealed fire"
  shows "sustains seals (conclude E fire e p w revs [] g)"
  unfolding conclude_def
  by (auto intro!: sealing.sustaining sustains_cases dependency_changed_seals react_seals
      record_step_seals settle_seals assms)

lemma conclude_outline_seals:
  assumes T: "e_table E = spec_table" and fire: "fires_sealed fire"
    and still: "drafting r m \<or> dependencies_added E r prior m = (Inr (), m)"
    and run: "conclude E fire OutlineApproved p w [r] [(r, prior)] g m = (x, m')" and g: "goes_on x"
  shows "seals m m'"
proof -
  define rest where "rest = block [only_if (\<not> a_moved g \<and> OutlineApproved \<notin> set broadcast) (raise MachineRefused),
      each (react E) [r],
      andthen (lift (\<lambda>m. case a_acted g of Some r \<Rightarrow> Inr r | None \<Rightarrow> subject p m)) (\<lambda>r.
        record_step r OutlineApproved p w),
      settle E fire]"
  have rest: "sustains seals rest"
    unfolding rest_def
    by (auto intro!: sealing.sustaining react_seals record_step_seals settle_seals assms)
  obtain y m1 where y: "dependencies_added E r prior m = (y, m1)" by fastforce
  have "andthen (dependencies_added E r prior) (\<lambda>_. rest) m = (x, m')"
    using run unfolding conclude_def rest_def
    by (simp add: broadcast_def edited_node_def new_content_def only_if_def andthen_assoc)
  then have "y = Inr () \<and> rest m1 = (x, m') \<or> (\<exists>e. y = Inl e \<and> x = Inl e \<and> m' = m1)"
    using y by (auto simp: andthen_eq)
  moreover have "seals m m1" if "goes_on y"
    using still y works_seals [OF dependencies_added_works [OF T] y that] sealing.same by auto
  ultimately show ?thesis
    using g rest sustainsD sealing.compose by (metis goes_on.simps)
qed

lemma point_seals:
  assumes "validate_targets e p revs m = Inr ()"
    and "only_if (e = LivePointerMoved) (point_at p) m = (x, m')" "goes_on x"
  shows "seals m m'"
proof (cases "e = LivePointerMoved")
  case True
  then obtain r where r: "named_revision (m_store m) (pget p ''to'') = Inr (Some r)" "in_state m r Published"
    using assms(1) by (auto simp: validate_targets_def split: option.splits if_splits)
  obtain to where to: "dlookup (p_fields p) ''to'' = Some to"
      "m' = on_store (\<lambda>S. S\<lparr>st_live_pointer := as_int to\<rparr>) m"
    using assms(2,3) True
    by (auto simp: only_if_def point_at_def andthen_eq key_error_def split: option.splits)
  have "as_int to = Some r"
    using r(1) to(1) by (auto simp: named_revision_def pget_def dget_def split: pyval.splits option.splits if_splits)
  then have "pointer m' = Some r" "views m' = views m"
    using to(2) by (auto simp: pointer_def on_store_def views_def revision_def fun_eq_iff)
  moreover have "all_ok m \<Longrightarrow> \<exists>v. views m r = Some v \<and> v_ever v"
    using r(2) by (auto simp: in_state_views all_ok_def view_ok_def)
  ultimately show ?thesis by (auto simp: seals_def all_ok_def keeps_revs_def)
next
  case False
  then show ?thesis using assms(2) by (simp add: only_if_def sealing.same)
qed

lemma collect_none [simp]: "collect f [] m = (x, m') \<longleftrightarrow> x = Inr [] \<and> m' = m"
  by simp

lemma andthen_lift: "andthen (lift f) g m = (case f m of Inl e \<Rightarrow> (Inl e, m) | Inr y \<Rightarrow> g y m)"
  by (simp add: andthen_def lift_def split: sum.split)

lemma sustains_after:
  assumes "c m = (y, m1)" "andthen c f m = (x, m')" "goes_on x"
    and "goes_on y \<Longrightarrow> seals m m1" "\<And>z. sustains seals (f z)"
  shows "seals m m'"
proof -
  consider z where "y = Inr z" "f z m1 = (x, m')" | e where "y = Inl e" "x = Inl e" "m' = m1"
    using assms(1,2) by (cases y) (auto simp: andthen_def)
  then show ?thesis
  proof cases
    case 1
    have "seals m m1" using assms(4) 1(1) by simp
    moreover have "seals m1 m'" by (rule sustainsD [OF assms(5) 1(2) assms(3)])
    ultimately show ?thesis by (rule sealing.compose)
  next
    case 2
    then show ?thesis using assms(3,4) by simp
  qed
qed

lemma carry_out_other:
  "e \<noteq> OutlineApproved \<Longrightarrow> carry_out E fire e p w revs = andthen (only_if (e = LivePointerMoved) (point_at p))
     (\<lambda>_. andthen (loop (fire_revision E e p) revs \<lparr>a_moved = False, a_undecided = False, a_acted = None\<rparr>)
       (conclude E fire e p w revs []))"
  by (simp add: carry_out_def)

lemma carry_out_outline:
  "revision m r = Some rv \<Longrightarrow> carry_out E fire OutlineApproved p w [r] m = andthen (loop (fire_revision E OutlineApproved p) [r]
     \<lparr>a_moved = False, a_undecided = False, a_acted = None\<rparr>)
       (conclude E fire OutlineApproved p w [r] [(r, dependencies rv)]) m"
  by (simp add: carry_out_def only_if_def dependencies_at_def andthen_def the_rev_def gets_def
      unless_none_def ret_def)

lemma loop_once: "loop f [r] g = f r g"
  by (simp add: andthen_def ret_def fun_eq_iff split: prod.split sum.split)

lemma outline_seals:
  assumes T: "e_table E = spec_table" and fire: "fires_sealed fire"
    and run: "carry_out E fire OutlineApproved p w [r] m = (x, m')" and x: "goes_on x"
  shows "seals m m'"
proof (cases "all_ok m")
  case ok: True
  show ?thesis
  proof (cases "revision m r")
    case None
    then have "x = Inl (PyError ''KeyError'')"
      using run by (auto simp: carry_out_def andthen_eq dependencies_at_def only_if_def)
    then show ?thesis using x by simp
  next
    case (Some rv)
    let ?g = "\<lparr>a_moved = False, a_undecided = False, a_acted = None\<rparr>"
    have "andthen (fire_revision E OutlineApproved p r ?g)
        (conclude E fire OutlineApproved p w [r] [(r, dependencies rv)]) m = (x, m')"
      using run carry_out_outline [OF Some] by (simp only: loop_once)
    then consider g m1 where "fire_revision E OutlineApproved p r ?g m = (Inr g, m1)"
        "conclude E fire OutlineApproved p w [r] [(r, dependencies rv)] g m1 = (x, m')"
      | e where "fire_revision E OutlineApproved p r ?g m = (Inl e, m')" "x = Inl e"
      unfolding andthen_eq by blast
    then show ?thesis
    proof cases
      case 1
      have s: "seals m m1" using sustainsD [OF fire_revision_seals [OF T] 1(1)] by simp
      have "dependencies_added E r (dependencies rv) m1 = (Inr (), m1)" if same: "views m1 r = views m r"
      proof -
        obtain rv1 where rv1: "revision m1 r = Some rv1" "view_of rv1 = view_of rv"
          using same Some by (auto simp: views_def)
        have "view_ok (view_of rv)" using ok Some by (auto simp: all_ok_def views_def)
        then have "distinct (map fst (v_body (view_of rv)))" unfolding view_ok_def by blast
        then have "distinct (map fst (r_nodes rv1))" unfolding rv1(2) [symmetric] by (simp only: body_keys)
        moreover have "dependencies rv = dependencies rv1" using rv1(2) by (intro dependencies_body) simp
        ultimately show ?thesis using dependencies_added_still rv1(1) by simp
      qed
      then have "drafting r m1 \<or> dependencies_added E r (dependencies rv) m1 = (Inr (), m1)"
        using fire_revision_outline [OF T ok 1(1)] by blast
      then have "seals m1 m'" using conclude_outline_seals [OF T fire _ 1(2) x] by blast
      then show ?thesis using s sealing.compose by blast
    next
      case 2
      then show ?thesis using sustainsD [OF fire_revision_seals [OF T] 2(1)] x by simp
    qed
  qed
qed (simp add: seals_def)

lemma outline_revisions: "revisions_for OutlineApproved p m = Inr revs \<Longrightarrow> \<exists>r. revs = [r]"
  by (auto simp: revisions_for_def broadcast_def Let_def split: if_splits option.splits)

lemma fire_body_seals:
  assumes T: "e_table E = spec_table" and fire: "fires_sealed fire"
  shows "sustains seals (fire_body E fire e p w)"
  unfolding sustains_def
proof (intro allI impI)
  fix m x m' assume run: "fire_body E fire e p w m = (x, m')" and x: "goes_on x"
  consider "m' = m" | revs where "revisions_for e p m = Inr revs" "validate_targets e p revs m = Inr ()"
      "carry_out E fire e p w revs m = (x, m')"
    using run by (auto simp: fire_body_def andthen_lift split: sum.splits)
  then show "seals m m'"
  proof cases
    case 1
    then show ?thesis by (simp add: sealing.same)
  next
    case (2 revs)
    show ?thesis
    proof (cases "e = OutlineApproved")
      case True
      then show ?thesis using outline_revisions 2 outline_seals [OF T fire _ x] by blast
    next
      case False
      obtain y m1 where y: "only_if (e = LivePointerMoved) (point_at p) m = (y, m1)" by fastforce
      have run': "andthen (only_if (e = LivePointerMoved) (point_at p))
          (\<lambda>_. andthen (loop (fire_revision E e p) revs \<lparr>a_moved = False, a_undecided = False, a_acted = None\<rparr>)
            (conclude E fire e p w revs [])) m = (x, m')"
        using 2(3) by (simp only: carry_out_other [OF False])
      show ?thesis
        by (rule sustains_after [OF y run' x])
          (auto intro!: point_seals [OF 2(2) y] sealing.sustaining fire_revision_seals conclude_seals assms)
    qed
  qed
qed

lemma fire_inner_seals:
  "e_table E = spec_table \<Longrightarrow> fires_sealed fire \<Longrightarrow> sustains seals (fire_inner E fire e kv w)"
  unfolding fire_inner_def by (intro sealing.sustaining fire_body_seals)

lemma depth_views:
  "views (deeper m) = views m" "views (shallower m) = views m"
  "pointer (deeper m) = pointer m" "pointer (shallower m) = pointer m"
  by (auto simp: views_def revision_def pointer_def deeper_def shallower_def fun_eq_iff)

lemma seals_depth: "seals (deeper m) m' \<Longrightarrow> seals m (shallower m')"
  by (simp add: seals_def all_ok_def keeps_revs_def depth_views)

lemma restored_views:
  "views (shallower (restore (m_store m) c ev m')) = views m"
  "pointer (shallower (restore (m_store m) c ev m')) = pointer m"
  by (auto simp: views_def revision_def pointer_def shallower_def restore_def forget_def fun_eq_iff
      split: option.split)

lemma restored_seals: "seals m (shallower (restore (m_store m) c ev m'))"
  by (intro same_views_seals) (simp add: same_views_def restored_views)

lemma fire_upto_sealed: "e_table E = spec_table \<Longrightarrow> fires_sealed (fire_upto k E)"
proof (induction k)
  case 0
  then show ?case by (simp add: fires_sealed_def sealing.sustains_raise)
next
  case (Suc k)
  have inner: "sustains seals (fire_inner E (fire_upto k E) e kv w)" for e kv w
    using Suc by (intro fire_inner_seals)
  show ?case
    unfolding fires_sealed_def sustains_def
  proof (intro allI impI)
    fix e kv w m x m' assume run: "fire_upto (Suc k) E e kv w m = (x, m')" and x: "goes_on x"
    show "seals m m'"
    proof (cases "m_depth m = 0")
      case False
      then show ?thesis using run x sustainsD [OF inner] by (simp add: fire_with_def)
    next
      case True
      obtain y m1 where y: "fire_inner E (fire_upto k E) e kv w (deeper m) = (y, m1)" by fastforce
      show ?thesis
      proof (cases y)
        case (Inl err)
        then show ?thesis
          using run True y restored_seals by (auto simp: fire_with_def split: if_splits)
      next
        case (Inr u)
        then show ?thesis
          using run True y sustainsD [OF inner y] seals_depth by (auto simp: fire_with_def)
      qed
    qed
  qed
qed

end
