(* ===== verification/Sample.thy ===== *)
theory Sample
  imports Machine_Core
begin

text \<open>
  One small deployment, used where a theorem is applied to concrete values: an organisation of
  one editor, engines that find nothing wrong, no screening port, and the spec tables.
\<close>

definition sample_pass :: "exn + verdict" where
  "sample_pass = Inr (Allowed [])"

definition sample_engines :: implemented where
  "sample_engines = \<lparr>i_schema_valid = \<lambda>_ _. sample_pass, i_policy_allows = \<lambda>_ _ _ _ _. sample_pass,
     i_feasible = \<lambda>_ _. sample_pass, i_skills_grounded = \<lambda>_ _. sample_pass,
     i_grounded = \<lambda>_ _. sample_pass, i_references_live = \<lambda>_ _ _. sample_pass,
     i_no_permission_leak = \<lambda>_ _ _ _. sample_pass, i_ordering_acyclic = \<lambda>_. sample_pass,
     i_objectives_covered = \<lambda>_ _ _ _ _. sample_pass, i_content_approved = \<lambda>_ _ _. sample_pass,
     i_trace_satisfies_ltl = \<lambda>_. sample_pass, i_block_schemas_valid = \<lambda>_ _ _ _. sample_pass,
     i_arithmetic_consistent = \<lambda>_ _. sample_pass,
     i_approval_chain_satisfied = \<lambda>_ _ _. sample_pass, i_depends_on = \<lambda>_ _. Inr []\<rparr>"

definition sample_versions :: versions where
  "sample_versions = [(''policy'', PStr ''p1''), (''guardrail'', PStr ''g1''),
     (''catalog'', PStr ''c1''), (''kb'', PStr ''k1'')]"

definition sample_world :: world where
  "sample_world = \<lparr>w_org = [], w_people = [(''ana'', [(PStr ''role'', PStr ''editor'')])],
     w_thresholds = [], w_catalog = [], w_articles = [], w_visibility = [], w_block_types = [],
     w_block_schemas = [], w_versions = sample_versions\<rparr>"

definition sample_env :: env where
  "sample_env = \<lparr>e_table = spec_table, e_world = sample_world, e_impl = sample_engines,
     e_screener = None, e_digest = \<lambda>_. []\<rparr>"

definition sample_machine :: machine where
  "sample_machine = new_machine sample_world
     \<lparr>cfg_repair_budget = 2, cfg_author = PStr ''ana''\<rparr> [] (PInt 3)"

lemma sample_depth [simp]: "m_depth sample_machine = 0"
  by code_simp

lemma sample_table [simp]: "e_table sample_env = spec_table"
  by (simp add: sample_env_def)

end
