(* ===== verification/Machine_Properties.thy ===== *)
theory Machine_Properties
  imports Firing Sealed_Firing Sample
begin

text \<open>
  What holds of the machine after any history of calls: what a refused event leaves, what
  asking leaves, how the trace grows, and what a published revision is safe from.
\<close>

section \<open>Histories keep the frame and the seal\<close>

lemma permits_puts_back_state:
  "permits k E e kv m = (res, m') \<Longrightarrow> m_store m' = m_store m \<and> m_current m' = m_current m
     \<and> m_depth m' = m_depth m"
proof -
  obtain y m1 where y: "fire_inner E (fire_upto k E) e kv ''membrane'' (deeper m) = (y, m1)" by fastforce
  then have "m_depth m1 = m_depth (deeper m)" by (rule inner_depth)
  then show "permits k E e kv m = (res, m') \<Longrightarrow> ?thesis"
    using y by (auto simp: permits_def restore_def forget_def shallower_def deeper_def)
qed

lemma reached_grows: "reached k E m m' \<Longrightarrow> grows m m'"
proof (induction rule: reached.induct)
  case (here m)
  then show ?case by (rule growth.same)
next
  case (fired m m' e kv w res m'')
  then show ?case using fire_upto_grows growth.compose by blast
next
  case (asked m m' e kv res m'')
  then have "grows m' m''" using permits_puts_back_state by (auto simp: grows_def)
  then show ?case using asked growth.compose by blast
qed

lemma fire_seals:
  assumes "e_table E = spec_table" "m_depth m = 0" "fire_upto (Suc k) E e kv w m = (res, m')"
  shows "seals m m'"
proof (cases res)
  case (Inr u)
  then show ?thesis
    using fire_upto_sealed [OF assms(1)] sustainsD assms(3) by (fastforce simp: fires_sealed_def)
next
  case (Inl x)
  then have "m_store m' = m_store m \<or> m_store m' = discarding e (m_store m)"
    using fire_outcome [OF assms(2,3)] by auto
  then show ?thesis
    by (intro same_views_seals)
      (auto simp: same_views_def views_def revision_def pointer_def discarding_def fun_eq_iff)
qed

lemma reached_seals:
  assumes "reached k E m m'" "e_table E = spec_table" "m_depth m = 0"
  shows "seals m m' \<and> m_depth m' = 0"
  using assms
proof (induction rule: reached.induct)
  case (here m)
  then show ?case by (simp add: sealing.same)
next
  case (fired m m' e kv w res m'')
  then have "seals m m'" "m_depth m' = 0" by simp_all
  moreover have "seals m' m''" using fire_seals fired \<open>m_depth m' = 0\<close> by blast
  moreover have "m_depth m'' = m_depth m'"
    using fire_upto_grows [OF fired(2)] by (simp add: grows_def)
  ultimately show ?case using sealing.compose by auto
next
  case (asked m m' e kv res m'')
  then have "seals m m'" "m_depth m' = 0" by simp_all
  moreover have "m_store m'' = m_store m'" "m_depth m'' = m_depth m'"
    using permits_puts_back_state asked(2) by blast+
  moreover have "same_views m' m''"
    using calculation by (simp add: same_views_def views_def revision_def pointer_def fun_eq_iff)
  ultimately show ?case using same_views_seals sealing.compose by metis
qed

definition first_store :: "config \<Rightarrow> versions \<Rightarrow> (int \<times> int) list \<Rightarrow> pyval \<Rightarrow> store" where
  "first_store cfg cur rd en = (empty_store cfg cur rd en)\<lparr>st_revisions := [(1, new_revision_record 1 None)]\<rparr>"

lemma new_revision_first:
  "new_revision (empty_store cfg cur rd en) None = (new_revision_record 1 None, first_store cfg cur rd en)"
  by (simp add: new_revision_def next_revision_id_def empty_store_def first_store_def Let_def
      new_revision_record_def)

lemma first_revision: "st_revisions (first_store cfg cur rd en) = [(1, new_revision_record 1 None)]"
  by (simp add: first_store_def)

lemma r_id_new [simp]: "r_id (new_revision_record i p) = i"
  by (simp add: new_revision_record_def)

lemma new_machine_record:
  "new_machine w cfg rd en = \<lparr>m_store = (let S = first_store cfg (w_versions w) rd en in
       S\<lparr>st_steps := st_steps S @ [step_of S (new_revision_record 1 None) Initial no_payload ''store'']\<rparr>),
     m_current = 1, m_cache = [], m_cached_at = -1, m_depth = 0\<rparr>"
  unfolding new_machine_def new_revision_first
  by (simp add: record_step_def the_rev_def andthen_def gets_def unless_none_def modify_def
      on_store_def revision_def first_revision ret_def Let_def)

lemma new_machine_revision:
  "revision (new_machine w cfg rd en) r = (if r = 1 then Some (new_revision_record 1 None) else None)"
  by (simp add: new_machine_record revision_def first_revision Let_def)

lemma new_machine_depth: "m_depth (new_machine w cfg rd en) = 0"
  by (simp add: new_machine_record)

lemma new_machine_pointer: "pointer (new_machine w cfg rd en) = None"
  by (simp add: new_machine_record pointer_def first_store_def empty_store_def Let_def)

lemma new_view_ok: "view_ok (view_of (new_revision_record 1 None))"
  by (simp add: view_of_def new_revision_record_def view_ok_def)

lemma new_machine_ok: "all_ok (new_machine w cfg rd en)"
  unfolding all_ok_def views_def new_machine_revision
  by (simp add: new_view_ok new_machine_pointer)

lemma new_machine_numbered: "numbered (st_steps (m_store (new_machine w cfg rd en)))"
  by (simp add: new_machine_record numbered_def dget_step_of first_store_def empty_store_def Let_def)

section \<open>One event\<close>

text \<open>C2. A refused or failed event leaves the store and the current revision exactly as it found
  them: only a refusal adds one entry to the discard log, and a guardrail that is down or an
  unchecked outline reaches the caller as a refusal.\<close>

theorem fire_all_or_nothing:
  assumes "m_depth m = 0" and "fire_upto (Suc k) E e kv w m = (Inl x, m')"
  shows "m_store m' = (if x = MachineRefused then discarding e (m_store m) else m_store m)
    \<and> m_current m' = m_current m \<and> m_depth m' = 0 \<and> x \<notin> {ServiceDown, UncheckedOutline}"
  using fire_outcome [OF assms] assms fire_upto_grows [OF assms(2)] by (auto simp: grows_def)

theorem fire_all_or_nothing_witness:
  "m_store (snd (fire_upto 3 sample_env PublishRequested [] ''editor'' sample_machine))
     = discarding PublishRequested (m_store sample_machine)"
proof -
  have refused: "fst (fire_upto (Suc 2) sample_env PublishRequested [] ''editor'' sample_machine)
      = Inl MachineRefused"
    by code_simp
  then obtain m' where run: "fire_upto (Suc 2) sample_env PublishRequested [] ''editor'' sample_machine
      = (Inl MachineRefused, m')"
    by (metis prod.collapse)
  from fire_all_or_nothing [OF sample_depth run] have
    "m_store m' = discarding PublishRequested (m_store sample_machine)" by simp
  then show ?thesis using run by (simp add: numeral_3_eq_3)
qed

text \<open>Asking whether an event is legal puts back everything: store, current revision and depth,
  whatever the event does when it is tried and however it ends.\<close>

theorem permits_changes_nothing:
  "m_store (snd (permits k E e kv m)) = m_store m \<and> m_current (snd (permits k E e kv m)) = m_current m
     \<and> m_depth (snd (permits k E e kv m)) = m_depth m"
  using permits_puts_back_state [of k E e kv m] by (metis prod.collapse)

text \<open>C3. The answer is the machine's own: \<open>permits\<close> says yes exactly when firing the same event from
  the same machine would be taken, and no exactly when it would be refused, except that an
  outline that was never checked is refused by \<open>fire\<close> and raises out of \<open>permits\<close>.\<close>

theorem permits_iff_fire:
  assumes "m_depth m = 0"
  shows "(fst (permits k E e kv m) = Inr True
        \<longleftrightarrow> fst (fire_upto (Suc k) E e kv ''membrane'' m) = Inr ())
    \<and> (fst (permits k E e kv m) \<in> {Inr False, Inl UncheckedOutline}
        \<longleftrightarrow> fst (fire_upto (Suc k) E e kv ''membrane'' m) = Inl MachineRefused)"
proof -
  obtain y m1 where y: "fire_inner E (fire_upto k E) e kv ''membrane'' (deeper m) = (y, m1)" by fastforce
  then show ?thesis
    using assms by (cases y) (auto simp: permits_def fire_with_def)
qed

theorem permits_iff_fire_witness:
  "fst (permits 2 sample_env PublishRequested [] sample_machine) = Inr False
     \<and> fst (fire_upto 3 sample_env PublishRequested [] ''membrane'' sample_machine) = Inl MachineRefused"
proof -
  have p: "fst (permits 2 sample_env PublishRequested [] sample_machine) = Inr False" by code_simp
  then show ?thesis
    using permits_iff_fire [OF sample_depth, of 2 sample_env PublishRequested "[]"]
    by (simp add: numeral_3_eq_3 numeral_2_eq_2)
qed

section \<open>The trace and the frame\<close>

text \<open>C4. Whatever is called, the trace only grows at its end, every step carries its own position
  and the position of the step before it, keys that landed stay landed, revisions and nodes
  are never removed, and a publication is never taken back.\<close>

theorem history_only_grows:
  assumes "reached k E (new_machine w cfg rd en) m" and "reached k E m m'"
  shows "prefix (st_steps (m_store m)) (st_steps (m_store m')) \<and> numbered (st_steps (m_store m'))
    \<and> set (st_used_keys (m_store m)) \<subseteq> set (st_used_keys (m_store m'))
    \<and> prefix (st_discarded (m_store m)) (st_discarded (m_store m'))
    \<and> revs_grow (st_revisions (m_store m)) (st_revisions (m_store m'))"
  using reached_grows [OF assms(1)] reached_grows [OF assms(2)] new_machine_numbered
  by (auto simp: grows_def store_grows_def)

theorem history_only_grows_witness:
  "numbered (st_steps (m_store (snd (permits 2 sample_env BriefSubmitted [] sample_machine))))"
proof -
  have "reached 2 sample_env sample_machine (snd (permits 2 sample_env BriefSubmitted [] sample_machine))"
    by (rule reached.asked [OF reached.here, of _ _ _ _ _ "fst (permits 2 sample_env BriefSubmitted [] sample_machine)"]) simp
  from history_only_grows [OF reached.here this [unfolded sample_machine_def]]
  show ?thesis by (simp add: sample_machine_def)
qed

section \<open>A revision's life\<close>

lemma sealed_revision_kept:
  assumes "all_ok m" and "seals m m'" and "revision m r = Some rv" and "\<not> is_draft rv"
  shows "\<exists>rv'. revision m' r = Some rv' \<and> \<not> is_draft rv'
    \<and> map (\<lambda>(i, n). (i, n_state n, n_content n, n_spec n)) (r_nodes rv')
        = map (\<lambda>(i, n). (i, n_state n, n_content n, n_spec n)) (r_nodes rv)
    \<and> r_committed_outline rv' = r_committed_outline rv
    \<and> r_outline_version rv' = r_outline_version rv"
proof -
  have "keeps_revs m m'" using assms(1,2) by (simp add: seals_def)
  moreover have "views m r = Some (view_of rv)" using assms(3) by (simp add: views_def)
  ultimately obtain v' where "views m' r = Some v'" "sealed_v (view_of rv) v'"
    unfolding keeps_revs_def by blast
  then obtain rv' where rv': "revision m' r = Some rv'" "sealed_v (view_of rv) (view_of rv')"
    by (auto simp: views_def)
  then have "\<not> is_draft rv'" "v_body (view_of rv') = v_body (view_of rv)"
      "v_outline (view_of rv') = v_outline (view_of rv)" "v_version (view_of rv') = v_version (view_of rv)"
    using assms(4) by (simp_all add: sealed_v_def)
  then show ?thesis
    using rv'(1) by (auto simp: view_of_def node_text_def)
qed

text \<open>C5. A revision that is not a draft any more (published once, archived, or blocked for good)
  never is one again, and no event whatever changes its outline, its outline's version, or
  the state, content or specification of any of its nodes.\<close>

theorem published_revision_sealed:
  assumes "e_table E = spec_table" and "reached k E (new_machine w cfg rd en) m" and "reached k E m m'"
    and "revision m r = Some rv" and "\<not> is_draft rv"
  shows "\<exists>rv'. revision m' r = Some rv' \<and> \<not> is_draft rv'
    \<and> map (\<lambda>(i, n). (i, n_state n, n_content n, n_spec n)) (r_nodes rv')
        = map (\<lambda>(i, n). (i, n_state n, n_content n, n_spec n)) (r_nodes rv)
    \<and> r_committed_outline rv' = r_committed_outline rv
    \<and> r_outline_version rv' = r_outline_version rv"
proof -
  from reached_seals [OF assms(2,1) new_machine_depth] have
    s: "seals (new_machine w cfg rd en) m" and d: "m_depth m = 0" by simp_all
  then have "all_ok m" using new_machine_ok by (simp add: seals_def)
  then show ?thesis using reached_seals [OF assms(3,1) d] assms(4,5) by (intro sealed_revision_kept) simp_all
qed

definition sample_archived :: machine where
  "sample_archived = snd (fire_upto 3 sample_env DraftDiscarded [] ''editor'' sample_machine)"

lemma sample_archived_reached: "reached 2 sample_env sample_machine sample_archived"
  unfolding sample_archived_def
  by (rule reached.fired [OF reached.here, of _ _ _ _ _ _ "fst (fire_upto 3 sample_env DraftDiscarded [] ''editor'' sample_machine)"])
    (simp add: numeral_3_eq_3 numeral_2_eq_2)

lemma sample_archived_revision:
  "revision sample_archived 1 = Some (the (revision sample_archived 1))"
  "\<not> is_draft (the (revision sample_archived 1))"
proof -
  have "revision sample_archived 1 \<noteq> None" by code_simp
  then show "revision sample_archived 1 = Some (the (revision sample_archived 1))" by simp
  show "\<not> is_draft (the (revision sample_archived 1))" by code_simp
qed

theorem published_revision_sealed_witness:
  "\<exists>rv'. revision (snd (permits 2 sample_env BriefSubmitted [] sample_archived)) 1 = Some rv'
     \<and> \<not> is_draft rv' \<and> r_committed_outline rv' = r_committed_outline (the (revision sample_archived 1))"
proof -
  have later: "reached 2 sample_env sample_archived (snd (permits 2 sample_env BriefSubmitted [] sample_archived))"
    by (rule reached.asked [OF reached.here, of _ _ _ _ _ "fst (permits 2 sample_env BriefSubmitted [] sample_archived)"]) simp
  from published_revision_sealed [OF sample_table sample_archived_reached [unfolded sample_machine_def]
      later sample_archived_revision]
  show ?thesis by blast
qed

lemma view_of_fields:
  "v_state (view_of rv) = r_state rv" "v_ever (view_of rv) = r_ever_published rv"
  "v_pending (view_of rv) = r_pending rv" "v_at (view_of rv) = r_blocked_at rv"
  "v_from (view_of rv) = r_blocked_from rv"
  by (simp_all add: view_of_def)

lemma published_states:
  "s \<notin> set working \<Longrightarrow> s \<noteq> BlockedFinal \<Longrightarrow> s \<in> {Published, StaleReview, Superseded, Withdrawn,
     Archived, ErrorRecovery, BlockedRecoverable}"
  by (cases s) simp_all

definition record_agrees :: "revision_record \<Rightarrow> bool" where
  "record_agrees rv \<longleftrightarrow>
     (r_state rv \<in> {Published, StaleReview, Superseded, Withdrawn} \<longrightarrow> r_ever_published rv)
     \<and> (r_ever_published rv \<longrightarrow> r_state rv \<in> {Published, StaleReview, Superseded, Withdrawn, Archived,
          ErrorRecovery, BlockedRecoverable})
     \<and> (r_state rv = ErrorRecovery \<longrightarrow> (\<exists>op s. r_pending rv = Some op \<and> op_issued_from op = RevSt s
          \<and> awaited (RevSt s) = Some (op_awaited op) \<and> (r_ever_published rv \<longleftrightarrow> s = StaleReview)))
     \<and> (r_state rv = BlockedRecoverable \<longrightarrow> (\<exists>s. r_blocked_from rv = Some s
          \<and> r_blocked_at rv = phase_of (RevSt s) \<and> (r_ever_published rv \<longleftrightarrow> s = StaleReview)))"

lemma held_iff: "held_from (view_of rv) s \<Longrightarrow> r_ever_published rv \<longleftrightarrow> s = StaleReview"
  by (auto simp: held_from_def view_of_fields split: if_splits)

lemma record_agrees_view: "view_ok (view_of rv) \<Longrightarrow> record_agrees rv"
  unfolding view_ok_def record_agrees_def view_of_fields
  using held_iff published_states by (fastforce simp: shown_def)

text \<open>C6. In every machine a history reaches, the state of a revision agrees with its record: what
  learners were shown was published, a published revision is never back at work, a revision
  in recovery has the operation it issued and from where, one blocked has the state it came
  back to and the phase that says so, and the live pointer names a revision that was published.\<close>

theorem revision_records_agree:
  assumes "e_table E = spec_table" and "reached k E (new_machine w cfg rd en) m"
  shows "(revision m r = Some rv \<longrightarrow> record_agrees rv)
    \<and> (st_live_pointer (m_store m) = Some p \<longrightarrow>
        (\<exists>x. revision m p = Some x \<and> r_ever_published x))"
proof -
  have ok: "all_ok m"
    using reached_seals [OF assms(2,1) new_machine_depth] new_machine_ok by (simp add: seals_def)
  then have "view_ok (view_of rv)" if "revision m r = Some rv"
    using that unfolding all_ok_def views_def by fastforce
  moreover have "\<exists>x. revision m p = Some x \<and> r_ever_published x" if "st_live_pointer (m_store m) = Some p"
    using ok that by (auto simp: all_ok_def pointer_def views_def view_of_fields)
  ultimately show ?thesis using record_agrees_view by blast
qed

theorem revision_records_agree_witness: "record_agrees (the (revision sample_archived 1))"
  using revision_records_agree [OF sample_table sample_archived_reached [unfolded sample_machine_def]]
    sample_archived_revision(1) by blast

end
