(* ===== verification/Containers.thy ===== *)
theory Containers
  imports State_Store
begin

text \<open>
  The operations of Python's built-in containers the engines use on values read from a trace,
  an outline or a brief, with the exceptions they raise on a value of another shape.  A set
  is the list of its members, each once, in the order they were met.
\<close>

section \<open>Equality and membership\<close>

definition type_error :: exn where
  "type_error = PyError ''TypeError''"

definition py_in :: "pyval \<Rightarrow> pyval list \<Rightarrow> bool" where
  "py_in x xs \<longleftrightarrow> (\<exists>y \<in> set xs. py_eq y x)"

definition dfind :: "pydict \<Rightarrow> pyval \<Rightarrow> pyval option" where
  "dfind d k = map_option snd (find (\<lambda>(k', v). py_eq k' k) d)"

fun hashable :: "pyval \<Rightarrow> bool" where
  "hashable (PList xs) = False"
| "hashable (PDict d) = False"
| "hashable _ = True"

text \<open>\<open>x in names\<close> for a set of names: a value that cannot be hashed raises.\<close>

definition in_names :: "pyval \<Rightarrow> string list \<Rightarrow> exn + bool" where
  "in_names x names = (if hashable x then Inr (x \<in> PStr ` set names) else Inl type_error)"

text \<open>\<open>for x in v\<close>, which over text gives its characters.\<close>

fun iter_of :: "pyval \<Rightarrow> exn + pyval list" where
  "iter_of (PList xs) = Inr xs"
| "iter_of (PDict d) = Inr (map fst d)"
| "iter_of (PStr s) = Inr (map (\<lambda>c. PStr [c]) s)"
| "iter_of _ = Inl type_error"

fun contains :: "pyval \<Rightarrow> pyval \<Rightarrow> exn + bool" where
  "contains (PList xs) x = Inr (py_in x xs)"
| "contains (PDict d) x = (if hashable x then Inr (py_in x (map fst d)) else Inl type_error)"
| "contains (PStr s) (PStr t) = Inr (\<exists>i \<in> set [0..<Suc (length s)]. take (length t) (drop i s) = t)"
| "contains _ _ = Inl type_error"

fun py_items :: "pyval \<Rightarrow> exn + pydict" where
  "py_items (PDict d) = Inr d"
| "py_items _ = Inl (PyError ''AttributeError'')"

section \<open>Sets\<close>

fun py_distinct :: "pyval list \<Rightarrow> pyval list \<Rightarrow> pyval list" where
  "py_distinct seen [] = []"
| "py_distinct seen (x # xs) =
     (if py_in x seen then py_distinct seen xs else x # py_distinct (x # seen) xs)"

definition set_of :: "pyval list \<Rightarrow> exn + pyval list" where
  "set_of xs = (if list_all hashable xs then Inr (py_distinct [] xs) else Inl type_error)"

definition as_set :: "pyval \<Rightarrow> exn + pyval list" where
  "as_set v = ebind (iter_of v) set_of"

definition py_minus :: "pyval list \<Rightarrow> pyval list \<Rightarrow> pyval list" where
  "py_minus xs ys = filter (\<lambda>x. \<not> py_in x ys) xs"

definition is_whole :: "pyval \<Rightarrow> bool" where
  "is_whole v = (case v of PInt _ \<Rightarrow> True | _ \<Rightarrow> False)"

definition whole :: "pyval \<Rightarrow> int" where
  "whole v = (case v of PInt i \<Rightarrow> i | _ \<Rightarrow> 0)"

text \<open>\<open>sorted\<close>, of names or of whole numbers: values that do not compare raise.\<close>

definition py_sorted :: "pyval list \<Rightarrow> exn + pyval list" where
  "py_sorted xs =
     (if list_all is_pstr xs then Inr (map PStr (sort (map str_of xs)))
      else if list_all is_whole xs then Inr (map PInt (sort (map whole xs)))
      else if length xs \<le> 1 then Inr xs else Inl type_error)"

section \<open>Facts on names and whole numbers\<close>

lemma py_eq_PStr [simp]: "py_eq (PStr a) y \<longleftrightarrow> y = PStr a" "py_eq x (PStr a) \<longleftrightarrow> x = PStr a"
  by (cases y; auto simp: py_eq.simps) (cases x; auto simp: py_eq.simps)

lemma py_eq_PNone [simp]: "py_eq PNone y \<longleftrightarrow> y = PNone" "py_eq x PNone \<longleftrightarrow> x = PNone"
  by (cases y; auto simp: py_eq.simps) (cases x; auto simp: py_eq.simps)

lemma py_eq_PInt [simp]: "py_eq (PInt i) y \<longleftrightarrow> as_int y = Some i" "py_eq x (PInt i) \<longleftrightarrow> as_int x = Some i"
  by (cases y; auto simp: py_eq.simps) (cases x; auto simp: py_eq.simps)

declare py_eq.simps [simp del]

lemma py_eq_refl: "hashable x \<Longrightarrow> py_eq x x"
  by (cases x) (auto simp: py_eq.simps)

lemma py_in_PStr [simp]: "py_in (PStr a) xs \<longleftrightarrow> PStr a \<in> set xs"
  by (auto simp: py_in_def)

lemma py_in_Nil [simp]: "\<not> py_in x []"
  by (simp add: py_in_def)

lemma py_in_Cons [simp]: "py_in x (y # ys) \<longleftrightarrow> py_eq y x \<or> py_in x ys"
  by (auto simp: py_in_def)

lemma py_in_member: "hashable x \<Longrightarrow> x \<in> set xs \<Longrightarrow> py_in x xs"
  using py_eq_refl by (auto simp: py_in_def)

lemma is_pstr_iff: "is_pstr x \<longleftrightarrow> (\<exists>s. x = PStr s)"
  by (cases x) auto

lemma hashable_pstr: "is_pstr x \<Longrightarrow> hashable x"
  by (cases x) auto

lemma py_in_name: "is_pstr x \<Longrightarrow> py_in x xs \<longleftrightarrow> x \<in> set xs"
  by (auto simp: is_pstr_iff)

lemma set_py_distinct:
  "\<forall>x \<in> set xs. is_pstr x \<Longrightarrow> set (py_distinct seen xs) = set xs - set seen"
  by (induction xs arbitrary: seen) (auto simp: py_in_name)

lemma py_distinct_subset: "set (py_distinct seen xs) \<subseteq> set xs"
  by (induction xs arbitrary: seen) auto

lemma set_of_names: "\<forall>x \<in> set xs. is_pstr x \<Longrightarrow> set_of xs = Inr (py_distinct [] xs)"
  using hashable_pstr by (auto simp: set_of_def list_all_iff)

lemma set_py_minus: "\<forall>x \<in> set xs. is_pstr x \<Longrightarrow> set (py_minus xs ys) = set xs - set ys"
  by (auto simp: py_minus_def py_in_name)

lemma PStr_str_of: "is_pstr x \<Longrightarrow> PStr (str_of x) = x"
  by (cases x) auto

lemma py_sorted_names:
  assumes "\<forall>x \<in> set xs. is_pstr x"
  shows "py_sorted xs = Inr (map PStr (sort (map str_of xs)))"
    and "set (map PStr (sort (map str_of xs))) = set xs"
proof -
  show "py_sorted xs = Inr (map PStr (sort (map str_of xs)))"
    using assms by (auto simp: py_sorted_def list_all_iff)
  have "PStr ` str_of ` set xs = set xs"
    using assms by (force simp: image_iff PStr_str_of)
  then show "set (map PStr (sort (map str_of xs))) = set xs" by simp
qed

lemma py_sorted_set: "py_sorted xs = Inr ys \<Longrightarrow> set ys = set xs"
proof (cases "list_all is_pstr xs")
  case True
  then show "py_sorted xs = Inr ys \<Longrightarrow> ?thesis"
    using py_sorted_names [of xs] by (auto simp: list_all_iff)
next
  case False
  have "PInt (whole x) = x" if "is_whole x" for x
    using that by (cases x) (auto simp: is_whole_def whole_def)
  then have "PInt ` whole ` set xs = set xs" if "list_all is_whole xs"
    using that by (force simp: list_all_iff image_iff)
  then show "py_sorted xs = Inr ys \<Longrightarrow> ?thesis"
    using False by (auto simp: py_sorted_def split: if_splits)
qed

end
