(* ===== verification/Ltl.thy ===== *)
theory Ltl
  imports Containers
begin

text \<open>
  The temporal operators of \<open>engines/temporal/ltl.py\<close> over a finite trace, and the semantics
  of finite-trace temporal formulas they decide.  A predicate of the code may raise, so an
  operator answers or is cut short by the first exception its walk meets.
\<close>

section \<open>Walks that may be cut short\<close>

text \<open>\<open>Unrecorded\<close> names the property, the step and the field; any other exception is passed on.\<close>

datatype gap = Unrecorded string nat string | Raised exn

fun passing :: "exn + 'a \<Rightarrow> gap + 'a" where
  "passing (Inl e) = Inl (Raised e)"
| "passing (Inr x) = Inr x"

text \<open>A violation; its formula is the one \<open>model/invariants.yaml\<close> states for the identifier.\<close>

datatype v_kind = Violated | Unfulfilled | NotRecorded

record violation =
  v_ident :: string
  v_step :: nat
  v_event :: pyval
  v_kind :: v_kind
  v_why :: "pyval list"

type_synonym 's fact = "'s \<Rightarrow> gap + bool"

section \<open>The operators\<close>

fun find_from :: "nat \<Rightarrow> 's fact \<Rightarrow> 's list \<Rightarrow> gap + nat option" where
  "find_from i phi [] = Inr None"
| "find_from i phi (s # tr) =
     ebind (phi s) (\<lambda>b. if b then Inr (Some i) else find_from (Suc i) phi tr)"

definition always :: "'s list \<Rightarrow> 's fact \<Rightarrow> gap + nat option" where
  "always tr phi = find_from 0 (\<lambda>s. ebind (phi s) (\<lambda>b. Inr (\<not> b))) tr"

definition eventually_at :: "'s list \<Rightarrow> 's fact \<Rightarrow> nat \<Rightarrow> gap + nat option" where
  "eventually_at tr phi start = find_from start phi (drop start tr)"

definition next_step :: "'s list \<Rightarrow> nat \<Rightarrow> 's fact \<Rightarrow> gap + bool" where
  "next_step tr i phi = (if Suc i < length tr then phi (tr ! Suc i) else Inr False)"

text \<open>\<open>any(phi(trace[j]) for j in range(i))\<close>: running past the end of the trace raises.\<close>

definition once :: "'s list \<Rightarrow> nat \<Rightarrow> 's fact \<Rightarrow> gap + bool" where
  "once tr i phi = ebind (find_from 0 phi (take i tr)) (\<lambda>r.
     if r \<noteq> None then Inr True
     else if i \<le> length tr then Inr False else Inl (Raised (PyError ''IndexError'')))"

definition once_now :: "'s list \<Rightarrow> nat \<Rightarrow> 's fact \<Rightarrow> gap + bool" where
  "once_now tr i phi = once tr (Suc i) phi"

fun until :: "'s list \<Rightarrow> 's fact \<Rightarrow> 's fact \<Rightarrow> gap + bool" where
  "until [] phi psi = Inr False"
| "until (s # tr) phi psi =
     ebind (psi s) (\<lambda>b. if b then Inr True
       else ebind (phi s) (\<lambda>c. if c then until tr phi psi else Inr False))"

section \<open>The formulas they decide\<close>

datatype 's formula =
    Atom "'s \<Rightarrow> bool"
  | Neg "'s formula"
  | Imp "'s formula" "'s formula"
  | Globally "'s formula"
  | Finally "'s formula"
  | Next "'s formula"
  | Once "'s formula"
  | Until "'s formula" "'s formula"

fun sat :: "'s list \<Rightarrow> nat \<Rightarrow> 's formula \<Rightarrow> bool" where
  "sat tr i (Atom p) \<longleftrightarrow> p (tr ! i)"
| "sat tr i (Neg f) \<longleftrightarrow> \<not> sat tr i f"
| "sat tr i (Imp f g) \<longleftrightarrow> (sat tr i f \<longrightarrow> sat tr i g)"
| "sat tr i (Globally f) \<longleftrightarrow> (\<forall>j \<in> {i..<length tr}. sat tr j f)"
| "sat tr i (Finally f) \<longleftrightarrow> (\<exists>j \<in> {i..<length tr}. sat tr j f)"
| "sat tr i (Next f) \<longleftrightarrow> Suc i < length tr \<and> sat tr (Suc i) f"
| "sat tr i (Once f) \<longleftrightarrow> (\<exists>j \<in> {0..<i}. sat tr j f)"
| "sat tr i (Until f g) \<longleftrightarrow>
     (\<exists>j \<in> {i..<length tr}. sat tr j g \<and> (\<forall>k \<in> {i..<j}. sat tr k f))"

section \<open>The search underneath\<close>

lemma find_from_None:
  "find_from k (\<lambda>s. Inr (p s)) tr = Inr None \<longleftrightarrow> (\<forall>s \<in> set tr. \<not> p s)"
  by (induction tr arbitrary: k) auto

lemma find_from_total: "\<exists>r. find_from k (\<lambda>s. Inr (p s)) tr = Inr r"
  by (induction tr arbitrary: k) auto

lemma find_from_first:
  "find_from k (\<lambda>s. Inr (p s)) tr = Inr (Some i) \<Longrightarrow>
     \<exists>j < length tr. i = k + j \<and> p (tr ! j) \<and> (\<forall>n < j. \<not> p (tr ! n))"
proof (induction tr arbitrary: k)
  case (Cons s tr)
  show ?case
  proof (cases "p s")
    case True
    then have "i = k" using Cons.prems by simp
    then show ?thesis using True by (intro exI [of _ 0]) simp
  next
    case False
    then have "find_from (Suc k) (\<lambda>s. Inr (p s)) tr = Inr (Some i)" using Cons.prems by simp
    then obtain j where "j < length tr" "i = Suc k + j" "p (tr ! j)" "\<forall>n < j. \<not> p (tr ! n)"
      using Cons.IH by blast
    then show ?thesis using False by (intro exI [of _ "Suc j"]) (auto simp: less_Suc_eq_0_disj)
  qed
qed simp

lemma find_from_meets:
  "j < length tr \<Longrightarrow> p (tr ! j) \<Longrightarrow> \<forall>n < j. \<not> p (tr ! n) \<Longrightarrow>
     find_from k (\<lambda>s. Inr (p s)) tr = Inr (Some (k + j))"
proof (induction tr arbitrary: j k)
  case (Cons s tr)
  show ?case
  proof (cases j)
    case 0
    then show ?thesis using Cons.prems by simp
  next
    case (Suc n)
    then have "find_from (Suc k) (\<lambda>s. Inr (p s)) tr = Inr (Some (Suc k + n))"
      using Cons.prems by (intro Cons.IH) auto
    then show ?thesis using Suc Cons.prems(3) by auto
  qed
qed simp

lemma find_from_Some:
  "find_from 0 (\<lambda>s. Inr (p s)) tr = Inr (Some i) \<longleftrightarrow>
     i < length tr \<and> p (tr ! i) \<and> (\<forall>n < i. \<not> p (tr ! n))"
  using find_from_first [of 0 p tr i] find_from_meets [of i tr p 0] by auto

lemma some_taken: "i \<le> length tr \<Longrightarrow> (\<forall>s \<in> set (take i tr). \<not> p s) \<longleftrightarrow> (\<forall>j < i. \<not> p (tr ! j))"
  by (auto simp: nth_image [symmetric])

lemma once_pure:
  assumes "i \<le> length tr"
  shows "once tr i (\<lambda>s. Inr (p s)) = Inr (\<exists>j < i. p (tr ! j))"
proof -
  obtain r where r: "find_from 0 (\<lambda>s. Inr (p s)) (take i tr) = Inr r"
    using find_from_total by blast
  then have "r = None \<longleftrightarrow> (\<forall>j < i. \<not> p (tr ! j))"
    using find_from_None [of 0 p "take i tr"] some_taken [OF assms] by auto
  then show ?thesis using r assms by (auto simp: once_def)
qed

lemma once_now_pure:
  "i < length tr \<Longrightarrow> once_now tr i (\<lambda>s. Inr (p s)) = Inr (\<exists>j \<le> i. p (tr ! j))"
  by (simp add: once_now_def once_pure less_Suc_eq_le)

lemma until_pure:
  "until tr (\<lambda>s. Inr (p s)) (\<lambda>s. Inr (q s))
     = Inr (\<exists>j < length tr. q (tr ! j) \<and> (\<forall>k < j. p (tr ! k)))"
proof (induction tr)
  case (Cons s tr)
  have "(\<exists>j < length (s # tr). q ((s # tr) ! j) \<and> (\<forall>k < j. p ((s # tr) ! k)))
      \<longleftrightarrow> q s \<or> (p s \<and> (\<exists>j < length tr. q (tr ! j) \<and> (\<forall>k < j. p (tr ! k))))"
    by (auto simp: Ex_less_Suc2 All_less_Suc2)
  then show ?case using Cons by simp
qed simp

end
