(* ===== verification/Trace.thy ===== *)
theory Trace
  imports Ltl
begin

text \<open>
  The shape of a run (\<open>engines/temporal/trace.py\<close>): what a step must and may carry, the step
  an event arrived in, building a trace out of authored dictionaries with every problem
  reported, and the predicates the properties derive from a step.  A problem is the data its
  message prints.
\<close>

section \<open>The declared vocabulary\<close>

definition state_fields :: "string list" where
  "state_fields = [''revision'', ''course_state'', ''node_states'', ''retry_budget_left'',
     ''committed_outline'', ''approved_nodes'', ''permission_checked'', ''used_restricted'',
     ''stale_nodes'', ''policy_version'', ''current_policy_version'', ''guardrail_version'',
     ''current_guardrail_version'', ''affected'', ''live_pointer'', ''revision_states'',
     ''forked_from'', ''re_verified'']"

definition payload_fields :: "string list" where
  "payload_fields = [''node'', ''artifact'', ''node_type'', ''topics'', ''notice'',
     ''recipients'', ''rolled_back_to'']"

definition envelope :: "string list" where
  "envelope = [''event'', ''event_id'', ''event_time'', ''producer'', ''correlation_id'',
     ''causation_id'', ''schema_version'']"

definition trace_events :: "string list" where
  "trace_events = map event_name catalog_events"

definition revision_state_names :: "string list" where
  "revision_state_names = map rev_state_name all_rev_states"

definition node_state_names :: "string list" where
  "node_state_names = map node_state_name all_node_states"

definition admitted_states :: "string list" where
  "admitted_states = [''NodeChecks'', ''Validated'', ''NodeApproved'', ''NeedsRevalidation'',
     ''BlockedFinal'']"

section \<open>Steps\<close>

record step =
  s_seq :: nat
  s_event :: pyval
  s_fields :: pydict

definition state_fact :: "step \<Rightarrow> string \<Rightarrow> string \<Rightarrow> gap + pyval" where
  "state_fact s f ident = (case dlookup (s_fields s) f of
       None \<Rightarrow> Inl (Unrecorded ident (s_seq s) f)
     | Some v \<Rightarrow> Inr v)"

definition maybe :: "step \<Rightarrow> string \<Rightarrow> pyval" where
  "maybe s f = dget (s_fields s) f"

text \<open>\<open>dict(v)\<close>, of a dictionary or of a sequence of pairs.\<close>

fun pair_of :: "pyval \<Rightarrow> exn + pyval \<times> pyval" where
  "pair_of (PList [a, b]) = Inr (a, b)"
| "pair_of (PStr [c, d]) = Inr (PStr [c], PStr [d])"
| "pair_of (PList _) = Inl (PyError ''ValueError'')"
| "pair_of (PStr _) = Inl (PyError ''ValueError'')"
| "pair_of _ = Inl type_error"

fun as_dict :: "pyval \<Rightarrow> exn + pydict" where
  "as_dict (PDict d) = Inr d"
| "as_dict v = ebind (iter_of v) (\<lambda>xs. ebind (traverse pair_of xs) (\<lambda>ps.
     Inr (fold (\<lambda>(k, v) d. AList.update k v d) ps [])))"

definition nodes :: "step \<Rightarrow> string \<Rightarrow> gap + pydict" where
  "nodes s ident = ebind (state_fact s ''node_states'' ident) (\<lambda>v. passing (as_dict v))"

type_synonym trace = "step list"

text \<open>
  \<open>Trace.before\<close>: the last step before \<open>i\<close>, from step 1 on, that is about the same revision,
  and the initial state when there is none.
\<close>

definition arrived_in :: "trace \<Rightarrow> nat \<Rightarrow> gap + step" where
  "arrived_in tr i =
     (if i = 0 then Inl (Unrecorded ''(schema)'' 0 ''a step before the initial state'')
      else if length tr \<le> i then Inl (Raised (PyError ''IndexError''))
      else case find (\<lambda>j. py_eq (maybe (tr ! j) ''revision'') (maybe (tr ! i) ''revision''))
             (rev [1..<i]) of
        Some j \<Rightarrow> Inr (tr ! j)
      | None \<Rightarrow> Inr (tr ! 0))"

section \<open>Building\<close>

datatype problem =
    EmptyRun
  | NoEvent nat
  | FirstCarries pyval
  | InitialAgain nat
  | Undeclared nat pyval "pyval list"
  | NotInCatalog nat pyval
  | CourseState nat pyval pyval
  | NodeState nat pyval pyval pyval
  | RevisionState nat pyval pyval pyval

definition initial_event :: pyval where
  "initial_event = PStr ''(initial)''"

text \<open>The named states of one dictionary, or of its absence, that are not in the inventory.\<close>

definition misnamed :: "(pyval \<Rightarrow> pyval \<Rightarrow> problem) \<Rightarrow> string list \<Rightarrow> pyval \<Rightarrow> exn + problem list" where
  "misnamed problem names v =
     ebind (py_items (py_or v (PDict []))) (\<lambda>d. ebind (traverse (\<lambda>(k, st).
       ebind (in_names st names) (\<lambda>known. Inr (if known then [] else [problem k st]))) d)
     (\<lambda>ps. Inr (concat ps)))"

definition state_name_problems :: "nat \<Rightarrow> pyval \<Rightarrow> pydict \<Rightarrow> exn + problem list" where
  "state_name_problems i ev carried =
     (let course = dget carried ''course_state'' in
      ebind (if course = PNone then Inr [] else
             ebind (in_names course revision_state_names) (\<lambda>known.
               Inr (if known then [] else [CourseState i ev course]))) (\<lambda>p1.
      ebind (misnamed (NodeState i ev) node_state_names (dget carried ''node_states'')) (\<lambda>p2.
      ebind (misnamed (RevisionState i ev) revision_state_names (dget carried ''revision_states'')) (\<lambda>p3.
      Inr (p1 @ p2 @ p3)))))"

definition declared_fields :: "pyval list" where
  "declared_fields = map PStr (state_fields @ payload_fields @ envelope @ [''idempotency_key''])"

definition build_step :: "nat \<Rightarrow> pydict \<Rightarrow> exn + problem list \<times> step" where
  "build_step i row =
     (let given = dget row ''event'';
          ev = (if given = PNone then initial_event else given);
          carried = filter (\<lambda>(k, v). k \<noteq> PStr ''event'') row
      in ebind (py_sorted (filter (\<lambda>k. k \<notin> set declared_fields) (map fst carried))) (\<lambda>unknown.
         ebind (in_names ev trace_events) (\<lambda>known.
         ebind (state_name_problems i ev carried) (\<lambda>misnames.
         Inr ((if given = PNone then [NoEvent i] else [])
            @ (if i = 0 \<and> ev \<noteq> initial_event then [FirstCarries ev] else [])
            @ (if i > 0 \<and> ev = initial_event then [InitialAgain i] else [])
            @ (if unknown \<noteq> [] then [Undeclared i ev unknown] else [])
            @ (if known then [] else [NotInCatalog i ev])
            @ misnames,
            \<lparr>s_seq = i, s_event = ev, s_fields = carried\<rparr>)))))"

definition build :: "pydict list \<Rightarrow> exn + trace \<times> problem list" where
  "build raw =
     (if raw = [] then Inr ([], [EmptyRun])
      else ebind (traverse (\<lambda>(i, row). build_step i row) (enumerate 0 raw)) (\<lambda>built.
        Inr (map snd built, concat (map fst built))))"

text \<open>The fields of the envelope a step does not carry, which is the audit property's question.\<close>

definition missing_envelope :: "step \<Rightarrow> exn + string list" where
  "missing_envelope s =
     (if s_event s = initial_event then Inr []
      else ebind (in_names (s_event s) (map event_name side_effecting)) (\<lambda>keyed.
        Inr (filter (\<lambda>f. f \<noteq> ''event'' \<and> \<not> dhas (s_fields s) f) envelope
          @ (if keyed \<and> \<not> dhas (s_fields s) ''idempotency_key'' then [''idempotency_key''] else []))))"

section \<open>Derived predicates\<close>

definition nodes_where :: "(pyval \<Rightarrow> bool) \<Rightarrow> step \<Rightarrow> string \<Rightarrow> gap + pyval list" where
  "nodes_where p s ident = ebind (nodes s ident) (\<lambda>d. Inr (map fst (filter (\<lambda>(n, st). p st) d)))"

definition unapproved :: "step \<Rightarrow> string \<Rightarrow> gap + pyval list" where
  "unapproved = nodes_where (\<lambda>st. st \<notin> {PStr ''NodeApproved'', PStr ''Removed''})"

definition admitted :: "step \<Rightarrow> string \<Rightarrow> gap + pyval list" where
  "admitted = nodes_where (\<lambda>st. st \<in> PStr ` set admitted_states)"

definition removed :: "step \<Rightarrow> string \<Rightarrow> gap + pyval list" where
  "removed = nodes_where (\<lambda>st. st = PStr ''Removed'')"

definition needs_revalidation :: "step \<Rightarrow> string \<Rightarrow> gap + pyval list" where
  "needs_revalidation = nodes_where (\<lambda>st. st = PStr ''NeedsRevalidation'')"

definition held :: "step \<Rightarrow> string \<Rightarrow> gap + pyval list" where
  "held s ident =
     ebind (state_fact s ''retry_budget_left'' ident) (\<lambda>budget. ebind (nodes s ident) (\<lambda>d.
       let stuck = filter (\<lambda>(n, st). st = PStr ''NodeRecovery'') d in
       if stuck = [] then Inr []
       else ebind (passing (py_items budget)) (\<lambda>b.
         Inr (map fst (filter (\<lambda>(n, st).
           \<not> (case dfind b n of None \<Rightarrow> False | Some v \<Rightarrow> truthy v)) stuck)))))"

end
