(* ===== verification/Invariants.thy ===== *)
theory Invariants
  imports Trace
begin

text \<open>
  The fifteen properties of \<open>engines/temporal/invariants.py\<close>, each as the walk that decides
  it, and the engine that runs them all (\<open>engines/temporal/engine.py\<close>).  A walk that needs a
  fact the run does not carry stops with \<open>Unrecorded\<close>, which the engine reports as a
  violation of its own kind.
\<close>

section \<open>Walks\<close>

definition each_step :: "(nat \<Rightarrow> step \<Rightarrow> gap + violation list) \<Rightarrow> trace \<Rightarrow> gap + violation list" where
  "each_step f tr = ebind (traverse (\<lambda>(i, s). f i s) (enumerate 0 tr)) (\<lambda>vs. Inr (concat vs))"

definition fault :: "string \<Rightarrow> step \<Rightarrow> v_kind \<Rightarrow> pyval list \<Rightarrow> violation" where
  "fault ident s kind why = \<lparr>v_ident = ident, v_step = s_seq s, v_event = s_event s,
     v_kind = kind, v_why = why\<rparr>"

text \<open>\<open>if bad: append\<close>.\<close>

definition report :: "bool \<Rightarrow> string \<Rightarrow> step \<Rightarrow> pyval list \<Rightarrow> gap + violation list" where
  "report bad ident s why = Inr (if bad then [fault ident s Violated why] else [])"

definition names_event :: "step \<Rightarrow> event \<Rightarrow> bool" where
  "names_event s e \<longleftrightarrow> s_event s = PStr (event_name e)"

definition course_is :: "rev_state \<Rightarrow> step \<Rightarrow> bool" where
  "course_is st s \<longleftrightarrow> maybe s ''course_state'' = PStr (rev_state_name st)"

definition i1 :: "trace \<Rightarrow> gap + violation list" where
  "i1 tr = each_step (\<lambda>i s.
     if \<not> names_event s NodeGenerated then Inr []
     else ebind (arrived_in tr i) (\<lambda>b. ebind (state_fact b ''course_state'' ''I1'') (\<lambda>was.
       report (was \<noteq> PStr ''ContentInProgress'') ''I1'' s [was]))) tr"

definition i2 :: "trace \<Rightarrow> gap + violation list" where
  "i2 tr = each_step (\<lambda>i s.
     if i = 0 \<or> \<not> names_event s NodeGenerated \<or> maybe s ''node_type'' \<noteq> PStr ''exam'' then Inr []
     else ebind (state_fact s ''topics'' ''I2'') (\<lambda>topics. ebind (passing (as_set topics)) (\<lambda>needed.
       ebind (arrived_in tr i) (\<lambda>b. ebind (state_fact b ''approved_nodes'' ''I2'') (\<lambda>ok.
       ebind (passing (as_set ok)) (\<lambda>approved.
       let missing = py_minus needed approved in
       if missing = [] then Inr []
       else ebind (passing (py_sorted missing)) (\<lambda>why. report True ''I2'' s why))))))) tr"

definition i3 :: "trace \<Rightarrow> gap + violation list" where
  "i3 tr = each_step (\<lambda>i s.
     if \<not> course_is Published s then Inr []
     else ebind (unapproved s ''I3'') (\<lambda>open_nodes.
       ebind (if open_nodes = [] then Inr []
              else ebind (passing (py_sorted open_nodes)) (\<lambda>why. report True ''I3'' s why)) (\<lambda>first.
       ebind (state_fact s ''stale_nodes'' ''I3'') (\<lambda>stale.
       if \<not> truthy stale then Inr first
       else ebind (passing (iter_of stale)) (\<lambda>xs. ebind (passing (py_sorted xs)) (\<lambda>why.
         Inr (first @ [fault ''I3'' s Violated why]))))))) tr"

definition i4 :: "trace \<Rightarrow> gap + violation list" where
  "i4 tr = each_step (\<lambda>i s.
     if \<not> names_event s NodeEdited then Inr []
     else ebind (state_fact s ''node'' ''I4'') (\<lambda>n. ebind (needs_revalidation s ''I4'') (\<lambda>ns.
       if \<not> hashable n then Inl (Raised type_error)
       else report (\<not> py_in n ns) ''I4'' s [n]))) tr"

text \<open>What is new at a step, for its revision; each new thing must have its evidence.\<close>

definition newly :: "(step \<Rightarrow> gap + pyval list) \<Rightarrow> trace \<Rightarrow> nat \<Rightarrow> step \<Rightarrow> gap + pyval list" where
  "newly what tr i s = ebind (what s) (\<lambda>now. ebind (arrived_in tr i) (\<lambda>b. ebind (what b) (\<lambda>prior.
     passing (py_sorted (py_minus now prior)))))"

definition lacking :: "string \<Rightarrow> trace \<Rightarrow> nat \<Rightarrow> step \<Rightarrow> (pyval \<Rightarrow> step fact) \<Rightarrow> pyval list
    \<Rightarrow> gap + violation list" where
  "lacking ident tr i s evidence xs =
     ebind (traverse (\<lambda>x. ebind (once_now tr i (evidence x)) (\<lambda>ok. report (\<not> ok) ident s [x])) xs)
       (\<lambda>vs. Inr (concat vs))"

definition committed_without :: "pyval \<Rightarrow> step fact" where
  "committed_without n t = (let ids = maybe t ''committed_outline'' in
     if ids = PNone then Inr False
     else ebind (passing (contains ids n)) (\<lambda>b. Inr (\<not> b)))"

definition i5 :: "trace \<Rightarrow> gap + violation list" where
  "i5 tr = each_step (\<lambda>i s. if i = 0 then Inr []
     else ebind (newly (\<lambda>t. removed t ''I5'') tr i s) (lacking ''I5'' tr i s committed_without)) tr"

definition screened_step :: "pyval \<Rightarrow> step fact" where
  "screened_step a t = Inr (names_event t GuardrailVerdict \<and> py_eq (maybe t ''artifact'') a)"

definition i6 :: "trace \<Rightarrow> gap + violation list" where
  "i6 tr = each_step (\<lambda>i s. if i = 0 then Inr []
     else ebind (newly (\<lambda>t. admitted t ''I6'') tr i s) (lacking ''I6'' tr i s screened_step)) tr"

definition version_invariant :: "string \<Rightarrow> string \<Rightarrow> trace \<Rightarrow> gap + violation list" where
  "version_invariant ident f tr = each_step (\<lambda>i s.
     if \<not> course_is Published s then Inr []
     else ebind (state_fact s f ident) (\<lambda>stamped.
       ebind (state_fact s (''current_'' @ f) ident) (\<lambda>current.
       if py_eq stamped current then Inr []
       else ebind (state_fact s ''stale_nodes'' ident) (\<lambda>stale.
         if truthy stale then Inr []
         else ebind (state_fact s ''affected'' ident) (\<lambda>aff.
           report (truthy aff) ident s [stamped, current]))))) tr"

definition i7 :: "trace \<Rightarrow> gap + violation list" where
  "i7 = version_invariant ''I7'' ''policy_version''"

definition i15 :: "trace \<Rightarrow> gap + violation list" where
  "i15 = version_invariant ''I15'' ''guardrail_version''"

definition or_empty :: "step \<Rightarrow> string \<Rightarrow> gap + pyval list" where
  "or_empty t f = passing (as_set (py_or (maybe t f) (PList [])))"

definition rights_checked :: "pyval \<Rightarrow> step fact" where
  "rights_checked n t = passing (contains (py_or (maybe t ''permission_checked'') (PList [])) n)"

definition i8 :: "trace \<Rightarrow> gap + violation list" where
  "i8 tr = each_step (\<lambda>i s. if i = 0 then Inr []
     else ebind (arrived_in tr i) (\<lambda>b. ebind (or_empty b ''used_restricted'') (\<lambda>prior.
       ebind (or_empty s ''used_restricted'') (\<lambda>now.
       ebind (passing (py_sorted (py_minus now prior)))
         (lacking ''I8'' tr i s rights_checked))))) tr"

definition i9 :: "trace \<Rightarrow> gap + violation list" where
  "i9 tr = each_step (\<lambda>i s.
     if s_event s = initial_event then Inr []
     else ebind (passing (missing_envelope s)) (\<lambda>missing.
       Inr (if missing = [] then [] else [fault ''I9'' s NotRecorded (map PStr missing)]))) tr"

text \<open>The revisions published so far, the present step's included, are carried along.\<close>

definition note_published :: "step \<Rightarrow> pyval list \<Rightarrow> gap + pyval list" where
  "note_published s seen =
     (if course_is Published s \<and> maybe s ''revision'' \<noteq> PNone
      then ebind (state_fact s ''revision'' ''I10'') (\<lambda>r.
        if hashable r then Inr (r # seen) else Inl (Raised type_error))
      else Inr seen)"

fun i10_from :: "pyval list \<Rightarrow> trace \<Rightarrow> gap + violation list" where
  "i10_from seen [] = Inr []"
| "i10_from seen (s # tr) = ebind (note_published s seen) (\<lambda>published.
     ebind (if \<not> names_event s NodeEdited then Inr []
            else ebind (state_fact s ''revision'' ''I10'') (\<lambda>r.
              if hashable r then report (py_in r published) ''I10'' s [r]
              else Inl (Raised type_error))) (\<lambda>found.
     ebind (i10_from published tr) (\<lambda>rest. Inr (found @ rest))))"

definition i10 :: "trace \<Rightarrow> gap + violation list" where
  "i10 tr = i10_from [] tr"

definition servable :: "string list" where
  "servable = [''Published'', ''StaleReview'', ''ErrorRecovery'', ''BlockedRecoverable'']"

definition i11 :: "trace \<Rightarrow> gap + violation list" where
  "i11 tr = each_step (\<lambda>i s.
     let live = maybe s ''live_pointer'' in
     if live = PNone then Inr []
     else ebind (state_fact s ''revision_states'' ''I11'') (\<lambda>v.
       ebind (passing (contains v live)) (\<lambda>known.
       if \<not> known then Inr [fault ''I11'' s NotRecorded [live]]
       else (case v of
          PDict d \<Rightarrow> (case dfind d live of
              None \<Rightarrow> Inr []
            | Some st \<Rightarrow> ebind (passing (in_names st servable)) (\<lambda>ok.
                report (\<not> ok) ''I11'' s [live, st]))
        | _ \<Rightarrow> Inl (Raised type_error))))) tr"

definition superseded_at :: "step \<Rightarrow> gap + pyval list" where
  "superseded_at s = ebind (passing (py_items (py_or (maybe s ''revision_states'') (PDict []))))
     (\<lambda>d. Inr (map fst (filter (\<lambda>(r, st). st = PStr ''Superseded'') d)))"

definition was_superseded :: "step \<Rightarrow> pyval \<Rightarrow> gap + bool" where
  "was_superseded b r = ebind (passing (py_items (py_or (maybe b ''revision_states'') (PDict []))))
     (\<lambda>d. Inr (dfind d r = Some (PStr ''Superseded'')))"

fun unless_held :: "(pyval \<Rightarrow> gap + bool) \<Rightarrow> pyval list \<Rightarrow> gap + pyval list" where
  "unless_held f [] = Inr []"
| "unless_held f (x # xs) =
     ebind (f x) (\<lambda>b. ebind (unless_held f xs) (\<lambda>ys. Inr (if b then ys else x # ys)))"

definition served :: "pyval \<Rightarrow> step fact" where
  "served r t = Inr (py_eq (maybe t ''live_pointer'') r)"

definition i12 :: "trace \<Rightarrow> gap + violation list" where
  "i12 tr = each_step (\<lambda>i s. if i = 0 then Inr []
     else ebind (superseded_at s) (\<lambda>now. ebind (unless_held (was_superseded (tr ! (i - 1))) now) (\<lambda>new.
       ebind (passing (py_sorted new)) (\<lambda>revs.
       ebind (traverse (\<lambda>r.
         if py_eq (maybe s ''live_pointer'') r then report True ''I12'' s [r]
         else ebind (once tr i (served r)) (\<lambda>ok. report (\<not> ok) ''I12'' s [r])) revs)
       (\<lambda>vs. Inr (concat vs)))))) tr"

definition re_verified_at :: "pyval \<Rightarrow> step fact" where
  "re_verified_at r t = passing (contains (py_or (maybe t ''re_verified'') (PList [])) r)"

definition i13 :: "trace \<Rightarrow> gap + violation list" where
  "i13 tr = each_step (\<lambda>i s.
     let r = maybe s ''rolled_back_to'' in
     if r = PNone then Inr []
     else ebind (once tr i (re_verified_at r)) (\<lambda>ok. report (\<not> ok) ''I13'' s [r])) tr"

definition i14 :: "trace \<Rightarrow> gap + violation list" where
  "i14 tr = each_step (\<lambda>i s.
     if maybe s ''node_states'' = PNone then Inr []
     else ebind (held s ''I14'') (\<lambda>stuck.
       if stuck = [] then Inr []
       else ebind (state_fact s ''course_state'' ''I14'') (\<lambda>st.
         if st \<noteq> PStr ''ContentInProgress'' then Inr []
         else ebind (passing (py_sorted stuck)) (\<lambda>why. report True ''I14'' s why)))) tr"

section \<open>The engine\<close>

definition registry :: "(string \<times> (trace \<Rightarrow> gap + violation list)) list" where
  "registry = [(''I1'', i1), (''I2'', i2), (''I3'', i3), (''I4'', i4), (''I5'', i5), (''I6'', i6),
     (''I7'', i7), (''I8'', i8), (''I9'', i9), (''I10'', i10), (''I11'', i11), (''I12'', i12),
     (''I13'', i13), (''I14'', i14), (''I15'', i15)]"

fun kind_text :: "v_kind \<Rightarrow> string" where
  "kind_text Violated = ''violated''"
| "kind_text Unfulfilled = ''unfulfilled''"
| "kind_text NotRecorded = ''unrecorded''"

definition violation_value :: "violation \<Rightarrow> pyval" where
  "violation_value v = PDict [(PStr ''invariant'', PStr (v_ident v)), (PStr ''step'', PInt (int (v_step v))),
     (PStr ''event'', v_event v), (PStr ''kind'', PStr (kind_text (v_kind v))),
     (PStr ''why'', PList (v_why v))]"

text \<open>One property of the registry: its violations, or the gap it met, as the engine lists them.\<close>

definition judged :: "trace \<Rightarrow> string \<Rightarrow> gap + violation list \<Rightarrow> exn + violation list" where
  "judged tr ident found = (case found of
       Inr vs \<Rightarrow> Inr vs
     | Inl (Unrecorded who i f) \<Rightarrow> Inr [\<lparr>v_ident = ident, v_step = i, v_event = s_event (tr ! i),
         v_kind = NotRecorded, v_why = [PStr who, PStr f]\<rparr>]
     | Inl (Raised e) \<Rightarrow> Inl e)"

definition violations_of :: "trace \<Rightarrow> exn + violation list" where
  "violations_of tr = ebind (traverse (\<lambda>(ident, f). judged tr ident (f tr)) registry)
     (\<lambda>vs. Inr (concat vs))"

fun problem_value :: "problem \<Rightarrow> pyval" where
  "problem_value EmptyRun = PList [PStr ''empty'']"
| "problem_value (NoEvent i) = PList [PStr ''no event'', PInt (int i)]"
| "problem_value (FirstCarries ev) = PList [PStr ''first step'', ev]"
| "problem_value (InitialAgain i) = PList [PStr ''initial again'', PInt (int i)]"
| "problem_value (Undeclared i ev ks) = PList ([PStr ''undeclared'', PInt (int i), ev] @ ks)"
| "problem_value (NotInCatalog i ev) = PList [PStr ''not in catalog'', PInt (int i), ev]"
| "problem_value (CourseState i ev v) = PList [PStr ''course_state'', PInt (int i), ev, v]"
| "problem_value (NodeState i ev k v) = PList [PStr ''node'', PInt (int i), ev, k, v]"
| "problem_value (RevisionState i ev k v) = PList [PStr ''revision'', PInt (int i), ev, k, v]"

definition check_trace :: "pydict list \<Rightarrow> exn + verdict" where
  "check_trace raw = ebind (build raw) (\<lambda>(tr, problems).
     if problems \<noteq> []
     then Inr (refuse ''malformed-trace'' ''the run does not match model/trace-schema.yaml''
       (PList (map (\<lambda>p. PDict [(PStr ''problem'', problem_value p)]) problems)) ''temporal'')
     else ebind (violations_of tr) (\<lambda>vs. case vs of
         [] \<Rightarrow> Inr (Allowed [(PStr ''engine'', PStr ''temporal''), (PStr ''steps'', PInt (int (length tr))),
             (PStr ''invariants'', PInt (int (length registry)))])
       | v # _ \<Rightarrow> Inr (refuse ''violated-formula''
           (v_ident v @ '' '' @ kind_text (v_kind v) @ '' at step '' @ decimal (v_step v)
             @ '' ('' @ str_of (v_event v) @ '')'')
           (PList (map violation_value vs)) ''temporal'')))"

end
