(* ===== verification/Legal_Runs.thy ===== *)
theory Legal_Runs
  imports Invariants
begin

text \<open>
  What a run must satisfy to be legal, stated over the facts its steps record, and the proof
  that the walks of \<open>Invariants\<close> decide exactly that on a run that records them.
\<close>

section \<open>A recorded step\<close>

text \<open>
  The shape \<open>model/trace-schema.yaml\<close> gives each field: names and whole numbers as keys,
  and the optional fields either absent or of that shape.
\<close>

definition name_list :: "pyval \<Rightarrow> bool" where
  "name_list v \<longleftrightarrow> is_plist v \<and> list_all is_pstr (items_of v)"

definition dict_of :: "(pyval \<Rightarrow> bool) \<Rightarrow> (pyval \<Rightarrow> bool) \<Rightarrow> pyval \<Rightarrow> bool" where
  "dict_of key val v \<longleftrightarrow> is_pdict v \<and> list_all (\<lambda>(k, x). key k \<and> val x) (entries_of v)
     \<and> distinct (map fst (entries_of v))"

definition is_pbool :: "pyval \<Rightarrow> bool" where
  "is_pbool v = (case v of PBool _ \<Rightarrow> True | _ \<Rightarrow> False)"

definition recorded :: "step \<Rightarrow> bool" where
  "recorded s \<longleftrightarrow>
     dict_of is_pstr is_pstr (maybe s ''node_states'')
     \<and> dict_of is_pstr is_pbool (maybe s ''retry_budget_left'')
     \<and> (maybe s ''committed_outline'' = PNone \<or> name_list (maybe s ''committed_outline''))
     \<and> list_all (\<lambda>f. name_list (maybe s f))
         [''approved_nodes'', ''permission_checked'', ''used_restricted'', ''stale_nodes'']
     \<and> is_whole (maybe s ''revision'') \<and> is_pstr (maybe s ''course_state'')
     \<and> list_all (\<lambda>f. maybe s f \<noteq> PNone) [''policy_version'', ''current_policy_version'',
          ''guardrail_version'', ''current_guardrail_version'']
     \<and> is_pbool (maybe s ''affected'')
     \<and> (maybe s ''live_pointer'' = PNone \<or> is_whole (maybe s ''live_pointer''))
     \<and> dict_of is_whole is_pstr (maybe s ''revision_states'')
     \<and> is_plist (maybe s ''re_verified'') \<and> list_all is_whole (items_of (maybe s ''re_verified''))
     \<and> (names_event s NodeEdited \<longrightarrow> is_pstr (maybe s ''node''))
     \<and> (names_event s NodeGenerated \<and> maybe s ''node_type'' = PStr ''exam'' \<longrightarrow>
          name_list (maybe s ''topics''))
     \<and> (maybe s ''rolled_back_to'' = PNone \<or> is_whole (maybe s ''rolled_back_to''))
     \<and> is_pstr (s_event s)"

lemma is_whole_iff: "is_whole v \<longleftrightarrow> (\<exists>i. v = PInt i)"
  by (cases v) (auto simp: is_whole_def)

lemma is_pbool_iff: "is_pbool v \<longleftrightarrow> (\<exists>b. v = PBool b)"
  by (cases v) (auto simp: is_pbool_def)

lemma all_image: "list_all P xs \<Longrightarrow> (\<And>x. P x \<longleftrightarrow> (\<exists>y. x = f y)) \<Longrightarrow> \<exists>ys. xs = map f ys"
  by (induction xs) (auto, metis list.simps(9))

lemma name_list_iff: "name_list v \<longleftrightarrow> (\<exists>xs. v = strs xs)"
proof
  assume "name_list v"
  then obtain xs where "v = PList xs" "list_all is_pstr xs"
    by (cases v) (auto simp: name_list_def)
  then show "\<exists>xs. v = strs xs" using all_image [of is_pstr xs PStr] is_pstr_iff by (auto simp: strs_def)
qed (auto simp: name_list_def strs_def list_all_iff)

lemma dict_of_shape:
  assumes "dict_of key val v" "\<And>k. key k \<longleftrightarrow> (\<exists>a. k = f a)" "\<And>x. val x \<longleftrightarrow> (\<exists>b. x = g b)"
  obtains d where "v = PDict (map (\<lambda>(a, b). (f a, g b)) d)" "distinct (map fst d)"
proof -
  obtain e where e: "v = PDict e" "list_all (\<lambda>(k, x). key k \<and> val x) e" "distinct (map fst e)"
    using assms(1) by (cases v) (auto simp: dict_of_def)
  from e(2) obtain d where d: "e = map (\<lambda>(a, b). (f a, g b)) d"
    using all_image [of "\<lambda>(k, x). key k \<and> val x" e "\<lambda>(a, b). (f a, g b)"] assms(2,3) by fastforce
  then have "map fst e = map f (map fst d)" by (simp add: comp_def case_prod_unfold)
  then have "distinct (map fst d)" using e(3) distinct_map by metis
  then show ?thesis using that e(1) d by blast
qed

lemma recorded_shape:
  assumes "recorded s"
  shows "(\<exists>d. maybe s ''node_states'' = PDict (map (\<lambda>(n, x). (PStr n, PStr x)) d)
            \<and> distinct (map fst d))
     \<and> (\<exists>d. maybe s ''retry_budget_left'' = PDict (map (\<lambda>(n, b). (PStr n, PBool b)) d))
     \<and> (maybe s ''committed_outline'' = PNone \<or> name_list (maybe s ''committed_outline''))
     \<and> name_list (maybe s ''approved_nodes'') \<and> name_list (maybe s ''permission_checked'')
     \<and> name_list (maybe s ''used_restricted'') \<and> name_list (maybe s ''stale_nodes'')
     \<and> (\<exists>r. maybe s ''revision'' = PInt r) \<and> (\<exists>st. maybe s ''course_state'' = PStr st)
     \<and> maybe s ''policy_version'' \<noteq> PNone \<and> maybe s ''current_policy_version'' \<noteq> PNone
     \<and> maybe s ''guardrail_version'' \<noteq> PNone \<and> maybe s ''current_guardrail_version'' \<noteq> PNone
     \<and> (\<exists>b. maybe s ''affected'' = PBool b)
     \<and> (maybe s ''live_pointer'' = PNone \<or> (\<exists>p. maybe s ''live_pointer'' = PInt p))
     \<and> (\<exists>d. maybe s ''revision_states'' = PDict (map (\<lambda>(r, x). (PInt r, PStr x)) d)
            \<and> distinct (map fst d))
     \<and> (\<exists>rs. maybe s ''re_verified'' = PList (map PInt rs))
     \<and> (names_event s NodeEdited \<longrightarrow> (\<exists>n. maybe s ''node'' = PStr n))
     \<and> (names_event s NodeGenerated \<and> maybe s ''node_type'' = PStr ''exam'' \<longrightarrow>
          name_list (maybe s ''topics''))
     \<and> (maybe s ''rolled_back_to'' = PNone \<or> (\<exists>r. maybe s ''rolled_back_to'' = PInt r))
     \<and> (\<exists>e. s_event s = PStr e)"
proof -
  have d: "dict_of is_pstr is_pstr (maybe s ''node_states'')"
      "dict_of is_pstr is_pbool (maybe s ''retry_budget_left'')"
      "dict_of is_whole is_pstr (maybe s ''revision_states'')"
    using assms by (simp_all add: recorded_def)
  have nodes: "\<exists>d. maybe s ''node_states'' = PDict (map (\<lambda>(n, x). (PStr n, PStr x)) d) \<and> distinct (map fst d)"
    by (rule dict_of_shape [OF d(1) is_pstr_iff is_pstr_iff]) blast
  have budget: "\<exists>d. maybe s ''retry_budget_left'' = PDict (map (\<lambda>(n, b). (PStr n, PBool b)) d)"
    by (rule dict_of_shape [OF d(2) is_pstr_iff is_pbool_iff]) blast
  have revs: "\<exists>d. maybe s ''revision_states'' = PDict (map (\<lambda>(r, x). (PInt r, PStr x)) d) \<and> distinct (map fst d)"
    by (rule dict_of_shape [OF d(3) is_whole_iff is_pstr_iff]) blast
  have verified: "\<exists>rs. maybe s ''re_verified'' = PList (map PInt rs)"
    using assms all_image [of is_whole "items_of (maybe s ''re_verified'')" PInt] is_whole_iff
    unfolding recorded_def by (cases "maybe s ''re_verified''") auto
  show ?thesis
    using assms nodes budget revs verified
    unfolding recorded_def by (simp add: is_whole_iff is_pbool_iff is_pstr_iff)
qed

text \<open>The facts, read off such a step.\<close>

definition node_at_state :: "step \<Rightarrow> string \<Rightarrow> string \<Rightarrow> bool" where
  "node_at_state s n x \<longleftrightarrow> (PStr n, PStr x) \<in> set (entries_of (maybe s ''node_states''))"

definition lists :: "step \<Rightarrow> string \<Rightarrow> string \<Rightarrow> bool" where
  "lists s f n \<longleftrightarrow> PStr n \<in> set (items_of (maybe s f))"

definition revision_at_state :: "step \<Rightarrow> int \<Rightarrow> string \<Rightarrow> bool" where
  "revision_at_state s r x \<longleftrightarrow> (PInt r, PStr x) \<in> set (entries_of (maybe s ''revision_states''))"

definition has_retries :: "step \<Rightarrow> string \<Rightarrow> bool" where
  "has_retries s n \<longleftrightarrow> map_of (entries_of (maybe s ''retry_budget_left'')) (PStr n) = Some (PBool True)"

text \<open>The step an event arrived in, where there is one.\<close>

definition previous :: "trace \<Rightarrow> nat \<Rightarrow> step" where
  "previous tr i = (case arrived_in tr i of Inr s \<Rightarrow> s | Inl _ \<Rightarrow> tr ! 0)"

lemma arrived_in_previous:
  "0 < i \<Longrightarrow> i < length tr \<Longrightarrow> arrived_in tr i = Inr (previous tr i)"
  by (auto simp: previous_def arrived_in_def split: option.splits)

lemma find_in_range: "find p (rev [1..<i]) = Some j \<Longrightarrow> 0 < j \<and> j < i"
  by (auto simp: find_Some_iff rev_nth)

lemma previous_in: "0 < i \<Longrightarrow> i < length tr \<Longrightarrow> previous tr i \<in> set tr"
proof -
  assume i: "0 < i" "i < length tr"
  have "tr ! j \<in> set tr" if "find p (rev [1..<i]) = Some j" for p j
    using find_in_range [OF that] i by simp
  moreover have "tr ! 0 \<in> set tr" using i by (intro nth_mem) linarith
  ultimately show ?thesis using i by (auto simp: previous_def arrived_in_def split: option.splits)
qed

section \<open>The fifteen properties, over the facts\<close>

definition legal_1 :: "trace \<Rightarrow> bool" where
  "legal_1 tr \<longleftrightarrow> (\<forall>i < length tr. names_event (tr ! i) NodeGenerated \<longrightarrow>
     0 < i \<and> course_is ContentInProgress (previous tr i))"

definition legal_2 :: "trace \<Rightarrow> bool" where
  "legal_2 tr \<longleftrightarrow> (\<forall>i < length tr. 0 < i \<and> names_event (tr ! i) NodeGenerated
     \<and> maybe (tr ! i) ''node_type'' = PStr ''exam'' \<longrightarrow>
     (\<forall>n. lists (tr ! i) ''topics'' n \<longrightarrow> lists (previous tr i) ''approved_nodes'' n))"

definition legal_3 :: "trace \<Rightarrow> bool" where
  "legal_3 tr \<longleftrightarrow> (\<forall>s \<in> set tr. course_is Published s \<longrightarrow>
     (\<forall>n x. node_at_state s n x \<longrightarrow> x \<in> {''NodeApproved'', ''Removed''})
     \<and> (\<forall>n. \<not> lists s ''stale_nodes'' n))"

definition legal_4 :: "trace \<Rightarrow> bool" where
  "legal_4 tr \<longleftrightarrow> (\<forall>s \<in> set tr. names_event s NodeEdited \<longrightarrow>
     (\<exists>n. maybe s ''node'' = PStr n \<and> node_at_state s n ''NeedsRevalidation''))"

definition legal_5 :: "trace \<Rightarrow> bool" where
  "legal_5 tr \<longleftrightarrow> (\<forall>i < length tr. \<forall>n. 0 < i \<and> node_at_state (tr ! i) n ''Removed''
     \<and> \<not> node_at_state (previous tr i) n ''Removed'' \<longrightarrow>
     (\<exists>j \<le> i. maybe (tr ! j) ''committed_outline'' \<noteq> PNone \<and> \<not> lists (tr ! j) ''committed_outline'' n))"

definition in_record :: "step \<Rightarrow> string \<Rightarrow> bool" where
  "in_record s n \<longleftrightarrow> (\<exists>x \<in> set admitted_states. node_at_state s n x)"

definition legal_6 :: "trace \<Rightarrow> bool" where
  "legal_6 tr \<longleftrightarrow> (\<forall>i < length tr. \<forall>n. 0 < i \<and> in_record (tr ! i) n \<and> \<not> in_record (previous tr i) n \<longrightarrow>
     (\<exists>j \<le> i. names_event (tr ! j) GuardrailVerdict \<and> maybe (tr ! j) ''artifact'' = PStr n))"

definition legal_versions :: "string \<Rightarrow> trace \<Rightarrow> bool" where
  "legal_versions f tr \<longleftrightarrow> (\<forall>s \<in> set tr. course_is Published s \<longrightarrow>
     py_eq (maybe s f) (maybe s (''current_'' @ f)) \<or> (\<exists>n. lists s ''stale_nodes'' n)
     \<or> \<not> truthy (maybe s ''affected''))"

definition legal_8 :: "trace \<Rightarrow> bool" where
  "legal_8 tr \<longleftrightarrow> (\<forall>i < length tr. \<forall>n. 0 < i \<and> lists (tr ! i) ''used_restricted'' n
     \<and> \<not> lists (previous tr i) ''used_restricted'' n \<longrightarrow>
     (\<exists>j \<le> i. lists (tr ! j) ''permission_checked'' n))"

definition legal_9 :: "trace \<Rightarrow> bool" where
  "legal_9 tr \<longleftrightarrow> (\<forall>s \<in> set tr. s_event s \<noteq> initial_event \<longrightarrow>
     (\<forall>f \<in> set envelope. f \<noteq> ''event'' \<longrightarrow> dhas (s_fields s) f)
     \<and> (s_event s \<in> PStr ` event_name ` set side_effecting \<longrightarrow> dhas (s_fields s) ''idempotency_key''))"

definition legal_10 :: "trace \<Rightarrow> bool" where
  "legal_10 tr \<longleftrightarrow> (\<forall>i < length tr. \<forall>j \<le> i. \<forall>r. course_is Published (tr ! j)
     \<and> maybe (tr ! j) ''revision'' = PInt r \<and> maybe (tr ! i) ''revision'' = PInt r \<longrightarrow>
     \<not> names_event (tr ! i) NodeEdited)"

definition legal_11 :: "trace \<Rightarrow> bool" where
  "legal_11 tr \<longleftrightarrow> (\<forall>s \<in> set tr. \<forall>p. maybe s ''live_pointer'' = PInt p \<longrightarrow>
     (\<exists>x \<in> set servable. revision_at_state s p x))"

definition legal_12 :: "trace \<Rightarrow> bool" where
  "legal_12 tr \<longleftrightarrow> (\<forall>i < length tr. \<forall>r. 0 < i \<and> revision_at_state (tr ! i) r ''Superseded''
     \<and> \<not> revision_at_state (tr ! (i - 1)) r ''Superseded'' \<longrightarrow>
     maybe (tr ! i) ''live_pointer'' \<noteq> PInt r \<and> (\<exists>j < i. maybe (tr ! j) ''live_pointer'' = PInt r))"

definition legal_13 :: "trace \<Rightarrow> bool" where
  "legal_13 tr \<longleftrightarrow> (\<forall>i < length tr. \<forall>r. maybe (tr ! i) ''rolled_back_to'' = PInt r \<longrightarrow>
     (\<exists>j < i. PInt r \<in> set (items_of (maybe (tr ! j) ''re_verified''))))"

definition legal_14 :: "trace \<Rightarrow> bool" where
  "legal_14 tr \<longleftrightarrow> (\<forall>s \<in> set tr. \<forall>n. node_at_state s n ''NodeRecovery'' \<and> \<not> has_retries s n \<longrightarrow>
     \<not> course_is ContentInProgress s)"

section \<open>Reading a recorded step\<close>

lemma state_fact_maybe: "maybe s f \<noteq> PNone \<Longrightarrow> state_fact s f ident = Inr (maybe s f)"
  by (auto simp: maybe_def state_fact_def dget_def split: option.splits)

lemma each_step_none:
  "each_step f tr = Inr [] \<longleftrightarrow> (\<forall>i < length tr. f i (tr ! i) = Inr [])"
proof -
  have "each_step f tr = Inr [] \<longleftrightarrow>
      (\<exists>vs. list_all2 (\<lambda>x v. (case x of (i, s) \<Rightarrow> f i s) = Inr v) (enumerate 0 tr) vs \<and> concat vs = [])"
    by (simp add: each_step_def traverse_eq_Inr)
  also have "\<dots> \<longleftrightarrow> (\<forall>i < length tr. f i (tr ! i) = Inr [])"
  proof
    assume "\<exists>vs. list_all2 (\<lambda>x v. (case x of (i, s) \<Rightarrow> f i s) = Inr v) (enumerate 0 tr) vs \<and> concat vs = []"
    then show "\<forall>i < length tr. f i (tr ! i) = Inr []"
      by (auto simp: list_all2_conv_all_nth nth_enumerate_eq)
  next
    assume "\<forall>i < length tr. f i (tr ! i) = Inr []"
    then show "\<exists>vs. list_all2 (\<lambda>x v. (case x of (i, s) \<Rightarrow> f i s) = Inr v) (enumerate 0 tr) vs \<and> concat vs = []"
      by (intro exI [of _ "replicate (length tr) []"])
        (auto simp: list_all2_conv_all_nth nth_enumerate_eq)
  qed
  finally show ?thesis .
qed

lemma each_step_local:
  "each_step (\<lambda>i. f) tr = Inr [] \<longleftrightarrow> (\<forall>s \<in> set tr. f s = Inr [])"
  by (simp add: each_step_none all_set_conv_all_nth)

lemma each_step_iff:
  "(\<And>i. i < length tr \<Longrightarrow> f i (tr ! i) = Inr [] \<longleftrightarrow> P i) \<Longrightarrow>
     each_step f tr = Inr [] \<longleftrightarrow> (\<forall>i < length tr. P i)"
  by (simp add: each_step_none)

lemma each_step_local_iff:
  "(\<And>s. s \<in> set tr \<Longrightarrow> f s = Inr [] \<longleftrightarrow> P s) \<Longrightarrow>
     each_step (\<lambda>i. f) tr = Inr [] \<longleftrightarrow> (\<forall>s \<in> set tr. P s)"
  by (simp add: each_step_local)

lemma report_none [simp]: "report bad ident s why = Inr [] \<longleftrightarrow> \<not> bad"
  by (simp add: report_def)

lemma passing_Inr [simp]: "passing x = Inr y \<longleftrightarrow> x = Inr y"
  by (cases x) auto

lemma find_from_cong:
  "\<forall>s \<in> set tr. phi s = Inr (p s) \<Longrightarrow> find_from k phi tr = find_from k (\<lambda>s. Inr (p s)) tr"
  by (induction tr arbitrary: k) auto

lemma once_on:
  assumes "\<forall>s \<in> set tr. phi s = Inr (p s)" and "i \<le> length tr"
  shows "once tr i phi = Inr (\<exists>j < i. p (tr ! j))"
proof -
  have "\<forall>s \<in> set (take i tr). phi s = Inr (p s)" using assms(1) by (meson in_set_takeD)
  then have "find_from 0 phi (take i tr) = find_from 0 (\<lambda>s. Inr (p s)) (take i tr)"
    by (rule find_from_cong)
  then show ?thesis using once_pure [OF assms(2), of p] by (simp add: once_def)
qed

lemma once_now_on:
  "\<forall>s \<in> set tr. phi s = Inr (p s) \<Longrightarrow> i < length tr \<Longrightarrow> once_now tr i phi = Inr (\<exists>j \<le> i. p (tr ! j))"
  using once_on [of tr phi p "Suc i"] by (simp add: once_now_def less_Suc_eq_le)

lemma traverse_report_none:
  assumes "\<forall>x \<in> set xs. f x = report (bad x) ident s (why x)"
  shows "ebind (traverse f xs) (\<lambda>vs. Inr (concat vs)) = Inr [] \<longleftrightarrow> (\<forall>x \<in> set xs. \<not> bad x)"
proof -
  have "traverse f xs = Inr (map (\<lambda>x. if bad x then [fault ident s Violated (why x)] else []) xs)"
    using assms by (induction xs) (auto simp: report_def)
  then show ?thesis by auto
qed

lemma lacking_none:
  assumes "\<And>x t. x \<in> set xs \<Longrightarrow> t \<in> set tr \<Longrightarrow> ev x t = Inr (p x t)" and "i < length tr"
  shows "lacking ident tr i s ev xs = Inr [] \<longleftrightarrow> (\<forall>x \<in> set xs. \<exists>j \<le> i. p x (tr ! j))"
proof -
  have "ebind (once_now tr i (ev x)) (\<lambda>ok. report (\<not> ok) ident s [x])
      = report (\<not> (\<exists>j \<le> i. p x (tr ! j))) ident s [x]" if "x \<in> set xs" for x
    using once_now_on [of tr "ev x" "p x" i] assms that by simp
  then show ?thesis
    unfolding lacking_def
    using traverse_report_none [of xs _ "\<lambda>x. \<not> (\<exists>j \<le> i. p x (tr ! j))" ident s "\<lambda>x. [x]"] by simp
qed

lemma find_keyed: "\<forall>k \<in> fst ` set d. py_eq k x \<longleftrightarrow> k = x \<Longrightarrow> dfind d x = map_of d x"
  by (induction d) (auto simp: dfind_def)

text \<open>A list of names: iterating, membership, making a set, sorting and truth.\<close>

lemma name_list_items: "name_list v \<Longrightarrow> v = PList (items_of v) \<and> (\<forall>x \<in> set (items_of v). is_pstr x)"
  by (auto simp: name_list_iff strs_def)

lemma name_list_present: "name_list v \<Longrightarrow> v \<noteq> PNone"
  by (auto simp: name_list_iff strs_def)

lemma name_list_truthy: "name_list v \<Longrightarrow> truthy v \<longleftrightarrow> (\<exists>n. PStr n \<in> set (items_of v))"
proof -
  assume "name_list v"
  then obtain xs where v: "v = PList (map PStr xs)" by (auto simp: name_list_iff strs_def)
  show ?thesis unfolding v by (cases xs) auto
qed

lemma name_list_or: "name_list v \<Longrightarrow> py_or v (PList []) = v"
  by (auto simp: name_list_iff strs_def py_or_def)

lemma no_names: "\<forall>x \<in> set xs. is_pstr x \<Longrightarrow> xs = [] \<longleftrightarrow> (\<forall>n. PStr n \<notin> set xs)"
  by (cases xs) (auto simp: is_pstr_iff)

lemma name_list_set:
  assumes "name_list v"
  shows "\<exists>xs. as_set v = Inr xs \<and> set xs = set (items_of v) \<and> (\<forall>x \<in> set xs. is_pstr x)"
proof -
  obtain xs where v: "v = PList xs" "\<forall>x \<in> set xs. is_pstr x"
    using name_list_items [OF assms] by (cases v) auto
  then show ?thesis
    using set_of_names [OF v(2)] set_py_distinct [OF v(2), of "[]"] by (simp add: as_set_def)
qed

lemma name_list_contains: "name_list v \<Longrightarrow> contains v (PStr n) = Inr (PStr n \<in> set (items_of v))"
  by (auto simp: name_list_iff strs_def)

lemma py_sorted_total: "\<forall>x \<in> set xs. is_pstr x \<Longrightarrow> \<exists>ys. py_sorted xs = Inr ys \<and> set ys = set xs"
  using py_sorted_names by metis

lemma nodes_recorded: "recorded s \<Longrightarrow> nodes s ident = Inr (entries_of (maybe s ''node_states''))"
  using recorded_shape [of s] unfolding nodes_def
  by (auto simp: state_fact_maybe)

lemma node_entries:
  "recorded s \<Longrightarrow> \<exists>d. entries_of (maybe s ''node_states'') = map (\<lambda>(n, x). (PStr n, PStr x)) d
     \<and> distinct (map fst d)"
  using recorded_shape [of s] by auto

lemma nodes_where_recorded:
  assumes "recorded s"
  shows "\<exists>xs. nodes_where p s ident = Inr xs \<and> (\<forall>x \<in> set xs. is_pstr x)
    \<and> (\<forall>n. PStr n \<in> set xs \<longleftrightarrow> (\<exists>x. node_at_state s n x \<and> p (PStr x)))"
proof -
  obtain d where d: "entries_of (maybe s ''node_states'') = map (\<lambda>(n, x). (PStr n, PStr x)) d"
    using node_entries [OF assms] by blast
  show ?thesis
    unfolding nodes_where_def nodes_recorded [OF assms] node_at_state_def d by force
qed

lemma newly_recorded:
  assumes "recorded s" "recorded (previous tr i)" "0 < i" "i < length tr"
  shows "\<exists>xs. newly (\<lambda>t. nodes_where p t ident) tr i s = Inr xs \<and> (\<forall>x \<in> set xs. is_pstr x)
    \<and> (\<forall>n. PStr n \<in> set xs \<longleftrightarrow> (\<exists>x. node_at_state s n x \<and> p (PStr x))
          \<and> \<not> (\<exists>x. node_at_state (previous tr i) n x \<and> p (PStr x)))"
proof -
  obtain a where a: "nodes_where p s ident = Inr a" "\<forall>x \<in> set a. is_pstr x"
      "\<forall>n. PStr n \<in> set a \<longleftrightarrow> (\<exists>x. node_at_state s n x \<and> p (PStr x))"
    using nodes_where_recorded [OF assms(1)] by blast
  obtain b where b: "nodes_where p (previous tr i) ident = Inr b"
      "\<forall>n. PStr n \<in> set b \<longleftrightarrow> (\<exists>x. node_at_state (previous tr i) n x \<and> p (PStr x))"
    using nodes_where_recorded [OF assms(2)] by blast
  have "set (py_minus a b) = set a - set b" using a(2) by (rule set_py_minus)
  moreover from this have "\<forall>x \<in> set (py_minus a b). is_pstr x" using a(2) by simp
  ultimately show ?thesis
    using a b arrived_in_previous [OF assms(3,4)] py_sorted_names [of "py_minus a b"]
    by (auto simp: newly_def)
qed

lemma recorded_lists:
  assumes "recorded s"
  shows "name_list (maybe s ''approved_nodes'')" "name_list (maybe s ''permission_checked'')"
    "name_list (maybe s ''used_restricted'')" "name_list (maybe s ''stale_nodes'')"
    "maybe s ''committed_outline'' \<noteq> PNone \<Longrightarrow> name_list (maybe s ''committed_outline'')"
    "names_event s NodeGenerated \<Longrightarrow> maybe s ''node_type'' = PStr ''exam'' \<Longrightarrow> name_list (maybe s ''topics'')"
    "names_event s NodeEdited \<Longrightarrow> \<exists>n. maybe s ''node'' = PStr n"
  using recorded_shape [OF assms] by simp_all

lemma recorded_present:
  assumes "recorded s"
  shows "maybe s ''course_state'' \<noteq> PNone" "maybe s ''affected'' \<noteq> PNone"
    "maybe s ''policy_version'' \<noteq> PNone" "maybe s ''current_policy_version'' \<noteq> PNone"
    "maybe s ''guardrail_version'' \<noteq> PNone" "maybe s ''current_guardrail_version'' \<noteq> PNone"
    "maybe s ''retry_budget_left'' \<noteq> PNone" "maybe s ''revision_states'' \<noteq> PNone"
    "maybe s ''revision'' \<noteq> PNone"
  using recorded_shape [OF assms] by auto

section \<open>Each walk decides its property\<close>

abbreviation recorded_run :: "trace \<Rightarrow> bool" where
  "recorded_run tr \<equiv> \<forall>s \<in> set tr. recorded s"

lemma recorded_previous: "recorded_run tr \<Longrightarrow> 0 < i \<Longrightarrow> i < length tr \<Longrightarrow> recorded (previous tr i)"
  using previous_in by blast

lemma arrived_in_start: "arrived_in tr 0 = Inl (Unrecorded ''(schema)'' 0 ''a step before the initial state'')"
  by (simp add: arrived_in_def)

lemma i1_legal:
  assumes "recorded_run tr"
  shows "i1 tr = Inr [] \<longleftrightarrow> legal_1 tr"
  unfolding i1_def legal_1_def
proof (rule each_step_iff, goal_cases)
  case (1 i)
  show ?case
  proof (cases "i = 0")
    case True
    then show ?thesis by (simp add: arrived_in_start)
  next
    case False
    then show ?thesis
      using 1 arrived_in_previous recorded_previous [OF assms] recorded_present(1)
      by (auto simp: state_fact_maybe course_is_def)
  qed
qed

lemma i2_legal:
  assumes "recorded_run tr"
  shows "i2 tr = Inr [] \<longleftrightarrow> legal_2 tr"
  unfolding i2_def legal_2_def
proof (rule each_step_iff, goal_cases)
  case (1 i)
  let ?s = "tr ! i"
  show ?case
  proof (cases "0 < i \<and> names_event ?s NodeGenerated \<and> maybe ?s ''node_type'' = PStr ''exam''")
    case False
    then show ?thesis by auto
  next
    case True
    then have topics: "name_list (maybe ?s ''topics'')"
      using recorded_lists(6) assms 1 by simp
    have approved: "name_list (maybe (previous tr i) ''approved_nodes'')"
      using recorded_lists(1) recorded_previous [OF assms] True 1 by blast
    obtain xs where xs: "as_set (maybe ?s ''topics'') = Inr xs"
        "set xs = set (items_of (maybe ?s ''topics''))" "\<forall>x \<in> set xs. is_pstr x"
      using name_list_set [OF topics] by blast
    obtain ys where ys: "as_set (maybe (previous tr i) ''approved_nodes'') = Inr ys"
        "set ys = set (items_of (maybe (previous tr i) ''approved_nodes''))"
      using name_list_set [OF approved] by blast
    have "py_minus xs ys = [] \<longleftrightarrow> set xs \<subseteq> set ys"
      using set_py_minus [OF xs(3), of ys] by (metis Diff_eq_empty_iff set_empty)
    also have "\<dots> \<longleftrightarrow> (\<forall>n. lists ?s ''topics'' n \<longrightarrow> lists (previous tr i) ''approved_nodes'' n)"
      using xs ys by (auto simp: lists_def is_pstr_iff)
    finally have iff: "py_minus xs ys = []
        \<longleftrightarrow> (\<forall>n. lists ?s ''topics'' n \<longrightarrow> lists (previous tr i) ''approved_nodes'' n)" .
    have left: "\<forall>x \<in> set (py_minus xs ys). is_pstr x"
      using set_py_minus [OF xs(3), of ys] xs(3) by simp
    obtain why where "py_sorted (py_minus xs ys) = Inr why" using py_sorted_total [OF left] by blast
    then show ?thesis
      using True arrived_in_previous [OF _ 1] xs(1) ys(1) iff
        state_fact_maybe [OF name_list_present [OF topics]]
        state_fact_maybe [OF name_list_present [OF approved]]
      by (simp add: Let_def report_def)
  qed
qed

lemma i3_legal:
  assumes "recorded_run tr"
  shows "i3 tr = Inr [] \<longleftrightarrow> legal_3 tr"
  unfolding i3_def legal_3_def
proof (rule each_step_local_iff, goal_cases)
  case (1 s)
  then have rs: "recorded s" using assms by simp
  obtain xs where xs: "unapproved s ''I3'' = Inr xs" "\<forall>x \<in> set xs. is_pstr x"
      "\<forall>n. PStr n \<in> set xs \<longleftrightarrow> (\<exists>x. node_at_state s n x \<and> x \<notin> {''NodeApproved'', ''Removed''})"
    using nodes_where_recorded [OF rs, of "\<lambda>st. st \<notin> {PStr ''NodeApproved'', PStr ''Removed''}" "''I3''"]
    unfolding unapproved_def by auto
  have nl: "name_list (maybe s ''stale_nodes'')" using recorded_lists(4) [OF rs] .
  have none: "xs = [] \<longleftrightarrow> (\<forall>n x. node_at_state s n x \<longrightarrow> x \<in> {''NodeApproved'', ''Removed''})"
    using no_names [OF xs(2)] xs(3) by auto
  obtain why where why: "py_sorted xs = Inr why" using py_sorted_total [OF xs(2)] by blast
  obtain zs where zs: "maybe s ''stale_nodes'' = PList zs" "\<forall>x \<in> set zs. is_pstr x"
    using name_list_items [OF nl] by (cases "maybe s ''stale_nodes''") auto
  obtain why' where why': "py_sorted zs = Inr why'" using py_sorted_total [OF zs(2)] by blast
  have stale: "zs = [] \<longleftrightarrow> (\<forall>n. \<not> lists s ''stale_nodes'' n)"
    using no_names [OF zs(2)] zs(1) by (simp add: lists_def)
  have fact: "state_fact s ''stale_nodes'' ''I3'' = Inr (PList zs)"
    using state_fact_maybe [OF name_list_present [OF nl]] zs(1) by simp
  show ?case
    using none stale
    by (cases "xs = []"; cases "zs = []") (simp_all add: xs(1) why why' fact report_def)
qed

lemma i4_legal:
  assumes "recorded_run tr"
  shows "i4 tr = Inr [] \<longleftrightarrow> legal_4 tr"
  unfolding i4_def legal_4_def
proof (rule each_step_local_iff, goal_cases)
  case (1 s)
  then have rs: "recorded s" using assms by simp
  show ?case
  proof (cases "names_event s NodeEdited")
    case True
    then obtain n where n: "maybe s ''node'' = PStr n" using recorded_lists(7) [OF rs] by blast
    obtain xs where xs: "needs_revalidation s ''I4'' = Inr xs"
        "\<forall>n. PStr n \<in> set xs \<longleftrightarrow> node_at_state s n ''NeedsRevalidation''"
      using nodes_where_recorded [OF rs, of "\<lambda>st. st = PStr ''NeedsRevalidation''" "''I4''"]
      unfolding needs_revalidation_def by auto
    show ?thesis using True n xs by (auto simp: state_fact_maybe)
  qed simp
qed

text \<open>Each new name needs its evidence: the properties about removal, admission and rights.\<close>

lemma newly_legal:
  assumes run: "recorded_run tr" and i: "i < length tr"
    and ev: "\<And>n t. t \<in> set tr \<Longrightarrow> evidence (PStr n) t = Inr (shown n t)"
  shows "(if i = 0 then Inr [] else
      ebind (newly (\<lambda>t. nodes_where p t ident) tr i (tr ! i)) (lacking ident tr i (tr ! i) evidence)) = Inr []
    \<longleftrightarrow> (\<forall>n. 0 < i \<and> (\<exists>x. node_at_state (tr ! i) n x \<and> p (PStr x))
          \<and> \<not> (\<exists>x. node_at_state (previous tr i) n x \<and> p (PStr x)) \<longrightarrow> (\<exists>j \<le> i. shown n (tr ! j)))"
proof (cases "i = 0")
  case False
  then have pos: "0 < i" by simp
  obtain xs where xs: "newly (\<lambda>t. nodes_where p t ident) tr i (tr ! i) = Inr xs" "\<forall>x \<in> set xs. is_pstr x"
      "\<forall>n. PStr n \<in> set xs \<longleftrightarrow> (\<exists>x. node_at_state (tr ! i) n x \<and> p (PStr x))
          \<and> \<not> (\<exists>x. node_at_state (previous tr i) n x \<and> p (PStr x))"
    using newly_recorded [of "tr ! i" tr i p ident] recorded_previous [OF run pos i] run i pos by auto
  have "evidence x t = Inr (shown (str_of x) t)" if "x \<in> set xs" "t \<in> set tr" for x t
    using ev xs(2) that by (metis PStr_str_of)
  then have "lacking ident tr i (tr ! i) evidence xs = Inr [] \<longleftrightarrow>
      (\<forall>x \<in> set xs. \<exists>j \<le> i. shown (str_of x) (tr ! j))"
    by (rule lacking_none) (use i in simp_all)
  also have "\<dots> \<longleftrightarrow> (\<forall>n. PStr n \<in> set xs \<longrightarrow> (\<exists>j \<le> i. shown n (tr ! j)))"
    using xs(2) by (metis PStr_str_of str_of.simps(1))
  finally show ?thesis using False xs(1,3) by simp
qed simp

lemma i5_legal:
  assumes "recorded_run tr"
  shows "i5 tr = Inr [] \<longleftrightarrow> legal_5 tr"
  unfolding i5_def legal_5_def
proof (rule each_step_iff, goal_cases)
  case (1 i)
  have ev: "committed_without (PStr n) t
      = Inr (maybe t ''committed_outline'' \<noteq> PNone \<and> \<not> lists t ''committed_outline'' n)" if "t \<in> set tr" for n t
    using recorded_lists(5) assms that name_list_contains
    by (auto simp: committed_without_def lists_def Let_def)
  show ?case
    unfolding removed_def
    using newly_legal [where evidence = committed_without and p = "\<lambda>st. st = PStr ''Removed''"
        and ident = "''I5''" and shown = "\<lambda>n t. maybe t ''committed_outline'' \<noteq> PNone
          \<and> \<not> lists t ''committed_outline'' n", OF assms 1 ev] by simp
qed

lemma i6_legal:
  assumes "recorded_run tr"
  shows "i6 tr = Inr [] \<longleftrightarrow> legal_6 tr"
  unfolding i6_def legal_6_def
proof (rule each_step_iff, goal_cases)
  case (1 i)
  have ev: "screened_step (PStr n) t
      = Inr (names_event t GuardrailVerdict \<and> maybe t ''artifact'' = PStr n)" if "t \<in> set tr" for n t
    by (simp add: screened_step_def)
  have rec: "in_record s n \<longleftrightarrow> (\<exists>x. node_at_state s n x \<and> PStr x \<in> PStr ` set admitted_states)" for s n
    by (auto simp: in_record_def)
  show ?case
    unfolding admitted_def rec
    using newly_legal [where evidence = screened_step and p = "\<lambda>st. st \<in> PStr ` set admitted_states"
        and ident = "''I6''" and shown = "\<lambda>n t. names_event t GuardrailVerdict
          \<and> maybe t ''artifact'' = PStr n", OF assms 1 ev] by simp
qed

lemma version_legal:
  assumes "recorded_run tr" and "\<And>s. s \<in> set tr \<Longrightarrow> maybe s f \<noteq> PNone \<and> maybe s (''current_'' @ f) \<noteq> PNone"
  shows "version_invariant ident f tr = Inr [] \<longleftrightarrow> legal_versions f tr"
  unfolding version_invariant_def legal_versions_def
proof (rule each_step_local_iff, goal_cases)
  case (1 s)
  then have rs: "recorded s" using assms by simp
  have nl: "name_list (maybe s ''stale_nodes'')" using recorded_lists(4) [OF rs] .
  show ?case
    using state_fact_maybe [OF conjunct1 [OF assms(2) [OF 1]]] state_fact_maybe [OF conjunct2 [OF assms(2) [OF 1]]]
      state_fact_maybe [OF name_list_present [OF nl]] state_fact_maybe [OF recorded_present(2) [OF rs]]
      name_list_truthy [OF nl]
    by (auto simp: lists_def)
qed

lemma i7_legal: "recorded_run tr \<Longrightarrow> i7 tr = Inr [] \<longleftrightarrow> legal_versions ''policy_version'' tr"
  unfolding i7_def by (rule version_legal) (auto dest: recorded_present(3,4))

lemma i15_legal: "recorded_run tr \<Longrightarrow> i15 tr = Inr [] \<longleftrightarrow> legal_versions ''guardrail_version'' tr"
  unfolding i15_def by (rule version_legal) (auto dest: recorded_present(5,6))

lemma or_empty_recorded:
  "name_list (maybe t f) \<Longrightarrow> \<exists>xs. or_empty t f = Inr xs \<and> set xs = set (items_of (maybe t f))
     \<and> (\<forall>x \<in> set xs. is_pstr x)"
  using name_list_set [of "maybe t f"] by (simp add: or_empty_def name_list_or)

lemma rights_checked_name:
  "name_list (maybe t ''permission_checked'') \<Longrightarrow>
     rights_checked (PStr n) t = Inr (lists t ''permission_checked'' n)"
  by (simp add: rights_checked_def name_list_or name_list_contains lists_def)

lemma i8_legal:
  assumes "recorded_run tr"
  shows "i8 tr = Inr [] \<longleftrightarrow> legal_8 tr"
  unfolding i8_def legal_8_def
proof (rule each_step_iff, goal_cases)
  case (1 i)
  show ?case
  proof (cases "i = 0")
    case False
    then have pos: "0 < i" by simp
    have rs: "recorded (tr ! i)" "recorded (previous tr i)"
      using assms 1 recorded_previous [OF assms pos 1] by simp_all
    obtain now where now: "or_empty (tr ! i) ''used_restricted'' = Inr now"
        "set now = set (items_of (maybe (tr ! i) ''used_restricted''))" "\<forall>x \<in> set now. is_pstr x"
      using or_empty_recorded [OF recorded_lists(3) [OF rs(1)]] by blast
    obtain prior where prior: "or_empty (previous tr i) ''used_restricted'' = Inr prior"
        "set prior = set (items_of (maybe (previous tr i) ''used_restricted''))"
      using or_empty_recorded [OF recorded_lists(3) [OF rs(2)]] by blast
    have left: "set (py_minus now prior) = set now - set prior" "\<forall>x \<in> set (py_minus now prior). is_pstr x"
      using set_py_minus [OF now(3)] now(3) by simp_all
    obtain xs where xs: "py_sorted (py_minus now prior) = Inr xs" "set xs = set now - set prior"
      using py_sorted_total [OF left(2)] left(1) by auto
    have names: "\<forall>x \<in> set xs. is_pstr x" using xs(2) now(3) by simp
    have "rights_checked x t = Inr (lists t ''permission_checked'' (str_of x))"
      if "x \<in> set xs" "t \<in> set tr" for x t
      using rights_checked_name [of t "str_of x"] recorded_lists(2) assms that names
      by (simp add: PStr_str_of)
    then have "lacking ''I8'' tr i (tr ! i) rights_checked xs = Inr [] \<longleftrightarrow>
        (\<forall>x \<in> set xs. \<exists>j \<le> i. lists (tr ! j) ''permission_checked'' (str_of x))"
      by (rule lacking_none) (use 1 in simp_all)
    also have "\<dots> \<longleftrightarrow> (\<forall>n. PStr n \<in> set xs \<longrightarrow> (\<exists>j \<le> i. lists (tr ! j) ''permission_checked'' n))"
      using names by (metis PStr_str_of str_of.simps(1))
    finally show ?thesis
      using pos arrived_in_previous [OF pos 1] now(1,2) prior xs by (simp add: lists_def)
  qed simp
qed

lemma i9_legal:
  assumes "recorded_run tr"
  shows "i9 tr = Inr [] \<longleftrightarrow> legal_9 tr"
  unfolding i9_def legal_9_def
proof (rule each_step_local_iff, goal_cases)
  case (1 s)
  then obtain e where e: "s_event s = PStr e" using assms recorded_shape [of s] by blast
  let ?lacks = "filter (\<lambda>f. f \<noteq> ''event'' \<and> \<not> dhas (s_fields s) f) envelope"
  let ?keyed = "s_event s \<in> PStr ` event_name ` set side_effecting"
  have "in_names (s_event s) (map event_name side_effecting) = Inr ?keyed"
    by (simp add: in_names_def e)
  then have "missing_envelope s = (if s_event s = initial_event then Inr [] else
      Inr (?lacks @ (if ?keyed \<and> \<not> dhas (s_fields s) ''idempotency_key'' then [''idempotency_key''] else [])))"
    by (simp add: missing_envelope_def)
  moreover have "?lacks = [] \<longleftrightarrow> (\<forall>f \<in> set envelope. f \<noteq> ''event'' \<longrightarrow> dhas (s_fields s) f)"
    by (auto simp: filter_empty_conv)
  ultimately show ?case by simp
qed

definition revision_of :: "step \<Rightarrow> int" where
  "revision_of s = whole (maybe s ''revision'')"

lemma maybe_revision: "recorded s \<Longrightarrow> maybe s ''revision'' = PInt (revision_of s)"
  using recorded_shape [of s] unfolding revision_of_def whole_def by auto

lemma note_published_recorded:
  assumes "recorded s"
  shows "note_published s (map PInt rs)
    = Inr (map PInt (if course_is Published s then revision_of s # rs else rs))"
  using state_fact_maybe [OF recorded_present(9) [OF assms]] maybe_revision [OF assms]
  by (simp add: note_published_def)

lemma i10_from_legal:
  "recorded_run tr \<Longrightarrow> i10_from (map PInt rs) tr = Inr [] \<longleftrightarrow>
     (\<forall>i < length tr. names_event (tr ! i) NodeEdited \<longrightarrow>
        revision_of (tr ! i) \<notin> set rs \<union> revision_of ` {t \<in> set (take (Suc i) tr). course_is Published t})"
proof (induction tr arbitrary: rs)
  case (Cons s tr)
  have rs: "recorded s" "recorded_run tr" using Cons.prems by simp_all
  have mem: "py_in (PInt r) (map PInt xs) \<longleftrightarrow> r \<in> set xs" for r xs
    by (auto simp: py_in_def)
  define now where "now = (if course_is Published s then revision_of s # rs else rs)"
  have noted: "note_published s (map PInt rs) = Inr (map PInt now)"
    unfolding now_def by (rule note_published_recorded [OF rs(1)])
  have "state_fact s ''revision'' ''I10'' = Inr (PInt (revision_of s))"
    using state_fact_maybe [OF recorded_present(9) [OF rs(1)]] maybe_revision [OF rs(1)] by simp
  then have here: "(if \<not> names_event s NodeEdited then Inr []
      else ebind (state_fact s ''revision'' ''I10'') (\<lambda>r.
        if hashable r then report (py_in r (map PInt now)) ''I10'' s [r] else Inl (Raised type_error)))
      = (if names_event s NodeEdited then report (revision_of s \<in> set now) ''I10'' s [PInt (revision_of s)]
         else Inr [])"
    by (simp add: mem)
  have "i10_from (map PInt rs) (s # tr) = Inr [] \<longleftrightarrow>
      (names_event s NodeEdited \<longrightarrow> revision_of s \<notin> set now) \<and> i10_from (map PInt now) tr = Inr []"
    unfolding i10_from.simps noted ebind.simps here by (auto simp: report_def)
  then show ?case
    unfolding Cons.IH [OF rs(2)] by (auto simp: All_less_Suc2 now_def)
qed simp

lemma i10_legal:
  assumes "recorded_run tr"
  shows "i10 tr = Inr [] \<longleftrightarrow> legal_10 tr"
proof -
  have revs: "maybe (tr ! i) ''revision'' = PInt (revision_of (tr ! i))" if "i < length tr" for i
    using maybe_revision assms that by simp
  have "revision_of (tr ! i) \<notin> set [] \<union> revision_of ` {t \<in> set (take (Suc i) tr). course_is Published t}
      \<longleftrightarrow> (\<forall>j \<le> i. course_is Published (tr ! j) \<longrightarrow> revision_of (tr ! j) \<noteq> revision_of (tr ! i))"
    if "i < length tr" for i
  proof -
    have "set (take (Suc i) tr) = (!) tr ` {0..<Suc i}" using that nth_image [of "Suc i" tr] by simp
    moreover have "x \<notin> set [] \<union> f ` {t \<in> g ` A. P t} \<longleftrightarrow> (\<forall>j \<in> A. P (g j) \<longrightarrow> f (g j) \<noteq> x)"
      for x and f :: "step \<Rightarrow> int" and g :: "nat \<Rightarrow> step" and A P
      by auto
    ultimately show ?thesis by (simp add: Ball_def less_Suc_eq_le)
  qed
  then have "i10 tr = Inr [] \<longleftrightarrow> (\<forall>i < length tr. \<forall>j \<le> i. names_event (tr ! i) NodeEdited \<longrightarrow>
      course_is Published (tr ! j) \<longrightarrow> revision_of (tr ! j) \<noteq> revision_of (tr ! i))"
    using i10_from_legal [OF assms, of "[]"] unfolding i10_def by auto
  also have "\<dots> \<longleftrightarrow> legal_10 tr"
    unfolding legal_10_def using revs by (auto; metis le_less_trans)
  finally show ?thesis .
qed

text \<open>The states of the revisions, as a dictionary with whole numbers for keys.\<close>

lemma revisions_recorded:
  assumes "recorded s"
  obtains d where "maybe s ''revision_states'' = PDict (map (\<lambda>(r, x). (PInt r, PStr x)) d)"
    and "distinct (map fst d)"
  using recorded_shape [OF assms] that by blast

lemma find_revision:
  assumes "distinct (map fst d)"
  shows "dfind (map (\<lambda>(r, x). (PInt r, PStr x)) d) (PInt p) = map_option PStr (map_of d p)"
  using assms by (induction d) (auto simp: dfind_def)

lemma in_revisions: "py_in (PInt p) (map fst (map (\<lambda>(r, x). (PInt r, PStr x)) d)) \<longleftrightarrow> p \<in> fst ` set d"
  by (force simp: py_in_def)

lemma revision_at_state_map:
  assumes "maybe s ''revision_states'' = PDict (map (\<lambda>(r, x). (PInt r, PStr x)) d)" "distinct (map fst d)"
  shows "revision_at_state s r x \<longleftrightarrow> map_of d r = Some x"
  using assms by (auto simp: revision_at_state_def)

lemma i11_legal:
  assumes "recorded_run tr"
  shows "i11 tr = Inr [] \<longleftrightarrow> legal_11 tr"
  unfolding i11_def legal_11_def
proof (rule each_step_local_iff, goal_cases)
  case (1 s)
  then have rs: "recorded s" using assms by simp
  obtain d where d: "maybe s ''revision_states'' = PDict (map (\<lambda>(r, x). (PInt r, PStr x)) d)"
    "distinct (map fst d)" using revisions_recorded [OF rs] .
  have fact: "state_fact s ''revision_states'' ''I11'' = Inr (PDict (map (\<lambda>(r, x). (PInt r, PStr x)) d))"
    using state_fact_maybe [OF recorded_present(8) [OF rs]] d(1) by simp
  consider "maybe s ''live_pointer'' = PNone" | p where "maybe s ''live_pointer'' = PInt p"
    using recorded_shape [OF rs] by blast
  then show ?case
  proof cases
    case 2
    have known: "p \<in> fst ` set d \<longleftrightarrow> (\<exists>x. map_of d p = Some x)"
      by (metis domIff dom_map_of_conv_image_fst not_None_eq)
    have names: "in_names (PStr x) servable = Inr (x \<in> set servable)" for x
      by (auto simp: in_names_def)
    show ?thesis
      unfolding 2 Let_def fact ebind.simps contains.simps hashable.simps if_True passing.simps
        in_revisions find_revision [OF d(2)] revision_at_state_map [OF d]
      by (cases "map_of d p") (auto simp: known names report_def find_revision [OF d(2)])
  qed (simp add: Let_def)
qed

lemma superseded_recorded:
  assumes "recorded s"
  obtains d where "superseded_at s = Inr (map PInt (map fst (filter (\<lambda>(r, x). x = ''Superseded'') d)))"
    and "\<And>r. revision_at_state s r ''Superseded'' \<longleftrightarrow> (r, ''Superseded'') \<in> set d"
    and "\<And>r. was_superseded s (PInt r) = Inr (revision_at_state s r ''Superseded'')"
proof -
  obtain d where d: "maybe s ''revision_states'' = PDict (map (\<lambda>(r, x). (PInt r, PStr x)) d)"
    "distinct (map fst d)" using revisions_recorded [OF assms] .
  have items: "py_items (py_or (maybe s ''revision_states'') (PDict []))
      = Inr (map (\<lambda>(r, x). (PInt r, PStr x)) d)"
    by (simp add: py_or_def d)
  have "map fst (filter (\<lambda>(r, st). st = PStr ''Superseded'') (map (\<lambda>(r, x). (PInt r, PStr x)) d))
      = map PInt (map fst (filter (\<lambda>(r, x). x = ''Superseded'') d))"
    by (induction d) auto
  then have "superseded_at s = Inr (map PInt (map fst (filter (\<lambda>(r, x). x = ''Superseded'') d)))"
    by (simp add: superseded_at_def items)
  moreover have "revision_at_state s r ''Superseded'' \<longleftrightarrow> (r, ''Superseded'') \<in> set d" for r
    by (auto simp: revision_at_state_def d)
  moreover have "was_superseded s (PInt r) = Inr (revision_at_state s r ''Superseded'')" for r
    using revision_at_state_map [OF d, of r] find_revision [OF d(2), of r]
    by (auto simp: was_superseded_def items split: option.splits)
  ultimately show ?thesis using that by blast
qed

lemma unless_held_pure:
  "\<forall>x \<in> set xs. f x = Inr (p x) \<Longrightarrow> unless_held f xs = Inr (filter (\<lambda>x. \<not> p x) xs)"
  by (induction xs) auto

lemma py_sorted_whole: "\<exists>ys. py_sorted (map PInt xs) = Inr (map PInt ys) \<and> set ys = set xs"
proof (cases xs)
  case (Cons x ys)
  have "map whole (map PInt xs) = xs" by (simp add: whole_def comp_def)
  moreover have "list_all is_whole (map PInt xs)" by (simp add: list_all_iff is_whole_def)
  ultimately have "py_sorted (map PInt xs) = Inr (map PInt (sort xs))"
    using Cons by (simp add: py_sorted_def)
  then show ?thesis by (intro exI [of _ "sort xs"]) simp
qed (simp add: py_sorted_def)

lemma pointer_recorded:
  "recorded s \<Longrightarrow> py_eq (maybe s ''live_pointer'') (PInt r) \<longleftrightarrow> maybe s ''live_pointer'' = PInt r"
  using recorded_shape [of s] by auto

lemma i12_legal:
  assumes "recorded_run tr"
  shows "i12 tr = Inr [] \<longleftrightarrow> legal_12 tr"
  unfolding i12_def legal_12_def
proof (rule each_step_iff, goal_cases)
  case (1 i)
  show ?case
  proof (cases "i = 0")
    case False
    let ?s = "tr ! i" and ?b = "tr ! (i - 1)"
    have rs: "recorded ?s" "recorded ?b" using assms 1 by simp_all
    obtain d where d: "superseded_at ?s = Inr (map PInt (map fst (filter (\<lambda>(r, x). x = ''Superseded'') d)))"
        "\<And>r. revision_at_state ?s r ''Superseded'' \<longleftrightarrow> (r, ''Superseded'') \<in> set d"
      using superseded_recorded [OF rs(1)] by metis
    have was: "was_superseded ?b (PInt r) = Inr (revision_at_state ?b r ''Superseded'')" for r
      using superseded_recorded [OF rs(2)] by metis
    define new where "new = filter (\<lambda>r. \<not> revision_at_state ?b r ''Superseded'')
      (map fst (filter (\<lambda>(r, x). x = ''Superseded'') d))"
    have held: "unless_held (was_superseded ?b) (map PInt (map fst (filter (\<lambda>(r, x). x = ''Superseded'') d)))
        = Inr (map PInt new)"
      using unless_held_pure [of "map PInt (map fst (filter (\<lambda>(r, x). x = ''Superseded'') d))" "was_superseded ?b"
          "\<lambda>x. revision_at_state ?b (whole x) ''Superseded''"] was
      by (auto simp: new_def whole_def filter_map comp_def)
    obtain revs where revs: "py_sorted (map PInt new) = Inr (map PInt revs)" "set revs = set new"
      using py_sorted_whole by blast
    have mem: "r \<in> set new \<longleftrightarrow> revision_at_state ?s r ''Superseded''
        \<and> \<not> revision_at_state ?b r ''Superseded''" for r
      unfolding new_def d(2) by force
    have served: "once tr i (served (PInt r)) = Inr (\<exists>j < i. maybe (tr ! j) ''live_pointer'' = PInt r)" for r
      by (rule once_on) (use assms 1 pointer_recorded in \<open>simp_all add: served_def\<close>)
    have each: "(if py_eq (maybe ?s ''live_pointer'') x then report True ''I12'' ?s [x]
         else ebind (once tr i (served x)) (\<lambda>ok. report (\<not> ok) ''I12'' ?s [x]))
        = report (maybe ?s ''live_pointer'' = x \<or> \<not> (\<exists>j < i. maybe (tr ! j) ''live_pointer'' = x)) ''I12'' ?s [x]"
      if "x \<in> set (map PInt revs)" for x
    proof -
      obtain r where x: "x = PInt r" using \<open>x \<in> _\<close> by auto
      show ?thesis
        unfolding x served pointer_recorded [OF rs(1)] ebind.simps
        by (cases "maybe ?s ''live_pointer'' = PInt r") (simp_all only: if_True if_False simp_thms)
    qed
    have walk: "ebind (traverse (\<lambda>r. if py_eq (maybe ?s ''live_pointer'') r then report True ''I12'' ?s [r]
         else ebind (once tr i (served r)) (\<lambda>ok. report (\<not> ok) ''I12'' ?s [r])) (map PInt revs))
         (\<lambda>vs. Inr (concat vs)) = Inr [] \<longleftrightarrow>
        (\<forall>x \<in> set (map PInt revs). \<not> (maybe ?s ''live_pointer'' = x \<or> \<not> (\<exists>j < i. maybe (tr ! j) ''live_pointer'' = x)))"
      by (rule traverse_report_none [where ident = "''I12''" and s = "tr ! i" and why = "\<lambda>x. [x]"])
        (rule ballI, rule each)
    have nonzero: "(i = 0) = False" using False by simp
    show ?thesis
      unfolding d(1) ebind.simps held revs(1) passing.simps if_False nonzero
      unfolding walk using False by (auto simp: revs(2) mem)
  qed simp
qed

lemma i13_legal:
  assumes "recorded_run tr"
  shows "i13 tr = Inr [] \<longleftrightarrow> legal_13 tr"
  unfolding i13_def legal_13_def
proof (rule each_step_iff, goal_cases)
  case (1 i)
  have verified: "re_verified_at (PInt r) t = Inr (PInt r \<in> set (items_of (maybe t ''re_verified'')))"
    if "t \<in> set tr" for r t
  proof -
    have "recorded t" using assms that by simp
    then obtain rs where "maybe t ''re_verified'' = PList (map PInt rs)"
      using recorded_shape by blast
    moreover have "py_or (PList (map PInt rs)) (PList []) = PList (map PInt rs)"
      by (simp add: py_or_def)
    moreover have "py_in (PInt r) (map PInt rs) \<longleftrightarrow> PInt r \<in> set (map PInt rs)"
      by (simp add: py_in_def) blast
    ultimately show ?thesis by (simp add: re_verified_at_def)
  qed
  have "once tr i (re_verified_at (PInt r)) = Inr (\<exists>j < i. PInt r \<in> set (items_of (maybe (tr ! j) ''re_verified'')))" for r
    by (rule once_on) (use verified 1 in simp_all)
  moreover have "maybe (tr ! i) ''rolled_back_to'' = PNone \<or> (\<exists>r. maybe (tr ! i) ''rolled_back_to'' = PInt r)"
    using assms 1 recorded_shape [of "tr ! i"] by simp
  ultimately show ?case by (auto simp: Let_def)
qed

lemma i14_legal:
  assumes "recorded_run tr"
  shows "i14 tr = Inr [] \<longleftrightarrow> legal_14 tr"
  unfolding i14_def legal_14_def
proof (rule each_step_local_iff, goal_cases)
  case (1 s)
  then have rs: "recorded s" using assms by simp
  obtain d where d: "maybe s ''node_states'' = PDict (map (\<lambda>(n, x). (PStr n, PStr x)) d)"
    using recorded_shape [OF rs] by blast
  obtain b where b: "maybe s ''retry_budget_left'' = PDict (map (\<lambda>(n, b). (PStr n, PBool b)) b)"
    using recorded_shape [OF rs] by blast
  let ?stuck = "map fst (filter (\<lambda>(n, x). x = ''NodeRecovery'' \<and> \<not> has_retries s n) d)"
  have left: "(case dfind (map (\<lambda>(n, b). (PStr n, PBool b)) b) (PStr n) of
      None \<Rightarrow> False | Some v \<Rightarrow> truthy v) \<longleftrightarrow> has_retries s n" for n
    unfolding has_retries_def b by (induction b) (auto simp: dfind_def)
  let ?held = "filter (\<lambda>(n, st). st = PStr ''NodeRecovery'') (map (\<lambda>(n, x). (PStr n, PStr x)) d)"
  let ?lost = "\<lambda>(n, st :: pyval). \<not> (case dfind (map (\<lambda>(n, b). (PStr n, PBool b)) b) n of
      None \<Rightarrow> False | Some v \<Rightarrow> truthy v)"
  have stuck: "map fst (filter ?lost ?held) = map PStr ?stuck"
    by (induction d) (auto simp: left)
  have "held s ''I14'' = Inr (map fst (filter ?lost ?held))"
    using state_fact_maybe [OF recorded_present(7) [OF rs], of "''I14''"]
    unfolding held_def nodes_recorded [OF rs] b d
    by (cases "?held = []") (simp_all only: Let_def ebind.simps entries_of.simps py_items.simps
        passing.simps if_True if_False filter.simps list.map simp_thms)
  then have "held s ''I14'' = Inr (map PStr ?stuck)" by (simp only: stuck)
  moreover obtain why where "py_sorted (map PStr ?stuck) = Inr why"
    using py_sorted_total [of "map PStr ?stuck"] by auto
  moreover have "?stuck = [] \<longleftrightarrow> (\<forall>n. node_at_state s n ''NodeRecovery'' \<longrightarrow> has_retries s n)"
    by (auto simp: filter_empty_conv node_at_state_def d)
  ultimately show ?case
    using state_fact_maybe [OF recorded_present(1) [OF rs]] d by (auto simp: course_is_def)
qed

end
