(* ===== verification/Traced_Machine.thy ===== *)
theory Traced_Machine
  imports Firing Legal_Runs Outcomes
begin

text \<open>
  The machine and the engine that judges it: the trace \<open>machine/recording.py\<close> writes has the
  shape \<open>engines/temporal/trace.py\<close> reads, and carries the envelope the audit asks for.
\<close>

section \<open>Only events of the tables are recorded\<close>

definition recordable :: "event \<Rightarrow> bool" where
  "recordable e \<longleftrightarrow> e \<in> set (catalog_events @ reactions) \<and> e \<noteq> Initial"

definition shaped :: "pydict \<Rightarrow> bool" where
  "shaped d \<longleftrightarrow> (\<exists>S rv e p w. d = step_of S rv e p w \<and> recordable e)"

lemma shaped_step: "recordable e \<Longrightarrow> shaped (step_of S rv e p w)"
  unfolding shaped_def by blast

definition traced :: "machine \<Rightarrow> machine \<Rightarrow> bool" where
  "traced m m' \<longleftrightarrow> (\<exists>ds. st_steps (m_store m') = st_steps (m_store m) @ ds \<and> (\<forall>d \<in> set ds. shaped d))"

lemma traced_same: "st_steps (m_store m') = st_steps (m_store m) \<Longrightarrow> traced m m'"
  by (simp add: traced_def)

interpretation tracing: machine_frame traced recordable
proof
  show "traced s t \<Longrightarrow> traced t u \<Longrightarrow> traced s u" for s t u
    unfolding traced_def by (metis Un_iff append.assoc set_append)
  show "recordable e \<Longrightarrow> traced m (on_store (\<lambda>S. S\<lparr>st_steps := st_steps S @ [step_of S rv e p w]\<rparr>) m)"
    for e m rv p w
    using shaped_step by (auto simp: traced_def on_store_def)
  show "(\<And>S. calm S (g S)) \<Longrightarrow> traced m (on_store g m)" for g m
    by (rule traced_same) (simp add: on_store_def calm_def)
  show "traced (deeper m) m' \<Longrightarrow> traced m (shallower m')" for m m'
    by (simp add: traced_def deeper_def shallower_def)
  show "traced (deeper m) m' \<Longrightarrow> traced m (shallower (restore (m_store m) c ev m'))" for m m' c ev
    by (intro traced_same) (simp add: shallower_def restore_def forget_def split: option.split)
qed (auto intro!: traced_same simp: on_rev_def on_store_def recordable_def catalog_events_def)

definition tabled :: "env \<Rightarrow> event \<Rightarrow> bool" where
  "tabled E e \<longleftrightarrow> (\<exists>t \<in> set (revision_rows (e_table E) @ node_rows (e_table E)). t_event t = e)"

lemma take_first_event:
  "take_first E ts x e p u m = (Inr (True, v), m') \<Longrightarrow> \<exists>t \<in> set ts. t_event t = e"
proof (induction ts arbitrary: u m)
  case (Cons t ts)
  show ?case
  proof (cases "candidate t x e p m")
    case True
    then show ?thesis by (simp add: candidate_def)
  next
    case False
    then show ?thesis using Cons by (auto simp: andthen_eq split: if_splits)
  qed
qed simp

lemma take_row_event: "take_row E x e p m = (Inr (True, v), m') \<Longrightarrow> tabled E e"
  unfolding take_row_def tabled_def by (cases x) (auto dest: take_first_event)

lemma gather_moved: "a_moved (gather r out g) \<longleftrightarrow> a_moved g \<or> fst out"
  by (simp add: gather_def)

lemma fire_node_moved:
  "fire_node E r e p i g m = (Inr g', m') \<Longrightarrow> a_moved g' \<Longrightarrow> a_moved g \<or> tabled E e"
  unfolding fire_node_def
  by (auto simp: andthen_eq gather_moved) (metis prod.collapse take_row_event)

lemma loop_moved:
  assumes "\<And>x g g' m m'. f x g m = (Inr g', m') \<Longrightarrow> a_moved g' \<Longrightarrow> a_moved g \<or> Q"
  shows "loop f xs g m = (Inr g', m') \<Longrightarrow> a_moved g' \<Longrightarrow> a_moved g \<or> Q"
proof (induction xs arbitrary: g m)
  case (Cons x xs)
  then obtain h m1 where "f x g m = (Inr h, m1)" "loop f xs h m1 = (Inr g', m')"
    by (auto simp: andthen_eq)
  then show ?case using Cons assms by blast
qed simp

lemma fire_revision_moved:
  assumes "fire_revision E e p r g m = (Inr g', m')" "a_moved g'"
  shows "a_moved g \<or> tabled E e"
proof -
  obtain out m1 m2 where out: "take_row E (ORev r) e p m1 = (Inr out, m2)"
      and rest: "(if e \<in> set all_nodes \<and> \<not> fst out \<and> e \<noteq> BlockedInputFixed then ret (gather r out g)
        else andthen (gets (nodes_for r e p)) (\<lambda>ns. loop (fire_node E r e p) ns (gather r out g))) m2
          = (Inr g', m')"
    using assms(1) unfolding fire_revision_def Let_def by (auto simp: andthen_eq)
  have "a_moved (gather r out g) \<or> tabled E e"
    using rest assms(2) loop_moved [of "fire_node E r e p", OF fire_node_moved]
    by (auto simp: andthen_eq split: if_splits)
  then show ?thesis using out by (metis gather_moved prod.collapse take_row_event)
qed

lemma fire_inner_event:
  assumes "fire_inner E fire e kv w m = (Inr u, m')"
  shows "tabled E e \<or> e \<in> set broadcast"
proof -
  obtain p revs rested g m1 m2 where
      loop: "loop (fire_revision E e p) revs \<lparr>a_moved = False, a_undecided = False, a_acted = None\<rparr> m1
        = (Inr g, m2)"
      and rest: "conclude E fire e p w revs rested g m2 = (Inr u, m')"
    using assms unfolding fire_inner_def fire_body_def carry_out_def by (auto simp: andthen_eq)
  have "a_moved g \<or> e \<in> set broadcast"
    using rest unfolding conclude_def by (auto simp: andthen_eq only_if_def split: if_splits)
  then show ?thesis
    using loop_moved [of "fire_revision E e p", OF fire_revision_moved loop] by auto
qed

lemma fire_upto_event:
  "fire_upto k E e kv w m = (Inr u, m') \<Longrightarrow> tabled E e \<or> e \<in> set broadcast"
  by (cases k) (auto simp: fire_with_def split: if_splits prod.splits sum.splits dest: fire_inner_event)

lemma spec_events: "\<forall>t \<in> set (revision_rows spec_table @ node_rows spec_table).
    t_event t \<in> set (catalog_events @ reactions) \<and> t_event t \<noteq> Initial"
  by code_simp

lemma broadcast_recordable: "e \<in> set broadcast \<Longrightarrow> recordable e"
  by (auto simp: broadcast_def recordable_def catalog_events_def)

lemma fired_recordable:
  "e_table E = spec_table \<Longrightarrow> fire_upto k E e kv w m = (Inr u, m') \<Longrightarrow> recordable e"
proof -
  assume E: "e_table E = spec_table" and run: "fire_upto k E e kv w m = (Inr u, m')"
  from run consider "tabled E e" | "e \<in> set broadcast" using fire_upto_event by blast
  then show "recordable e"
  proof cases
    case 1
    then obtain t where t: "t \<in> set (revision_rows spec_table @ node_rows spec_table)" "t_event t = e"
      unfolding tabled_def E by blast
    from bspec [OF spec_events t(1)] t(2) show ?thesis by (simp only: recordable_def simp_thms)
  qed (rule broadcast_recordable)
qed

lemma fire_traced:
  assumes "e_table E = spec_table" "m_depth m = 0" "fire_upto (Suc k) E e kv w m = (res, m')"
  shows "traced m m'"
proof (cases res)
  case (Inl x)
  then show ?thesis
    using fire_outcome [OF assms(2,3)] by (intro traced_same) (auto simp: discarding_def)
next
  case (Inr u)
  then have "recordable e" using fired_recordable [OF assms(1) assms(3) [unfolded Inr]] by simp
  then have "keeps traced (fire_upto (Suc k) E e kv w)" by (rule tracing.keeps_fire_upto)
  then show ?thesis using assms(3) by (rule keepsD)
qed

lemma permits_store:
  "permits k E e kv m = (res, m') \<Longrightarrow> m_store m' = m_store m \<and> m_depth m' = m_depth m"
proof -
  obtain y m1 where y: "fire_inner E (fire_upto k E) e kv ''membrane'' (deeper m) = (y, m1)" by fastforce
  then have "m_depth m1 = m_depth (deeper m)" by (rule inner_depth)
  then show "permits k E e kv m = (res, m') \<Longrightarrow> ?thesis"
    using y by (auto simp: permits_def restore_def forget_def shallower_def deeper_def)
qed

lemma reached_traced:
  "reached k E m m' \<Longrightarrow> e_table E = spec_table \<Longrightarrow> m_depth m = 0 \<Longrightarrow> traced m m' \<and> m_depth m' = 0"
proof (induction rule: reached.induct)
  case (here m)
  then show ?case by (simp add: tracing.same)
next
  case (fired m m' e kv w res m'')
  then have "traced m m'" "m_depth m' = 0" by simp_all
  moreover have "traced m' m''" using fire_traced fired \<open>m_depth m' = 0\<close> by blast
  moreover have "m_depth m'' = m_depth m'"
    using fire_upto_grows [OF fired(2)] by (simp add: grows_def)
  ultimately show ?case using tracing.compose by auto
next
  case (asked m m' e kv res m'')
  then have "traced m m'" "m_depth m' = 0" by simp_all
  then show ?case using permits_store [OF asked(2)] by (simp add: traced_def)
qed

section \<open>A recorded step has the declared shape\<close>

abbreviation layered :: "pydict \<Rightarrow> pydict \<Rightarrow> pydict" where
  "layered L base \<equiv> fold (\<lambda>(k, v) d. AList.update k v d) L base"

lemma keys_update: "fst ` set (AList.update k v al) = insert k (fst ` set al)"
  using arg_cong [OF map_fst_update [of k v al], of set] by auto

lemma layered_keys: "fst ` set (layered L base) = fst ` set L \<union> fst ` set base"
  by (induction L arbitrary: base) (simp_all add: keys_update split_def)

lemma layered_distinct: "distinct (map fst base) \<Longrightarrow> distinct (map fst (layered L base))"
  by (induction L arbitrary: base) (auto simp: distinct_update)

lemma layered_lookup: "k \<notin> fst ` set L \<Longrightarrow> map_of (layered L base) k = map_of base k"
  by (induction L arbitrary: base) (auto simp: update_conv')

lemma layered_has: "k \<in> fst ` set L \<Longrightarrow> map_of (layered L base) k \<noteq> None"
  using layered_keys [of L base] by (simp add: map_of_eq_None_iff)

text \<open>The layers of a step, with what they may hold: no key of the snapshot is replaced by one.\<close>

definition envelope_of :: "nat \<Rightarrow> string \<Rightarrow> pydict" where
  "envelope_of n w = [(PStr ''event_id'', PStr (event_id n)),
      (PStr ''event_time'', PStr (''step-'' @ decimal4 n)),
      (PStr ''producer'', PStr w), (PStr ''correlation_id'', PStr ''lineage-1''),
      (PStr ''causation_id'', PStr (if n = 0 then ''e0000'' else event_id (n - 1))),
      (PStr ''schema_version'', PStr ''1'')]"

lemma envelope_of_keys: "fst ` set (envelope_of n w) = PStr ` {''event_id'', ''event_time'', ''producer'',
    ''correlation_id'', ''causation_id'', ''schema_version''}"
  by (simp add: envelope_of_def)

definition layers_of :: "event \<Rightarrow> pydict \<Rightarrow> pydict \<Rightarrow> pydict \<Rightarrow> bool" where
  "layers_of e C G K \<longleftrightarrow> fst ` set C \<subseteq> set (map PStr payload_keys)
    \<and> fst ` set G \<subseteq> {PStr ''node_type'', PStr ''topics''}
    \<and> fst ` set K = (if e \<in> set side_effecting then {PStr ''idempotency_key''} else {})"

lemma step_of_layers:
  "\<exists>C G K. step_of S rv e p w = layered (C @ envelope_of (length (st_steps S)) w @ G @ K)
      ((PStr ''event'', PStr (event_name e)) # snapshot S rv) \<and> layers_of e C G K"
  unfolding step_of_def Let_def layers_of_def envelope_of_def
  by (rule exI, rule exI, rule exI, rule conjI, rule refl) (auto split: option.splits)

lemma snapshot_keys: "map fst (snapshot S rv) = map PStr [''revision'', ''course_state'', ''node_states'',
    ''retry_budget_left'', ''committed_outline'', ''approved_nodes'', ''permission_checked'',
    ''used_restricted'', ''stale_nodes'', ''policy_version'', ''current_policy_version'',
    ''guardrail_version'', ''current_guardrail_version'', ''affected'', ''live_pointer'',
    ''revision_states'', ''forked_from'', ''re_verified'']"
  by (simp add: snapshot_def Let_def)

definition late_keys :: "string list" where
  "late_keys = payload_keys @ [''event_id'', ''event_time'', ''producer'', ''correlation_id'',
     ''causation_id'', ''schema_version'', ''node_type'', ''topics'', ''idempotency_key'']"

lemma step_of_facts:
  fixes S rv e p w
  defines "d \<equiv> step_of S rv e p w"
  shows step_keys: "fst ` set d \<subseteq> insert (PStr ''event'') (set declared_fields)"
    and step_event: "dget d ''event'' = PStr (event_name e)"
    and step_snapshot: "k \<in> {''course_state'', ''node_states'', ''revision_states''} \<Longrightarrow>
      dget d k = dget (snapshot S rv) k"
    and step_envelope: "f \<in> set envelope \<Longrightarrow> dhas d f"
    and step_key: "e \<in> set side_effecting \<Longrightarrow> dhas d ''idempotency_key''"
proof -
  let ?env = "envelope_of (length (st_steps S)) w"
  let ?base = "(PStr ''event'', PStr (event_name e)) # snapshot S rv"
  obtain C G K where L: "d = layered (C @ ?env @ G @ K) ?base" "layers_of e C G K"
    unfolding d_def using step_of_layers [of S rv e p w] by blast
  then have L2: "fst ` set C \<subseteq> set (map PStr payload_keys)" "fst ` set G \<subseteq> {PStr ''node_type'', PStr ''topics''}"
      "fst ` set K = (if e \<in> set side_effecting then {PStr ''idempotency_key''} else {})"
    by (simp_all only: layers_of_def)
  have layers: "fst ` set (C @ ?env @ G @ K) \<subseteq> set (map PStr late_keys)"
  proof -
    have late: "set (map PStr payload_keys) \<subseteq> set (map PStr late_keys)"
      "fst ` set ?env \<subseteq> set (map PStr late_keys)"
      "{PStr ''node_type'', PStr ''topics''} \<subseteq> set (map PStr late_keys)"
      "{PStr ''idempotency_key''} \<subseteq> set (map PStr late_keys)"
      by (auto simp: late_keys_def envelope_of_keys)
    have K: "fst ` set K \<subseteq> {PStr ''idempotency_key''}" using L2(3) by simp
    show ?thesis
      unfolding set_append image_Un
      by (intro Un_least order.trans [OF L2(1) late(1)] late(2) order.trans [OF L2(2) late(3)]
          order.trans [OF K late(4)])
  qed
  have "fst ` set (snapshot S rv) = set (map fst (snapshot S rv))" by simp
  then have base: "fst ` set ?base = insert (PStr ''event'') (set (map PStr state_fields))"
    unfolding snapshot_keys state_fields_def by simp
  show "fst ` set d \<subseteq> insert (PStr ''event'') (set declared_fields)"
  proof -
    have "set (map PStr late_keys) \<subseteq> set declared_fields"
      by (simp add: late_keys_def payload_keys_def declared_fields_def payload_fields_def envelope_def)
    moreover have "set (map PStr state_fields) \<subseteq> set declared_fields"
      by (auto simp: declared_fields_def)
    ultimately show ?thesis unfolding L(1) layered_keys base using layers by blast
  qed
  have keep: "map_of d k = map_of ?base k" if "k \<notin> set (map PStr late_keys)" for k
    unfolding L(1) using that layers by (intro layered_lookup) blast
  show "dget d ''event'' = PStr (event_name e)"
    using keep [of "PStr ''event''"] by (simp add: dget_def dlookup_def payload_keys_def late_keys_def)
  show "dget d k = dget (snapshot S rv) k" if "k \<in> {''course_state'', ''node_states'', ''revision_states''}" for k
    using that keep [of "PStr k"] by (auto simp: dget_def dlookup_def payload_keys_def late_keys_def)
  have has: "dhas d f" if "PStr f \<in> fst ` set d" for f
    using that by (simp add: dhas_def dlookup_def map_of_eq_None_iff)
  show "dhas d f" if "f \<in> set envelope" for f
    using that by (intro has) (auto simp: L(1) layered_keys envelope_def envelope_of_keys)
  show "dhas d ''idempotency_key''" if "e \<in> set side_effecting"
    using that L2(3) by (intro has) (auto simp: L(1) layered_keys)
qed

section \<open>Building the trace of a machine\<close>

lemma dget_keep: "k \<noteq> x \<Longrightarrow> dget (filter (\<lambda>(q, v). q \<noteq> PStr x) d) k = dget d k"
  by (induction d) auto

lemma dhas_keep: "k \<noteq> x \<Longrightarrow> dhas (filter (\<lambda>(q, v). q \<noteq> PStr x) d) k = dhas d k"
proof -
  assume "k \<noteq> x"
  then have "dlookup (filter (\<lambda>(q, v). q \<noteq> PStr x) d) k = dlookup d k" by (induction d) auto
  then show ?thesis by (simp add: dhas_def)
qed

lemma rev_state_named: "rev_state_name st \<in> set revision_state_names"
  by (cases st) (simp_all add: revision_state_names_def all_rev_states_def)

lemma node_state_named: "node_state_name st \<in> set node_state_names"
  by (cases st) (simp_all add: node_state_names_def all_node_states_def)

lemma in_names_PStr: "in_names (PStr x) names = Inr (x \<in> set names)"
  by (auto simp: in_names_def)

lemma misnamed_known:
  assumes "\<And>x. g x \<in> set names"
  shows "misnamed problem names (PDict (map (\<lambda>x. (f x, PStr (g x))) xs)) = Inr []"
proof -
  have "traverse (\<lambda>(k, st). ebind (in_names st names) (\<lambda>known. Inr (if known then [] else [problem k st])))
      (map (\<lambda>x. (f x, PStr (g x))) xs) = Inr (map (\<lambda>x. []) xs)"
    by (induction xs) (simp_all add: in_names_PStr assms)
  moreover have "py_items (py_or (PDict (map (\<lambda>x. (f x, PStr (g x))) xs)) (PDict []))
      = Inr (map (\<lambda>x. (f x, PStr (g x))) xs)"
    by (simp add: py_or_def)
  ultimately show ?thesis by (simp add: misnamed_def)
qed

lemma snapshot_states:
  "dget (snapshot S rv) ''course_state'' = PStr (rev_state_name (r_state rv))"
  "dget (snapshot S rv) ''node_states'' =
     PDict (map (\<lambda>n. (PStr (n_id n), PStr (node_state_name (n_state n)))) (map snd (r_nodes rv)))"
  "dget (snapshot S rv) ''revision_states'' =
     PDict (map (\<lambda>r. (PInt (r_id r), PStr (rev_state_name (r_state r)))) (map snd (st_revisions S)))"
  by (simp_all add: snapshot_def Let_def)

lemma no_state_problems:
  fixes S rv e p w
  defines "d \<equiv> filter (\<lambda>(q, v). q \<noteq> PStr ''event'') (step_of S rv e p w)"
  shows "state_name_problems i ev d = Inr []"
proof -
  have "dget d k = dget (snapshot S rv) k" if "k \<in> {''course_state'', ''node_states'', ''revision_states''}" for k
    using that step_snapshot [OF that, of S rv e p w] dget_keep [of k "''event''" "step_of S rv e p w"]
    unfolding d_def by auto
  then show ?thesis
    by (simp add: state_name_problems_def snapshot_states in_names_PStr rev_state_named Let_def
        misnamed_known node_state_named del: map_map)
qed

text \<open>The event a step was recorded for, when that is an event of the catalog.\<close>

lemma build_step_shaped:
  assumes "e \<in> set catalog_events" and "i = 0 \<longleftrightarrow> e = Initial"
  shows "build_step i (step_of S rv e p w) = Inr ([],
    \<lparr>s_seq = i, s_event = PStr (event_name e),
     s_fields = filter (\<lambda>(q, v). q \<noteq> PStr ''event'') (step_of S rv e p w)\<rparr>)"
proof -
  let ?d = "step_of S rv e p w"
  let ?c = "filter (\<lambda>(q, v). q \<noteq> PStr ''event'') ?d"
  have "fst ` set ?c \<subseteq> set declared_fields" using step_keys [of S rv e p w] by auto
  then have declared: "filter (\<lambda>k. k \<notin> set declared_fields) (map fst ?c) = []"
    by (auto simp: filter_empty_conv)
  have known: "in_names (PStr (event_name e)) trace_events = Inr True"
    using assms(1) by (simp add: in_names_PStr trace_events_def)
  have initial: "PStr (event_name e) = initial_event \<longleftrightarrow> e = Initial"
    using assms(1) by (auto simp: initial_event_def catalog_events_def)
  show ?thesis
    unfolding build_step_def Let_def step_event declared
    using assms(2) by (simp add: py_sorted_def known no_state_problems initial)
qed

definition kept_fields :: "pydict \<Rightarrow> pydict" where
  "kept_fields d = filter (\<lambda>(q, v). q \<noteq> PStr ''event'') d"

definition read_step :: "nat \<Rightarrow> pydict \<Rightarrow> step" where
  "read_step i d = \<lparr>s_seq = i, s_event = dget d ''event'', s_fields = kept_fields d\<rparr>"

lemma build_well_formed:
  assumes "ds \<noteq> []"
    and "\<And>i. i < length ds \<Longrightarrow> \<exists>S rv e p w. ds ! i = step_of S rv e p w
           \<and> e \<in> set catalog_events \<and> (i = 0 \<longleftrightarrow> e = Initial)"
  shows "build ds = Inr (map (\<lambda>(i, d). read_step i d) (enumerate 0 ds), [])"
proof -
  have "build_step i (ds ! i) = Inr ([], read_step i (ds ! i))" if i: "i < length ds" for i
  proof -
    obtain S rv e p w where d: "ds ! i = step_of S rv e p w" "e \<in> set catalog_events" "i = 0 \<longleftrightarrow> e = Initial"
      using assms(2) [OF i] by blast
    show ?thesis
      unfolding d(1) build_step_shaped [OF d(2,3)] read_step_def kept_fields_def step_event ..
  qed
  then have "traverse (\<lambda>(i, row). build_step i row) (enumerate 0 ds)
      = Inr (map (\<lambda>(i, d). ([], read_step i d)) (enumerate 0 ds))"
    unfolding traverse_eq_Inr by (auto simp: list_all2_conv_all_nth nth_enumerate_eq)
  then show ?thesis
    using assms(1) by (simp add: build_def comp_def case_prod_unfold)
qed

lemma i9_shaped:
  assumes "\<And>i. i < length ds \<Longrightarrow> \<exists>S rv e p w. ds ! i = step_of S rv e p w
           \<and> e \<in> set catalog_events \<and> (i = 0 \<longleftrightarrow> e = Initial)"
  shows "i9 (map (\<lambda>(i, d). read_step i d) (enumerate 0 ds)) = Inr []"
  unfolding i9_def each_step_none
proof (intro allI impI)
  fix i assume i: "i < length (map (\<lambda>(i, d). read_step i d) (enumerate 0 ds))"
  then have s: "map (\<lambda>(i, d). read_step i d) (enumerate 0 ds) ! i = read_step i (ds ! i)"
    by (simp add: nth_enumerate_eq)
  have "i < length ds" using i by simp
  then obtain S rv e p w where d: "ds ! i = step_of S rv e p w" and e: "e \<in> set catalog_events"
    using assms by blast
  let ?s = "read_step i (step_of S rv e p w)"
  have ev: "s_event ?s = PStr (event_name e)" by (simp add: read_step_def step_event)
  have has: "dhas (s_fields ?s) f = dhas (step_of S rv e p w) f" if "f \<noteq> ''event''" for f
    using dhas_keep [OF that] by (simp add: read_step_def kept_fields_def)
  have env: "filter (\<lambda>f. f \<noteq> ''event'' \<and> \<not> dhas (s_fields ?s) f) envelope = []"
    using has step_envelope [of _ S rv e p w] by (auto simp: filter_empty_conv)
  have keyed: "dhas (s_fields ?s) ''idempotency_key''" if "event_name e \<in> event_name ` set side_effecting"
  proof -
    have "e \<in> set side_effecting"
      using that e by (auto simp: side_effecting_def catalog_events_def)
    then show ?thesis using step_key [of e S rv p w] has [of "''idempotency_key''"] by simp
  qed
  show "(if s_event (map (\<lambda>(i, d). read_step i d) (enumerate 0 ds) ! i) = initial_event then Inr []
      else ebind (passing (missing_envelope (map (\<lambda>(i, d). read_step i d) (enumerate 0 ds) ! i)))
        (\<lambda>missing. Inr (if missing = [] then []
          else [fault ''I9'' (map (\<lambda>(i, d). read_step i d) (enumerate 0 ds) ! i) NotRecorded (map PStr missing)])))
      = Inr []"
    unfolding s d
    using env keyed by (auto simp: missing_envelope_def ev in_names_PStr)
qed

end
