(* ===== verification/Temporal_Properties.thy ===== *)
theory Temporal_Properties
  imports Machine_Properties Traced_Machine
begin

text \<open>
  What the temporal engine decides, and of which runs: its operators against finite-trace
  semantics, its fifteen walks against the facts a run records, its silence, and the traces
  the machine writes.
\<close>

section \<open>The operators\<close>

lemma all_dropped: "(\<forall>s \<in> set (drop i tr). P s) \<longleftrightarrow> (\<forall>j \<in> {i..<length tr}. P (tr ! j))"
proof
  assume all: "\<forall>s \<in> set (drop i tr). P s"
  show "\<forall>j \<in> {i..<length tr}. P (tr ! j)"
  proof
    fix j assume "j \<in> {i..<length tr}"
    then have "drop i tr ! (j - i) = tr ! j" "j - i < length (drop i tr)" by auto
    then show "P (tr ! j)" using all nth_mem by metis
  qed
qed (auto simp: in_set_conv_nth)



section \<open>The step an event arrived in\<close>

text \<open>The state an event arrived in is read from its own revision: the last step before it, from
  step 1 on, that is about the same revision, and the initial state when there is none; so an
  interleaved step of another revision never stands for it.\<close>

theorem arrived_in_own_revision:
  assumes "0 < i" and "i < length tr"
  shows "\<exists>j < i. arrived_in tr i = Inr (tr ! j)
    \<and> (0 < j \<longrightarrow> py_eq (maybe (tr ! j) ''revision'') (maybe (tr ! i) ''revision''))
    \<and> (\<forall>k. j < k \<and> k < i \<longrightarrow> \<not> py_eq (maybe (tr ! k) ''revision'') (maybe (tr ! i) ''revision''))"
proof -
  let ?same = "\<lambda>j. py_eq (maybe (tr ! j) ''revision'') (maybe (tr ! i) ''revision'')"
  show ?thesis
  proof (cases "find ?same (rev [1..<i])")
    case None
    then have "\<not> ?same k" if "0 < k" "k < i" for k
      using that by (auto simp: find_None_iff)
    then show ?thesis using assms None by (intro exI [of _ 0]) (auto simp: arrived_in_def)
  next
    case (Some j)
    obtain n where n: "n < i - 1" "?same (rev [1..<i] ! n)" "j = rev [1..<i] ! n"
        "\<forall>k < n. \<not> ?same (rev [1..<i] ! k)"
      using Some by (auto simp: find_Some_iff)
    have at: "rev [1..<i] ! k = i - 1 - k" if "k < i - 1" for k
      using that by (simp add: rev_nth)
    have j: "j = i - 1 - n" using n(1,3) at by simp
    have "\<not> ?same k" if "j < k" "k < i" for k
    proof -
      have "i - 1 - k < n" "i - 1 - k < i - 1" "i - 1 - (i - 1 - k) = k"
        using that j n(1) by linarith+
      then show ?thesis using n(4) at by metis
    qed
    moreover have "j < i" "?same j" using n j by auto
    ultimately show ?thesis using assms Some by (intro exI [of _ j]) (auto simp: arrived_in_def)
  qed
qed

definition two_revisions :: trace where
  "two_revisions = map (\<lambda>(i, r). \<lparr>s_seq = i, s_event = PStr ''(auto)'',
     s_fields = [(PStr ''revision'', PInt r)]\<rparr>) (enumerate 0 [1, 1, 2, 1])"

theorem arrived_in_own_revision_witness:
  "\<exists>j < 3. arrived_in two_revisions 3 = Inr (two_revisions ! j)"
  using arrived_in_own_revision [of 3 two_revisions] by (auto simp: two_revisions_def)

section \<open>Silence\<close>

lemma state_fact_has: "state_fact s f ident = Inr v \<Longrightarrow> dhas (s_fields s) f \<and> maybe s f = v"
  by (auto simp: state_fact_def maybe_def dhas_def dget_def split: option.splits)

lemma i1_silent: "i1 tr = Inr [] \<Longrightarrow> i < length tr \<Longrightarrow> names_event (tr ! i) NodeGenerated \<Longrightarrow>
    \<exists>b. arrived_in tr i = Inr b \<and> course_is ContentInProgress b"
  unfolding i1_def each_step_none by (fastforce simp: course_is_def dest: state_fact_has)

lemma i3_silent: "i3 tr = Inr [] \<Longrightarrow> s \<in> set tr \<Longrightarrow> course_is Published s \<Longrightarrow>
    dhas (s_fields s) ''node_states'' \<and> dhas (s_fields s) ''stale_nodes''"
  unfolding i3_def each_step_local
  by (fastforce simp: unapproved_def nodes_where_def nodes_def dest: state_fact_has)

lemma version_silent: "version_invariant ident f tr = Inr [] \<Longrightarrow> s \<in> set tr \<Longrightarrow> course_is Published s \<Longrightarrow>
    dhas (s_fields s) f \<and> dhas (s_fields s) (''current_'' @ f)"
  unfolding version_invariant_def each_step_local by (fastforce dest: state_fact_has)

lemma i9_silent: "i9 tr = Inr [] \<Longrightarrow> s \<in> set tr \<Longrightarrow> s_event s \<noteq> initial_event \<Longrightarrow> missing_envelope s = Inr []"
  unfolding i9_def each_step_local by (fastforce split: if_splits)

lemma i11_silent: "i11 tr = Inr [] \<Longrightarrow> s \<in> set tr \<Longrightarrow> maybe s ''live_pointer'' \<noteq> PNone \<Longrightarrow>
    dhas (s_fields s) ''revision_states''"
  unfolding i11_def each_step_local Let_def by (fastforce dest: state_fact_has)


lemma sample_trace_built: "st_steps (m_store sample_archived) \<noteq> []"
  by code_simp


section \<open>Legal runs\<close>

definition legal_run :: "trace \<Rightarrow> bool" where
  "legal_run tr \<longleftrightarrow> legal_1 tr \<and> legal_2 tr \<and> legal_3 tr \<and> legal_4 tr \<and> legal_5 tr \<and> legal_6 tr
     \<and> legal_versions ''policy_version'' tr \<and> legal_8 tr \<and> legal_9 tr \<and> legal_10 tr \<and> legal_11 tr
     \<and> legal_12 tr \<and> legal_13 tr \<and> legal_14 tr \<and> legal_versions ''guardrail_version'' tr"

lemma violations_none:
  "violations_of tr = Inr [] \<longleftrightarrow> (\<forall>x \<in> set registry. snd x tr = Inr [])"
proof -
  have judged: "judged tr ident found = Inr [] \<longleftrightarrow> found = Inr []" for ident found
    by (cases found) (auto simp: judged_def split: gap.splits)
  have "violations_of tr = Inr [] \<longleftrightarrow> (\<forall>x \<in> set registry. judged tr (fst x) (snd x tr) = Inr [])" (is "?L \<longleftrightarrow> ?R")
  proof
    assume ?L
    then obtain vs where "list_all2 (\<lambda>x v. (case x of (ident, f) \<Rightarrow> judged tr ident (f tr)) = Inr v) registry vs"
        "concat vs = []"
      by (auto simp: violations_of_def traverse_eq_Inr)
    then show ?R by (auto simp: list_all2_conv_all_nth all_set_conv_all_nth split: prod.splits)
  next
    assume ?R
    then have "traverse (\<lambda>(ident, f). judged tr ident (f tr)) registry = Inr (map (\<lambda>x. []) registry)"
      unfolding traverse_eq_Inr by (auto simp: list_all2_conv_all_nth all_set_conv_all_nth split: prod.splits)
    then show ?L by (simp add: violations_of_def)
  qed
  then show ?thesis by (simp add: judged)
qed

lemma legal_run_walks:
  assumes "recorded_run tr"
  shows "legal_run tr \<longleftrightarrow> (\<forall>x \<in> set registry. snd x tr = Inr [])"
  unfolding legal_run_def registry_def
  using i1_legal [OF assms] i2_legal [OF assms] i3_legal [OF assms] i4_legal [OF assms]
    i5_legal [OF assms] i6_legal [OF assms] i7_legal [OF assms] i8_legal [OF assms] i9_legal [OF assms]
    i10_legal [OF assms] i11_legal [OF assms] i12_legal [OF assms] i13_legal [OF assms]
    i14_legal [OF assms] i15_legal [OF assms]
  by simp

text \<open>C9. On a well-shaped run that records its facts the engine allows exactly the legal runs: its
  verdict is yes if and only if all fifteen properties hold of the facts.\<close>

theorem legal_runs_allowed:
  assumes "build raw = Inr (tr, [])" and "\<forall>s \<in> set tr. recorded s"
  shows "(\<exists>facts. check_trace raw = Inr (Allowed facts)) \<longleftrightarrow> legal_run tr"
proof -
  have "(\<exists>facts. check_trace raw = Inr (Allowed facts)) \<longleftrightarrow> violations_of tr = Inr []"
    using assms(1) by (cases "violations_of tr")
      (auto simp: check_trace_def refuse_def split: list.splits)
  then show ?thesis using violations_none legal_run_walks [OF assms(2)] by simp
qed

definition sample_trace :: trace where
  "sample_trace = (case build (st_steps (m_store sample_archived)) of Inr (tr, ps) \<Rightarrow> tr | Inl _ \<Rightarrow> [])"

lemma sample_trace_recorded:
  "build (st_steps (m_store sample_archived)) = Inr (sample_trace, [])" "\<forall>s \<in> set sample_trace. recorded s"
proof -
  have "case build (st_steps (m_store sample_archived)) of Inr (tr, ps) \<Rightarrow> ps = [] | Inl _ \<Rightarrow> False"
    by code_simp
  then show "build (st_steps (m_store sample_archived)) = Inr (sample_trace, [])"
    by (auto simp: sample_trace_def split: sum.splits)
  have "list_all recorded sample_trace" by code_simp
  then show "\<forall>s \<in> set sample_trace. recorded s" by (simp add: list_all_iff)
qed

theorem legal_runs_allowed_witness: "legal_run sample_trace"
proof -
  have "case check_trace (st_steps (m_store sample_archived)) of Inr (Allowed facts) \<Rightarrow> True | _ \<Rightarrow> False"
    by code_simp
  then have "\<exists>facts. check_trace (st_steps (m_store sample_archived)) = Inr (Allowed facts)"
    by (auto split: sum.splits verdict.splits)
  then show ?thesis using legal_runs_allowed [OF sample_trace_recorded] by blast
qed

section \<open>The machine's own traces\<close>

text \<open>C10. Whatever a history does, the trace the machine has written is one the temporal engine can
  read: as long as no caller fired a reaction of the tables by its name, building it reports
  no problem, it has a step for every recorded step, and the audit property holds of it.\<close>

theorem machine_trace_well_formed:
  assumes "e_table E = spec_table" and "reached k E (new_machine w cfg rd en) m"
    and "\<forall>d \<in> set (st_steps (m_store m)). dget d ''event'' \<notin> PStr ` event_name ` set reactions"
  shows "\<exists>tr. build (st_steps (m_store m)) = Inr (tr, []) \<and> i9 tr = Inr []
    \<and> length tr = length (st_steps (m_store m))"
proof -
  let ?ds = "st_steps (m_store m)"
  obtain ds where ds: "?ds = st_steps (m_store (new_machine w cfg rd en)) @ ds" "\<forall>d \<in> set ds. shaped d"
    using reached_traced [OF assms(2,1) new_machine_depth] unfolding traced_def by blast
  obtain S rv where first: "st_steps (m_store (new_machine w cfg rd en)) = [step_of S rv Initial no_payload ''store'']"
    by (simp add: new_machine_record first_store_def empty_store_def Let_def)
  have shape: "\<exists>S rv e p w. ?ds ! i = step_of S rv e p w \<and> e \<in> set catalog_events \<and> (i = 0 \<longleftrightarrow> e = Initial)"
    if i: "i < length ?ds" for i
  proof (cases i)
    case 0
    then have "?ds ! i = step_of S rv Initial no_payload ''store''" using ds(1) first by simp
    then show ?thesis using 0 by (auto simp: catalog_events_def)
  next
    case (Suc n)
    then have "?ds ! i \<in> set ds" using i ds(1) first by simp
    then obtain S rv e p w where d: "?ds ! i = step_of S rv e p w" "recordable e"
      using ds(2) unfolding shaped_def by blast
    have "PStr (event_name e) \<notin> PStr ` event_name ` set reactions"
      using assms(3) i d(1) step_event by (metis nth_mem)
    then have "e \<in> set catalog_events \<and> e \<noteq> Initial" using d(2) by (auto simp: recordable_def)
    then show ?thesis using d(1) Suc by blast
  qed
  have "?ds \<noteq> []" using ds(1) first by simp
  then show ?thesis
    using build_well_formed [OF _ shape] i9_shaped [OF shape] by (intro exI conjI) auto
qed

theorem machine_trace_well_formed_witness:
  "\<exists>tr. build (st_steps (m_store sample_archived)) = Inr (tr, []) \<and> i9 tr = Inr []"
proof -
  have "\<forall>d \<in> set (st_steps (m_store sample_archived)). dget d ''event'' \<notin> PStr ` event_name ` set reactions"
    by code_simp
  then show ?thesis
    using machine_trace_well_formed [OF sample_table sample_archived_reached [unfolded sample_machine_def]]
    by blast
qed

end
