(* ===== verification/Datalog.thy ===== *)
theory Datalog
  imports Containers "HOL-Library.Product_Lexorder"
begin

text \<open>
  The rules of \<open>engines/datalog/structure.py\<close> and \<open>engines/datalog/engine.py\<close>, each clause a
  rule of an inductive relation over the asserted facts, and the access to pyDatalog of
  \<open>engines/datalog/base.py\<close>.  pyDatalog itself is the parameter \<open>ask\<close> of the checks: what the
  code relies on is that a query is answered with exactly the rows the rules derive.
\<close>

section \<open>Facts\<close>

record facts =
  f_catalog_skill :: "string list"
  f_in_outline :: "string list"
  f_approved :: "string list"
  f_position :: "(string \<times> nat) list"
  f_node_teaches :: "(string \<times> string) list"
  f_refers_to :: "(string \<times> string) list"
  f_prerequisite :: "(string \<times> string) list"
  f_exam_topic :: "(string \<times> string) list"
  f_cites :: "(string \<times> string) list"
  f_in_article :: "(string \<times> string) list"
  f_in_kb :: "string list"
  f_in_audience :: "string list"
  f_visible :: "(string \<times> string) list"

definition no_facts :: facts where
  "no_facts = \<lparr>f_catalog_skill = [], f_in_outline = [], f_approved = [], f_position = [],
     f_node_teaches = [], f_refers_to = [], f_prerequisite = [], f_exam_topic = [],
     f_cites = [], f_in_article = [], f_in_kb = [], f_in_audience = [], f_visible = []\<rparr>"

text \<open>The identifier no datum equals, and the relations a session seeds with it.\<close>

definition nothing :: string where
  "nothing = CHR 0x00 # '' no such id''"

definition seed_structure :: "facts \<Rightarrow> facts" where
  "seed_structure F = F\<lparr>f_catalog_skill := nothing # f_catalog_skill F,
     f_in_outline := nothing # f_in_outline F, f_approved := nothing # f_approved F,
     f_prerequisite := (nothing, nothing) # f_prerequisite F,
     f_exam_topic := (nothing, nothing) # f_exam_topic F,
     f_refers_to := (nothing, nothing) # f_refers_to F\<rparr>"

definition seed_sources :: "facts \<Rightarrow> facts" where
  "seed_sources F = F\<lparr>f_visible := (nothing, nothing) # f_visible F,
     f_in_article := (nothing, nothing) # f_in_article F, f_in_kb := nothing # f_in_kb F\<rparr>"

section \<open>Rules\<close>

text \<open>The seven relations of the skeleton.\<close>

inductive invented_skill :: "facts \<Rightarrow> string \<Rightarrow> string \<Rightarrow> bool" for F where
  "(n, s) \<in> set (f_node_teaches F) \<Longrightarrow> s \<notin> set (f_catalog_skill F) \<Longrightarrow> invented_skill F n s"

inductive dead_reference :: "facts \<Rightarrow> string \<Rightarrow> string \<Rightarrow> bool" for F where
  "(n, t) \<in> set (f_refers_to F) \<Longrightarrow> t \<notin> set (f_in_outline F) \<Longrightarrow> dead_reference F n t"

inductive reaches :: "facts \<Rightarrow> string \<Rightarrow> string \<Rightarrow> bool" for F where
  direct: "(a, b) \<in> set (f_prerequisite F) \<Longrightarrow> reaches F a b"
| further: "reaches F a x \<Longrightarrow> (x, b) \<in> set (f_prerequisite F) \<Longrightarrow> reaches F a b"

inductive cycle :: "facts \<Rightarrow> string \<Rightarrow> bool" for F where
  "reaches F a a \<Longrightarrow> cycle F a"

inductive out_of_order :: "facts \<Rightarrow> string \<Rightarrow> string \<Rightarrow> bool" for F where
  "(a, b) \<in> set (f_prerequisite F) \<Longrightarrow> (a, pa) \<in> set (f_position F) \<Longrightarrow>
     (b, pb) \<in> set (f_position F) \<Longrightarrow> pa < pb \<Longrightarrow> out_of_order F a b"

inductive outstanding :: "facts \<Rightarrow> string \<Rightarrow> string \<Rightarrow> bool" for F where
  "(e, t) \<in> set (f_exam_topic F) \<Longrightarrow> t \<in> set (f_in_outline F) \<Longrightarrow> t \<notin> set (f_approved F) \<Longrightarrow>
     outstanding F e t"

inductive edge :: "facts \<Rightarrow> string \<Rightarrow> string \<Rightarrow> bool" for F where
  required: "(a, b) \<in> set (f_prerequisite F) \<Longrightarrow> edge F a b"
| tested: "(a, b) \<in> set (f_exam_topic F) \<Longrightarrow> edge F a b"
| referred: "(a, b) \<in> set (f_refers_to F) \<Longrightarrow> edge F a b"

inductive depends :: "facts \<Rightarrow> string \<Rightarrow> string \<Rightarrow> bool" for F where
  direct: "edge F a b \<Longrightarrow> depends F a b"
| further: "depends F a x \<Longrightarrow> edge F x b \<Longrightarrow> depends F a b"

text \<open>The two of the sources.\<close>

inductive leak :: "facts \<Rightarrow> string \<Rightarrow> string \<Rightarrow> string \<Rightarrow> string \<Rightarrow> bool" for F where
  "(n, c) \<in> set (f_cites F) \<Longrightarrow> (c, r) \<in> set (f_in_article F) \<Longrightarrow> a \<in> set (f_in_audience F) \<Longrightarrow>
     (r, a) \<notin> set (f_visible F) \<Longrightarrow> leak F n c r a"

inductive ungrounded :: "facts \<Rightarrow> string \<Rightarrow> string \<Rightarrow> bool" for F where
  "(n, c) \<in> set (f_cites F) \<Longrightarrow> c \<notin> set (f_in_kb F) \<Longrightarrow> ungrounded F n c"

inductive_simps invented_skill_iff: "invented_skill F n s"
inductive_simps dead_reference_iff: "dead_reference F n t"
inductive_simps cycle_iff: "cycle F a"
inductive_simps out_of_order_iff: "out_of_order F a b"
inductive_simps outstanding_iff: "outstanding F e t"
inductive_simps edge_iff: "edge F a b"
inductive_simps leak_iff: "leak F n c r a"
inductive_simps ungrounded_iff: "ungrounded F n c"

section \<open>Left-recursive closure\<close>

text \<open>
  Both recursive relations are written the same way, and both are read through the same laws:
  a relation that holds of every edge, is extended by an edge on its right, and is the least
  such, is the transitive closure.
\<close>

locale closure =
  fixes step :: "'a \<Rightarrow> 'a \<Rightarrow> bool" and closed :: "'a \<Rightarrow> 'a \<Rightarrow> bool"
  assumes base: "step a b \<Longrightarrow> closed a b"
    and extend: "closed a x \<Longrightarrow> step x b \<Longrightarrow> closed a b"
    and least: "closed a b \<Longrightarrow> (\<And>a b. step a b \<Longrightarrow> Q a b) \<Longrightarrow>
      (\<And>a x b. closed a x \<Longrightarrow> Q a x \<Longrightarrow> step x b \<Longrightarrow> Q a b) \<Longrightarrow> Q a b"
begin

lemma closed_tranclp: "closed a b \<longleftrightarrow> step\<^sup>+\<^sup>+ a b"
proof
  show "closed a b \<Longrightarrow> step\<^sup>+\<^sup>+ a b"
    by (rule least [of a b "step\<^sup>+\<^sup>+"]) (auto intro: tranclp.intros)
  show "step\<^sup>+\<^sup>+ a b \<Longrightarrow> closed a b"
    by (induction rule: tranclp_induct) (auto intro: base extend)
qed

lemma closed_trans: "closed a b \<Longrightarrow> closed b c \<Longrightarrow> closed a c"
  by (simp add: closed_tranclp)

text \<open>The right-recursive reading has the same consequences.\<close>

lemma right_recursive: "closed a b \<longleftrightarrow> step a b \<or> (\<exists>x. step a x \<and> closed x b)"
  unfolding closed_tranclp
proof
  show "step\<^sup>+\<^sup>+ a b \<Longrightarrow> step a b \<or> (\<exists>x. step a x \<and> step\<^sup>+\<^sup>+ x b)"
    by (erule converse_tranclpE) auto
qed (auto intro: tranclp_into_tranclp2)

lemma no_cycle_iff: "(\<forall>a. \<not> closed a a) \<longleftrightarrow> acyclic {(a, b). step a b}"
  by (simp add: closed_tranclp acyclic_def tranclp_unfold)

end

interpretation prerequisites: closure "\<lambda>a b. (a, b) \<in> set (f_prerequisite F)" "reaches F" for F
proof
  fix a b Q
  assume "reaches F a b" and Q: "\<And>a b. (a, b) \<in> set (f_prerequisite F) \<Longrightarrow> Q a b"
    "\<And>a x b. reaches F a x \<Longrightarrow> Q a x \<Longrightarrow> (x, b) \<in> set (f_prerequisite F) \<Longrightarrow> Q a b"
  then show "Q a b" by (induction rule: reaches.induct) (blast intro: Q)+
qed (auto intro: reaches.intros)

interpretation dependencies: closure "edge F" "depends F" for F
proof
  fix a b Q
  assume "depends F a b" and Q: "\<And>a b. edge F a b \<Longrightarrow> Q a b"
    "\<And>a x b. depends F a x \<Longrightarrow> Q a x \<Longrightarrow> edge F x b \<Longrightarrow> Q a b"
  then show "Q a b" by (induction rule: depends.induct) (blast intro: Q)+
qed (auto intro: depends.intros)

section \<open>Queries\<close>

datatype query = Invented_skill | Dead_reference | Cycle | Out_of_order | Outstanding | Depends
  | Leak | Ungrounded

fun derives :: "facts \<Rightarrow> query \<Rightarrow> string list \<Rightarrow> bool" where
  "derives F Invented_skill [n, s] = invented_skill F n s"
| "derives F Dead_reference [n, t] = dead_reference F n t"
| "derives F Cycle [a] = cycle F a"
| "derives F Out_of_order [a, b] = out_of_order F a b"
| "derives F Outstanding [e, t] = outstanding F e t"
| "derives F Depends [a, b] = depends F a b"
| "derives F Leak [n, c, r, a] = leak F n c r a"
| "derives F Ungrounded [n, c] = ungrounded F n c"
| "derives F q row = False"

type_synonym solver = "facts \<Rightarrow> query \<Rightarrow> exn + string list list"

text \<open>
  The relations a query's rules negate or recur over.  pyDatalog raises on one that has no
  clause, which is why a session is seeded.
\<close>

fun answerable :: "facts \<Rightarrow> query \<Rightarrow> bool" where
  "answerable F Invented_skill \<longleftrightarrow> f_catalog_skill F \<noteq> []"
| "answerable F Dead_reference \<longleftrightarrow> f_refers_to F \<noteq> [] \<and> f_in_outline F \<noteq> []"
| "answerable F Cycle \<longleftrightarrow> f_prerequisite F \<noteq> []"
| "answerable F Out_of_order \<longleftrightarrow> f_prerequisite F \<noteq> []"
| "answerable F Outstanding \<longleftrightarrow> f_exam_topic F \<noteq> [] \<and> f_in_outline F \<noteq> [] \<and> f_approved F \<noteq> []"
| "answerable F Depends \<longleftrightarrow> f_prerequisite F \<noteq> [] \<and> f_exam_topic F \<noteq> [] \<and> f_refers_to F \<noteq> []"
| "answerable F Leak \<longleftrightarrow> f_visible F \<noteq> [] \<and> f_in_article F \<noteq> []"
| "answerable F Ungrounded \<longleftrightarrow> f_in_kb F \<noteq> []"

text \<open>What the code relies on pyDatalog for.\<close>

definition solves :: "solver \<Rightarrow> bool" where
  "solves ask \<longleftrightarrow> (\<forall>F q. answerable F q \<longrightarrow>
     (\<exists>rows. ask F q = Inr rows \<and> distinct rows \<and> set rows = Collect (derives F q)))"

text \<open>\<open>answers\<close>: the rows in order, without those a seed put there.\<close>

definition query_answers :: "solver \<Rightarrow> facts \<Rightarrow> query \<Rightarrow> exn + string list list" where
  "query_answers ask F q = ebind (ask F q) (\<lambda>rows. Inr (filter (\<lambda>row. nothing \<notin> set row) (sort rows)))"

text \<open>A solver that evaluates the rules, which shows the hypothesis can be met.\<close>

definition edges :: "facts \<Rightarrow> (string \<times> string) list" where
  "edges F = f_prerequisite F @ f_exam_topic F @ f_refers_to F"

definition pairs :: "('a \<times> 'a) list \<Rightarrow> ('a \<times> 'a) list" where
  "pairs E = List.product (map fst E) (map snd E)"

definition closure_rows :: "(string \<times> string) list \<Rightarrow> string list list" where
  "closure_rows E = map (\<lambda>(a, b). [a, b]) (filter (\<lambda>p. p \<in> (set E)\<^sup>+) (pairs E))"

definition placed :: "facts \<Rightarrow> string \<Rightarrow> nat list" where
  "placed F a = map snd (filter (\<lambda>(x, p). x = a) (f_position F))"

fun rows_of_query :: "facts \<Rightarrow> query \<Rightarrow> string list list" where
  "rows_of_query F Invented_skill = [[n, s]. (n, s) \<leftarrow> f_node_teaches F, s \<notin> set (f_catalog_skill F)]"
| "rows_of_query F Dead_reference = [[n, t]. (n, t) \<leftarrow> f_refers_to F, t \<notin> set (f_in_outline F)]"
| "rows_of_query F Cycle = map (\<lambda>(a, b). [a]) (filter (\<lambda>(a, b). (a, a) \<in> (set (f_prerequisite F))\<^sup>+) (f_prerequisite F))"
| "rows_of_query F Out_of_order = map (\<lambda>(a, b). [a, b]) (filter (\<lambda>(a, b).
     \<exists>pa \<in> set (placed F a). \<exists>pb \<in> set (placed F b). pa < pb) (f_prerequisite F))"
| "rows_of_query F Outstanding = [[e, t]. (e, t) \<leftarrow> f_exam_topic F, t \<in> set (f_in_outline F), t \<notin> set (f_approved F)]"
| "rows_of_query F Depends = closure_rows (edges F)"
| "rows_of_query F Leak = [[n, c, r, a]. (n, c) \<leftarrow> f_cites F, (x, r) \<leftarrow> f_in_article F, x = c,
     a \<leftarrow> f_in_audience F, (r, a) \<notin> set (f_visible F)]"
| "rows_of_query F Ungrounded = [[n, c]. (n, c) \<leftarrow> f_cites F, c \<notin> set (f_in_kb F)]"

definition evaluate :: solver where
  "evaluate F q = Inr (remdups (rows_of_query F q))"

lemma reaches_trancl: "reaches F a b \<longleftrightarrow> (a, b) \<in> (set (f_prerequisite F))\<^sup>+"
  by (simp add: prerequisites.closed_tranclp tranclp_unfold)

lemma edges_edge: "(a, b) \<in> set (edges F) \<longleftrightarrow> edge F a b"
  by (auto simp: edges_def edge_iff)

lemma depends_trancl: "depends F a b \<longleftrightarrow> (a, b) \<in> (set (edges F))\<^sup>+"
  by (simp add: dependencies.closed_tranclp tranclp_unfold edges_edge [symmetric])

lemma trancl_pair: "(a, b) \<in> (set E)\<^sup>+ \<Longrightarrow> (a, b) \<in> set (pairs E)"
  by (auto simp: pairs_def) (metis fst_conv image_eqI tranclD, metis snd_conv image_eqI tranclD2)

lemma set_closure_rows: "set (closure_rows E) = {[a, b] | a b. (a, b) \<in> (set E)\<^sup>+}"
  using trancl_pair by (force simp: closure_rows_def)

lemma derives_shape:
  "derives F q row \<longleftrightarrow> (case q of
     Invented_skill \<Rightarrow> (\<exists>n s. row = [n, s] \<and> invented_skill F n s)
   | Dead_reference \<Rightarrow> (\<exists>n t. row = [n, t] \<and> dead_reference F n t)
   | Cycle \<Rightarrow> (\<exists>a. row = [a] \<and> cycle F a)
   | Out_of_order \<Rightarrow> (\<exists>a b. row = [a, b] \<and> out_of_order F a b)
   | Outstanding \<Rightarrow> (\<exists>e t. row = [e, t] \<and> outstanding F e t)
   | Depends \<Rightarrow> (\<exists>a b. row = [a, b] \<and> depends F a b)
   | Leak \<Rightarrow> (\<exists>n c r a. row = [n, c, r, a] \<and> leak F n c r a)
   | Ungrounded \<Rightarrow> (\<exists>n c. row = [n, c] \<and> ungrounded F n c))"
  by (cases "(F, q, row)" rule: derives.cases) (auto split: query.splits)

lemma cycle_edge: "cycle F a \<longleftrightarrow> (\<exists>b. (a, b) \<in> set (f_prerequisite F)) \<and> (a, a) \<in> (set (f_prerequisite F))\<^sup>+"
  by (auto simp: cycle_iff reaches_trancl dest: tranclD)

lemma set_placed: "p \<in> set (placed F a) \<longleftrightarrow> (a, p) \<in> set (f_position F)"
  by (force simp: placed_def)

lemma set_rows_of_query: "set (rows_of_query F q) = Collect (derives F q)"
proof (cases q)
  case Cycle
  then show ?thesis by (auto simp: derives_shape cycle_edge)
next
  case Out_of_order
  let ?Q = "\<lambda>(a, b). \<exists>pa \<in> set (placed F a). \<exists>pb \<in> set (placed F b). pa < pb"
  have "p \<in> set (filter ?Q (f_prerequisite F)) \<longleftrightarrow> out_of_order F (fst p) (snd p)" for p
    unfolding Bex_def set_placed out_of_order_iff by (cases p) auto
  then have "set (filter ?Q (f_prerequisite F)) = {p. out_of_order F (fst p) (snd p)}"
    by blast
  moreover have "Collect (derives F Out_of_order) = (\<lambda>(a, b). [a, b]) ` {p. out_of_order F (fst p) (snd p)}"
    by (force simp: derives_shape)
  ultimately have "set (map (\<lambda>(a, b). [a, b]) (filter ?Q (f_prerequisite F))) = Collect (derives F Out_of_order)"
    unfolding set_map by simp
  then show ?thesis using Out_of_order by simp
next
  case Depends
  then show ?thesis by (auto simp: derives_shape set_closure_rows depends_trancl)
qed (auto simp: derives_shape invented_skill_iff dead_reference_iff out_of_order_iff outstanding_iff
    leak_iff ungrounded_iff)

lemma finite_derives: "finite (Collect (derives F q))"
  by (simp flip: set_rows_of_query)

lemma evaluate_solves: "solves evaluate"
  by (simp add: solves_def evaluate_def set_rows_of_query)

end
