(* ===== verification/Datalog_Checks.thy ===== *)
theory Datalog_Checks
  imports Datalog
begin

text \<open>
  The guards of \<open>engines/datalog/structure.py\<close> and \<open>engines/datalog/engine.py\<close>: how nodes,
  articles and audiences become facts, the question each guard asks, and the verdict it gives.
  \<open>show\<close> is Python's \<open>repr\<close>, about which nothing is assumed; identifiers and skills are text,
  as the JSON Schemas require, and any other value raises where it would become a fact.
\<close>

section \<open>From nodes to facts\<close>

fun as_name :: "pyval \<Rightarrow> exn + string" where
  "as_name (PStr s) = Inr s"
| "as_name _ = Inl type_error"

definition item :: "pydict \<Rightarrow> string \<Rightarrow> exn + pyval" where
  "item d k = (case dlookup d k of None \<Rightarrow> Inl (PyError ''KeyError'') | Some v \<Rightarrow> Inr v)"

definition node_id :: "pydict \<Rightarrow> exn + string" where
  "node_id d = ebind (item d ''id'') as_name"

text \<open>\<open>_ids\<close>: the ids as written, a value that is not one as the text it prints as.\<close>

definition id_text :: "(pyval \<Rightarrow> string) \<Rightarrow> pyval \<Rightarrow> string" where
  "id_text show v = (case v of PStr s \<Rightarrow> s | _ \<Rightarrow> show v)"

fun ids_of :: "(pyval \<Rightarrow> string) \<Rightarrow> pyval \<Rightarrow> string list" where
  "ids_of show PNone = []"
| "ids_of show (PList xs) = map (id_text show) xs"
| "ids_of show v = [id_text show v]"

definition skill_facts :: "string \<Rightarrow> pydict \<Rightarrow> exn + (string \<times> string) list" where
  "skill_facts i d = (let s = dget d ''skill'' in
     if truthy s then ebind (as_name s) (\<lambda>k. Inr [(i, k)]) else Inr [])"

definition add_node_facts :: "(pyval \<Rightarrow> string) \<Rightarrow> nat \<times> pydict \<Rightarrow> facts \<Rightarrow> exn + facts" where
  "add_node_facts show x F = (let d = snd x in
     ebind (node_id d) (\<lambda>i. ebind (skill_facts i d) (\<lambda>taught.
       Inr (F\<lparr>f_position := f_position F @ [(i, fst x)],
         f_node_teaches := f_node_teaches F @ taught,
         f_refers_to := f_refers_to F @ map (Pair i) (ids_of show (dget d ''refers_to'')),
         f_prerequisite := f_prerequisite F @ map (Pair i) (ids_of show (dget d ''requires'')),
         f_exam_topic := f_exam_topic F @ map (Pair i) (ids_of show (dget d ''topics''))\<rparr>))))"

fun fold_facts :: "('a \<Rightarrow> facts \<Rightarrow> exn + facts) \<Rightarrow> 'a list \<Rightarrow> facts \<Rightarrow> exn + facts" where
  "fold_facts f [] F = Inr F"
| "fold_facts f (x # xs) F = ebind (f x F) (fold_facts f xs)"

definition structure_facts :: "(pyval \<Rightarrow> string) \<Rightarrow> pydict list \<Rightarrow> string list \<Rightarrow> string list \<Rightarrow> string list
    \<Rightarrow> exn + facts" where
  "structure_facts show nodes catalog_skills outline approved_nodes =
     fold_facts (add_node_facts show) (enumerate 0 nodes)
       (no_facts\<lparr>f_catalog_skill := catalog_skills, f_in_outline := outline,
          f_approved := approved_nodes\<rparr>)"

definition structure_base :: "(pyval \<Rightarrow> string) \<Rightarrow> pydict list \<Rightarrow> string list \<Rightarrow> string list \<Rightarrow> string list
    \<Rightarrow> exn + facts" where
  "structure_base show nodes catalog_skills outline approved_nodes =
     ebind (structure_facts show nodes catalog_skills outline approved_nodes)
       (\<lambda>F. Inr (seed_structure F))"

section \<open>Verdicts\<close>

fun joined :: "string \<Rightarrow> string list \<Rightarrow> string" where
  "joined sep [] = []"
| "joined sep [x] = x"
| "joined sep (x # xs) = x @ sep @ joined sep xs"

definition checked :: "nat \<Rightarrow> verdict" where
  "checked n = Allowed [(PStr ''engine'', PStr ''datalog''), (PStr ''checked'', PInt (int n))]"

definition row_value :: "string list \<Rightarrow> string list \<Rightarrow> pyval" where
  "row_value keys row = PDict (zip (map PStr keys) (map PStr row))"

definition nth_name :: "nat \<Rightarrow> string list list \<Rightarrow> string list" where
  "nth_name k rows = sorted_names (map (\<lambda>row. row ! k) rows)"

fun entry :: "pyval \<Rightarrow> exn + pydict" where
  "entry (PDict d) = Inr d"
| "entry _ = Inl type_error"

definition check_skills_grounded :: "solver \<Rightarrow> (pyval \<Rightarrow> string) \<Rightarrow> pyval \<Rightarrow> string list \<Rightarrow> exn + verdict" where
  "check_skills_grounded ask show nodes catalog_skills =
     ebind (iter_of nodes) (\<lambda>xs. ebind (traverse entry xs) (\<lambda>ns.
     ebind (structure_base show ns catalog_skills [] []) (\<lambda>F.
     ebind (query_answers ask F Invented_skill) (\<lambda>rows.
     Inr (if rows = [] then checked (length ns)
          else refuse ''invented-skill''
            (''the outline teaches skills the catalog does not have: '' @ joined '', '' (nth_name 1 rows))
            (PList (map (row_value [''node'', ''skill'']) rows)) ''datalog'')))))"

definition dead_row :: "int \<Rightarrow> string list \<Rightarrow> pyval" where
  "dead_row version row = PDict (zip (map PStr [''node'', ''target'']) (map PStr row)
     @ [(PStr ''outline_version'', PInt version)])"

definition check_references_live :: "solver \<Rightarrow> (pyval \<Rightarrow> string) \<Rightarrow> pydict list \<Rightarrow> string list \<Rightarrow> int
    \<Rightarrow> exn + verdict" where
  "check_references_live ask show nodes outline version =
     ebind (structure_base show nodes [] outline []) (\<lambda>F.
     ebind (query_answers ask F Dead_reference) (\<lambda>rows.
     Inr (case rows of
        [] \<Rightarrow> checked (length nodes)
      | first # _ \<Rightarrow> refuse ''dead-reference''
          (first ! 0 @ '' points at '' @ first ! 1 @ '', which outline '' @ int_text version
            @ '' no longer contains'')
          (PList (map (dead_row version) rows)) ''datalog'')))"

definition check_ordering_acyclic :: "solver \<Rightarrow> (pyval \<Rightarrow> string) \<Rightarrow> pydict list \<Rightarrow> exn + verdict" where
  "check_ordering_acyclic ask show nodes =
     ebind (structure_base show nodes [] [] []) (\<lambda>F.
     ebind (query_answers ask F Cycle) (\<lambda>loops.
     ebind (query_answers ask F Out_of_order) (\<lambda>misordered.
     let cycles = nth_name 0 loops;
         swapped = PList (map (row_value [''node'', ''requires'']) misordered) in
     Inr (if cycles = [] \<and> misordered = [] then checked (length nodes)
          else if cycles \<noteq> []
          then refuse ''prerequisite-cycle'' (''these nodes require each other: '' @ joined '', '' cycles)
            (PDict [(PStr ''cycle'', strs cycles), (PStr ''out_of_order'', swapped)]) ''datalog''
          else refuse ''ordering-conflict''
            (hd misordered ! 0 @ '' comes before '' @ hd misordered ! 1 @ '' and requires it'')
            (PDict [(PStr ''cycle'', PList []), (PStr ''out_of_order'', swapped)]) ''datalog''))))"

definition check_content_approved :: "solver \<Rightarrow> (pyval \<Rightarrow> string) \<Rightarrow> pydict list \<Rightarrow> string list
    \<Rightarrow> string list \<Rightarrow> exn + verdict" where
  "check_content_approved ask show nodes outline approved_nodes =
     ebind (structure_base show nodes [] outline approved_nodes) (\<lambda>F.
     ebind (query_answers ask F Outstanding) (\<lambda>rows.
     Inr (if rows = [] then checked (length nodes)
          else refuse ''outstanding-topics''
            (''the exam tests material nobody has approved: '' @ joined '', '' (nth_name 1 rows))
            (PList (map (row_value [''exam'', ''topic'']) rows)) ''datalog'')))"

definition cascade :: "solver \<Rightarrow> (pyval \<Rightarrow> string) \<Rightarrow> pydict list \<Rightarrow> pyval \<Rightarrow> exn + string list" where
  "cascade ask show nodes edited =
     ebind (structure_base show nodes [] [] []) (\<lambda>F.
     ebind (query_answers ask F Depends) (\<lambda>rows.
     Inr (nth_name 0 (filter (\<lambda>row. PStr (row ! 1) = edited) rows))))"

section \<open>Sources\<close>

text \<open>\<open>cited\<close>: the node's own citations and each block's.\<close>

definition cited :: "(pyval \<Rightarrow> string) \<Rightarrow> pydict \<Rightarrow> string list" where
  "cited show d =
     (let blocks = items_of (dget d ''blocks'');
          lists = dget d ''cites'' # map (\<lambda>b. dget (entries_of b) ''cites'') (filter is_pdict blocks)
      in remdups (concat (map (ids_of show) lists)))"

definition add_citations :: "(pyval \<Rightarrow> string) \<Rightarrow> pydict \<Rightarrow> facts \<Rightarrow> exn + facts" where
  "add_citations show d F = (let chunks = cited show d in
     if chunks = [] then Inr F
     else ebind (node_id d) (\<lambda>i. Inr (F\<lparr>f_cites := f_cites F @ map (Pair i) chunks\<rparr>)))"

definition add_article :: "pyval \<Rightarrow> facts \<Rightarrow> exn + facts" where
  "add_article v F = ebind (entry v) (\<lambda>d.
     ebind (iter_of (py_or (dget d ''chunks'') (PList []))) (\<lambda>vs.
     ebind (traverse as_name vs) (\<lambda>chunks.
     if chunks = [] then Inr F
     else ebind (node_id d) (\<lambda>i.
       Inr (F\<lparr>f_in_article := f_in_article F @ map (\<lambda>c. (c, i)) chunks,
              f_in_kb := f_in_kb F @ chunks\<rparr>)))))"

definition add_audience :: "pydict \<Rightarrow> pyval \<Rightarrow> facts \<Rightarrow> exn + facts" where
  "add_audience visibility v F = ebind (as_name v) (\<lambda>a.
     ebind (iter_of (py_or (dget visibility a) (PList []))) (\<lambda>vs.
     ebind (traverse as_name vs) (\<lambda>seen.
     Inr (F\<lparr>f_in_audience := f_in_audience F @ [a],
            f_visible := f_visible F @ map (\<lambda>r. (r, a)) seen\<rparr>))))"

definition source_facts :: "(pyval \<Rightarrow> string) \<Rightarrow> pydict list \<Rightarrow> pyval list \<Rightarrow> pyval \<Rightarrow> pydict \<Rightarrow> exn + facts" where
  "source_facts show nodes articles audiences visibility =
     ebind (fold_facts (add_citations show) nodes no_facts) (\<lambda>F1.
     ebind (fold_facts add_article articles F1) (\<lambda>F2.
     ebind (iter_of (py_or audiences (PList []))) (\<lambda>names.
     fold_facts (add_audience visibility) names F2)))"

definition source_base :: "(pyval \<Rightarrow> string) \<Rightarrow> pydict list \<Rightarrow> pyval list \<Rightarrow> pyval \<Rightarrow> pydict \<Rightarrow> exn + facts" where
  "source_base show nodes articles audiences visibility =
     ebind (source_facts show nodes articles audiences visibility) (\<lambda>F. Inr (seed_sources F))"

definition check_permission_leak :: "solver \<Rightarrow> (pyval \<Rightarrow> string) \<Rightarrow> pydict list \<Rightarrow> pyval list \<Rightarrow> pyval
    \<Rightarrow> pydict \<Rightarrow> exn + verdict" where
  "check_permission_leak ask show nodes articles audiences visibility =
     ebind (source_base show nodes articles audiences visibility) (\<lambda>F.
     ebind (query_answers ask F Leak) (\<lambda>rows.
     Inr (case rows of
        [] \<Rightarrow> checked (length nodes)
      | first # _ \<Rightarrow> refuse ''leak-path''
          (first ! 0 @ '' cites '' @ first ! 1 @ '' from '' @ first ! 2 @ '', which '' @ first ! 3
            @ '' cannot see'')
          (PList (map (row_value [''node'', ''chunk'', ''article'', ''audience'']) rows)) ''datalog'')))"

definition check_grounding :: "solver \<Rightarrow> (pyval \<Rightarrow> string) \<Rightarrow> pydict list \<Rightarrow> pyval list \<Rightarrow> exn + verdict" where
  "check_grounding ask show nodes articles =
     ebind (source_base show nodes articles (PList []) []) (\<lambda>F.
     ebind (query_answers ask F Ungrounded) (\<lambda>rows.
     Inr (case rows of
        [] \<Rightarrow> checked (length nodes)
      | first # _ \<Rightarrow> refuse ''ungrounded-claim''
          (first ! 0 @ '' cites '' @ first ! 1 @ '', which is not in the knowledge base'')
          (PList (map (row_value [''node'', ''chunk'']) rows)) ''datalog'')))"

end
