(* ===== verification/Datalog_Properties.thy ===== *)
theory Datalog_Properties
  imports Datalog_Checks
begin

text \<open>
  What the Datalog guards decide, under the one thing the code relies on pyDatalog for: that
  an answerable query is answered with exactly the rows the rules derive (\<open>solves\<close>).
\<close>

section \<open>The seeds are invisible\<close>

definition structural :: "query \<Rightarrow> bool" where
  "structural q \<longleftrightarrow> q \<notin> {Leak, Ungrounded}"

lemma trancl_self_loop:
  assumes "(a, b) \<in> (insert (x, x) E)\<^sup>+" and "a \<noteq> x \<or> b \<noteq> x"
  shows "(a, b) \<in> E\<^sup>+"
proof -
  have "(a, b) \<in> E\<^sup>+ \<or> a = x \<and> b = x" using assms(1)
    by (induction rule: trancl_induct) (auto intro: trancl_into_trancl)
  then show ?thesis using assms(2) by blast
qed

lemma trancl_seeded:
  "a \<noteq> x \<or> b \<noteq> x \<Longrightarrow> (a, b) \<in> (insert (x, x) E)\<^sup>+ \<longleftrightarrow> (a, b) \<in> E\<^sup>+"
  using trancl_self_loop [of a b x E] trancl_mono [of "(a, b)" E "insert (x, x) E"] by blast

lemma edges_seeded: "set (edges (seed_structure F)) = insert (nothing, nothing) (set (edges F))"
  by (auto simp: edges_def seed_structure_def)

lemma derives_seed_structure:
  "nothing \<notin> set row \<Longrightarrow> structural q \<Longrightarrow> derives (seed_structure F) q row \<longleftrightarrow> derives F q row"
  by (cases "(F, q, row)" rule: derives.cases)
    (simp_all add: structural_def invented_skill_iff dead_reference_iff cycle_iff reaches_trancl
      out_of_order_iff outstanding_iff depends_trancl edges_seeded trancl_seeded,
     auto simp: seed_structure_def trancl_seeded)

lemma derives_seed_sources:
  "nothing \<notin> set row \<Longrightarrow> \<not> structural q \<Longrightarrow> derives (seed_sources F) q row \<longleftrightarrow> derives F q row"
  by (cases "(F, q, row)" rule: derives.cases)
    (auto simp: structural_def leak_iff ungrounded_iff seed_sources_def)

lemma answerable_seeded:
  "structural q \<Longrightarrow> answerable (seed_structure F) q" "\<not> structural q \<Longrightarrow> answerable (seed_sources F) q"
  by (cases q; simp add: structural_def seed_structure_def seed_sources_def)+

lemma answers_rows:
  assumes "solves ask" and "answerable F q"
  shows "query_answers ask F q = Inr (sorted_list_of_set {row. derives F q row \<and> nothing \<notin> set row})"
proof -
  from assms obtain rows where rows: "ask F q = Inr rows" "distinct rows" "set rows = Collect (derives F q)"
    unfolding solves_def by blast
  let ?L = "filter (\<lambda>row. nothing \<notin> set row) (sort rows)"
  have "sorted_list_of_set (set ?L) = ?L"
    using rows(2) by (intro sorted_list_of_set.idem_if_sorted_distinct) (auto intro: sorted_wrt_filter)
  moreover have "set ?L = {row. derives F q row \<and> nothing \<notin> set row}"
    using rows(3) by auto
  ultimately show ?thesis using rows(1) by (simp add: query_answers_def)
qed

section \<open>The facts a list of nodes becomes\<close>

definition name_of :: "pydict \<Rightarrow> string" where
  "name_of d = str_of (dget d ''id'')"

definition node_edges :: "(pyval \<Rightarrow> string) \<Rightarrow> string \<Rightarrow> pydict list \<Rightarrow> (string \<times> string) list" where
  "node_edges show k nodes = concat (map (\<lambda>d. map (Pair (name_of d)) (ids_of show (dget d k))) nodes)"

definition requirements :: "(pyval \<Rightarrow> string) \<Rightarrow> pydict list \<Rightarrow> (string \<times> string) set" where
  "requirements show nodes = set (node_edges show ''requires'' nodes)"

text \<open>A dependency is any edge a node was written against.\<close>

definition written_against :: "(pyval \<Rightarrow> string) \<Rightarrow> pydict list \<Rightarrow> (string \<times> string) set" where
  "written_against show nodes = requirements show nodes \<union> set (node_edges show ''topics'' nodes)
     \<union> set (node_edges show ''refers_to'' nodes)"

definition taught_skills :: "pydict list \<Rightarrow> (string \<times> string) list" where
  "taught_skills nodes = concat (map (\<lambda>d. if truthy (dget d ''skill'')
     then [(name_of d, str_of (dget d ''skill''))] else []) nodes)"

text \<open>
  Nodes whose id is text, whose skill is text where there is one, and which do not use the
  identifier the seeds are made of.
\<close>

definition plain_node :: "(pyval \<Rightarrow> string) \<Rightarrow> pydict \<Rightarrow> bool" where
  "plain_node show d \<longleftrightarrow> is_pstr (dget d ''id'') \<and> name_of d \<noteq> nothing
     \<and> (truthy (dget d ''skill'') \<longrightarrow> is_pstr (dget d ''skill'')) \<and> dget d ''skill'' \<noteq> PStr nothing
     \<and> list_all (\<lambda>k. nothing \<notin> set (ids_of show (dget d k))) [''requires'', ''topics'', ''refers_to'']"

definition plain :: "(pyval \<Rightarrow> string) \<Rightarrow> pydict list \<Rightarrow> bool" where
  "plain show nodes = list_all (plain_node show) nodes"

lemma node_id_plain: "is_pstr (dget d ''id'') \<Longrightarrow> node_id d = Inr (name_of d)"
  by (cases "dget d ''id''")
    (auto simp: node_id_def item_def name_of_def dget_def split: option.splits)

lemma skill_facts_plain: "plain_node show d \<Longrightarrow> skill_facts i d = Inr (if truthy (dget d ''skill'')
     then [(i, str_of (dget d ''skill''))] else [])"
  by (cases "dget d ''skill''") (auto simp: skill_facts_def plain_node_def)

lemma fold_node_facts:
  "plain show nodes \<Longrightarrow> fold_facts (add_node_facts show) (enumerate k nodes) F =
     Inr (F\<lparr>f_position := f_position F @ zip (map name_of nodes) [k..<k + length nodes],
       f_node_teaches := f_node_teaches F @ taught_skills nodes,
       f_refers_to := f_refers_to F @ node_edges show ''refers_to'' nodes,
       f_prerequisite := f_prerequisite F @ node_edges show ''requires'' nodes,
       f_exam_topic := f_exam_topic F @ node_edges show ''topics'' nodes\<rparr>)"
proof (induction nodes arbitrary: k F)
  case Nil then show ?case by (simp add: taught_skills_def node_edges_def)
next
  case (Cons d nodes)
  then have d: "plain_node show d" and rest: "plain show nodes" by (simp_all add: plain_def)
  have range: "[k..<k + length (d # nodes)] = k # [Suc k..<Suc k + length nodes]"
    by (subst upt_conv_Cons) simp_all
  have "node_id d = Inr (name_of d)" using d by (simp add: node_id_plain plain_node_def)
  then show ?case using Cons.IH [OF rest] skill_facts_plain [OF d] unfolding range
    by (simp add: add_node_facts_def taught_skills_def node_edges_def)
qed

lemma structure_facts_plain:
  "plain show nodes \<Longrightarrow> structure_facts show nodes catalog outline approved =
     Inr (no_facts\<lparr>f_catalog_skill := catalog, f_in_outline := outline, f_approved := approved,
       f_position := zip (map name_of nodes) [0..<length nodes],
       f_node_teaches := taught_skills nodes,
       f_refers_to := node_edges show ''refers_to'' nodes,
       f_prerequisite := node_edges show ''requires'' nodes,
       f_exam_topic := node_edges show ''topics'' nodes\<rparr>)"
  by (simp add: structure_facts_def fold_node_facts no_facts_def)

text \<open>The rows a structural guard reads, as a derivation from the nodes alone.\<close>

definition course_facts :: "(pyval \<Rightarrow> string) \<Rightarrow> pydict list \<Rightarrow> string list \<Rightarrow> string list \<Rightarrow> string list \<Rightarrow> facts" where
  "course_facts show nodes catalog outline approved =
     (case structure_facts show nodes catalog outline approved of Inr F \<Rightarrow> F | _ \<Rightarrow> no_facts)"

lemma structure_base_plain:
  "plain show nodes \<Longrightarrow> structure_base show nodes catalog outline approved =
     Inr (seed_structure (course_facts show nodes catalog outline approved))"
  by (simp add: structure_base_def structure_facts_plain course_facts_def)

lemma course_answers:
  assumes "solves ask" and "structural q"
  shows "query_answers ask (seed_structure F) q = Inr (sorted_list_of_set {row. derives F q row \<and> nothing \<notin> set row})"
  using answers_rows [OF assms(1) answerable_seeded(1) [OF assms(2)]] derives_seed_structure [OF _ assms(2)]
  by (auto intro: arg_cong [where f = "sorted_list_of_set"])

lemma plain_edge:
  assumes "plain show nodes" and "(a, b) \<in> set (node_edges show k nodes)"
    and "k \<in> {''requires'', ''topics'', ''refers_to''}"
  shows "a \<noteq> nothing" and "b \<noteq> nothing"
  using assms by (auto simp: plain_def plain_node_def node_edges_def list_all_iff)

lemma finite_visible [simp]: "finite {row. derives F q row \<and> P row}"
  by (rule finite_subset [OF _ finite_derives [of F q]]) auto

lemma finite_requirements [simp]: "finite (requirements show nodes)"
  by (simp add: requirements_def)

lemma nth_name_rows: "finite R \<Longrightarrow> nth_name k (sorted_list_of_set R) = sorted_list_of_set ((\<lambda>row. row ! k) ` R)"
  unfolding nth_name_def sorted_names_def
  by (intro sorted_distinct_set_unique) simp_all

section \<open>Prerequisites\<close>

text \<open>The requirements a node states on a node placed after it.\<close>

definition too_early :: "(pyval \<Rightarrow> string) \<Rightarrow> pydict list \<Rightarrow> (string \<times> string) set" where
  "too_early show nodes = {(a, b) \<in> requirements show nodes.
     \<exists>i j. i < j \<and> j < length nodes \<and> name_of (nodes ! i) = a \<and> name_of (nodes ! j) = b}"

lemma course_facts_simps:
  assumes "plain show nodes"
  shows "f_prerequisite (course_facts show nodes c ou ap) = node_edges show ''requires'' nodes"
    and "f_exam_topic (course_facts show nodes c ou ap) = node_edges show ''topics'' nodes"
    and "f_refers_to (course_facts show nodes c ou ap) = node_edges show ''refers_to'' nodes"
    and "f_position (course_facts show nodes c ou ap) = zip (map name_of nodes) [0..<length nodes]"
    and "f_node_teaches (course_facts show nodes c ou ap) = taught_skills nodes"
    and "f_catalog_skill (course_facts show nodes c ou ap) = c"
    and "f_in_outline (course_facts show nodes c ou ap) = ou"
    and "f_approved (course_facts show nodes c ou ap) = ap"
  using assms by (simp_all add: course_facts_def structure_facts_plain)

lemma position_zip:
  "(a, p) \<in> set (zip (map name_of nodes) [0..<length nodes]) \<longleftrightarrow> p < length nodes \<and> name_of (nodes ! p) = a"
  by (force simp: set_zip)

lemma cycle_rows:
  assumes "plain show nodes"
  shows "{row. derives (course_facts show nodes c ou ap) Cycle row \<and> nothing \<notin> set row}
    = (\<lambda>a. [a]) ` {a. (a, a) \<in> (requirements show nodes)\<^sup>+}"
proof -
  have "(nothing, nothing) \<notin> (requirements show nodes)\<^sup>+"
    using plain_edge(1) [OF assms, of nothing _ "''requires''"] by (auto simp: requirements_def dest!: tranclD)
  then show ?thesis
    by (auto simp: derives_shape cycle_iff reaches_trancl course_facts_simps [OF assms] requirements_def)
qed

lemma order_rows:
  assumes "plain show nodes"
  shows "{row. derives (course_facts show nodes c ou ap) Out_of_order row \<and> nothing \<notin> set row}
    = (\<lambda>(a, b). [a, b]) ` too_early show nodes"
proof -
  have ooo: "out_of_order (course_facts show nodes c ou ap) a b \<longleftrightarrow> (a, b) \<in> too_early show nodes" for a b
    unfolding out_of_order_iff course_facts_simps [OF assms] position_zip too_early_def requirements_def
    by (auto dest: less_trans)
  have "a \<noteq> nothing \<and> b \<noteq> nothing" if "(a, b) \<in> too_early show nodes" for a b
    using that plain_edge [OF assms, of a b "''requires''"] by (auto simp: too_early_def requirements_def)
  then show ?thesis by (force simp: derives_shape ooo)
qed

lemma finite_too_early [simp]: "finite (too_early show nodes)"
  by (rule finite_subset [OF _ finite_requirements [of "show" nodes]]) (auto simp: too_early_def)

lemma finite_cycle [simp]: "finite {a. (a, a) \<in> (requirements show nodes)\<^sup>+}"
proof -
  have "{a. (a, a) \<in> (requirements show nodes)\<^sup>+} \<subseteq> fst ` requirements show nodes"
    by (force dest: tranclD)
  then show ?thesis by (rule finite_subset) simp
qed

lemma ordering_queries:
  assumes "solves ask" and "plain show nodes"
  shows "query_answers ask (seed_structure (course_facts show nodes [] [] [])) Cycle
      = Inr (sorted_list_of_set ((\<lambda>a. [a]) ` {a. (a, a) \<in> (requirements show nodes)\<^sup>+}))"
    and "query_answers ask (seed_structure (course_facts show nodes [] [] [])) Out_of_order
      = Inr (sorted_list_of_set ((\<lambda>(a, b). [a, b]) ` too_early show nodes))"
  using course_answers [OF assms(1), of Cycle "course_facts show nodes [] [] []"]
    course_answers [OF assms(1), of Out_of_order "course_facts show nodes [] [] []"]
  by (simp_all add: structural_def cycle_rows [OF assms(2)] order_rows [OF assms(2)])

text \<open>Whatever it says of an outline it lets through is true of it.\<close>

lemma ordering_allowed:
  assumes "solves ask" and "plain show nodes" and "check_ordering_acyclic ask show nodes = Inr v" and "v_ok v"
  shows "acyclic (requirements show nodes)" and "too_early show nodes = {}"
proof -
  let ?C = "{a. (a, a) \<in> (requirements show nodes)\<^sup>+}"
  let ?E = "(\<lambda>(a, b). [a, b]) ` too_early show nodes"
  have "nth_name 0 (sorted_list_of_set ((\<lambda>a. [a]) ` ?C)) = sorted_list_of_set ?C"
    by (simp add: nth_name_rows image_image)
  then have "sorted_list_of_set ?C = [] \<and> sorted_list_of_set ?E = []"
    using assms(3,4) ordering_queries [OF assms(1,2)]
    by (auto simp: check_ordering_acyclic_def structure_base_plain [OF assms(2)] refuse_def Let_def split: if_splits)
  moreover have finite: "finite (requirements show nodes)" by (simp add: requirements_def)
  moreover have "finite (too_early show nodes)"
    using finite by (rule finite_subset [rotated]) (auto simp: too_early_def)
  moreover from finite have "finite ?C"
    by (intro finite_subset [of ?C "Domain (requirements show nodes)"]) (auto simp: finite_Domain dest: tranclD)
  ultimately show "acyclic (requirements show nodes)" "too_early show nodes = {}"
    by (auto simp: acyclic_def)
qed

text \<open>C11. The prerequisite guard, on nodes whose ids are text: it allows the outline exactly when
  the requirements have no cycle and no node requires a node placed after it; a cycle is refused
  with precisely the nodes that lie on one, in order, and otherwise a lesson placed too early is
  refused with precisely the requirements that the order of the nodes contradicts.\<close>

theorem ordering_verdict:
  assumes "solves ask" and "plain show nodes"
  shows "(acyclic (requirements show nodes) \<and> too_early show nodes = {} \<longrightarrow>
      check_ordering_acyclic ask show nodes = Inr (checked (length nodes)))
    \<and> (\<not> acyclic (requirements show nodes) \<longrightarrow> (\<exists>summary swapped.
      check_ordering_acyclic ask show nodes = Inr (refuse ''prerequisite-cycle'' summary
        (PDict [(PStr ''cycle'', strs (sorted_list_of_set {a. (a, a) \<in> (requirements show nodes)\<^sup>+})),
                (PStr ''out_of_order'', swapped)]) ''datalog'')))
    \<and> (acyclic (requirements show nodes) \<and> too_early show nodes \<noteq> {} \<longrightarrow> (\<exists>summary.
      check_ordering_acyclic ask show nodes = Inr (refuse ''ordering-conflict'' summary
        (PDict [(PStr ''cycle'', PList []), (PStr ''out_of_order'',
           PList (map (row_value [''node'', ''requires''])
             (sorted_list_of_set ((\<lambda>(a, b). [a, b]) ` too_early show nodes))))]) ''datalog'')))"
proof -
  let ?F = "course_facts show nodes [] [] []"
  let ?C = "{a. (a, a) \<in> (requirements show nodes)\<^sup>+}"
  let ?E = "too_early show nodes"
  note ordering_queries [OF assms]
  moreover have "nth_name 0 (sorted_list_of_set ((\<lambda>a. [a]) ` ?C)) = sorted_list_of_set ?C"
    by (simp add: nth_name_rows image_image)
  moreover have "acyclic (requirements show nodes) \<longleftrightarrow> ?C = {}" by (auto simp: acyclic_def)
  ultimately show ?thesis
    by (auto simp: check_ordering_acyclic_def structure_base_plain [OF assms(2)] strs_def Let_def)
qed

section \<open>Edges\<close>

text \<open>The three guards that compare the edges of the nodes with a set of names.\<close>

definition edge_row :: "string \<times> string \<Rightarrow> string list" where
  "edge_row = (\<lambda>(a, b). [a, b])"

lemma edge_row_ne [simp]: "edge_row p ! 0 = fst p" "edge_row p ! 1 = snd p" "edge_row p ! Suc 0 = snd p"
  by (cases p; simp add: edge_row_def)+

definition dead_references :: "(pyval \<Rightarrow> string) \<Rightarrow> pydict list \<Rightarrow> string list \<Rightarrow> (string \<times> string) set" where
  "dead_references show nodes outline = {(a, t) \<in> set (node_edges show ''refers_to'' nodes). t \<notin> set outline}"

definition invented :: "pydict list \<Rightarrow> string list \<Rightarrow> (string \<times> string) set" where
  "invented nodes catalog = {(a, s) \<in> set (taught_skills nodes). s \<notin> set catalog}"

definition unapproved_topics :: "(pyval \<Rightarrow> string) \<Rightarrow> pydict list \<Rightarrow> string list \<Rightarrow> string list
    \<Rightarrow> (string \<times> string) set" where
  "unapproved_topics show nodes outline approved = {(e, t) \<in> set (node_edges show ''topics'' nodes).
     t \<in> set outline \<and> t \<notin> set approved}"

lemma finite_dead_references [simp]: "finite (dead_references show nodes outline)"
  by (rule finite_subset [of _ "set (node_edges show ''refers_to'' nodes)"]) (auto simp: dead_references_def)

lemma finite_invented [simp]: "finite (invented nodes catalog)"
  by (rule finite_subset [of _ "set (taught_skills nodes)"]) (auto simp: invented_def)

lemma finite_unapproved_topics [simp]: "finite (unapproved_topics show nodes outline approved)"
  by (rule finite_subset [of _ "set (node_edges show ''topics'' nodes)"]) (auto simp: unapproved_topics_def)

lemma plain_skill:
  assumes "plain show nodes" and "(a, s) \<in> set (taught_skills nodes)"
  shows "a \<noteq> nothing" and "s \<noteq> nothing"
proof -
  obtain d where d: "plain_node show d" "truthy (dget d ''skill'')" "a = name_of d" "s = str_of (dget d ''skill'')"
    using assms by (auto simp: plain_def list_all_iff taught_skills_def split: if_splits)
  from d show "a \<noteq> nothing" by (simp add: plain_node_def)
  from d show "s \<noteq> nothing" by (cases "dget d ''skill''") (auto simp: plain_node_def)
qed

lemma edge_rows_intro:
  assumes "\<And>row. derives F q row \<longleftrightarrow> (\<exists>a b. row = [a, b] \<and> (a, b) \<in> E)"
    and "\<And>a b. (a, b) \<in> E \<Longrightarrow> a \<noteq> nothing \<and> b \<noteq> nothing"
  shows "{row. derives F q row \<and> nothing \<notin> set row} = edge_row ` E"
proof -
  have "{row. (\<exists>a b. row = [a, b] \<and> (a, b) \<in> E) \<and> nothing \<notin> set row} = {[a, b] | a b. (a, b) \<in> E}"
    by (auto dest: assms(2))
  moreover have "edge_row ` E = {[a, b] | a b. (a, b) \<in> E}" by (force simp: edge_row_def)
  ultimately show ?thesis by (simp add: assms(1))
qed

lemma reference_rows:
  assumes "plain show nodes"
  shows "{row. derives (course_facts show nodes c ou ap) Dead_reference row \<and> nothing \<notin> set row}
    = edge_row ` dead_references show nodes ou"
  by (rule edge_rows_intro)
    (auto simp: derives_shape dead_reference_iff course_facts_simps [OF assms] dead_references_def
      dest: plain_edge [OF assms])

lemma skill_rows:
  assumes "plain show nodes"
  shows "{row. derives (course_facts show nodes c ou ap) Invented_skill row \<and> nothing \<notin> set row}
    = edge_row ` invented nodes c"
  by (rule edge_rows_intro)
    (auto simp: derives_shape invented_skill_iff course_facts_simps [OF assms] invented_def
      dest: plain_skill [OF assms])

lemma topic_rows:
  assumes "plain show nodes"
  shows "{row. derives (course_facts show nodes c ou ap) Outstanding row \<and> nothing \<notin> set row}
    = edge_row ` unapproved_topics show nodes ou ap"
  by (rule edge_rows_intro)
    (auto simp: derives_shape outstanding_iff course_facts_simps [OF assms] unapproved_topics_def
      dest: plain_edge [OF assms])

lemma dependency_rows:
  assumes "plain show nodes"
  shows "{row. derives (course_facts show nodes c ou ap) Depends row \<and> nothing \<notin> set row}
    = edge_row ` (written_against show nodes)\<^sup>+"
proof (rule edge_rows_intro)
  have E: "set (edges (course_facts show nodes c ou ap)) = written_against show nodes"
    by (auto simp: edges_def course_facts_simps [OF assms] written_against_def requirements_def)
  show "derives (course_facts show nodes c ou ap) Depends row \<longleftrightarrow>
      (\<exists>a b. row = [a, b] \<and> (a, b) \<in> (written_against show nodes)\<^sup>+)" for row
    by (simp add: derives_shape depends_trancl E)
  have "a \<noteq> nothing \<and> b \<noteq> nothing" if "(a, b) \<in> written_against show nodes" for a b
    using that plain_edge [OF assms, of a b] by (auto simp: written_against_def requirements_def)
  then show "a \<noteq> nothing \<and> b \<noteq> nothing" if "(a, b) \<in> (written_against show nodes)\<^sup>+" for a b
    using that by (blast dest: tranclD tranclD2)
qed

lemma finite_written_against [simp]: "finite (written_against show nodes)"
  by (simp add: written_against_def)

lemma nth_name_set: "nth_name k rows = sorted_list_of_set ((\<lambda>row. row ! k) ` set rows)"
  unfolding nth_name_def sorted_names_def
  by (intro sorted_distinct_set_unique) simp_all

text \<open>C12. The cascade, on nodes whose ids are text: the nodes that have to be gone over again when
  a node is edited are exactly those from which the edited node is reached through requirements,
  tested topics and references, each once and in order; a value that is not an id has none.\<close>

theorem cascade_is_closure:
  assumes "solves ask" and "plain show nodes"
  shows "cascade ask show nodes edited = Inr (sorted_list_of_set
    {a. \<exists>e. edited = PStr e \<and> (a, e) \<in> (written_against show nodes)\<^sup>+})"
proof -
  let ?F = "course_facts show nodes [] [] []"
  let ?D = "(written_against show nodes)\<^sup>+"
  let ?rows = "sorted_list_of_set (edge_row ` ?D)"
  have "query_answers ask (seed_structure ?F) Depends = Inr ?rows"
    using course_answers [OF assms(1), of Depends ?F] by (simp add: structural_def dependency_rows [OF assms(2)])
  moreover have "(\<lambda>row. row ! 0) ` set (filter (\<lambda>row. PStr (row ! 1) = edited) ?rows)
      = {a. \<exists>e. edited = PStr e \<and> (a, e) \<in> ?D}"
    by (force simp: edge_row_def)
  ultimately show ?thesis
    by (simp add: cascade_def structure_base_plain [OF assms(2)] nth_name_set)
qed

text \<open>The reference guard, on nodes whose ids are text: it allows the nodes exactly when every
  cross-reference names a node the outline has, and otherwise refuses with precisely the dead
  references, each with the version of the outline that no longer has its target.\<close>

theorem references_verdict:
  assumes "solves ask" and "plain show nodes"
  shows "(dead_references show nodes outline = {} \<longrightarrow>
      check_references_live ask show nodes outline version = Inr (checked (length nodes)))
    \<and> (dead_references show nodes outline \<noteq> {} \<longrightarrow> (\<exists>summary.
      check_references_live ask show nodes outline version = Inr (refuse ''dead-reference'' summary
        (PList (map (dead_row version) (sorted_list_of_set (edge_row ` dead_references show nodes outline))))
        ''datalog'')))"
proof -
  let ?F = "course_facts show nodes [] outline []"
  let ?rows = "sorted_list_of_set (edge_row ` dead_references show nodes outline)"
  have "query_answers ask (seed_structure ?F) Dead_reference = Inr ?rows"
    using course_answers [OF assms(1), of Dead_reference ?F]
    by (simp add: structural_def reference_rows [OF assms(2)])
  moreover have "?rows = [] \<longleftrightarrow> dead_references show nodes outline = {}" by simp
  ultimately show ?thesis
    by (cases ?rows) (auto simp: check_references_live_def structure_base_plain [OF assms(2)])
qed

text \<open>The exam guard, on nodes whose ids are text: an exam may be generated exactly when each
  topic it tests that is still in the committed outline has been approved, and is otherwise refused
  with precisely the topics that are outstanding.\<close>

theorem approval_verdict:
  assumes "solves ask" and "plain show nodes"
  shows "(unapproved_topics show nodes outline approved = {} \<longrightarrow>
      check_content_approved ask show nodes outline approved = Inr (checked (length nodes)))
    \<and> (unapproved_topics show nodes outline approved \<noteq> {} \<longrightarrow> (\<exists>summary.
      check_content_approved ask show nodes outline approved = Inr (refuse ''outstanding-topics'' summary
        (PList (map (row_value [''exam'', ''topic''])
          (sorted_list_of_set (edge_row ` unapproved_topics show nodes outline approved)))) ''datalog'')))"
proof -
  let ?F = "course_facts show nodes [] outline approved"
  have "query_answers ask (seed_structure ?F) Outstanding =
      Inr (sorted_list_of_set (edge_row ` unapproved_topics show nodes outline approved))"
    using course_answers [OF assms(1), of Outstanding ?F]
    by (simp add: structural_def topic_rows [OF assms(2)])
  then show ?thesis
    by (auto simp: check_content_approved_def structure_base_plain [OF assms(2)])
qed

section \<open>Sources\<close>

definition chunks_in :: "pyval \<Rightarrow> string list" where
  "chunks_in v = map str_of (items_of (dget (entries_of v) ''chunks''))"

definition seen_by :: "pydict \<Rightarrow> string \<Rightarrow> string list" where
  "seen_by visibility a = map str_of (items_of (dget visibility a))"

fun names_or_none :: "pyval \<Rightarrow> bool" where
  "names_or_none PNone = True"
| "names_or_none (PList xs) = list_all (\<lambda>x. is_pstr x \<and> x \<noteq> PStr nothing) xs"
| "names_or_none _ = False"

text \<open>Sources in the shape their schema gives them, and none with the identifier of the seeds.\<close>

definition plain_article :: "pyval \<Rightarrow> bool" where
  "plain_article v \<longleftrightarrow> is_pdict v \<and> is_pstr (dget (entries_of v) ''id'') \<and> name_of (entries_of v) \<noteq> nothing
     \<and> names_or_none (dget (entries_of v) ''chunks'')"

definition plain_citer :: "(pyval \<Rightarrow> string) \<Rightarrow> pydict \<Rightarrow> bool" where
  "plain_citer show d \<longleftrightarrow> is_pstr (dget d ''id'') \<and> name_of d \<noteq> nothing \<and> nothing \<notin> set (cited show d)"

definition plain_audiences :: "pyval \<Rightarrow> pydict \<Rightarrow> bool" where
  "plain_audiences audiences visibility \<longleftrightarrow> names_or_none audiences
     \<and> list_all (\<lambda>a. names_or_none (dget visibility (str_of a))) (items_of audiences)"

definition plain_sources :: "(pyval \<Rightarrow> string) \<Rightarrow> pydict list \<Rightarrow> pyval list \<Rightarrow> pyval \<Rightarrow> pydict \<Rightarrow> bool" where
  "plain_sources show nodes articles audiences visibility \<longleftrightarrow> list_all (plain_citer show) nodes
     \<and> list_all plain_article articles \<and> plain_audiences audiences visibility"

lemma names_iter:
  assumes "names_or_none v"
  shows "ebind (iter_of (py_or v (PList []))) (traverse as_name) = Inr (map str_of (items_of v))"
    and "nothing \<notin> str_of ` set (items_of v)"
    and "iter_of (py_or v (PList [])) = Inr (items_of v)"
proof -
  have names: "list_all (\<lambda>x. is_pstr x \<and> x \<noteq> PStr nothing) xs \<Longrightarrow>
      traverse as_name xs = Inr (map str_of xs) \<and> nothing \<notin> str_of ` set xs" for xs
  proof (induction xs)
    case (Cons x xs) then show ?case by (cases x) auto
  qed simp
  from assms names show "ebind (iter_of (py_or v (PList []))) (traverse as_name) = Inr (map str_of (items_of v))"
    by (cases v) (auto simp: py_or_def)
  from assms names show "nothing \<notin> str_of ` set (items_of v)" by (cases v) auto
  from assms show "iter_of (py_or v (PList [])) = Inr (items_of v)" by (cases v) (auto simp: py_or_def)
qed

lemma names_traverse: "names_or_none v \<Longrightarrow> traverse as_name (items_of v) = Inr (map str_of (items_of v))"
  using names_iter(1) [of v] names_iter(3) [of v] by simp

lemma fold_citations:
  "list_all (plain_citer show) nodes \<Longrightarrow> fold_facts (add_citations show) nodes F =
     Inr (F\<lparr>f_cites := f_cites F @ concat (map (\<lambda>d. map (Pair (name_of d)) (cited show d)) nodes)\<rparr>)"
proof (induction nodes arbitrary: F)
  case (Cons d nodes)
  then have "node_id d = Inr (name_of d)" by (simp add: plain_citer_def node_id_plain)
  then show ?case using Cons by (simp add: add_citations_def Let_def)
qed simp

lemma fold_articles:
  "list_all plain_article articles \<Longrightarrow> fold_facts add_article articles F =
     Inr (F\<lparr>f_in_article := f_in_article F @ concat (map (\<lambda>v. map (\<lambda>c. (c, name_of (entries_of v))) (chunks_in v)) articles),
       f_in_kb := f_in_kb F @ concat (map chunks_in articles)\<rparr>)"
proof (induction articles arbitrary: F)
  case (Cons v articles)
  then obtain d where d: "v = PDict d" "node_id d = Inr (name_of d)" "names_or_none (dget d ''chunks'')"
    by (cases v) (auto simp: plain_article_def node_id_plain)
  then show ?case using Cons names_iter(3) [OF d(3)] names_traverse [OF d(3)]
    by (simp add: add_article_def chunks_in_def)
qed simp

lemma fold_audiences:
  "list_all (\<lambda>a. is_pstr a \<and> names_or_none (dget visibility (str_of a))) names \<Longrightarrow>
     fold_facts (add_audience visibility) names F =
     Inr (F\<lparr>f_in_audience := f_in_audience F @ map str_of names,
       f_visible := f_visible F @ concat (map (\<lambda>v. map (\<lambda>r. (r, str_of v)) (seen_by visibility (str_of v))) names)\<rparr>)"
proof (induction names arbitrary: F)
  case (Cons v names)
  then obtain a where a: "v = PStr a" "names_or_none (dget visibility a)" by (cases v) auto
  then show ?case using Cons names_iter(3) [OF a(2)] names_traverse [OF a(2)]
    by (simp add: add_audience_def seen_by_def comp_def)
qed simp

definition audience_names :: "pyval \<Rightarrow> string list" where
  "audience_names audiences = map str_of (items_of audiences)"

text \<open>The paths from a node through a chunk and its article to an audience that cannot see it.\<close>

definition leaks :: "(pyval \<Rightarrow> string) \<Rightarrow> pydict list \<Rightarrow> pyval list \<Rightarrow> pyval \<Rightarrow> pydict \<Rightarrow> string list set" where
  "leaks show nodes articles audiences visibility = {[name_of d, c, name_of (entries_of v), a] | d c v a.
     d \<in> set nodes \<and> c \<in> set (cited show d) \<and> v \<in> set articles \<and> c \<in> set (chunks_in v)
     \<and> a \<in> set (audience_names audiences) \<and> name_of (entries_of v) \<notin> set (seen_by visibility a)}"

definition ungrounded_claims :: "(pyval \<Rightarrow> string) \<Rightarrow> pydict list \<Rightarrow> pyval list \<Rightarrow> string list set" where
  "ungrounded_claims show nodes articles = {[name_of d, c] | d c. d \<in> set nodes \<and> c \<in> set (cited show d)
     \<and> (\<forall>v \<in> set articles. c \<notin> set (chunks_in v))}"

definition citation_facts :: "(pyval \<Rightarrow> string) \<Rightarrow> pydict list \<Rightarrow> pyval list \<Rightarrow> pyval \<Rightarrow> pydict \<Rightarrow> facts" where
  "citation_facts show nodes articles audiences visibility = no_facts\<lparr>
     f_cites := concat (map (\<lambda>d. map (Pair (name_of d)) (cited show d)) nodes),
     f_in_article := concat (map (\<lambda>v. map (\<lambda>c. (c, name_of (entries_of v))) (chunks_in v)) articles),
     f_in_kb := concat (map chunks_in articles),
     f_in_audience := audience_names audiences,
     f_visible := concat (map (\<lambda>a. map (\<lambda>r. (r, a)) (seen_by visibility a)) (audience_names audiences))\<rparr>"

lemma plain_audience_items:
  assumes "plain_audiences audiences visibility"
  shows "iter_of (py_or audiences (PList [])) = Inr (items_of audiences)"
    and "list_all (\<lambda>a. is_pstr a \<and> names_or_none (dget visibility (str_of a))) (items_of audiences)"
  using assms names_iter(3) [of audiences]
  by (auto simp: plain_audiences_def list_all_iff) (cases audiences; auto simp: list_all_iff)

lemma source_base_plain:
  assumes "plain_sources show nodes articles audiences visibility"
  shows "source_base show nodes articles audiences visibility
    = Inr (seed_sources (citation_facts show nodes articles audiences visibility))"
proof -
  have parts: "list_all (plain_citer show) nodes" "list_all plain_article articles"
      "plain_audiences audiences visibility"
    using assms by (simp_all add: plain_sources_def)
  show ?thesis
    using fold_citations [OF parts(1)] fold_articles [OF parts(2)] plain_audience_items [OF parts(3)]
      fold_audiences [OF plain_audience_items(2) [OF parts(3)]]
    by (simp add: source_base_def source_facts_def citation_facts_def audience_names_def no_facts_def comp_def)
qed

lemma source_answers:
  assumes "solves ask" and "\<not> structural q"
  shows "query_answers ask (seed_sources F) q = Inr (sorted_list_of_set {row. derives F q row \<and> nothing \<notin> set row})"
  using answers_rows [OF assms(1) answerable_seeded(2) [OF assms(2)]] derives_seed_sources [OF _ assms(2)]
  by (auto intro: arg_cong [where f = "sorted_list_of_set"])

lemma citation_facts_iff:
  "(n, c) \<in> set (f_cites (citation_facts show nodes articles audiences visibility)) \<longleftrightarrow>
     (\<exists>d \<in> set nodes. n = name_of d \<and> c \<in> set (cited show d))"
  "(c, r) \<in> set (f_in_article (citation_facts show nodes articles audiences visibility)) \<longleftrightarrow>
     (\<exists>v \<in> set articles. c \<in> set (chunks_in v) \<and> r = name_of (entries_of v))"
  "(r, a) \<in> set (f_visible (citation_facts show nodes articles audiences visibility)) \<longleftrightarrow>
     a \<in> set (audience_names audiences) \<and> r \<in> set (seen_by visibility a)"
  "a \<in> set (f_in_audience (citation_facts show nodes articles audiences visibility)) \<longleftrightarrow>
     a \<in> set (audience_names audiences)"
  "c \<in> set (f_in_kb (citation_facts show nodes articles audiences visibility)) \<longleftrightarrow>
     (\<exists>v \<in> set articles. c \<in> set (chunks_in v))"
  by (auto simp: citation_facts_def)

lemma leak_rows:
  assumes "plain_sources show nodes articles audiences visibility"
  shows "{row. derives (citation_facts show nodes articles audiences visibility) Leak row \<and> nothing \<notin> set row}
    = leaks show nodes articles audiences visibility"
proof -
  have clean: "d \<in> set nodes \<Longrightarrow> name_of d \<noteq> nothing \<and> nothing \<notin> set (cited show d)"
      "v \<in> set articles \<Longrightarrow> name_of (entries_of v) \<noteq> nothing"
      "nothing \<notin> set (audience_names audiences)" for d v
    using assms names_iter(2) [of audiences]
    by (auto simp: plain_sources_def plain_citer_def plain_article_def plain_audiences_def list_all_iff
      audience_names_def)
  have "derives (citation_facts show nodes articles audiences visibility) Leak row \<longleftrightarrow>
      row \<in> leaks show nodes articles audiences visibility" for row
    unfolding derives_shape leaks_def leak_iff citation_facts_iff query.case mem_Collect_eq by blast
  moreover have "nothing \<notin> set row" if "row \<in> leaks show nodes articles audiences visibility" for row
  proof -
    from that obtain d c v a where "row = [name_of d, c, name_of (entries_of v), a]" "d \<in> set nodes"
        "c \<in> set (cited show d)" "v \<in> set articles" "a \<in> set (audience_names audiences)"
      unfolding leaks_def by blast
    then show ?thesis using clean(1) [of d] clean(2) [of v] clean(3) by auto
  qed
  ultimately show ?thesis by blast
qed

lemma grounding_rows:
  assumes "plain_sources show nodes articles audiences visibility"
  shows "{row. derives (citation_facts show nodes articles audiences visibility) Ungrounded row \<and> nothing \<notin> set row}
    = ungrounded_claims show nodes articles"
proof -
  have clean: "d \<in> set nodes \<Longrightarrow> name_of d \<noteq> nothing \<and> nothing \<notin> set (cited show d)" for d
    using assms by (auto simp: plain_sources_def plain_citer_def list_all_iff)
  have "derives (citation_facts show nodes articles audiences visibility) Ungrounded row \<longleftrightarrow>
      row \<in> ungrounded_claims show nodes articles" for row
    unfolding derives_shape ungrounded_claims_def ungrounded_iff citation_facts_iff query.case mem_Collect_eq
    by blast
  moreover have "nothing \<notin> set row" if "row \<in> ungrounded_claims show nodes articles" for row
    using that by (auto simp: ungrounded_claims_def dest: clean)
  ultimately show ?thesis by blast
qed

lemma leak_query:
  assumes "solves ask" and "plain_sources show nodes articles audiences visibility"
  shows "query_answers ask (seed_sources (citation_facts show nodes articles audiences visibility)) Leak
      = Inr (sorted_list_of_set (leaks show nodes articles audiences visibility))"
    and "sorted_list_of_set (leaks show nodes articles audiences visibility) = []
      \<longleftrightarrow> leaks show nodes articles audiences visibility = {}"
proof -
  let ?F = "citation_facts show nodes articles audiences visibility"
  show "query_answers ask (seed_sources ?F) Leak = Inr (sorted_list_of_set (leaks show nodes articles audiences visibility))"
    using source_answers [OF assms(1), of Leak ?F] by (simp add: structural_def leak_rows [OF assms(2)])
  show "sorted_list_of_set (leaks show nodes articles audiences visibility) = []
      \<longleftrightarrow> leaks show nodes articles audiences visibility = {}"
    using finite_visible [of ?F Leak "\<lambda>row. nothing \<notin> set row"] by (simp add: leak_rows [OF assms(2)])
qed

lemma leak_allowed:
  assumes "solves ask" and "plain_sources show nodes articles audiences visibility"
    and "check_permission_leak ask show nodes articles audiences visibility = Inr v" and "v_ok v"
  shows "leaks show nodes articles audiences visibility = {}"
  using assms(3,4) leak_query [OF assms(1,2)]
  by (cases "sorted_list_of_set (leaks show nodes articles audiences visibility)")
    (auto simp: check_permission_leak_def source_base_plain [OF assms(2)] refuse_def)

text \<open>C13. The leak guard, on sources in the shape of their schema: it allows the nodes exactly
  when every audience sees every article a cited chunk comes from, whether the node or one of its
  blocks cites it, and otherwise refuses with precisely the paths that leak.\<close>

theorem leak_verdict:
  assumes "solves ask" and "plain_sources show nodes articles audiences visibility"
  shows "(leaks show nodes articles audiences visibility = {} \<longrightarrow>
      check_permission_leak ask show nodes articles audiences visibility = Inr (checked (length nodes)))
    \<and> (leaks show nodes articles audiences visibility \<noteq> {} \<longrightarrow> (\<exists>summary.
      check_permission_leak ask show nodes articles audiences visibility = Inr (refuse ''leak-path'' summary
        (PList (map (row_value [''node'', ''chunk'', ''article'', ''audience''])
          (sorted_list_of_set (leaks show nodes articles audiences visibility)))) ''datalog'')))"
proof -
  let ?F = "citation_facts show nodes articles audiences visibility"
  let ?rows = "sorted_list_of_set (leaks show nodes articles audiences visibility)"
  note leak_query [OF assms]
  then show ?thesis
    by (cases ?rows) (auto simp: check_permission_leak_def source_base_plain [OF assms(2)])
qed

lemma grounding_verdict:
  assumes "solves ask" and "plain_sources show nodes articles (PList []) []"
  shows "check_grounding ask show nodes articles = Inr (checked (length nodes))
    \<longleftrightarrow> ungrounded_claims show nodes articles = {}"
proof -
  let ?F = "citation_facts show nodes articles (PList []) []"
  let ?rows = "sorted_list_of_set (ungrounded_claims show nodes articles)"
  have "query_answers ask (seed_sources ?F) Ungrounded = Inr ?rows"
    using source_answers [OF assms(1), of Ungrounded ?F] by (simp add: structural_def grounding_rows [OF assms(2)])
  moreover have "?rows = [] \<longleftrightarrow> ungrounded_claims show nodes articles = {}"
    using finite_visible [of ?F Ungrounded "\<lambda>row. nothing \<notin> set row"]
    by (simp add: grounding_rows [OF assms(2)])
  ultimately show ?thesis
    by (cases ?rows) (auto simp: check_grounding_def source_base_plain [OF assms(2)] checked_def refuse_def)
qed

section \<open>The guards at work\<close>

lemma checked_not_refused [simp]: "checked n \<noteq> refuse kind summary detail engine"
  by (simp add: checked_def refuse_def)

definition no_repr :: "pyval \<Rightarrow> string" where
  "no_repr v = ''?''"

definition lesson :: "string \<Rightarrow> (string \<times> pyval) list \<Rightarrow> pydict" where
  "lesson i rest = (PStr ''id'', PStr i) # map (\<lambda>(k, v). (PStr k, v)) rest"

definition three_lessons :: "pydict list" where
  "three_lessons = [lesson ''a'' [(''skill'', PStr ''s''), (''requires'', strs [''c''])],
     lesson ''b'' [(''refers_to'', strs [''a'', ''gone''])],
     lesson ''c'' [(''type'', PStr ''exam''), (''topics'', strs [''b'', ''d''])]]"

definition two_lessons :: "pydict list" where
  "two_lessons = [lesson ''a'' [(''requires'', strs [''b''])], lesson ''b'' [(''refers_to'', PStr ''c'')]]"

definition two_blocks :: "pydict list" where
  "two_blocks = [lesson ''a'' [(''cites'', strs [''k1'']),
     (''blocks'', PList [PDict [(PStr ''cites'', strs [''k2''])]])]]"

definition two_articles :: "pyval list" where
  "two_articles = [PDict (lesson ''x'' [(''chunks'', strs [''k1''])]), PDict (lesson ''y'' [(''chunks'', strs [''k2''])])]"

definition staff_only :: pydict where
  "staff_only = [(PStr ''all'', strs [''x'']), (PStr ''staff'', strs [''x'', ''y''])]"

theorem ordering_verdict_witness:
  "plain no_repr three_lessons
    \<and> \<not> (acyclic (requirements no_repr three_lessons) \<and> too_early no_repr three_lessons = {})"
proof
  show plain: "plain no_repr three_lessons" by code_simp
  have "check_ordering_acyclic evaluate no_repr three_lessons \<noteq> Inr (checked (length three_lessons))"
    by code_simp
  then show "\<not> (acyclic (requirements no_repr three_lessons) \<and> too_early no_repr three_lessons = {})"
    using ordering_verdict [OF evaluate_solves plain] by blast
qed

theorem cascade_is_closure_witness:
  "plain no_repr two_lessons
    \<and> sorted_list_of_set {a. \<exists>e. PStr ''c'' = PStr e \<and> (a, e) \<in> (written_against no_repr two_lessons)\<^sup>+}
      = [''a'', ''b'']"
proof
  show plain: "plain no_repr two_lessons" by code_simp
  have "cascade evaluate no_repr two_lessons (PStr ''c'') = Inr [''a'', ''b'']" by code_simp
  then show "sorted_list_of_set {a. \<exists>e. PStr ''c'' = PStr e \<and> (a, e) \<in> (written_against no_repr two_lessons)\<^sup>+}
      = [''a'', ''b'']"
    using cascade_is_closure [OF evaluate_solves plain, of "PStr ''c''"] by (simp only: sum.inject)
qed

theorem references_verdict_witness:
  "plain no_repr three_lessons \<and> dead_references no_repr three_lessons [''a'', ''b''] \<noteq> {}"
proof
  show plain: "plain no_repr three_lessons" by code_simp
  have "check_references_live evaluate no_repr three_lessons [''a'', ''b''] 2 = Inr (refuse ''dead-reference''
      ''b points at gone, which outline 2 no longer contains''
      (PList [dead_row 2 [''b'', ''gone'']]) ''datalog'')" by code_simp
  then show "dead_references no_repr three_lessons [''a'', ''b''] \<noteq> {}"
    using references_verdict [OF evaluate_solves plain, of "[''a'', ''b'']" 2] checked_not_refused
    by (metis sum.inject(2))
qed

theorem approval_verdict_witness:
  "plain no_repr three_lessons \<and> unapproved_topics no_repr three_lessons [''a'', ''b''] [''b''] = {}"
proof
  show plain: "plain no_repr three_lessons" by code_simp
  have "check_content_approved evaluate no_repr three_lessons [''a'', ''b''] [''b''] = Inr (checked 3)"
    by code_simp
  then show "unapproved_topics no_repr three_lessons [''a'', ''b''] [''b''] = {}"
    using approval_verdict [OF evaluate_solves plain, of "[''a'', ''b'']" "[''b'']"] checked_not_refused
    by (metis sum.inject(2))
qed

theorem leak_verdict_witness:
  "plain_sources no_repr two_blocks two_articles (strs [''all'', ''staff'']) staff_only
    \<and> leaks no_repr two_blocks two_articles (strs [''all'', ''staff'']) staff_only \<noteq> {}"
proof
  show plain: "plain_sources no_repr two_blocks two_articles (strs [''all'', ''staff'']) staff_only" by code_simp
  have "check_permission_leak evaluate no_repr two_blocks two_articles (strs [''all'', ''staff'']) staff_only
    = Inr (refuse ''leak-path'' ''a cites k2 from y, which all cannot see''
        (PList [row_value [''node'', ''chunk'', ''article'', ''audience''] [''a'', ''k2'', ''y'', ''all'']])
        ''datalog'')" by code_simp
  then show "leaks no_repr two_blocks two_articles (strs [''all'', ''staff'']) staff_only \<noteq> {}"
    using leak_verdict [OF evaluate_solves plain] checked_not_refused by (metis sum.inject(2))
qed

end
