(* ===== verification/Texts.thy ===== *)
theory Texts
  imports Prelude
begin

text \<open>
  Text as Python treats it: white space, \<open>str.strip\<close>, the word characters of a regular
  expression, cutting and splitting.  A character is a code point below 256; the signs above it
  that the tables are written with are given control characters no table uses.
\<close>

section \<open>Characters\<close>

definition space :: "char \<Rightarrow> bool" where
  "space c \<longleftrightarrow> (let n = of_char c :: nat in 9 \<le> n \<and> n \<le> 13 \<or> 28 \<le> n \<and> n \<le> 32 \<or> n = 133 \<or> n = 160)"

text \<open>The characters \<open>\w\<close> matches: letters, digits and numerals, and the underscore.\<close>

definition word_char :: "char \<Rightarrow> bool" where
  "word_char c \<longleftrightarrow> (let n = of_char c :: nat in
     97 \<le> n \<and> n \<le> 122 \<or> 65 \<le> n \<and> n \<le> 90 \<or> 48 \<le> n \<and> n \<le> 57 \<or> n = 95
     \<or> n \<in> {170, 178, 179, 181, 185, 186, 188, 189, 190} \<or> 192 \<le> n \<and> n \<noteq> 215 \<and> n \<noteq> 247)"

definition upper_case :: "char \<Rightarrow> bool" where
  "upper_case c \<longleftrightarrow> (let n = of_char c :: nat in 65 \<le> n \<and> n \<le> 90)"

definition letter :: "char \<Rightarrow> bool" where
  "letter c \<longleftrightarrow> (let n = of_char c :: nat in 65 \<le> n \<and> n \<le> 90 \<or> 97 \<le> n \<and> n \<le> 122)"

section \<open>Signs\<close>

definition and_sign :: char where "and_sign = CHR 0x01"
definition or_sign :: char where "or_sign = CHR 0x02"
definition notin_sign :: char where "notin_sign = CHR 0x03"
definition exists_sign :: char where "exists_sign = CHR 0x04"
definition dash_sign :: char where "dash_sign = CHR 0x05"
definition dots_sign :: char where "dots_sign = CHR 0x06"
definition not_sign :: char where "not_sign = CHR 0xAC"
definition dot_sign :: char where "dot_sign = CHR 0xB7"

section \<open>Strings\<close>

definition stripped :: "string \<Rightarrow> string" where
  "stripped s = rev (dropWhile space (rev (dropWhile space s)))"

definition starts_with :: "string \<Rightarrow> string \<Rightarrow> bool" where
  "starts_with p s \<longleftrightarrow> take (length p) s = p"

definition ends_with :: "string \<Rightarrow> string \<Rightarrow> bool" where
  "ends_with p s \<longleftrightarrow> starts_with (rev p) (rev s)"

definition without_end :: "string \<Rightarrow> string \<Rightarrow> string" where
  "without_end p s = take (length s - length p) s"

text \<open>\<open>s.split(p)[0]\<close>: what comes before the first \<open>p\<close>.\<close>

fun cut_at :: "string \<Rightarrow> string \<Rightarrow> string" where
  "cut_at p [] = []"
| "cut_at p (c # s) = (if starts_with p (c # s) then [] else c # cut_at p s)"

text \<open>\<open>s.split(c)\<close> for any of the given characters.\<close>

fun split_on :: "char list \<Rightarrow> string \<Rightarrow> string list" where
  "split_on seps [] = [[]]"
| "split_on seps (c # s) = (case split_on seps s of
     [] \<Rightarrow> [[c]]
   | w # ws \<Rightarrow> (if c \<in> set seps then [] # w # ws else (c # w) # ws))"

lemma split_on_not_Nil [simp]: "split_on seps s \<noteq> []"
  by (induction s) (auto split: list.splits)

text \<open>\<open>s.strip(chars)\<close>.\<close>

definition strip_chars :: "char list \<Rightarrow> string \<Rightarrow> string" where
  "strip_chars cs s = rev (dropWhile (\<lambda>c. c \<in> set cs) (rev (dropWhile (\<lambda>c. c \<in> set cs) s)))"

end
