(* ===== verification/Arithmetic.thy ===== *)
theory Arithmetic
  imports Datalog_Checks Engine_Guards Texts
begin

text \<open>
  \<open>engines/z3/engine.py\<close>: is a brief satisfiable, and do the numbers inside a node add up.
  Every assertion is a named claim about one integer quantity.  The solver is the parameter
  \<open>solve\<close>; \<open>show\<close> is Python's \<open>repr\<close>.
\<close>

section \<open>Claims and the solver\<close>

datatype bound_kind = Exactly | At_most | At_least | Above

record claim =
  cl_of :: string
  cl_is :: bound_kind
  cl_bound :: int

definition claim_on :: "string \<Rightarrow> bound_kind \<Rightarrow> int \<Rightarrow> claim" where
  "claim_on x r b = \<lparr>cl_of = x, cl_is = r, cl_bound = b\<rparr>"

fun compares :: "bound_kind \<Rightarrow> int \<Rightarrow> int \<Rightarrow> bool" where
  "compares Exactly a b \<longleftrightarrow> a = b"
| "compares At_most a b \<longleftrightarrow> a \<le> b"
| "compares At_least a b \<longleftrightarrow> b \<le> a"
| "compares Above a b \<longleftrightarrow> b < a"

definition holds :: "(string \<Rightarrow> int) \<Rightarrow> claim \<Rightarrow> bool" where
  "holds f c = compares (cl_is c) (f (cl_of c)) (cl_bound c)"

type_synonym claims = "(string \<times> claim) list"

definition satisfiable :: "claims \<Rightarrow> bool" where
  "satisfiable cs \<longleftrightarrow> (\<exists>f. \<forall>(name, c) \<in> set cs. holds f c)"

datatype answer = Sat "(string \<times> int) list" | Unsat "string list" | Unknown "string list"

type_synonym arith_solver = "claims \<Rightarrow> exn + answer"

text \<open>
  What the code relies on Z3 for: a model satisfies every claim and has a value for each
  quantity claimed about and no other, and a core names claims that cannot hold together.
\<close>

definition core_of :: "claims \<Rightarrow> string list \<Rightarrow> claims" where
  "core_of cs names = filter (\<lambda>(name, c). name \<in> set names) cs"

definition decides :: "arith_solver \<Rightarrow> bool" where
  "decides solve \<longleftrightarrow> (\<forall>cs. case solve cs of
       Inr (Sat m) \<Rightarrow> fst ` set m = cl_of ` snd ` set cs \<and> (\<forall>(name, c) \<in> set cs. \<exists>v. map_of m (cl_of c) = Some v
         \<and> compares (cl_is c) v (cl_bound c))
     | Inr (Unsat names) \<Rightarrow> set names \<subseteq> fst ` set cs \<and> \<not> satisfiable (core_of cs names)
     | _ \<Rightarrow> False)"

section \<open>Whole numbers\<close>

text \<open>
  \<open>int(...)\<close> of a value: a float is truncated, a text is read as decimal digits, of which
  Python takes no more than 4300.
\<close>

definition digit_value :: "char \<Rightarrow> int option" where
  "digit_value c = (let n = of_char c :: nat in if 48 \<le> n \<and> n \<le> 57 then Some (int n - 48) else None)"

text \<open>Digits, which single underscores may separate.\<close>

fun digits_value :: "int \<Rightarrow> string \<Rightarrow> int option" where
  "digits_value acc [] = Some acc"
| "digits_value acc (c # cs) =
     (case digit_value c of Some d \<Rightarrow> digits_value (10 * acc + d) cs
      | None \<Rightarrow> (case cs of e # es \<Rightarrow> (if c = CHR ''_'' then
          (case digit_value e of Some d \<Rightarrow> digits_value (10 * acc + d) es | None \<Rightarrow> None) else None)
        | [] \<Rightarrow> None))"

definition number_text :: "string \<Rightarrow> int option" where
  "number_text s = (case stripped s of
       [] \<Rightarrow> None
     | c # cs \<Rightarrow>
        (let sign = (if c = CHR ''-'' then -1 else 1);
             body = (if c = CHR ''-'' \<or> c = CHR ''+'' then cs else c # cs)
         in case body of [] \<Rightarrow> None
            | d # ds \<Rightarrow> if 4300 < length (filter (\<lambda>x. digit_value x \<noteq> None) body) then None
                else (case digit_value d of None \<Rightarrow> None
                | Some v \<Rightarrow> map_option ((*) sign) (digits_value v ds))))"

fun truncated :: "int \<Rightarrow> int \<Rightarrow> int" where
  "truncated m e = (if 0 \<le> e then m * 2 ^ nat e
     else (if m < 0 then - ((- m) div 2 ^ nat (- e)) else m div 2 ^ nat (- e)))"

fun py_int :: "pyval \<Rightarrow> exn + int" where
  "py_int (PInt i) = Inr i"
| "py_int (PBool b) = Inr (if b then 1 else 0)"
| "py_int (PFloat (Finite m e)) = Inr (truncated m e)"
| "py_int (PFloat (Infinite s)) = Inl (PyError ''OverflowError'')"
| "py_int (PFloat NaN) = Inl (PyError ''ValueError'')"
| "py_int (PStr s) = (case number_text s of None \<Rightarrow> Inl (PyError ''ValueError'') | Some i \<Rightarrow> Inr i)"
| "py_int _ = Inl type_error"

text \<open>\<open>d[k]\<close> read as a whole number.\<close>

definition int_at :: "pydict \<Rightarrow> string \<Rightarrow> exn + int" where
  "int_at d k = ebind (item d k) py_int"

definition int_or_zero :: "pydict \<Rightarrow> string \<Rightarrow> exn + int" where
  "int_or_zero d k = py_int (py_or (dget d k) (PInt 0))"

section \<open>Is the brief satisfiable\<close>

text \<open>A conversion that is only made when the value is there.\<close>

definition when_stated :: "pyval \<Rightarrow> (pyval \<Rightarrow> exn + int) \<Rightarrow> exn + int option" where
  "when_stated v f = (if v = PNone then Inr None else ebind (f v) (\<lambda>i. Inr (Some i)))"

definition claimed :: "string \<Rightarrow> string \<Rightarrow> bound_kind \<Rightarrow> int option \<Rightarrow> claims" where
  "claimed name x r b = (case b of None \<Rightarrow> [] | Some i \<Rightarrow> [(name, claim_on x r i)])"

record brief_numbers =
  b_max_nodes :: int
  b_minutes :: int
  b_max_minutes :: int
  b_breadth :: int
  b_max_breadth :: int
  b_requested :: "int option"
  b_listed :: "int option"

definition numbers_of :: "pydict \<Rightarrow> pydict \<Rightarrow> exn + brief_numbers" where
  "numbers_of brief th =
     ebind (int_at th ''max_nodes_per_course'') (\<lambda>mn.
     ebind (int_at brief ''minutes_per_lesson'') (\<lambda>mi.
     ebind (int_at th ''max_minutes_per_lesson'') (\<lambda>mm.
     ebind (ebind (item brief ''audience'') py_len) (\<lambda>br.
     ebind (int_at th ''max_audience_breadth'') (\<lambda>mb.
     ebind (when_stated (dget brief ''requested_nodes'') py_int) (\<lambda>rq.
     ebind (when_stated (dget brief ''nodes'') py_len) (\<lambda>ls.
       Inr \<lparr>b_max_nodes = mn, b_minutes = mi, b_max_minutes = mm, b_breadth = br, b_max_breadth = mb,
         b_requested = rq, b_listed = ls\<rparr>)))))))"

definition groups_of :: "brief_numbers \<Rightarrow> (string \<times> claims) list" where
  "groups_of b =
     [(''nodes'', [(''max_nodes_per_course'', claim_on ''requested_nodes'' At_most (b_max_nodes b)),
         (''a_course_has_at_least_one_node'', claim_on ''requested_nodes'' Above 0)]
         @ claimed ''requested_nodes'' ''requested_nodes'' Exactly (b_requested b)
         @ claimed ''nodes_the_brief_lists'' ''requested_nodes'' Exactly (b_listed b)),
      (''minutes'', [(''minutes_per_lesson'', claim_on ''minutes_per_lesson'' Exactly (b_minutes b)),
         (''max_minutes_per_lesson'', claim_on ''minutes_per_lesson'' At_most (b_max_minutes b)),
         (''a_lesson_has_positive_length'', claim_on ''minutes_per_lesson'' Above 0)]),
      (''audience'', [(''audience_breadth'', claim_on ''audience_breadth'' Exactly (b_breadth b)),
         (''max_audience_breadth'', claim_on ''audience_breadth'' At_most (b_max_breadth b))])]"

definition constraint_groups :: "pydict \<Rightarrow> pydict \<Rightarrow> exn + (string \<times> claims) list" where
  "constraint_groups brief th = ebind (numbers_of brief th) (\<lambda>b. Inr (groups_of b))"

definition unstated :: "pydict \<Rightarrow> string list" where
  "unstated brief =
     (if dget brief ''requested_nodes'' = PNone \<and> dget brief ''nodes'' = PNone
      then [''how many nodes the course should have''] else [])
     @ (if dget brief ''minutes_per_lesson'' = PNone then [''how long a lesson runs''] else [])
     @ (if dget brief ''audience'' = PNone then [''who the course is for''] else [])"

definition absent_limits :: "pydict \<Rightarrow> string list" where
  "absent_limits th = filter (\<lambda>k. dget th k = PNone)
     [''max_nodes_per_course'', ''max_minutes_per_lesson'', ''max_audience_breadth'']"

text \<open>One group solved: the values of its model, or what it is about and its core.\<close>

definition solved :: "arith_solver \<Rightarrow> string \<times> claims \<Rightarrow> exn + (string \<times> int) list + (string \<times> string list)" where
  "solved solve g = ebind (solve (snd g)) (\<lambda>a. case a of
       Sat m \<Rightarrow> Inr (Inl m)
     | Unsat core \<Rightarrow> Inr (Inr (fst g, sort core))
     | Unknown _ \<Rightarrow> Inl EngineUnavailable)"

fun found_values :: "('a + 'b) list \<Rightarrow> 'a list" where
  "found_values [] = []"
| "found_values (Inl x # xs) = x # found_values xs"
| "found_values (Inr y # xs) = found_values xs"

fun found_conflicts :: "('a + 'b) list \<Rightarrow> 'b list" where
  "found_conflicts [] = []"
| "found_conflicts (Inl x # xs) = found_conflicts xs"
| "found_conflicts (Inr y # xs) = y # found_conflicts xs"

definition value_in :: "(string \<times> int) list list \<Rightarrow> string \<Rightarrow> pyval" where
  "value_in ms x = (case map_of (concat (rev ms)) x of None \<Rightarrow> PNone | Some i \<Rightarrow> PInt i)"

text \<open>The verdict on the groups, solved in order.\<close>

definition group_verdict :: "((string \<times> int) list + (string \<times> string list)) list \<Rightarrow> verdict" where
  "group_verdict rs =
     (let conflicts = found_conflicts rs; values = found_values rs in
      if conflicts = []
      then Allowed [(PStr ''engine'', PStr ''z3''), (PStr ''nodes'', value_in values ''requested_nodes''),
        (PStr ''minutes'', value_in values ''minutes_per_lesson'')]
      else refuse ''unsat-core''
        (''these requirements cannot hold together: ''
          @ joined ''; '' (map (\<lambda>c. joined '', '' (snd c)) conflicts))
        (strs (sorted_names (concat (map snd conflicts)))) ''z3'')"

definition check_feasible :: "arith_solver \<Rightarrow> pydict \<Rightarrow> pydict \<Rightarrow> exn + verdict" where
  "check_feasible solve brief th =
     (if unstated brief \<noteq> [] \<or> absent_limits th \<noteq> []
      then Inr (refuse ''unstated-requirement''
        (''this brief cannot be group_verdict: '' @ joined ''; ''
          (unstated brief @ map (\<lambda>k. ''the organisation sets no '' @ k) (absent_limits th)))
        (PDict [(PStr ''brief_does_not_state'', strs (unstated brief)),
                (PStr ''no_limit_set'', strs (absent_limits th))]) ''z3'')
      else ebind (constraint_groups brief th) (\<lambda>gs.
        ebind (traverse (solved solve) gs) (\<lambda>rs. Inr (group_verdict rs))))"

section \<open>Do the numbers inside a node add up\<close>

text \<open>\<open>_integer\<close>: a float is whole only while it is exact.\<close>

fun whole_number :: "pyval \<Rightarrow> bool" where
  "whole_number (PInt i) = True"
| "whole_number (PFloat x) = (case as_int (PFloat x) of None \<Rightarrow> False | Some i \<Rightarrow> \<bar>i\<bar> \<le> 2 ^ 53)"
| "whole_number _ = False"

text \<open>\<open>_words\<close>: the words of \<open>s.split()\<close>; the flag says a word has begun.\<close>

fun word_count :: "bool \<Rightarrow> string \<Rightarrow> nat" where
  "word_count inside [] = 0"
| "word_count inside (c # cs) =
     (if space c then word_count False cs else (if inside then 0 else 1) + word_count True cs)"

fun text_words :: "pyval \<Rightarrow> nat" where
  "text_words (PStr s) = word_count False s"
| "text_words _ = 0"

fun block_words :: "pyval \<Rightarrow> nat" where
  "block_words (PDict b) =
     sum_list (map (\<lambda>k. text_words (dget b k)) [''text'', ''question'', ''caption''])
     + sum_list (map (\<lambda>k. sum_list (map text_words (items_of (dget b k)))) [''items'', ''options''])"
| "block_words _ = 0"

definition words_in :: "pyval \<Rightarrow> exn + int" where
  "words_in blocks = ebind (iter_of (py_or blocks (PList [])))
     (\<lambda>bs. Inr (int (sum_list (map block_words bs))))"

text \<open>\<open>_not_integers\<close>: every number the sums read that is not whole, by path.\<close>

definition not_a_whole :: "(pyval \<Rightarrow> string) \<Rightarrow> string \<Rightarrow> pyval \<Rightarrow> pyval" where
  "not_a_whole show path v = PDict [(PStr ''path'', PStr path), (PStr ''expected'', PStr ''integer''),
     (PStr ''found'', PStr (show v))]"

fun points_of :: "pyval \<Rightarrow> pyval" where
  "points_of (PDict q) = (case dlookup q ''points'' of None \<Rightarrow> PInt 0 | Some v \<Rightarrow> v)"
| "points_of q = q"

definition not_integers :: "(pyval \<Rightarrow> string) \<Rightarrow> pydict \<Rightarrow> pyval \<Rightarrow> exn + pyval list" where
  "not_integers show nd questions = ebind (iter_of (py_or questions (PList []))) (\<lambda>qs.
     let ident = id_text show (dget nd ''id'') in
     Inr (map (\<lambda>f. not_a_whole show (ident @ ''.'' @ f) (dget nd f))
            (filter (\<lambda>f. dget nd f \<noteq> PNone \<and> \<not> whole_number (dget nd f)) [''points_total'', ''minutes''])
        @ map (\<lambda>(i, q). not_a_whole show (ident @ ''.questions['' @ int_text (int i) @ ''].points'') (points_of q))
            (filter (\<lambda>(i, q). \<not> whole_number (points_of q)) (enumerate 0 qs))))"

text \<open>An exam's questions are its quiz blocks.\<close>

definition is_quiz :: "pyval \<Rightarrow> bool" where
  "is_quiz b \<longleftrightarrow> is_pdict b \<and> dget (entries_of b) ''type'' = PStr ''quiz''"

definition questions_of :: "pydict \<Rightarrow> exn + pyval" where
  "questions_of nd =
     (if dget nd ''type'' = PStr ''exam''
      then ebind (iter_of (py_or (dget nd ''blocks'') (PList []))) (\<lambda>bs. Inr (PList (filter is_quiz bs)))
      else Inr (dget nd ''questions''))"

definition half_said :: "pydict \<Rightarrow> pyval \<Rightarrow> string list" where
  "half_said nd questions =
     (if questions \<noteq> PNone \<and> dget nd ''points_total'' = PNone
      then [''the exam lists questions and states no total''] else [])
     @ (if dget nd ''points_total'' \<noteq> PNone \<and> questions = PNone
        then [''the exam states a total and lists no questions''] else [])
     @ (if dget nd ''blocks'' \<noteq> PNone \<and> dget nd ''minutes'' = PNone
        then [''the node has blocks and states no duration''] else [])"

fun points_at :: "pyval \<Rightarrow> exn + int" where
  "points_at (PDict q) = py_int (points_of (PDict q))"
| "points_at _ = Inl (PyError ''AttributeError'')"

definition exam_claims :: "pydict \<Rightarrow> pyval \<Rightarrow> exn + claims" where
  "exam_claims nd questions =
     (if questions = PNone then Inr []
      else ebind (py_int (dget nd ''points_total'')) (\<lambda>total.
        ebind (ebind (iter_of questions) (traverse points_at)) (\<lambda>points.
        Inr [(''points_total_is_as_stated'', claim_on ''points_total'' Exactly total),
          (''points_sum_to_the_total'', claim_on ''points_total'' Exactly (sum_list points)),
          (''an_exam_is_worth_something'', claim_on ''points_total'' Above 0)])))"

definition floor_minutes :: "pydict \<Rightarrow> pydict \<Rightarrow> exn + int" where
  "floor_minutes nd th = ebind (py_int (dget nd ''minutes'')) (\<lambda>m.
     ebind (int_or_zero th ''lesson_minutes'') (\<lambda>l. Inr (max m l)))"

definition length_claims :: "pydict \<Rightarrow> pydict \<Rightarrow> exn + claims" where
  "length_claims nd th = ebind (int_or_zero th ''minutes_per_block'') (\<lambda>per_block.
     ebind (py_int (dget nd ''minutes'')) (\<lambda>m.
     ebind (if per_block = 0 then Inr []
            else ebind (py_len (dget nd ''blocks'')) (\<lambda>n.
              Inr [(''duration_matches_the_block_count'', claim_on ''minutes'' Exactly (per_block * n))]))
       (\<lambda>matches. Inr ((''duration_is_as_stated'', claim_on ''minutes'' Exactly m) # matches
         @ [(''a_node_takes_time'', claim_on ''minutes'' Above 0)]))))"

definition word_claims :: "pydict \<Rightarrow> pydict \<Rightarrow> exn + claims" where
  "word_claims nd th = ebind (int_or_zero th ''min_words_per_minute'') (\<lambda>per_minute.
     if per_minute = 0 \<or> dget nd ''type'' \<noteq> PStr ''topic'' then Inr []
     else ebind (words_in (dget nd ''blocks'')) (\<lambda>w. ebind (floor_minutes nd th) (\<lambda>f.
       Inr [(''words_are_as_written'', claim_on ''words'' Exactly w),
         (''enough_words_for_the_minutes'', claim_on ''words'' At_least (per_minute * f))])))"

definition tracked_claims :: "pydict \<Rightarrow> pydict \<Rightarrow> pyval \<Rightarrow> exn + claims" where
  "tracked_claims nd th questions = ebind (exam_claims nd questions) (\<lambda>e.
     if dget nd ''blocks'' = PNone then Inr e
     else ebind (length_claims nd th) (\<lambda>l. ebind (word_claims nd th) (\<lambda>w. Inr (e @ l @ w))))"

definition failing_sum :: "(pyval \<Rightarrow> string) \<Rightarrow> pydict \<Rightarrow> pydict \<Rightarrow> string list \<Rightarrow> exn + verdict" where
  "failing_sum show nd th names =
     (let core = sort names;
          summary = id_text show (dget nd ''id'') @ '': '' @ joined '', '' core;
          detail = [(PStr ''node'', dget nd ''id''), (PStr ''core'', strs core)] in
      if ''enough_words_for_the_minutes'' \<in> set core
      then ebind (floor_minutes nd th) (\<lambda>f. ebind (words_in (dget nd ''blocks'')) (\<lambda>w.
        ebind (int_at th ''min_words_per_minute'') (\<lambda>per_minute.
        Inr (refuse ''failing-sum'' (summary @ '' ('' @ int_text w @ '' words for '' @ int_text f
            @ '' minutes; at least '' @ int_text (per_minute * f) @ '')'')
          (PDict (detail @ [(PStr ''words'', PInt w), (PStr ''needed'', PInt (per_minute * f))])) ''z3''))))
      else Inr (refuse ''failing-sum'' summary (PDict detail) ''z3''))"

definition summed :: "pydict \<Rightarrow> nat \<Rightarrow> verdict" where
  "summed nd n = Allowed [(PStr ''engine'', PStr ''z3''), (PStr ''node'', dget nd ''id''),
     (PStr ''sums'', PInt (int n))]"

definition check_arithmetic :: "arith_solver \<Rightarrow> (pyval \<Rightarrow> string) \<Rightarrow> pydict \<Rightarrow> pydict \<Rightarrow> exn + verdict" where
  "check_arithmetic solve show nd th =
     (let ident = id_text show (dget nd ''id'') in
      ebind (questions_of nd) (\<lambda>questions.
      let halves = half_said nd questions in
      if halves \<noteq> []
      then Inr (refuse ''unstated-requirement'' (ident @ '': '' @ joined ''; '' halves)
        (PDict [(PStr ''node'', dget nd ''id''), (PStr ''incomplete'', strs halves)]) ''z3'')
      else ebind (not_integers show nd questions) (\<lambda>wrong.
      case wrong of
        w # _ \<Rightarrow> Inr (refuse ''failing-path'' (str_of (dget (entries_of w) ''path'') @ '': expected an integer'')
          (PList wrong) ''z3'')
      | [] \<Rightarrow> ebind (tracked_claims nd th questions) (\<lambda>cs.
          if cs = [] then Inr (summed nd 0)
          else ebind (solve cs) (\<lambda>a. case a of
              Sat _ \<Rightarrow> Inr (summed nd (length cs))
            | Unsat names \<Rightarrow> failing_sum show nd th names
            | Unknown names \<Rightarrow> failing_sum show nd th names)))))"

section \<open>A solver\<close>

text \<open>
  Claims about one quantity bound it from below and from above, so the whole numbers between
  the bounds decide them.
\<close>

definition lower :: "claim \<Rightarrow> int option" where
  "lower c = (case cl_is c of Exactly \<Rightarrow> Some (cl_bound c) | At_most \<Rightarrow> None
     | At_least \<Rightarrow> Some (cl_bound c) | Above \<Rightarrow> Some (cl_bound c + 1))"

definition upper :: "claim \<Rightarrow> int option" where
  "upper c = (case cl_is c of Exactly \<Rightarrow> Some (cl_bound c) | At_most \<Rightarrow> Some (cl_bound c) | _ \<Rightarrow> None)"

fun somes :: "'a option list \<Rightarrow> 'a list" where
  "somes [] = []"
| "somes (None # xs) = somes xs"
| "somes (Some x # xs) = x # somes xs"

definition about_var :: "string \<Rightarrow> claims \<Rightarrow> claim list" where
  "about_var x cs = filter (\<lambda>c. cl_of c = x) (map snd cs)"

definition chosen :: "claim list \<Rightarrow> int" where
  "chosen cs = (case somes (map lower cs) of l # ls \<Rightarrow> fold max ls l
     | [] \<Rightarrow> (case somes (map upper cs) of u # us \<Rightarrow> fold min us u | [] \<Rightarrow> 0))"

definition by_bounds :: "claims \<Rightarrow> exn + answer" where
  "by_bounds cs = Inr (
     if list_all (\<lambda>(name, c). compares (cl_is c) (chosen (about_var (cl_of c) cs)) (cl_bound c)) cs
     then Sat (map (\<lambda>(name, c). (cl_of c, chosen (about_var (cl_of c) cs))) cs)
     else Unsat (map fst cs))"

end
