(* ===== verification/Arithmetic_Properties.thy ===== *)
theory Arithmetic_Properties
  imports Arithmetic
begin

text \<open>
  What the Z3 guards decide, under the one thing the code relies on the solver for
  (\<open>decides\<close>): the brief is feasible exactly when its numbers fit, every collision is
  reported at once, and a node passes exactly when its sums hold.
\<close>

section \<open>Deciding claims\<close>

lemma set_somes [simp]: "set (somes xs) = {x. Some x \<in> set xs}"
  by (induction xs rule: somes.induct) auto

lemma compares_bounds:
  "compares (cl_is c) a (cl_bound c) \<longleftrightarrow>
     (\<forall>l. lower c = Some l \<longrightarrow> l \<le> a) \<and> (\<forall>u. upper c = Some u \<longrightarrow> a \<le> u)"
  by (cases "cl_is c") (auto simp: lower_def upper_def)

lemma fold_max: "fold max ls l = Max (set (l # ls))" for l :: int
  by (rule Max.set_eq_fold [symmetric])

lemma fold_min: "fold min us u = Min (set (u # us))" for u :: int
  by (rule Min.set_eq_fold [symmetric])

lemma chosen_fits:
  assumes v: "\<forall>c \<in> set cs. compares (cl_is c) v (cl_bound c)" and c: "c \<in> set cs"
  shows "compares (cl_is c) (chosen cs) (cl_bound c)"
proof (cases "somes (map lower cs)")
  case (Cons l ls)
  let ?L = "set (somes (map lower cs))"
  have is_max: "chosen cs = Max ?L" by (simp only: chosen_def Cons list.case fold_max)
  have "?L \<noteq> {}" by (simp only: Cons) simp
  moreover have "\<forall>x \<in> ?L. x \<le> v" using v by (auto simp: compares_bounds)
  ultimately have "chosen cs \<le> v" unfolding is_max using Max.boundedI [of ?L v] by blast
  moreover have "\<forall>x \<in> ?L. x \<le> chosen cs" unfolding is_max by (intro ballI Max_ge finite_set)
  ultimately show ?thesis using v c
    by (force simp: compares_bounds)
next
  case Nil
  then have none: "lower d = None" if "d \<in> set cs" for d
    using that by (metis (mono_tags, lifting) empty_Collect_eq empty_set image_eqI list.set_map not_None_eq set_somes)
  show ?thesis
  proof (cases "somes (map upper cs)")
    case (Cons u us)
    let ?U = "set (somes (map upper cs))"
    have is_min: "chosen cs = Min ?U" by (simp only: chosen_def Nil Cons list.case fold_min)
    have "\<forall>x \<in> ?U. chosen cs \<le> x" unfolding is_min by (intro ballI Min_le finite_set)
    then show ?thesis using c none
      by (force simp: compares_bounds)
  next
    case Nil
    then have "Some u \<notin> upper ` set cs" for u by (metis empty_Collect_eq empty_set list.set_map set_somes)
    then show ?thesis using c none
      by (force simp: compares_bounds)
  qed
qed

lemma satisfiable_chosen:
  "satisfiable cs \<longleftrightarrow>
     list_all (\<lambda>(name, c). compares (cl_is c) (chosen (about_var (cl_of c) cs)) (cl_bound c)) cs"
  (is "_ \<longleftrightarrow> ?chosen")
proof
  assume "satisfiable cs"
  then obtain f where f: "\<forall>(name, c) \<in> set cs. compares (cl_is c) (f (cl_of c)) (cl_bound c)"
    by (auto simp: satisfiable_def holds_def)
  show ?chosen unfolding list_all_iff
  proof clarify
    fix name c assume "(name, c) \<in> set cs"
    then have "c \<in> set (about_var (cl_of c) cs)" by (force simp: about_var_def)
    moreover have "\<forall>d \<in> set (about_var (cl_of c) cs). compares (cl_is d) (f (cl_of c)) (cl_bound d)"
      using f by (fastforce simp: about_var_def)
    ultimately show "compares (cl_is c) (chosen (about_var (cl_of c) cs)) (cl_bound c)"
      by (intro chosen_fits)
  qed
next
  assume ?chosen
  then show "satisfiable cs" unfolding satisfiable_def list_all_iff holds_def
    by (intro exI [of _ "\<lambda>x. chosen (about_var x cs)"])
qed

lemma map_of_by_key:
  "map_of (map (\<lambda>(name, c). (cl_of c, g (cl_of c))) cs) x =
     (if x \<in> cl_of ` snd ` set cs then Some (g x) else None)"
  by (induction cs) auto

theorem by_bounds_decides: "decides by_bounds"
  unfolding decides_def
proof
  fix cs
  have all: "core_of cs (map fst cs) = cs"
    unfolding core_of_def by (rule filter_True) force
  show "case by_bounds cs of
       Inr (Sat m) \<Rightarrow> fst ` set m = cl_of ` snd ` set cs \<and> (\<forall>(name, c) \<in> set cs. \<exists>v. map_of m (cl_of c) = Some v
         \<and> compares (cl_is c) v (cl_bound c))
     | Inr (Unsat names) \<Rightarrow> set names \<subseteq> fst ` set cs \<and> \<not> satisfiable (core_of cs names)
     | _ \<Rightarrow> False"
  proof (cases "satisfiable cs")
    case True
    then show ?thesis
      by (force simp: by_bounds_def satisfiable_chosen list_all_iff
          map_of_by_key [of "\<lambda>x. chosen (about_var x cs)"])
  next
    case False
    then show ?thesis using all by (simp add: by_bounds_def satisfiable_chosen)
  qed
qed

lemma satisfiable_core: "satisfiable cs \<Longrightarrow> satisfiable (core_of cs names)"
  by (auto simp: satisfiable_def core_of_def)

lemma solver_answers:
  assumes "decides solve"
  obtains (sat) m where "solve cs = Inr (Sat m)" and "satisfiable cs"
      and "fst ` set m = cl_of ` snd ` set cs"
      and "\<forall>(name, c) \<in> set cs. \<exists>v. map_of m (cl_of c) = Some v \<and> compares (cl_is c) v (cl_bound c)"
    | (unsat) names where "solve cs = Inr (Unsat names)" and "\<not> satisfiable cs"
      and "set names \<subseteq> fst ` set cs" and "\<not> satisfiable (core_of cs names)"
proof (cases "solve cs")
  case (Inl e) then show thesis using assms [unfolded decides_def, rule_format, of cs] by simp
next
  case (Inr a)
  note d = assms [unfolded decides_def, rule_format, of cs, unfolded Inr]
  show thesis
  proof (cases a)
    case (Sat m)
    then have model: "fst ` set m = cl_of ` snd ` set cs"
      "\<forall>(name, c) \<in> set cs. \<exists>v. map_of m (cl_of c) = Some v \<and> compares (cl_is c) v (cl_bound c)"
      using d by simp_all
    then have "satisfiable cs" unfolding satisfiable_def holds_def
      by (intro exI [of _ "\<lambda>x. the (map_of m x)"]) force
    then show thesis using model Inr Sat sat by simp
  next
    case (Unsat names)
    then show thesis using d Inr unsat satisfiable_core [of cs names] by auto
  next
    case (Unknown names) then show thesis using d by simp
  qed
qed


lemma satisfiable_about:
  assumes "\<And>name c. (name, c) \<in> set cs \<Longrightarrow> cl_of c = x"
  shows "satisfiable cs \<longleftrightarrow> (\<exists>v. \<forall>(name, c) \<in> set cs. compares (cl_is c) v (cl_bound c))"
proof
  assume "satisfiable cs"
  then show "\<exists>v. \<forall>(name, c) \<in> set cs. compares (cl_is c) v (cl_bound c)"
    using assms by (fastforce simp: satisfiable_def holds_def)
next
  assume "\<exists>v. \<forall>(name, c) \<in> set cs. compares (cl_is c) v (cl_bound c)"
  then obtain v where "\<forall>(name, c) \<in> set cs. compares (cl_is c) v (cl_bound c)" ..
  then show "satisfiable cs" unfolding satisfiable_def holds_def by (intro exI [of _ "\<lambda>_. v"]) auto
qed

section \<open>The brief\<close>

text \<open>The numbers of the brief within the organisation's limits, and agreeing with each other.\<close>

definition nodes_fit :: "brief_numbers \<Rightarrow> int \<Rightarrow> bool" where
  "nodes_fit b n \<longleftrightarrow> 0 < n \<and> n \<le> b_max_nodes b \<and> b_requested b \<in> {None, Some n} \<and> b_listed b \<in> {None, Some n}"

definition minutes_fit :: "brief_numbers \<Rightarrow> bool" where
  "minutes_fit b \<longleftrightarrow> 0 < b_minutes b \<and> b_minutes b \<le> b_max_minutes b"

definition brief_fits :: "brief_numbers \<Rightarrow> bool" where
  "brief_fits b \<longleftrightarrow> (\<exists>n. nodes_fit b n) \<and> minutes_fit b \<and> b_breadth b \<le> b_max_breadth b"

definition group_named :: "string \<Rightarrow> brief_numbers \<Rightarrow> claims" where
  "group_named g b = the (map_of (groups_of b) g)"

lemma groups_named:
  "groups_of b = map (\<lambda>g. (g, group_named g b)) [''nodes'', ''minutes'', ''audience'']"
  by (simp add: group_named_def groups_of_def)

lemma group_about:
  "(name, c) \<in> set (group_named ''nodes'' b) \<Longrightarrow> cl_of c = ''requested_nodes''"
  "(name, c) \<in> set (group_named ''minutes'' b) \<Longrightarrow> cl_of c = ''minutes_per_lesson''"
  "(name, c) \<in> set (group_named ''audience'' b) \<Longrightarrow> cl_of c = ''audience_breadth''"
  by (auto simp: group_named_def groups_of_def claim_on_def claimed_def split: option.splits)

lemma group_bounds:
  "(\<forall>(name, c) \<in> set (group_named ''nodes'' b). compares (cl_is c) v (cl_bound c)) \<longleftrightarrow> nodes_fit b v"
  "(\<forall>(name, c) \<in> set (group_named ''minutes'' b). compares (cl_is c) v (cl_bound c))
     \<longleftrightarrow> minutes_fit b \<and> v = b_minutes b"
  "(\<forall>(name, c) \<in> set (group_named ''audience'' b). compares (cl_is c) v (cl_bound c))
     \<longleftrightarrow> b_breadth b \<le> b_max_breadth b \<and> v = b_breadth b"
  by (cases "b_requested b"; cases "b_listed b";
      auto simp: group_named_def groups_of_def claim_on_def claimed_def nodes_fit_def minutes_fit_def)+

lemma satisfiable_group:
  "satisfiable (group_named ''nodes'' b) \<longleftrightarrow> (\<exists>n. nodes_fit b n)"
  "satisfiable (group_named ''minutes'' b) \<longleftrightarrow> minutes_fit b"
  "satisfiable (group_named ''audience'' b) \<longleftrightarrow> b_breadth b \<le> b_max_breadth b"
  by (simp_all add: satisfiable_about [OF group_about(1)] satisfiable_about [OF group_about(2)]
      satisfiable_about [OF group_about(3)] group_bounds)

lemma satisfiable_groups:
  "list_all (\<lambda>g. satisfiable (snd g)) (groups_of b) \<longleftrightarrow> brief_fits b"
  by (simp add: groups_named brief_fits_def satisfiable_group)

definition stated_nodes :: "brief_numbers \<Rightarrow> int option" where
  "stated_nodes b = (case b_requested b of Some n \<Rightarrow> Some n | None \<Rightarrow> b_listed b)"

text \<open>What solving a group gives: a model of it when it holds, a core of it otherwise.\<close>

definition group_answer :: "string \<times> claims \<Rightarrow> (string \<times> int) list + (string \<times> string list) \<Rightarrow> bool" where
  "group_answer g r = (case r of
     Inl m \<Rightarrow> satisfiable (snd g) \<and> fst ` set m = cl_of ` snd ` set (snd g)
       \<and> (\<forall>(name, c) \<in> set (snd g). \<exists>v. map_of m (cl_of c) = Some v \<and> compares (cl_is c) v (cl_bound c))
   | Inr c \<Rightarrow> \<not> satisfiable (snd g) \<and> set (snd c) \<subseteq> fst ` set (snd g)
       \<and> \<not> satisfiable (core_of (snd g) (snd c)))"

lemma solved_answer:
  assumes "decides solve"
  obtains r where "solved solve g = Inr r" and "group_answer g r"
  using assms
proof (cases rule: solver_answers [where cs = "snd g"])
  case (sat m)
  then show thesis by (intro that [of "Inl m"]) (simp_all add: solved_def group_answer_def)
next
  case (unsat names)
  moreover have "core_of (snd g) (sort names) = core_of (snd g) names" by (simp add: core_of_def)
  ultimately show thesis
    by (intro that [of "Inr (fst g, sort names)"]) (simp_all add: solved_def group_answer_def)
qed

lemma traverse_solved:
  assumes "decides solve"
  obtains rs where "traverse (solved solve) gs = Inr rs" and "list_all2 group_answer gs rs"
proof (induction gs arbitrary: thesis)
  case Nil then show ?case by simp
next
  case (Cons g gs)
  obtain rs where rs: "traverse (solved solve) gs = Inr rs" "list_all2 group_answer gs rs"
    using Cons.IH by blast
  obtain r where "solved solve g = Inr r" "group_answer g r" by (rule solved_answer [OF assms])
  then show ?case using rs by (intro Cons.prems [of "r # rs"]) simp_all
qed

lemma no_conflicts:
  "list_all2 group_answer gs rs \<Longrightarrow> found_conflicts rs = [] \<longleftrightarrow> list_all (\<lambda>g. satisfiable (snd g)) gs"
  by (induction rule: list_all2_induct) (auto simp: group_answer_def split: sum.splits)

lemma conflict_cores:
  "list_all2 group_answer gs rs \<Longrightarrow> g \<in> set gs \<Longrightarrow> \<not> satisfiable (snd g) \<Longrightarrow>
     \<exists>c \<in> set (found_conflicts rs). \<not> satisfiable (core_of (snd g) (snd c))"
  by (induction rule: list_all2_induct) (auto simp: group_answer_def split: sum.splits)

lemma conflicts_are_of_groups:
  "list_all2 group_answer gs rs \<Longrightarrow> c \<in> set (found_conflicts rs) \<Longrightarrow>
     \<exists>g \<in> set gs. \<not> satisfiable (snd g) \<and> set (snd c) \<subseteq> fst ` set (snd g)"
  by (induction rule: list_all2_induct) (auto simp: group_answer_def split: sum.splits)

lemma core_of_mono:
  "set names \<subseteq> set others \<Longrightarrow> satisfiable (core_of cs others) \<Longrightarrow> satisfiable (core_of cs names)"
  by (auto simp: satisfiable_def core_of_def)

section \<open>The model of the groups that hold\<close>

lemma group_variables:
  "cl_of ` snd ` set (group_named ''nodes'' b) = {''requested_nodes''}"
  "cl_of ` snd ` set (group_named ''minutes'' b) = {''minutes_per_lesson''}"
  "cl_of ` snd ` set (group_named ''audience'' b) = {''audience_breadth''}"
  by (cases "b_requested b"; cases "b_listed b";
      simp add: group_named_def groups_of_def claim_on_def claimed_def)+

lemma model_value:
  assumes "group_answer (g, cs) (Inl m)" and "cl_of ` snd ` set cs = {x}"
  obtains v where "map_of m x = Some v" and "\<forall>(name, c) \<in> set cs. compares (cl_is c) v (cl_bound c)"
    and "\<And>y. y \<noteq> x \<Longrightarrow> map_of m y = None"
proof -
  have about: "cl_of c = x" if "(name, c) \<in> set cs" for name c using assms(2) that by force
  obtain name c where "(name, c) \<in> set cs" using assms(2) by force
  moreover have all: "\<forall>(name, c) \<in> set cs. \<exists>v. map_of m (cl_of c) = Some v \<and> compares (cl_is c) v (cl_bound c)"
    using assms(1) by (simp add: group_answer_def)
  ultimately obtain v where "map_of m x = Some v" using about by force
  moreover from this have "\<forall>(name, c) \<in> set cs. compares (cl_is c) v (cl_bound c)"
    using all about by fastforce
  moreover have "map_of m y = None" if "y \<noteq> x" for y
    using assms that by (simp add: group_answer_def map_of_eq_None_iff)
  ultimately show thesis by (rule that)
qed

lemma values_of_models:
  assumes "list_all2 group_answer (groups_of b) rs" and "found_conflicts rs = []"
  obtains n where "nodes_fit b n" and "value_in (found_values rs) ''requested_nodes'' = PInt n"
    and "value_in (found_values rs) ''minutes_per_lesson'' = PInt (b_minutes b)"
proof -
  obtain r1 r2 r3 where rs: "rs = [r1, r2, r3]"
    using assms(1) by (auto simp: groups_named list_all2_Cons1)
  then obtain m1 m2 m3 where m: "rs = [Inl m1, Inl m2, Inl m3]"
    using assms(2) by (cases r1; cases r2; cases r3) auto
  then have a: "group_answer (''nodes'', group_named ''nodes'' b) (Inl m1)"
    "group_answer (''minutes'', group_named ''minutes'' b) (Inl m2)"
    "group_answer (''audience'', group_named ''audience'' b) (Inl m3)"
    using assms(1) by (simp_all add: groups_named)
  obtain n where n: "map_of m1 ''requested_nodes'' = Some n" "nodes_fit b n"
    using a(1) group_variables(1) by (rule model_value) (simp add: group_bounds)
  obtain v where v: "map_of m2 ''minutes_per_lesson'' = Some v" "v = b_minutes b"
      "map_of m2 ''requested_nodes'' = None"
    using a(2) group_variables(2) by (rule model_value) (simp add: group_bounds)
  obtain w where "map_of m3 ''requested_nodes'' = None" "map_of m3 ''minutes_per_lesson'' = None"
    using a(3) group_variables(3) by (rule model_value) simp
  then show thesis using n v m by (intro that [of n]) (simp_all add: value_in_def map_add_def)
qed

lemma stated_nodes_fit:
  assumes "numbers_of brief th = Inr b" and "unstated brief = []" and "nodes_fit b n"
  shows "stated_nodes b = Some n"
proof -
  have "dget brief ''requested_nodes'' \<noteq> PNone \<or> dget brief ''nodes'' \<noteq> PNone"
    using assms(2) by (simp add: unstated_def split: if_splits)
  then have "b_requested b \<noteq> None \<or> b_listed b \<noteq> None"
    using assms(1) by (auto simp: numbers_of_def when_stated_def split: if_splits)
  then show ?thesis using assms(3) by (auto simp: stated_nodes_def nodes_fit_def split: option.splits)
qed

lemma check_feasible_solved:
  assumes "decides solve" and "numbers_of brief th = Inr b" and "unstated brief = []" and "absent_limits th = []"
  obtains rs where "list_all2 group_answer (groups_of b) rs"
    and "check_feasible solve brief th = Inr (group_verdict rs)"
proof -
  obtain rs where "traverse (solved solve) (groups_of b) = Inr rs" "list_all2 group_answer (groups_of b) rs"
    by (rule traverse_solved [OF assms(1)])
  then show thesis using assms(2-4)
    by (intro that [of rs]) (simp_all add: check_feasible_def constraint_groups_def Let_def)
qed

lemma v_ok_group_verdict: "v_ok (group_verdict rs) \<longleftrightarrow> found_conflicts rs = []"
  by (simp add: group_verdict_def refuse_def Let_def)

section \<open>What the guards decide\<close>

text \<open>C21. A brief that states its numbers, under limits the organisation sets, is allowed exactly
  when the numbers fit the limits and agree with each other, and the verdict then carries the
  count and the minutes the brief stated; nothing is filled in.\<close>

theorem feasible_verdict:
  assumes "decides solve" and "numbers_of brief th = Inr b"
    and "unstated brief = []" and "absent_limits th = []"
  shows "\<exists>v. check_feasible solve brief th = Inr v \<and> v_ok v = brief_fits b
    \<and> (brief_fits b \<longrightarrow> v = Allowed [(PStr ''engine'', PStr ''z3''),
         (PStr ''nodes'', PInt (the (stated_nodes b))), (PStr ''minutes'', PInt (b_minutes b))])"
proof -
  obtain rs where rs: "list_all2 group_answer (groups_of b) rs"
    and v: "check_feasible solve brief th = Inr (group_verdict rs)"
    by (rule check_feasible_solved [OF assms])
  have fits: "found_conflicts rs = [] \<longleftrightarrow> brief_fits b"
    using no_conflicts [OF rs] satisfiable_groups by simp
  show ?thesis
  proof (cases "brief_fits b")
    case True
    then obtain n where "nodes_fit b n" "value_in (found_values rs) ''requested_nodes'' = PInt n"
      "value_in (found_values rs) ''minutes_per_lesson'' = PInt (b_minutes b)"
      using rs fits True by (auto intro: values_of_models)
    moreover have "stated_nodes b = Some n"
      using assms(2,3) \<open>nodes_fit b n\<close> by (rule stated_nodes_fit)
    ultimately show ?thesis using v fits True by (simp add: group_verdict_def Let_def)
  next
    case False then show ?thesis using v fits by (simp add: v_ok_group_verdict)
  qed
qed

text \<open>C22. When the numbers collide, the refusal names claims enough to show every quantity that
  cannot be met, so an author who breaks several limits is told of all of them at once, and it
  names none about a quantity that can.\<close>

theorem every_collision_named:
  assumes "decides solve" and "check_feasible solve brief th = Inr (RefusedBy r)"
    and "ref_kind r = ''unsat-core''"
  shows "\<exists>b names. numbers_of brief th = Inr b \<and> ref_detail r = strs names
    \<and> (\<forall>(g, cs) \<in> set (groups_of b). satisfiable cs \<longleftrightarrow> satisfiable (core_of cs names))
    \<and> (\<forall>n \<in> set names. \<exists>(g, cs) \<in> set (groups_of b). \<not> satisfiable cs \<and> n \<in> fst ` set cs)"
proof -
  have stated: "unstated brief = []" "absent_limits th = []"
    using assms(2,3) by (auto simp: check_feasible_def refuse_def split: if_splits)
  then obtain b where b: "numbers_of brief th = Inr b"
    using assms(2) by (auto simp: check_feasible_def constraint_groups_def)
  obtain rs where rs: "list_all2 group_answer (groups_of b) rs"
    and v: "check_feasible solve brief th = Inr (group_verdict rs)"
    by (rule check_feasible_solved [OF assms(1) b stated])
  let ?names = "sorted_names (concat (map snd (found_conflicts rs)))"
  have detail: "ref_detail r = strs ?names"
    using v assms(2,3) by (auto simp: group_verdict_def refuse_def Let_def split: if_splits)
  have "satisfiable cs \<longleftrightarrow> satisfiable (core_of cs ?names)" if g: "(g, cs) \<in> set (groups_of b)" for g cs
  proof
    show "satisfiable (core_of cs ?names)" if "satisfiable cs" using that by (rule satisfiable_core)
    show "satisfiable cs" if s: "satisfiable (core_of cs ?names)"
    proof (rule ccontr)
      assume "\<not> satisfiable cs"
      then obtain c where c: "c \<in> set (found_conflicts rs)" "\<not> satisfiable (core_of cs (snd c))"
        using conflict_cores [OF rs g] by auto
      moreover have "set (snd c) \<subseteq> set ?names" using c(1) by auto
      ultimately show False using core_of_mono s by blast
    qed
  qed
  moreover have "\<exists>(g, cs) \<in> set (groups_of b). \<not> satisfiable cs \<and> n \<in> fst ` set cs" if "n \<in> set ?names" for n
  proof -
    have "\<exists>c \<in> set (found_conflicts rs). n \<in> set (snd c)" using that by simp
    then show ?thesis using conflicts_are_of_groups [OF rs] by fastforce
  qed
  ultimately show ?thesis using b detail by blast
qed

text \<open>The groups share no quantity: all the claims of a brief can hold at once exactly when
  each group can on its own, so solving group by group misses nothing.\<close>

theorem groups_are_independent:
  "satisfiable (concat (map snd (groups_of b))) = list_all (\<lambda>g. satisfiable (snd g)) (groups_of b)"
proof
  assume "satisfiable (concat (map snd (groups_of b)))"
  then show "list_all (\<lambda>g. satisfiable (snd g)) (groups_of b)"
    unfolding satisfiable_def list_all_iff by fastforce
next
  assume "list_all (\<lambda>g. satisfiable (snd g)) (groups_of b)"
  then obtain n where n: "nodes_fit b n" "minutes_fit b" "b_breadth b \<le> b_max_breadth b"
    by (auto simp: satisfiable_groups brief_fits_def)
  let ?f = "\<lambda>x. if x = ''requested_nodes'' then n else if x = ''minutes_per_lesson'' then b_minutes b else b_breadth b"
  have "\<forall>(name, c) \<in> set (concat (map snd (groups_of b))). holds ?f c"
    using n group_bounds(1) [of b n] group_bounds(2) [of b "b_minutes b"] group_bounds(3) [of b "b_breadth b"]
      group_about [of _ _ b]
    by (fastforce simp: groups_named holds_def)
  then show "satisfiable (concat (map snd (groups_of b)))" unfolding satisfiable_def by blast
qed

section \<open>The sums of a node\<close>

definition number_in :: "pyval \<Rightarrow> int" where
  "number_in v = (case as_int v of None \<Rightarrow> 0 | Some i \<Rightarrow> i)"

lemma py_int_whole: "whole_number v \<Longrightarrow> py_int v = Inr (number_in v)"
proof (induction v rule: whole_number.induct)
  case (2 x)
  then show ?case
    by (cases x) (auto simp: number_in_def div_minus_minus dvd_eq_mod_eq_0 [symmetric] dvd_neg_div
        split: option.splits if_splits)
qed (simp_all add: number_in_def)

definition limit_in :: "pydict \<Rightarrow> string \<Rightarrow> int" where
  "limit_in th k = (case dget th k of PInt i \<Rightarrow> i | _ \<Rightarrow> 0)"

definition asked_in :: "pydict \<Rightarrow> pyval" where
  "asked_in nd = (if dget nd ''type'' = PStr ''exam''
     then PList (filter is_quiz (items_of (dget nd ''blocks''))) else dget nd ''questions'')"

text \<open>
  What the structural checks before this one leave: blocks and questions are lists where they
  are stated, a question is an object, and a threshold is a number where there is one.
\<close>

fun list_or_none :: "pyval \<Rightarrow> bool" where
  "list_or_none PNone = True"
| "list_or_none (PList xs) = True"
| "list_or_none _ = False"

definition plain_sums :: "pydict \<Rightarrow> pydict \<Rightarrow> bool" where
  "plain_sums nd th \<longleftrightarrow> list_or_none (dget nd ''blocks'') \<and> list_or_none (dget nd ''questions'')
     \<and> list_all is_pdict (items_of (dget nd ''questions''))
     \<and> list_all (\<lambda>k. dget th k = PNone \<or> is_whole (dget th k))
         [''minutes_per_block'', ''min_words_per_minute'', ''lesson_minutes'']"

definition words_written :: "pydict \<Rightarrow> int" where
  "words_written nd = int (sum_list (map block_words (items_of (dget nd ''blocks''))))"

definition total_holds :: "pydict \<Rightarrow> bool" where
  "total_holds nd \<longleftrightarrow> asked_in nd = PNone
     \<or> 0 < number_in (dget nd ''points_total'')
       \<and> number_in (dget nd ''points_total'') = sum_list (map (number_in \<circ> points_of) (items_of (asked_in nd)))"

definition length_holds :: "pydict \<Rightarrow> pydict \<Rightarrow> bool" where
  "length_holds nd th \<longleftrightarrow> 0 < number_in (dget nd ''minutes'')
     \<and> (limit_in th ''minutes_per_block'' \<noteq> 0 \<longrightarrow> number_in (dget nd ''minutes'')
          = limit_in th ''minutes_per_block'' * int (length (items_of (dget nd ''blocks''))))"

definition words_hold :: "pydict \<Rightarrow> pydict \<Rightarrow> bool" where
  "words_hold nd th \<longleftrightarrow> limit_in th ''min_words_per_minute'' = 0 \<or> dget nd ''type'' \<noteq> PStr ''topic''
     \<or> limit_in th ''min_words_per_minute''
         * max (number_in (dget nd ''minutes'')) (limit_in th ''lesson_minutes'') \<le> words_written nd"

text \<open>The reference: nothing is half said, every number is whole, and both sums hold.\<close>

definition adds_up :: "pydict \<Rightarrow> pydict \<Rightarrow> bool" where
  "adds_up nd th \<longleftrightarrow>
     (asked_in nd = PNone \<longleftrightarrow> dget nd ''points_total'' = PNone)
     \<and> (dget nd ''blocks'' \<noteq> PNone \<longrightarrow> dget nd ''minutes'' \<noteq> PNone)
     \<and> list_all (\<lambda>k. dget nd k = PNone \<or> whole_number (dget nd k)) [''points_total'', ''minutes'']
     \<and> list_all (whole_number \<circ> points_of) (items_of (asked_in nd))
     \<and> total_holds nd
     \<and> (dget nd ''blocks'' = PNone \<or> length_holds nd th \<and> words_hold nd th)"

lemma list_or_none_cases:
  assumes "list_or_none v"
  obtains "v = PNone" | xs where "v = PList xs"
  using assms by (cases v) auto

lemma iter_of_or_none: "list_or_none v \<Longrightarrow> iter_of (py_or v (PList [])) = Inr (items_of v)"
  by (erule list_or_none_cases) (simp_all add: py_or_def)

lemma questions_of_plain: "plain_sums nd th \<Longrightarrow> questions_of nd = Inr (asked_in nd)"
  by (simp add: plain_sums_def questions_of_def asked_in_def iter_of_or_none)

lemma asked_plain:
  assumes "plain_sums nd th"
  shows "list_or_none (asked_in nd)" and "list_all is_pdict (items_of (asked_in nd))"
  using assms by (auto simp: plain_sums_def asked_in_def is_quiz_def list_all_iff)

lemma limit_plain:
  "dget th k = PNone \<or> is_whole (dget th k) \<Longrightarrow> int_or_zero th k = Inr (limit_in th k)"
  by (cases "dget th k") (auto simp: int_or_zero_def limit_in_def py_or_def is_whole_def)

lemma limits_plain:
  assumes "plain_sums nd th" and "k \<in> {''minutes_per_block'', ''min_words_per_minute'', ''lesson_minutes''}"
  shows "int_or_zero th k = Inr (limit_in th k)"
  using assms by (intro limit_plain) (auto simp: plain_sums_def)

lemma none_enumerated: "filter (\<lambda>(i, q). \<not> P q) (enumerate n qs) = [] \<longleftrightarrow> list_all P qs"
  by (induction qs arbitrary: n) auto

lemma not_integers_plain:
  "plain_sums nd th \<Longrightarrow> \<exists>wrong. not_integers show nd (asked_in nd) = Inr wrong \<and> (wrong = [] \<longleftrightarrow>
     list_all (\<lambda>k. dget nd k = PNone \<or> whole_number (dget nd k)) [''points_total'', ''minutes'']
     \<and> list_all (whole_number \<circ> points_of) (items_of (asked_in nd)))"
  using asked_plain(1)
  by (simp add: not_integers_def iter_of_or_none Let_def none_enumerated comp_def)

lemma traverse_points:
  "list_all is_pdict qs \<Longrightarrow> list_all (whole_number \<circ> points_of) qs \<Longrightarrow>
     traverse points_at qs = Inr (map (number_in \<circ> points_of) qs)"
proof (induction qs)
  case (Cons q qs)
  then obtain d where "q = PDict d" by (cases q) auto
  then show ?case using Cons by (simp add: py_int_whole del: points_of.simps)
qed simp


text \<open>The claims a plain node becomes.\<close>

definition total_claims :: "pydict \<Rightarrow> claims" where
  "total_claims nd = (if asked_in nd = PNone then [] else
     [(''points_total_is_as_stated'', claim_on ''points_total'' Exactly (number_in (dget nd ''points_total''))),
      (''points_sum_to_the_total'', claim_on ''points_total'' Exactly
         (sum_list (map (number_in \<circ> points_of) (items_of (asked_in nd))))),
      (''an_exam_is_worth_something'', claim_on ''points_total'' Above 0)])"

definition duration_claims :: "pydict \<Rightarrow> pydict \<Rightarrow> claims" where
  "duration_claims nd th = (''duration_is_as_stated'', claim_on ''minutes'' Exactly (number_in (dget nd ''minutes'')))
     # (if limit_in th ''minutes_per_block'' = 0 then [] else
         [(''duration_matches_the_block_count'', claim_on ''minutes'' Exactly
            (limit_in th ''minutes_per_block'' * int (length (items_of (dget nd ''blocks'')))))])
     @ [(''a_node_takes_time'', claim_on ''minutes'' Above 0)]"

definition writing_claims :: "pydict \<Rightarrow> pydict \<Rightarrow> claims" where
  "writing_claims nd th =
     (if limit_in th ''min_words_per_minute'' = 0 \<or> dget nd ''type'' \<noteq> PStr ''topic'' then [] else
       [(''words_are_as_written'', claim_on ''words'' Exactly (words_written nd)),
        (''enough_words_for_the_minutes'', claim_on ''words'' At_least (limit_in th ''min_words_per_minute''
           * max (number_in (dget nd ''minutes'')) (limit_in th ''lesson_minutes'')))])"

definition sum_claims :: "pydict \<Rightarrow> pydict \<Rightarrow> claims" where
  "sum_claims nd th = total_claims nd
     @ (if dget nd ''blocks'' = PNone then [] else duration_claims nd th @ writing_claims nd th)"

text \<open>Nothing half said, nothing that is not whole.\<close>

definition whole_node :: "pydict \<Rightarrow> bool" where
  "whole_node nd \<longleftrightarrow> (asked_in nd = PNone \<longleftrightarrow> dget nd ''points_total'' = PNone)
     \<and> (dget nd ''blocks'' \<noteq> PNone \<longrightarrow> dget nd ''minutes'' \<noteq> PNone)
     \<and> list_all (\<lambda>k. dget nd k = PNone \<or> whole_number (dget nd k)) [''points_total'', ''minutes'']
     \<and> list_all (whole_number \<circ> points_of) (items_of (asked_in nd))"

lemma adds_up_whole: "adds_up nd th \<longleftrightarrow> whole_node nd \<and> total_holds nd
    \<and> (dget nd ''blocks'' = PNone \<or> length_holds nd th \<and> words_hold nd th)"
  by (simp add: adds_up_def whole_node_def conj_assoc)

lemma half_said_iff: "half_said nd q = [] \<longleftrightarrow> (q = PNone \<longleftrightarrow> dget nd ''points_total'' = PNone)
    \<and> (dget nd ''blocks'' \<noteq> PNone \<longrightarrow> dget nd ''minutes'' \<noteq> PNone)"
  by (auto simp: half_said_def)

lemma exam_claims_plain:
  assumes "plain_sums nd th" and "whole_node nd"
  shows "exam_claims nd (asked_in nd) = Inr (total_claims nd)"
proof -
  have "traverse points_at (items_of (asked_in nd)) = Inr (map (number_in \<circ> points_of) (items_of (asked_in nd)))"
    using assms asked_plain by (intro traverse_points) (simp_all add: whole_node_def)
  moreover have "list_or_none (asked_in nd)" using assms(1) by (rule asked_plain)
  ultimately show ?thesis using assms(2)
    by (auto simp: exam_claims_def total_claims_def whole_node_def py_int_whole elim!: list_or_none_cases)
qed

lemma words_in_plain: "plain_sums nd th \<Longrightarrow> words_in (dget nd ''blocks'') = Inr (words_written nd)"
  by (simp add: words_in_def words_written_def plain_sums_def iter_of_or_none)

lemma floor_plain:
  assumes "plain_sums nd th" and "whole_node nd" and "dget nd ''blocks'' \<noteq> PNone"
  shows "floor_minutes nd th = Inr (max (number_in (dget nd ''minutes'')) (limit_in th ''lesson_minutes''))"
  using assms limits_plain [OF assms(1)] by (auto simp: floor_minutes_def whole_node_def py_int_whole)

lemma tracked_plain:
  assumes "plain_sums nd th" and "whole_node nd"
  shows "tracked_claims nd th (asked_in nd) = Inr (sum_claims nd th)"
proof (cases "dget nd ''blocks'' = PNone")
  case True then show ?thesis using exam_claims_plain [OF assms] by (simp add: tracked_claims_def sum_claims_def)
next
  case False
  then obtain xs where xs: "dget nd ''blocks'' = PList xs"
    using assms(1) by (auto simp: plain_sums_def elim: list_or_none_cases)
  have "length_claims nd th = Inr (duration_claims nd th)"
    using assms xs limits_plain [OF assms(1)]
    by (auto simp: length_claims_def duration_claims_def whole_node_def py_int_whole)
  moreover have "word_claims nd th = Inr (writing_claims nd th)"
    using words_in_plain [OF assms(1)] floor_plain [OF assms False] limits_plain [OF assms(1)]
    by (simp add: word_claims_def writing_claims_def)
  ultimately show ?thesis using exam_claims_plain [OF assms] False
    by (simp add: tracked_claims_def sum_claims_def)
qed

lemma satisfiable_sums:
  "satisfiable (sum_claims nd th) \<longleftrightarrow> total_holds nd
     \<and> (dget nd ''blocks'' = PNone \<or> length_holds nd th \<and> words_hold nd th)" (is "_ \<longleftrightarrow> ?sums")
proof
  assume "satisfiable (sum_claims nd th)"
  then obtain f where f: "\<forall>(name, c) \<in> set (sum_claims nd th). holds f c" by (auto simp: satisfiable_def)
  show ?sums using f
    by (auto simp: sum_claims_def total_claims_def duration_claims_def writing_claims_def total_holds_def
        length_holds_def words_hold_def holds_def claim_on_def split: if_splits)
next
  assume ?sums
  let ?f = "\<lambda>x. if x = ''points_total'' then number_in (dget nd ''points_total'')
    else if x = ''minutes'' then number_in (dget nd ''minutes'') else words_written nd"
  have "\<forall>(name, c) \<in> set (sum_claims nd th). holds ?f c" using \<open>?sums\<close>
    by (auto simp: sum_claims_def total_claims_def duration_claims_def writing_claims_def total_holds_def
        length_holds_def words_hold_def holds_def claim_on_def split: if_splits)
  then show "satisfiable (sum_claims nd th)" unfolding satisfiable_def by blast
qed


lemma failing_sum_plain:
  assumes "plain_sums nd th" and "whole_node nd" and "set names \<subseteq> fst ` set (sum_claims nd th)"
  obtains r where "failing_sum show nd th names = Inr (RefusedBy r)"
proof (cases "''enough_words_for_the_minutes'' \<in> set names")
  case True
  then have "''enough_words_for_the_minutes'' \<in> fst ` set (sum_claims nd th)" using assms(3) by blast
  then have blocks: "dget nd ''blocks'' \<noteq> PNone" and rate: "limit_in th ''min_words_per_minute'' \<noteq> 0"
    by (auto simp: sum_claims_def total_claims_def duration_claims_def writing_claims_def split: if_splits)
  obtain i where i: "dlookup th ''min_words_per_minute'' = Some (PInt i)"
    using assms(1) rate by (cases "dget th ''min_words_per_minute''")
      (auto simp: plain_sums_def limit_in_def is_whole_def dget_def split: option.splits)
  show thesis using True i words_in_plain [OF assms(1)] floor_plain [OF assms(1,2) blocks] that
    by (simp add: failing_sum_def Let_def int_at_def item_def refuse_def)
next
  case False then show thesis using that by (simp add: failing_sum_def Let_def refuse_def)
qed

text \<open>C23. A node passes the arithmetic check exactly when it says nothing by halves, its numbers
  are whole, an exam's points reach its total, the minutes match its blocks, and a lesson holds
  the words its minutes ask for; on such data the check always gives a verdict.\<close>

theorem arithmetic_verdict:
  assumes "decides solve" and "plain_sums nd th"
  shows "\<exists>v. check_arithmetic solve show nd th = Inr v \<and> v_ok v = adds_up nd th"
proof (cases "half_said nd (asked_in nd) = []")
  case False
  then have "\<not> adds_up nd th" by (auto simp: half_said_iff adds_up_def)
  then show ?thesis using False
    by (simp add: check_arithmetic_def questions_of_plain [OF assms(2)] Let_def refuse_def)
next
  case halves: True
  obtain wrong where wrong: "not_integers show nd (asked_in nd) = Inr wrong" "wrong = [] \<longleftrightarrow> whole_node nd"
    using not_integers_plain [OF assms(2), of "show"] halves unfolding whole_node_def half_said_iff by blast
  show ?thesis
  proof (cases "whole_node nd")
    case False
    moreover from this obtain w ws where "wrong = w # ws" using wrong by (cases wrong) auto
    ultimately show ?thesis using wrong(1) halves
      by (simp add: check_arithmetic_def questions_of_plain [OF assms(2)] Let_def refuse_def adds_up_whole)
  next
    case True
    note run = check_arithmetic_def questions_of_plain [OF assms(2)] tracked_plain [OF assms(2) True] Let_def
    have adds: "adds_up nd th \<longleftrightarrow> satisfiable (sum_claims nd th)" using True by (simp add: adds_up_whole satisfiable_sums)
    show ?thesis
    proof (cases "sum_claims nd th = []")
      case none: True
      then have "satisfiable (sum_claims nd th)" by (simp add: satisfiable_def)
      then show ?thesis using none wrong True halves adds by (simp add: run summed_def)
    next
      case some: False
      show ?thesis using assms(1)
      proof (cases rule: solver_answers [where cs = "sum_claims nd th"])
        case (sat m) then show ?thesis using some wrong True halves adds by (simp add: run summed_def)
      next
        case (unsat names)
        obtain r where "failing_sum show nd th names = Inr (RefusedBy r)"
          using failing_sum_plain [OF assms(2) True unsat(3)] .
        then show ?thesis using unsat some wrong True halves adds by (simp add: run)
      qed
    qed
  qed
qed

text \<open>A question that is a number and not an object is not refused by its path: it counts as
  whole, and reading its points raises.\<close>

theorem a_bare_question_raises:
  "check_arithmetic solve show [(PStr ''id'', PStr ''n1''), (PStr ''questions'', PList [PInt 5]),
     (PStr ''points_total'', PInt 5)] th = Inl (PyError ''AttributeError'')"
  by (simp add: check_arithmetic_def questions_of_def half_said_def not_integers_def py_or_def
      tracked_claims_def exam_claims_def)

section \<open>Witnesses\<close>

text \<open>A brief that asks for three nodes of forty minutes, and one that breaks two limits.\<close>

definition sample_limits :: pydict where
  "sample_limits = [(PStr ''max_nodes_per_course'', PInt 5), (PStr ''max_minutes_per_lesson'', PInt 30),
     (PStr ''max_audience_breadth'', PInt 2), (PStr ''min_words_per_minute'', PInt 1),
     (PStr ''minutes_per_block'', PInt 2)]"

definition sample_brief :: "int \<Rightarrow> int \<Rightarrow> pydict" where
  "sample_brief n m = [(PStr ''requested_nodes'', PInt n), (PStr ''minutes_per_lesson'', PInt m),
     (PStr ''audience'', strs [''staff''])]"

lemma feasible_verdict_witness:
  "check_feasible by_bounds (sample_brief 3 20) sample_limits = Inr (Allowed [(PStr ''engine'', PStr ''z3''),
     (PStr ''nodes'', PInt 3), (PStr ''minutes'', PInt 20)])"
proof -
  have b: "numbers_of (sample_brief 3 20) sample_limits = Inr \<lparr>b_max_nodes = 5, b_minutes = 20,
    b_max_minutes = 30, b_breadth = 1, b_max_breadth = 2, b_requested = Some 3, b_listed = None\<rparr>" (is "_ = Inr ?b")
    by code_simp
  have stated: "unstated (sample_brief 3 20) = []" "absent_limits sample_limits = []" by code_simp+
  have "nodes_fit ?b 3" "minutes_fit ?b" "b_breadth ?b \<le> b_max_breadth ?b"
    by (simp_all add: nodes_fit_def minutes_fit_def)
  then have "brief_fits ?b" unfolding brief_fits_def by blast
  then show ?thesis
    using feasible_verdict [OF by_bounds_decides b stated] by (simp add: stated_nodes_def)
qed

lemma every_collision_named_witness:
  "\<exists>r b names. check_feasible by_bounds (sample_brief 9 90) sample_limits = Inr (RefusedBy r)
     \<and> numbers_of (sample_brief 9 90) sample_limits = Inr b \<and> ref_detail r = strs names
     \<and> \<not> satisfiable (core_of (group_named ''nodes'' b) names)
     \<and> \<not> satisfiable (core_of (group_named ''minutes'' b) names)"
proof -
  have "case check_feasible by_bounds (sample_brief 9 90) sample_limits of
      Inr (RefusedBy r) \<Rightarrow> ref_kind r = ''unsat-core'' | _ \<Rightarrow> False" by code_simp
  then obtain r where r: "check_feasible by_bounds (sample_brief 9 90) sample_limits = Inr (RefusedBy r)"
    "ref_kind r = ''unsat-core''" by (auto split: sum.splits verdict.splits)
  have b': "numbers_of (sample_brief 9 90) sample_limits = Inr \<lparr>b_max_nodes = 5, b_minutes = 90,
    b_max_minutes = 30, b_breadth = 1, b_max_breadth = 2, b_requested = Some 9, b_listed = None\<rparr>" (is "_ = Inr ?b")
    by code_simp
  obtain names where "ref_detail r = strs names"
    and all: "\<forall>(g, cs) \<in> set (groups_of ?b). satisfiable cs \<longleftrightarrow> satisfiable (core_of cs names)"
    using every_collision_named [OF by_bounds_decides r] b' by auto
  moreover have "\<not> satisfiable (group_named ''nodes'' ?b)" "\<not> satisfiable (group_named ''minutes'' ?b)"
    by (simp_all add: satisfiable_group nodes_fit_def minutes_fit_def)
  ultimately show ?thesis using r(1) b' by (intro exI [of _ r] exI [of _ ?b] exI [of _ names])
    (auto simp: groups_named)
qed

text \<open>A lesson of four words that lasts two minutes, in one block.\<close>

definition short_lesson :: pydict where
  "short_lesson = [(PStr ''id'', PStr ''n1''), (PStr ''type'', PStr ''topic''), (PStr ''minutes'', PInt 2),
     (PStr ''blocks'', PList [PDict [(PStr ''type'', PStr ''paragraph''), (PStr ''text'', PStr ''one two  three four'')]])]"

lemma arithmetic_verdict_witness:
  "\<exists>v. check_arithmetic by_bounds (\<lambda>_. ''?'') short_lesson sample_limits = Inr v \<and> v_ok v"
proof -
  have "plain_sums short_lesson sample_limits" "adds_up short_lesson sample_limits" by code_simp+
  then show ?thesis using arithmetic_verdict [OF by_bounds_decides] by metis
qed

end
