(* ===== verification/Json.thy ===== *)
theory Json
  imports Containers
begin

text \<open>
  \<open>json.dumps(value, sort_keys=True)\<close>, as the gateway uses it to name an act or a content by
  a digest: with the compact separators for the idempotency key and the default ones for a
  content.  Characters are code points below 256, escaped as \<open>ensure_ascii\<close> does.  How a float
  is printed is the parameter \<open>decimal_float\<close>.
\<close>

section \<open>Text\<close>

definition hex :: "nat \<Rightarrow> char" where
  "hex n = (if n < 10 then char_of (48 + n) else char_of (87 + n))"

definition escaped :: "char \<Rightarrow> string" where
  "escaped c = (let n = of_char c :: nat in
     if c = CHR 0x22 then [CHR 0x5C, CHR 0x22]
     else if c = CHR 0x5C then [CHR 0x5C, CHR 0x5C]
     else if n = 10 then [CHR 0x5C, CHR ''n'']
     else if n = 13 then [CHR 0x5C, CHR ''r'']
     else if n = 9 then [CHR 0x5C, CHR ''t'']
     else if n = 12 then [CHR 0x5C, CHR ''f'']
     else if n = 8 then [CHR 0x5C, CHR ''b'']
     else if 32 \<le> n \<and> n < 127 then [c]
     else [CHR 0x5C, CHR ''u'', CHR ''0'', CHR ''0'', hex (n div 16), hex (n mod 16)])"

definition quoted :: "string \<Rightarrow> string" where
  "quoted s = CHR 0x22 # concat (map escaped s) @ [CHR 0x22]"

section \<open>Values\<close>

fun joined_by :: "string \<Rightarrow> string list \<Rightarrow> string" where
  "joined_by sep [] = []"
| "joined_by sep [x] = x"
| "joined_by sep (x # xs) = x @ sep @ joined_by sep xs"

text \<open>
  The key as the text it is written as.  Keys are sorted as text or as whole numbers; a
  dictionary whose keys do not compare with each other raises.
\<close>

fun key_text :: "(pyfloat \<Rightarrow> string) \<Rightarrow> pyval \<Rightarrow> string" where
  "key_text fl (PStr s) = s"
| "key_text fl (PInt i) = int_text i"
| "key_text fl (PBool b) = (if b then ''true'' else ''false'')"
| "key_text fl (PFloat x) = fl x"
| "key_text fl _ = ''null''"

definition sorted_entries :: "(pyval \<times> 'a) list \<Rightarrow> (pyval \<times> 'a) list" where
  "sorted_entries d =
     (if list_all (is_pstr \<circ> fst) d then sort_key (str_of \<circ> fst) d
      else if list_all (is_whole \<circ> fst) d then sort_key (whole \<circ> fst) d
      else d)"

definition sortable :: "(pyval \<times> 'a) list \<Rightarrow> bool" where
  "sortable d \<longleftrightarrow> list_all (is_pstr \<circ> fst) d \<or> list_all (is_whole \<circ> fst) d \<or> length d \<le> 1"

fun dumpable :: "pyval \<Rightarrow> bool" where
  "dumpable (PList xs) = (\<forall>x \<in> set xs. dumpable x)"
| "dumpable (PDict d) = (sortable d \<and> (\<forall>(k, v) \<in> set d. dumpable v))"
| "dumpable _ = True"

fun written :: "string \<Rightarrow> string \<Rightarrow> (pyfloat \<Rightarrow> string) \<Rightarrow> pyval \<Rightarrow> string" where
  "written comma colon fl PNone = ''null''"
| "written comma colon fl (PBool b) = (if b then ''true'' else ''false'')"
| "written comma colon fl (PInt i) = int_text i"
| "written comma colon fl (PFloat x) = fl x"
| "written comma colon fl (PStr s) = quoted s"
| "written comma colon fl (PList xs) = ''['' @ joined_by comma (map (written comma colon fl) xs) @ '']''"
| "written comma colon fl (PDict d) = ''{'' @ joined_by comma
     (map (\<lambda>(k, t). quoted (key_text fl k) @ colon @ t)
       (sorted_entries (map (\<lambda>(k, v). (k, written comma colon fl v)) d))) @ ''}''"

definition dumps :: "string \<Rightarrow> string \<Rightarrow> (pyfloat \<Rightarrow> string) \<Rightarrow> pyval \<Rightarrow> exn + string" where
  "dumps comma colon fl v = (if dumpable v then Inr (written comma colon fl v) else Inl type_error)"

definition compact :: "(pyfloat \<Rightarrow> string) \<Rightarrow> pyval \<Rightarrow> exn + string" where
  "compact = dumps '','' '':''"

definition spread :: "(pyfloat \<Rightarrow> string) \<Rightarrow> pyval \<Rightarrow> exn + string" where
  "spread = dumps '', '' '': ''"

end
