(* ===== verification/Actions.thy ===== *)
theory Actions
  imports Json Store_Guards
begin

text \<open>
  The action registry (\<open>gateway/actions.py\<close>) and what names an act: the idempotency key and
  its subject (\<open>gateway/action_subject.py\<close>).  The digest of a text is a parameter.
  A dash in a text of the source is a colon here.
\<close>

section \<open>The registry\<close>

datatype required_party = Person | System | Nobody

record action_entry =
  ac_risk :: string
  ac_side_effect :: string
  ac_requires :: required_party
  ac_compensation :: string
  ac_event :: "event option"
  ac_args :: pydict
  ac_downstream :: "string option"

text \<open>\<open>_args\<close>: a closed object, whose properties are required unless they say otherwise.\<close>

definition closed_args :: "(string \<times> pydict) list \<Rightarrow> pydict" where
  "closed_args ps =
     [(PStr ''type'', PStr ''object''), (PStr ''additionalProperties'', PBool False),
      (PStr ''required'', strs (sort (map fst (filter (\<lambda>(k, d). dget d ''required'' \<noteq> PBool False) ps)))),
      (PStr ''properties'', PDict (map (\<lambda>(k, d). (PStr k, PDict (AList.delete (PStr ''required'') d))) ps))]"

definition text_schema :: pydict where
  "text_schema = [(PStr ''type'', PStr ''string''), (PStr ''minLength'', PInt 1)]"

definition whole_schema :: pydict where
  "whole_schema = [(PStr ''type'', PStr ''integer'')]"

definition list_schema :: pydict where
  "list_schema = [(PStr ''type'', PStr ''array''), (PStr ''items'', PDict text_schema)]"

definition optional :: "pydict \<Rightarrow> pydict" where
  "optional d = d @ [(PStr ''required'', PBool False)]"

definition registry_of :: "(string \<times> action_entry) list" where
  "registry_of =
    [(''retrieve_sources'', \<lparr>ac_risk = ''low'', ac_side_effect = ''none: read only'', ac_requires = Nobody,
        ac_compensation = ''nothing to undo'', ac_event = None,
        ac_args = closed_args [(''query'', text_schema), (''audience'', list_schema)],
        ac_downstream = Some ''rights re-checked by no_permission_leak at NodeChecks''\<rparr>),
     (''propose_outline'', \<lparr>ac_risk = ''low'', ac_side_effect = ''none: a proposal, not state'', ac_requires = Nobody,
        ac_compensation = ''discard'', ac_event = Some OutlineGenerated,
        ac_args = closed_args [(''prompt'', text_schema)], ac_downstream = None\<rparr>),
     (''generate_node_content'', \<lparr>ac_risk = ''medium'', ac_side_effect = ''spends money, writes a draft'',
        ac_requires = Nobody, ac_compensation = ''discard the draft; the spend is sunk'',
        ac_event = Some NodeGenerated,
        ac_args = closed_args [(''node'', text_schema), (''prompt'', text_schema)], ac_downstream = None\<rparr>),
     (''generate_image'', \<lparr>ac_risk = ''medium'', ac_side_effect = ''spends money, external provider'',
        ac_requires = Nobody,
        ac_compensation = ''discard the draft: the prompt has already left the tenant'', ac_event = None,
        ac_args = closed_args [(''node'', text_schema), (''prompt'', text_schema)],
        ac_downstream = Some ''visual review is a condition of approve_node''\<rparr>),
     (''admit_to_revision'', \<lparr>ac_risk = ''medium'', ac_side_effect = ''changes revision state'',
        ac_requires = Nobody, ac_compensation = ''node returns to NeedsRevalidation'',
        ac_event = Some GuardrailVerdict,
        ac_args = closed_args [(''artifact'', text_schema), (''screened'', text_schema),
          (''node'', optional text_schema)], ac_downstream = None\<rparr>),
     (''approve_node'', \<lparr>ac_risk = ''high'', ac_side_effect = ''stamps versions, records who saw what'',
        ac_requires = Person, ac_compensation = ''an edit withdraws the approval and cascades'',
        ac_event = Some NodeApprovedEv,
        ac_args = closed_args [(''node'', text_schema), (''what_was_shown'', text_schema),
          (''visuals_reviewed'', optional list_schema)], ac_downstream = None\<rparr>),
     (''publish_revision'', \<lparr>ac_risk = ''critical'', ac_side_effect = ''learners can see it'',
        ac_requires = Person, ac_compensation = ''rollback, but only through re-verification'',
        ac_event = Some PublishRequested, ac_args = closed_args [(''revision'', whole_schema)],
        ac_downstream = None\<rparr>),
     (''move_live_pointer'', \<lparr>ac_risk = ''critical'', ac_side_effect = ''changes what an audience is served'',
        ac_requires = System, ac_compensation = ''move it back, re-verifying first'',
        ac_event = Some LivePointerMoved,
        ac_args = closed_args [(''to'', whole_schema), (''rolled_back_to'', optional whole_schema)],
        ac_downstream = None\<rparr>),
     (''withdraw_revision'', \<lparr>ac_risk = ''high'', ac_side_effect = ''learners lose access mid-course'',
        ac_requires = Person, ac_compensation = ''a new revision through ReviseRequested'',
        ac_event = Some WithdrawRequested,
        ac_args = closed_args [(''revision'', whole_schema), (''reason'', text_schema)], ac_downstream = None\<rparr>),
     (''notify_learners'', \<lparr>ac_risk = ''critical'', ac_side_effect = ''irreversible: cannot be unsent'',
        ac_requires = Person, ac_compensation = ''correction notice and incident record; there is no undo'',
        ac_event = Some LearnersNotified,
        ac_args = closed_args [(''notice'', text_schema),
          (''recipients'', whole_schema @ [(PStr ''minimum'', PInt 0)]), (''revision'', whole_schema)],
        ac_downstream = None\<rparr>),
     (''archive_revision'', \<lparr>ac_risk = ''high'', ac_side_effect = ''removes from circulation'',
        ac_requires = Person, ac_compensation = ''none: Archived is terminal'',
        ac_event = Some ArchiveRequested, ac_args = closed_args [(''revision'', whole_schema)],
        ac_downstream = None\<rparr>)]"

text \<open>The events whose payload carries what a provider answered, and the field it is.\<close>

fun produced_by :: "event \<Rightarrow> string option" where
  "produced_by OutlineGenerated = Some ''outline''"
| "produced_by NodeGenerated = Some ''content''"
| "produced_by GuardrailVerdict = Some ''verdict''"
| "produced_by LearnersNotified = Some ''notice_screening''"
| "produced_by _ = None"

section \<open>The key\<close>

fun canonical :: "pyval \<Rightarrow> pyval" where
  "canonical (PFloat x) = (case as_int (PFloat x) of Some i \<Rightarrow> PInt i | None \<Rightarrow> PFloat x)"
| "canonical (PDict d) = PDict (map (\<lambda>(k, v). (k, canonical v)) d)"
| "canonical (PList xs) = PList (map canonical xs)"
| "canonical v = v"

definition act_of :: "string \<Rightarrow> pydict \<Rightarrow> string \<Rightarrow> pydict \<Rightarrow> pyval" where
  "act_of name args course subject = PDict
     [(PStr ''action'', PStr name), (PStr ''args'', canonical (PDict args)),
      (PStr ''course'', PStr course), (PStr ''subject'', canonical (PDict subject))]"

definition act_key :: "(pyfloat \<Rightarrow> string) \<Rightarrow> (string \<Rightarrow> string) \<Rightarrow> string \<Rightarrow> pydict \<Rightarrow> string \<Rightarrow> pydict
    \<Rightarrow> exn + string" where
  "act_key fl sha name args course subject =
     ebind (compact fl (act_of name args course subject)) (\<lambda>t. Inr (sha t))"

section \<open>The subject\<close>

text \<open>What a step says of the state of the course, or of one node of it.\<close>

definition state_in_step :: "pyval option \<Rightarrow> pydict \<Rightarrow> exn + pyval" where
  "state_in_step nd s = (case nd of
       None \<Rightarrow> (case dlookup s ''course_state'' of None \<Rightarrow> Inl (PyError ''KeyError'') | Some v \<Rightarrow> Inr v)
     | Some i \<Rightarrow> (case dlookup s ''node_states'' of None \<Rightarrow> Inl (PyError ''KeyError'')
         | Some v \<Rightarrow> Inr (case map_of (entries_of v) i of None \<Rightarrow> PNone | Some w \<Rightarrow> w)))"

definition round_states :: "bool \<Rightarrow> string list" where
  "round_states nodal = (if nodal then [''OutputGuardrail'', ''NeedsRevalidation'']
     else [''BriefValidation'', ''OutlineGuardrail'', ''PendingApproval'', ''StaleReview''])"

definition steps_about :: "int \<Rightarrow> pydict list \<Rightarrow> pydict list" where
  "steps_about r steps = filter (\<lambda>s. py_eq (dget s ''revision'') (PInt r)) steps"

text \<open>\<open>rounds\<close>: how many times the object has entered a state that starts a round.\<close>

fun rounds_from :: "string list \<Rightarrow> pyval \<Rightarrow> pyval list \<Rightarrow> nat" where
  "rounds_from starts prior [] = 0"
| "rounds_from starts prior (s # ss) =
     (if s \<noteq> prior \<and> s \<in> PStr ` set starts then 1 else 0) + rounds_from starts s ss"

definition rounds :: "pydict list \<Rightarrow> int \<Rightarrow> pyval option \<Rightarrow> exn + nat" where
  "rounds steps r nd = ebind (traverse (state_in_step nd) (steps_about r steps)) (\<lambda>ss.
     Inr (rounds_from (round_states (nd \<noteq> None)) PNone ss))"

text \<open>\<open>entries\<close>: how many times it entered a state, other than back from one.\<close>

fun entries_from :: "pyval \<Rightarrow> pyval \<Rightarrow> pyval \<Rightarrow> pyval list \<Rightarrow> nat" where
  "entries_from state not_from prior [] = 0"
| "entries_from state not_from prior (s # ss) =
     (if s = state \<and> prior \<noteq> state \<and> prior \<noteq> not_from then 1 else 0) + entries_from state not_from s ss"

definition state_entries :: "pydict list \<Rightarrow> int \<Rightarrow> pyval option \<Rightarrow> string \<Rightarrow> string \<Rightarrow> exn + nat" where
  "state_entries steps r nd state not_from =
     ebind (traverse (state_in_step nd) (steps_about r steps)) (\<lambda>ss.
       Inr (entries_from (PStr state) (PStr not_from) PNone ss))"

fun drafting_states :: "event option \<Rightarrow> (string \<times> string) option" where
  "drafting_states (Some NodeGenerated) = Some (''ContentDrafting'', ''NodeRecovery'')"
| "drafting_states (Some OutlineGenerated) = Some (''OutlineDrafting'', ''ErrorRecovery'')"
| "drafting_states _ = None"

text \<open>The revision an act names, or the one being edited; and the node it names, if it has it.\<close>

definition revision_named :: "machine \<Rightarrow> pyval \<Rightarrow> revision_record option" where
  "revision_named m v = (case as_int v of
       Some r \<Rightarrow> (case revision m r of Some rv \<Rightarrow> Some rv | None \<Rightarrow> revision m (m_current m))
     | None \<Rightarrow> revision m (m_current m))"

definition node_named :: "revision_record \<Rightarrow> pyval \<Rightarrow> node_record option" where
  "node_named rv v = (case v of PStr i \<Rightarrow> (if i = [] then None else map_of (r_nodes rv) i) | _ \<Rightarrow> None)"

definition model_errors :: "pydict list \<Rightarrow> int \<Rightarrow> pyval \<Rightarrow> nat" where
  "model_errors steps r nd = length (filter (\<lambda>s. dget s ''event'' = PStr ''ModelError''
     \<and> py_eq (dget s ''node'') nd) (steps_about r steps))"

definition draft_subject :: "pydict list \<Rightarrow> int \<Rightarrow> pyval \<Rightarrow> string \<times> string \<Rightarrow> exn + pydict" where
  "draft_subject steps r nd st =
     ebind (state_entries steps r (if truthy nd then Some nd else None) (fst st) (snd st)) (\<lambda>n. Inr
       [(PStr ''revision'', PInt r), (PStr ''model_errors'', PInt (int (model_errors steps r nd))),
        (PStr ''drafts'', PInt (int n))])"

definition judged_subject :: "(pyfloat \<Rightarrow> string) \<Rightarrow> pydict list \<Rightarrow> int \<Rightarrow> node_record option \<Rightarrow> exn + pydict" where
  "judged_subject fl steps r nd =
     ebind (case nd of None \<Rightarrow> Inr PNone | Some n \<Rightarrow> ebind (spread fl (n_content n)) (\<lambda>t. Inr (PStr t))) (\<lambda>content.
     ebind (rounds steps r (map_option (\<lambda>n. PStr (n_id n)) nd)) (\<lambda>k. Inr
       [(PStr ''revision'', PInt r), (PStr ''node'', content), (PStr ''round'', PInt (int k))]))"

definition subject_of :: "(pyfloat \<Rightarrow> string) \<Rightarrow> machine \<Rightarrow> pydict \<Rightarrow> event option \<Rightarrow> exn + pydict" where
  "subject_of fl m args ev =
     (case revision_named m (dget args ''revision'') of
        None \<Rightarrow> Inl (PyError ''KeyError'')
      | Some rv \<Rightarrow> (case drafting_states ev of
            Some st \<Rightarrow> draft_subject (st_steps (m_store m)) (r_id rv) (dget args ''node'') st
          | None \<Rightarrow> judged_subject fl (st_steps (m_store m)) (r_id rv) (node_named rv (dget args ''node''))))"

end
