(* ===== verification/Membrane.thy ===== *)
theory Membrane
  imports Actions Machine_Core
begin

text \<open>
  The membrane every action passes (\<open>gateway/membrane.py\<close>): eight checks, then the effect.
  What a refusal says is left out; which check it names, the next action and the key are kept
  (a dash in a text of the source is a colon here).

  Outside the program, and so parameters: the JSON Schema validator (\<open>ge_invalid\<close>), the digest,
  how a float is printed, the clock's reading at the call, and the provider's call, which reads
  the machine, may change its own surroundings \<open>'w\<close>, and answers, fails to, or raises.
\<close>

section \<open>State\<close>

record gate_env =
  ge_env :: env
  ge_fuel :: nat
  ge_invalid :: "pydict \<Rightarrow> pydict \<Rightarrow> bool"
  ge_float :: "pyfloat \<Rightarrow> string"
  ge_sha :: "string \<Rightarrow> string"

record 'w gate =
  g_machine :: machine
  g_course :: string
  g_rate_limit :: int
  g_window :: int
  g_spent :: "(pyval \<times> int list) list"
  g_issued :: "string list"
  g_outside :: 'w

datatype check = Registered | Schema_valid | Policy_allows | Resource_allowed
  | Idempotency_key_unused | Legal_in_state | Approval_present | Within_rate_limit
  | Effect | Answer

fun next_action :: "check \<Rightarrow> string" where
  "next_action Registered = ''ask for a registered action; nothing ran''"
| "next_action Schema_valid = ''resend with exactly the arguments the action declares''"
| "next_action Policy_allows = ''ask someone the policy grants this action to''"
| "next_action Resource_allowed = ''act on a course in your own organisation and audience''"
| "next_action Legal_in_state = ''take the move the course's current state permits''"
| "next_action Approval_present = ''have a person take this action; the system may not''"
| "next_action Idempotency_key_unused = ''nothing to do: it already happened''"
| "next_action Within_rate_limit = ''wait, then retry''"
| "next_action Effect = ''the call is unknown, not failed: recover''"
| "next_action Answer = ''the provider answered in a shape that was not asked for: recover''"

record outcome =
  o_ran :: bool
  o_check :: "check option"
  o_next :: string
  o_key :: "string option"

definition refused_at :: "check \<Rightarrow> outcome" where
  "refused_at c = \<lparr>o_ran = False, o_check = Some c, o_next = next_action c, o_key = None\<rparr>"

definition no_under :: "check \<Rightarrow> string \<Rightarrow> outcome" where
  "no_under c key = \<lparr>o_ran = False, o_check = Some c, o_next = next_action c, o_key = Some key\<rparr>"

definition ran_under :: "string \<Rightarrow> outcome" where
  "ran_under key = \<lparr>o_ran = True, o_check = None, o_next = [], o_key = Some key\<rparr>"

datatype caller = Gateway | Asking pyval

datatype reply = Replied pyval | Malformed | Unavailable | Failed exn

type_synonym 'w call = "string \<Rightarrow> machine \<Rightarrow> 'w \<Rightarrow> reply \<times> 'w"

type_synonym ('w, 'a) gate_act = "('w gate, exn, 'a) comp"

text \<open>A stage ends the request with its outcome or hands on what it found.\<close>

datatype 'a stage = Stop outcome | Go 'a

definition andgo :: "('w, 'a stage) gate_act \<Rightarrow> ('a \<Rightarrow> ('w, 'b stage) gate_act) \<Rightarrow> ('w, 'b stage) gate_act" where
  "andgo m f = andthen m (\<lambda>x. case x of Stop out \<Rightarrow> ret (Stop out) | Go y \<Rightarrow> f y)"

definition on_machine :: "'a act \<Rightarrow> ('w, 'a) gate_act" where
  "on_machine m = (\<lambda>g. case m (g_machine g) of (r, m') \<Rightarrow> (r, g\<lparr>g_machine := m'\<rparr>))"

section \<open>Who is asking\<close>

definition hash_key :: "pyval \<Rightarrow> exn + pyval" where
  "hash_key v = (if hashable v then Inr v else Inl type_error)"

definition person_of :: "world \<Rightarrow> pyval \<Rightarrow> pydict option" where
  "person_of w v = map_of (map (\<lambda>(k, d). (PStr k, d)) (w_people w)) v"

definition actor_entries :: "pyval \<Rightarrow> string \<Rightarrow> pyval \<Rightarrow> pydict \<Rightarrow> pydict" where
  "actor_entries i kind role d = [(PStr ''id'', i), (PStr ''kind'', PStr kind), (PStr ''role'', role)]
     @ (if dhas d ''course'' then [(PStr ''course'', dget d ''course'')] else [])"

fun authenticated :: "world \<Rightarrow> caller \<Rightarrow> exn + pydict" where
  "authenticated w Gateway = Inr (actor_entries (PStr ''gateway'') ''system'' (PStr ''system'') [])"
| "authenticated w (Asking (PDict d)) =
     (if dget d ''kind'' = PStr ''person''
      then ebind (hash_key (dget d ''id'')) (\<lambda>i. Inr (actor_entries i ''person''
        (case person_of w i of None \<Rightarrow> PNone | Some p \<Rightarrow> dget p ''role'') d))
      else Inr (actor_entries (dget d ''id'') ''unauthenticated'' PNone d))"
| "authenticated w (Asking _) = Inr (actor_entries PNone ''unauthenticated'' PNone [])"

fun policy_action :: "string \<Rightarrow> string" where
  "policy_action name = (if name = ''propose_outline'' then ''generate_outline''
     else if name \<in> {''generate_node_content'', ''generate_image''} then ''generate_node'' else name)"

definition current_revision :: "machine \<Rightarrow> exn + revision_record" where
  "current_revision m = (case revision m (m_current m) of None \<Rightarrow> Inl (PyError ''KeyError'') | Some rv \<Rightarrow> Inr rv)"

definition judged_by_policy :: "gate_env \<Rightarrow> string \<Rightarrow> pydict \<Rightarrow> machine \<Rightarrow> exn + verdict" where
  "judged_by_policy G name actor m =
     ebind (current_revision m) (\<lambda>rv. ebind (brief_input rv) (\<lambda>b.
       i_policy_allows (e_impl (ge_env G)) (policy_action name) actor b (rev_state_name (r_state rv))
         (policy_data (e_world (ge_env G)))))"

definition resource_ok :: "world \<Rightarrow> string \<Rightarrow> pydict \<Rightarrow> bool" where
  "resource_ok w course actor \<longleftrightarrow>
     (dhas actor ''course'' \<longrightarrow> dget actor ''course'' = PStr course)
     \<and> (dget actor ''kind'' = PStr ''person'' \<longrightarrow> person_of w (dget actor ''id'') \<noteq> None)"

text \<open>The first four checks: the action, its arguments, the policy, the course.\<close>

definition lands_answer :: "action_entry \<Rightarrow> bool" where
  "lands_answer ac = (case ac_event ac of None \<Rightarrow> False | Some e \<Rightarrow> produced_by e \<noteq> None)"

definition entitled :: "gate_env \<Rightarrow> string \<Rightarrow> caller \<Rightarrow> 'w gate \<Rightarrow> exn + pydict stage" where
  "entitled G name who g =
     ebind (authenticated (e_world (ge_env G)) who) (\<lambda>actor.
     ebind (judged_by_policy G name actor (g_machine g)) (\<lambda>v. Inr
       (if \<not> v_ok v then Stop (refused_at Policy_allows)
        else if \<not> resource_ok (e_world (ge_env G)) (g_course g) actor then Stop (refused_at Resource_allowed)
        else Go actor)))"

definition admissible :: "gate_env \<Rightarrow> string \<Rightarrow> pydict \<Rightarrow> caller \<Rightarrow> bool \<Rightarrow> 'w gate
    \<Rightarrow> exn + (action_entry \<times> pydict) stage" where
  "admissible G name args who calls g = (case map_of registry_of name of
       None \<Rightarrow> Inr (Stop (refused_at Registered))
     | Some ac \<Rightarrow>
         (if ge_invalid G (ac_args ac) args then Inr (Stop (refused_at Schema_valid))
          else if lands_answer ac \<noteq> calls then Inl type_error
          else ebind (entitled G name who g) (\<lambda>x. Inr
            (case x of Stop out \<Rightarrow> Stop out | Go actor \<Rightarrow> Go (ac, actor)))))"

section \<open>The key and the state of the course\<close>

definition carried_fields :: "pydict \<Rightarrow> pydict \<Rightarrow> pydict" where
  "carried_fields args actor = (if dget actor ''kind'' = PStr ''person''
     then dput ''actor'' (dget actor ''id'') args else args)"

definition with_key :: "string \<Rightarrow> pydict \<Rightarrow> pydict" where
  "with_key key kv = dput ''idempotency_key'' (PStr key) kv"

definition already_done :: "action_entry \<Rightarrow> string \<Rightarrow> 'w gate \<Rightarrow> bool" where
  "already_done ac key g \<longleftrightarrow> PStr key \<in> set (st_used_keys (m_store (g_machine g)))
     \<or> key \<in> set (g_issued g) \<and> ac_event ac = None"

definition named_key :: "gate_env \<Rightarrow> string \<Rightarrow> pydict \<Rightarrow> action_entry \<Rightarrow> 'w gate \<Rightarrow> exn + string" where
  "named_key G name args ac g =
     ebind (subject_of (ge_float G) (g_machine g) args (ac_event ac)) (\<lambda>subj.
       act_key (ge_float G) (ge_sha G) name args (g_course g) subj)"

definition unrepeated :: "gate_env \<Rightarrow> string \<Rightarrow> pydict \<Rightarrow> action_entry \<Rightarrow> 'w gate \<Rightarrow> exn + string stage" where
  "unrepeated G name args ac g = ebind (named_key G name args ac g) (\<lambda>key. Inr
     (if already_done ac key g then Stop (no_under Idempotency_key_unused key) else Go key))"

definition answered_as :: "string \<Rightarrow> pyval \<Rightarrow> pydict \<Rightarrow> pydict" where
  "answered_as k v kv = dput k v kv"

definition legal :: "gate_env \<Rightarrow> event \<Rightarrow> pydict \<Rightarrow> bool act" where
  "legal G e kv =
     andthen (lift (\<lambda>m. case map_of (st_current (m_store m)) ''guardrail'' of
         None \<Rightarrow> Inl (PyError ''KeyError'') | Some v \<Rightarrow> Inr v)) (\<lambda>in_force.
     let asked = permits (ge_fuel G) (ge_env G) e in
     if produced_by e = Some ''notice_screening''
     then asked (dput ''notice_screening'' (PDict [(PStr ''verdict'', PStr ''allow''),
       (PStr ''guardrail_version'', in_force)]) kv)
     else if produced_by e = Some ''verdict''
     then andthen (asked (dput ''verdict'' (PStr ''allow'') kv)) (\<lambda>a.
       andthen (asked (dput ''verdict'' (PStr ''deny'') kv)) (\<lambda>b. ret (a \<or> b)))
     else asked kv)"

definition lawful :: "gate_env \<Rightarrow> action_entry \<Rightarrow> pydict \<Rightarrow> ('w, unit stage) gate_act" where
  "lawful G ac kv = (case ac_event ac of
       None \<Rightarrow> ret (Go ())
     | Some e \<Rightarrow> andthen (on_machine (legal G e kv)) (\<lambda>ok.
         ret (if ok then Go () else Stop (refused_at Legal_in_state))))"

section \<open>Standing and rate\<close>

definition stands :: "action_entry \<Rightarrow> pydict \<Rightarrow> bool" where
  "stands ac actor \<longleftrightarrow> (ac_requires ac = Person \<longrightarrow> dget actor ''kind'' = PStr ''person'')
     \<and> (ac_requires ac = System \<longrightarrow> dget actor ''kind'' = PStr ''system'')"

definition spent_by :: "pyval \<Rightarrow> 'w gate \<Rightarrow> int list" where
  "spent_by i g = (case map_of (g_spent g) i of None \<Rightarrow> [] | Some ts \<Rightarrow> ts)"

definition within_window :: "int \<Rightarrow> 'w gate \<Rightarrow> int list \<Rightarrow> int list" where
  "within_window now g ts = filter (\<lambda>t. now - t < g_window g) ts"

definition paced :: "string \<Rightarrow> pyval \<Rightarrow> int \<Rightarrow> ('w, unit stage) gate_act" where
  "paced name i now =
     andthen (lift (\<lambda>g. hash_key i)) (\<lambda>_.
     andthen (gets (\<lambda>g. within_window now g (spent_by i g))) (\<lambda>recent.
     andthen (modify (\<lambda>g. g\<lparr>g_spent := AList.update i recent (g_spent g)\<rparr>)) (\<lambda>_.
     andthen (gets g_rate_limit) (\<lambda>limit.
       ret (if name \<noteq> ''admit_to_revision'' \<and> limit \<le> int (length recent)
            then Stop (refused_at Within_rate_limit) else Go ())))))"

definition issue :: "string \<Rightarrow> pyval \<Rightarrow> int \<Rightarrow> ('w, unit) gate_act" where
  "issue key i now = modify (\<lambda>g. g\<lparr>g_issued := List.insert key (g_issued g),
     g_spent := AList.update i (spent_by i g @ [now]) (g_spent g)\<rparr>)"

section \<open>The effect\<close>

text \<open>\<open>_answer\<close>: the one field a provider's answer may set, or nothing when its shape is wrong.\<close>

definition verdict_answer :: "pyval \<Rightarrow> pydict option" where
  "verdict_answer result =
     (let d = entries_of result; v = dget d ''verdict''; category = dget d ''category'';
          version = dget d ''guardrail_version''
      in if v \<notin> {PStr ''allow'', PStr ''deny''} \<or> \<not> (category = PNone \<or> is_pstr category) then None
         else if \<not> is_pstr version \<or> \<not> truthy version then None
         else Some ([(PStr ''verdict'', v), (PStr ''guardrail_version'', version)]
           @ (if truthy category then [(PStr ''category'', category)] else [])))"

definition answer_of :: "event \<Rightarrow> pyval \<Rightarrow> pydict option" where
  "answer_of e result = (case produced_by e of
       None \<Rightarrow> None
     | Some k \<Rightarrow>
         (let v = dget (entries_of result) k in
          if k = ''notice_screening''
          then map_option (\<lambda>s. [(PStr k, PDict s)]) (verdict_answer v)
          else if k = ''verdict'' then verdict_answer result
          else if is_pdict v then Some [(PStr k, v)] else None))"

definition call_provider :: "'w call \<Rightarrow> string \<Rightarrow> ('w, reply) gate_act" where
  "call_provider call key = (\<lambda>g. case call key (g_machine g) (g_outside g) of
     (r, w) \<Rightarrow> (Inr r, g\<lparr>g_outside := w\<rparr>))"

definition perform_call :: "action_entry \<Rightarrow> string \<Rightarrow> pydict \<Rightarrow> 'w call option \<Rightarrow> ('w, pydict stage) gate_act" where
  "perform_call ac key kv call = (case call of
       None \<Rightarrow> ret (Go kv)
     | Some f \<Rightarrow> andthen (call_provider f key) (\<lambda>r. case r of
           Malformed \<Rightarrow> ret (Stop (no_under Answer key))
         | Unavailable \<Rightarrow> ret (Stop (no_under Effect key))
         | Failed x \<Rightarrow> raise x
         | Replied v \<Rightarrow> (case (case ac_event ac of None \<Rightarrow> None | Some e \<Rightarrow> answer_of e v) of
               None \<Rightarrow> ret (Stop (no_under Answer key))
             | Some found \<Rightarrow> ret (Go (dmerge kv found)))))"

definition use_landed :: "string \<Rightarrow> store \<Rightarrow> store" where
  "use_landed key S = S\<lparr>st_used_keys := List.insert (PStr key) (st_used_keys S)\<rparr>"

definition land :: "gate_env \<Rightarrow> action_entry \<Rightarrow> string \<Rightarrow> bool \<Rightarrow> pydict \<Rightarrow> ('w, outcome stage) gate_act" where
  "land G ac key calls kv = (case ac_event ac of
       None \<Rightarrow> ret (Go (ran_under key))
     | Some e \<Rightarrow> andgo
         (handle (andthen (on_machine (fire_upto (Suc (ge_fuel G)) (ge_env G) e (with_key key kv) ''orchestrator''))
             (\<lambda>_. ret (Go ())))
           (\<lambda>x. if x = MachineRefused \<and> calls then ret (Stop (no_under Legal_in_state key)) else raise x))
         (\<lambda>_. andthen (on_machine (modify (on_store (use_landed key)))) (\<lambda>_. ret (Go (ran_under key)))))"

section \<open>A request\<close>

fun outcome_of :: "outcome stage \<Rightarrow> outcome" where
  "outcome_of (Stop out) = out"
| "outcome_of (Go out) = out"

definition pass_checks :: "gate_env \<Rightarrow> string \<Rightarrow> pydict \<Rightarrow> caller \<Rightarrow> bool \<Rightarrow> int
    \<Rightarrow> ('w, (action_entry \<times> pydict \<times> string) stage) gate_act" where
  "pass_checks G name args who calls now =
     andgo (lift (admissible G name args who calls)) (\<lambda>(ac, actor).
     andgo (lift (unrepeated G name args ac)) (\<lambda>key.
     andgo (lawful G ac (with_key key (carried_fields args actor))) (\<lambda>_.
     andgo (ret (if stands ac actor then Go () else Stop (refused_at Approval_present))) (\<lambda>_.
     andgo (paced name (dget actor ''id'') now) (\<lambda>_.
     andthen (issue key (dget actor ''id'') now) (\<lambda>_.
       ret (Go (ac, carried_fields args actor, key))))))))"

definition request :: "gate_env \<Rightarrow> string \<Rightarrow> pydict \<Rightarrow> caller \<Rightarrow> 'w call option \<Rightarrow> int \<Rightarrow> ('w, outcome) gate_act" where
  "request G name args who call now =
     andthen
       (andgo (pass_checks G name args who (call \<noteq> None) now) (\<lambda>(ac, kv, key).
        andgo (perform_call ac key kv call) (land G ac key (call \<noteq> None))))
       (\<lambda>x. ret (outcome_of x))"

end
