(* ===== verification/Screened_Text.thy ===== *)
theory Screened_Text
  imports Containers
begin

text \<open>
  \<open>gateway/screened_text.py\<close>: every word of a node the output guardrail reads.  A learner can
  be shown any text in a node except what the code sets apart by name: a block's type and
  citations, an image's source, the node's citations.  \<open>shown\<close> says that on its own, as an
  inductive relation over the content; the property compares the two.
\<close>

section \<open>Prose\<close>

text \<open>Every string at any depth, keys included.\<close>

fun prose :: "pyval \<Rightarrow> string list" where
  "prose (PStr s) = [s]"
| "prose (PDict d) = concat (map (\<lambda>(k, v). (case k of PStr s \<Rightarrow> [s] | _ \<Rightarrow> []) @ prose v) d)"
| "prose (PList xs) = concat (map prose xs)"
| "prose _ = []"

text \<open>The entries of an open dictionary that are not set apart: the key, then what it holds.\<close>

definition entry_prose :: "string list \<Rightarrow> pydict \<Rightarrow> string list" where
  "entry_prose apart d = concat (map (\<lambda>(k, v). (case k of PStr s \<Rightarrow> [s] | _ \<Rightarrow> []) @ prose v)
     (filter (\<lambda>(k, v). k \<notin> PStr ` set apart) d))"

definition not_ids :: "pyval \<Rightarrow> string list" where
  "not_ids v = concat (map prose (filter (\<lambda>x. \<not> is_pstr x) (if is_plist v then items_of v else [v])))"

text \<open>What sits in an id field of a dictionary without being an id.\<close>

definition misplaced :: "string list \<Rightarrow> pydict \<Rightarrow> string list" where
  "misplaced apart d = concat (map (\<lambda>k. case dlookup d k of None \<Rightarrow> [] | Some v \<Rightarrow> not_ids v) apart)"

section \<open>Blocks and nodes\<close>

definition blocks_of :: "pyval \<Rightarrow> pydict list" where
  "blocks_of content = (case dget (entries_of content) ''blocks'' of
     PList bs \<Rightarrow> map entries_of (filter is_pdict bs) | _ \<Rightarrow> [])"

definition block_ids :: "pydict \<Rightarrow> string list" where
  "block_ids b = [''type'', ''cites''] @ (if dget b ''type'' = PStr ''image'' then [''src''] else [])"

definition node_ids :: "string list" where
  "node_ids = [''cites'']"

definition block_prose :: "pydict \<Rightarrow> string list" where
  "block_prose b = entry_prose (block_ids b) b @ misplaced (block_ids b) b"

definition around_blocks :: "pyval \<Rightarrow> string list" where
  "around_blocks bs = (case bs of
       PList xs \<Rightarrow> concat (map prose (filter (\<lambda>b. \<not> is_pdict b) xs)) | v \<Rightarrow> prose v)"

definition screened_parts :: "pyval \<Rightarrow> string list" where
  "screened_parts content = (case content of
     PDict d \<Rightarrow> concat (map block_prose (blocks_of content))
       @ entry_prose (''blocks'' # node_ids) d @ misplaced node_ids d @ around_blocks (dget d ''blocks'')
   | v \<Rightarrow> prose v)"

definition spaced :: "string list \<Rightarrow> string" where
  "spaced xs = concat (case xs of [] \<Rightarrow> [] | x # ys \<Rightarrow> x # map (\<lambda>y. CHR '' '' # y) ys)"

definition screened_text :: "pyval \<Rightarrow> string" where
  "screened_text content = spaced (screened_parts content)"

section \<open>What a learner may be shown\<close>

inductive occurs :: "string \<Rightarrow> pyval \<Rightarrow> bool" where
  text_itself: "occurs s (PStr s)"
| key: "(PStr s, v) \<in> set d \<Longrightarrow> occurs s (PDict d)"
| held_by: "(k, v) \<in> set d \<Longrightarrow> occurs s v \<Longrightarrow> occurs s (PDict d)"
| item: "v \<in> set xs \<Longrightarrow> occurs s v \<Longrightarrow> occurs s (PList xs)"

inductive_simps occurs_simps [simp]:
  "occurs s (PStr t)" "occurs s (PDict d)" "occurs s (PList xs)" "occurs s PNone" "occurs s (PBool b)"
  "occurs s (PInt i)" "occurs s (PFloat f)"

text \<open>An id field holds ids: text, alone or in a list.  Anything else in it is shown.\<close>

inductive beside_ids :: "string \<Rightarrow> pyval \<Rightarrow> bool" where
  alone: "\<not> is_pstr v \<Longrightarrow> \<not> is_plist v \<Longrightarrow> occurs s v \<Longrightarrow> beside_ids s v"
| listed: "v \<in> set xs \<Longrightarrow> \<not> is_pstr v \<Longrightarrow> occurs s v \<Longrightarrow> beside_ids s (PList xs)"

inductive shown_in :: "string list \<Rightarrow> pydict \<Rightarrow> string \<Rightarrow> bool" for apart d where
  field_name: "(PStr s, v) \<in> set d \<Longrightarrow> s \<notin> set apart \<Longrightarrow> shown_in apart d s"
| field_text: "(k, v) \<in> set d \<Longrightarrow> k \<notin> PStr ` set apart \<Longrightarrow> occurs s v \<Longrightarrow> shown_in apart d s"
| set_apart: "dlookup d k = Some v \<Longrightarrow> k \<in> set apart \<Longrightarrow> beside_ids s v \<Longrightarrow> shown_in apart d s"

inductive shown :: "pyval \<Rightarrow> string \<Rightarrow> bool" where
  not_a_node: "\<not> is_pdict v \<Longrightarrow> occurs s v \<Longrightarrow> shown v s"
| in_block: "dget d ''blocks'' = PList bs \<Longrightarrow> PDict b \<in> set bs \<Longrightarrow> shown_in (block_ids b) b s \<Longrightarrow>
    shown (PDict d) s"
| beside_block: "dget d ''blocks'' = PList bs \<Longrightarrow> v \<in> set bs \<Longrightarrow> \<not> is_pdict v \<Longrightarrow> occurs s v \<Longrightarrow>
    shown (PDict d) s"
| instead_of_blocks: "\<not> is_plist (dget d ''blocks'') \<Longrightarrow> occurs s (dget d ''blocks'') \<Longrightarrow> shown (PDict d) s"
| field_of_node: "shown_in node_ids (filter (\<lambda>(k, v). k \<noteq> PStr ''blocks'') d) s \<Longrightarrow> shown (PDict d) s"

lemma set_key_text: "s \<in> set (case k of PStr t \<Rightarrow> [t] | _ \<Rightarrow> []) \<longleftrightarrow> k = PStr s"
  by (cases k) auto

lemma set_prose: "s \<in> set (prose v) \<longleftrightarrow> occurs s v"
proof (induction v rule: prose.induct)
  case (2 d)
  then show ?case by (fastforce simp: set_key_text)
qed auto

lemma set_entry_prose: "s \<in> set (entry_prose apart d) \<longleftrightarrow>
    (\<exists>k v. (k, v) \<in> set d \<and> k \<notin> PStr ` set apart \<and> (k = PStr s \<or> occurs s v))"
  unfolding entry_prose_def by (simp add: set_prose set_key_text split_beta) force

lemma set_not_ids: "s \<in> set (not_ids v) \<longleftrightarrow> beside_ids s v"
  by (cases v) (auto simp: not_ids_def set_prose beside_ids.simps)

lemma set_case_ids: "s \<in> set (case x of None \<Rightarrow> [] | Some v \<Rightarrow> not_ids v) \<longleftrightarrow>
    (\<exists>v. x = Some v \<and> beside_ids s v)"
  by (cases x) (auto simp: set_not_ids)

lemma set_misplaced: "s \<in> set (misplaced apart d) \<longleftrightarrow>
    (\<exists>k v. k \<in> set apart \<and> dlookup d k = Some v \<and> beside_ids s v)"
  unfolding misplaced_def set_concat set_map UN_iff bex_simps set_case_ids by blast

lemma shown_in_iff: "shown_in apart d s \<longleftrightarrow> s \<in> set (entry_prose apart d) \<or> s \<in> set (misplaced apart d)"
  unfolding set_entry_prose set_misplaced shown_in.simps by auto

lemma blocks_of_iff: "b \<in> set (blocks_of (PDict d)) \<longleftrightarrow>
    (\<exists>bs. dget d ''blocks'' = PList bs \<and> PDict b \<in> set bs)"
  by (cases "dget d ''blocks''") (force simp: blocks_of_def elim: is_pdict.elims)+

lemma set_around_blocks: "s \<in> set (around_blocks v) \<longleftrightarrow>
    (if is_plist v then \<exists>x \<in> set (items_of v). \<not> is_pdict x \<and> occurs s x else occurs s v)"
  by (cases v) (auto simp: around_blocks_def set_prose)

lemma dlookup_filter: "k' \<noteq> k \<Longrightarrow> dlookup (filter (\<lambda>(x, v). x \<noteq> PStr k') d) k = dlookup d k"
  by (induction d) (auto simp: dlookup_def)

text \<open>C14. The output guardrail reads exactly what a learner may be shown: a text is among the parts it
  screens if and only if it occurs in the content, at any depth and as a key too, outside the
  id fields of blocks and node, or inside one of them without being an id.\<close>

theorem screened_parts_complete: "s \<in> set (screened_parts content) \<longleftrightarrow> shown content s"
proof (cases content)
  case (PDict d)
  have "entry_prose (''blocks'' # node_ids) d = entry_prose node_ids (filter (\<lambda>(k, v). k \<noteq> PStr ''blocks'') d)"
    by (auto simp: entry_prose_def filter_filter intro!: arg_cong [where f = concat] arg_cong [where f = "map f" for f]
      filter_cong)
  moreover have "misplaced node_ids d = misplaced node_ids (filter (\<lambda>(k, v). k \<noteq> PStr ''blocks'') d)"
    by (simp add: misplaced_def node_ids_def dlookup_filter)
  ultimately show ?thesis
    using PDict by (cases "dget d ''blocks''")
      (auto simp: screened_parts_def shown.simps shown_in_iff blocks_of_iff block_prose_def set_around_blocks)
qed (auto simp: screened_parts_def set_prose shown.simps)

end
