(* ===== verification/Retrieval.thy ===== *)
theory Retrieval
  imports Datalog_Checks Engine_Guards
begin

text \<open>
  \<open>gateway/retrieval.py\<close>: the chunks a model is offered.  Rights narrow first: only chunks of
  articles every audience may see; relevance second: only chunks of the given skills.
\<close>

text \<open>A key of a dictionary, a member of a set: a value that cannot be hashed raises.\<close>

definition hashed :: "pyval \<Rightarrow> exn + pyval" where
  "hashed v = (if hashable v then Inr v else Inl type_error)"

definition visible_to :: "world \<Rightarrow> pyval \<Rightarrow> exn + pyval list" where
  "visible_to w a = ebind (hashed a) (\<lambda>k.
     as_set (case map_of (w_visibility w) k of None \<Rightarrow> PList [] | Some v \<Rightarrow> v))"

definition common :: "pyval list list \<Rightarrow> pyval list" where
  "common xss = (case xss of [] \<Rightarrow> [] | xs # rest \<Rightarrow> filter (\<lambda>x. list_all (py_in x) rest) xs)"

definition open_chunks :: "pyval list \<Rightarrow> pyval \<Rightarrow> exn + pyval list" where
  "open_chunks open_to_all art = ebind (entry art) (\<lambda>d.
     ebind (item d ''id'') (\<lambda>i. ebind (hashed i) (\<lambda>k.
     if py_in k open_to_all then ebind (item d ''chunks'') as_set else Inr [])))"

definition chunk_id :: "pydict \<Rightarrow> exn + pyval" where
  "chunk_id c = ebind (item c ''id'') hashed"

definition retrieve :: "world \<Rightarrow> pyval list \<Rightarrow> pydict list \<Rightarrow> string list option \<Rightarrow> exn + pydict list" where
  "retrieve w audiences chunks wanted =
     ebind (traverse (visible_to w) audiences) (\<lambda>sets.
     ebind (traverse (open_chunks (common sets)) (w_articles w)) (\<lambda>allowed.
     ebind (traverse chunk_id chunks) (\<lambda>ids.
     let kept = map snd (filter (\<lambda>(i, c). py_in i (concat allowed)) (zip ids chunks)) in
     case wanted of
       None \<Rightarrow> Inr kept
     | Some names \<Rightarrow> ebind (traverse (\<lambda>c. ebind (hashed (dget c ''skill'')) (\<lambda>k.
           Inr (k \<in> PStr ` set names))) kept)
         (\<lambda>fits. Inr (map snd (filter fst (zip fits kept)))))))"

end
