(* ===== verification/Asking.thy ===== *)
theory Asking
  imports Datalog_Checks Engine_Guards
begin

text \<open>
  \<open>gateway/asking.py\<close>: the rules a model is given for a phase and the shape it must return.
  A schema is the dictionary the source builds.  A dash in a text of the source is a colon here.
  \<open>show\<close> is Python's \<open>repr\<close>.
\<close>

section \<open>Shapes\<close>

definition typed :: "string \<Rightarrow> pyval" where
  "typed t = PDict [(PStr ''type'', PStr t)]"

definition array_of :: "pyval \<Rightarrow> pyval" where
  "array_of items = PDict [(PStr ''type'', PStr ''array''), (PStr ''items'', items)]"

definition between_ints :: "int \<Rightarrow> int \<Rightarrow> pyval" where
  "between_ints lo hi = PDict [(PStr ''type'', PStr ''integer''), (PStr ''minimum'', PInt lo), (PStr ''maximum'', PInt hi)]"

definition object_with :: "string list \<Rightarrow> pydict \<Rightarrow> pyval" where
  "object_with required properties = PDict [(PStr ''type'', PStr ''object''), (PStr ''required'', strs required),
     (PStr ''properties'', PDict properties)]"

definition block_fields :: pydict where
  "block_fields = [(PStr ''type'', typed ''string''), (PStr ''text'', typed ''string''),
     (PStr ''cites'', array_of (typed ''string'')), (PStr ''src'', typed ''string''), (PStr ''alt'', typed ''string''),
     (PStr ''caption'', typed ''string''), (PStr ''items'', array_of (typed ''string'')),
     (PStr ''question'', typed ''string''), (PStr ''options'', array_of (typed ''string'')),
     (PStr ''answer'', between_ints 0 20), (PStr ''points'', between_ints 0 100)]"

definition node_properties :: pydict where
  "node_properties = [(PStr ''blocks'', array_of (object_with [''type''] block_fields)),
     (PStr ''cites'', array_of (typed ''string'')), (PStr ''minutes'', between_ints 1 600),
     (PStr ''points_total'', between_ints 0 1000),
     (PStr ''questions'', array_of (PDict [(PStr ''type'', PStr ''object''),
        (PStr ''properties'', PDict [(PStr ''points'', between_ints 0 100)])]))]"

text \<open>\<open>engines/schema/schemas.py\<close>: what an identifier, a brief and an outline look like.\<close>

definition id_entries :: pydict where
  "id_entries = [(PStr ''type'', PStr ''string''), (PStr ''minLength'', PInt 1)]"

definition reserved :: "string list" where
  "reserved = [''revision'', ''brief'', ''outline'', ''notice'']"

definition node_id_shape :: pyval where
  "node_id_shape = PDict (id_entries @ [(PStr ''not'', PDict [(PStr ''pattern'',
     PStr (''(?i)^'' @ [CHR 0x5C] @ ''s*('' @ joined ''|'' reserved @ '')'' @ [CHR 0x5C] @ ''s*$''))])])"

definition outline_node_properties :: pydict where
  "outline_node_properties = [(PStr ''id'', node_id_shape),
     (PStr ''type'', PDict [(PStr ''enum'', strs [''topic'', ''exam''])]), (PStr ''skill'', PDict id_entries),
     (PStr ''topics'', array_of (PDict id_entries))]"

definition outline_shape :: "pydict \<Rightarrow> pydict" where
  "outline_shape per_node = [(PStr ''type'', PStr ''object''), (PStr ''required'', strs [''nodes'']),
     (PStr ''properties'', PDict [(PStr ''nodes'', PDict [(PStr ''type'', PStr ''array''), (PStr ''minItems'', PInt 1),
        (PStr ''items'', object_with [''id'', ''type''] per_node)])])]"

definition brief_shape :: pydict where
  "brief_shape = [(PStr ''type'', PStr ''object''),
     (PStr ''required'', strs [''id'', ''title'', ''audience'', ''objectives'', ''minutes_per_lesson'']),
     (PStr ''additionalProperties'', PBool True),
     (PStr ''properties'', PDict [(PStr ''id'', PDict id_entries), (PStr ''title'', PDict id_entries),
        (PStr ''audience'', PDict [(PStr ''type'', PStr ''array''), (PStr ''items'', PDict id_entries), (PStr ''minItems'', PInt 1)]),
        (PStr ''objectives'', PDict [(PStr ''type'', PStr ''array''), (PStr ''items'', PDict id_entries), (PStr ''minItems'', PInt 1)]),
        (PStr ''minutes_per_lesson'', PDict [(PStr ''type'', PStr ''integer''), (PStr ''minimum'', PInt 1)]),
        (PStr ''requested_nodes'', PDict [(PStr ''type'', PStr ''integer''), (PStr ''minimum'', PInt 1)])])]"

definition block_shape :: "string list \<Rightarrow> pydict" where
  "block_shape block_types = [(PStr ''type'', PStr ''object''), (PStr ''required'', strs [''type'']),
     (PStr ''properties'', PDict [(PStr ''type'', PDict [(PStr ''enum'', strs block_types)]),
        (PStr ''text'', typed ''string''), (PStr ''items'', array_of (typed ''string'')),
        (PStr ''points'', PDict [(PStr ''type'', PStr ''integer''), (PStr ''minimum'', PInt 0)]),
        (PStr ''options'', PDict [(PStr ''type'', PStr ''array''), (PStr ''items'', typed ''string''), (PStr ''minItems'', PInt 2)])])]"

section \<open>The outline\<close>

definition outline_rules :: string where
  "outline_rules = ''outline'' @ [CHR 0x0A]
     @ ''Propose modules as topics and exams: titles and learning objectives ''
     @ ''only. Every skill must be one the catalog lists. An exam's topics are the ids ''
     @ ''of the topic nodes in this outline that it tests, and nothing else; a topic ''
     @ ''node has no topics. Return the outline schema.''"

definition topics_shape :: pyval where
  "topics_shape = PDict [(PStr ''type'', PStr ''array''), (PStr ''items'', typed ''string''),
     (PStr ''description'', PStr ''exam only: ids of topic nodes in this same outline'')]"

definition outline_request :: "world \<Rightarrow> string \<times> pydict" where
  "outline_request w =
     (outline_rules @ [CHR 0x0A] @ ''The catalog's skills: '' @ joined '', '' (skills w) @ ''.'',
      outline_shape (dmerge outline_node_properties
        [(PStr ''skill'', PDict [(PStr ''type'', PStr ''string''), (PStr ''enum'', strs (skills w))]),
         (PStr ''topics'', topics_shape)]))"

section \<open>One node\<close>

definition node_rules :: "string \<Rightarrow> string" where
  "node_rules i = ''node:'' @ i @ [CHR 0x0A]
     @ ''Write this node from the sources only. Cite every claim by chunk ''
     @ ''id; cite nothing you were not given. Blocks must be catalog block types.''"

definition catalog_row :: "world \<Rightarrow> string \<Rightarrow> exn + pydict" where
  "catalog_row w kind = ebind (item (w_block_schemas w) kind) entry"

definition names_required :: "pydict \<Rightarrow> exn + string list" where
  "names_required row = ebind (iter_of (py_or (dget row ''required'') (PList []))) (traverse as_name)"

definition carries :: "world \<Rightarrow> string \<Rightarrow> exn + string" where
  "carries w kind = ebind (catalog_row w kind) (\<lambda>row. ebind (names_required row) (\<lambda>names.
     Inr (kind @ '' ('' @ joined '', '' names @ '')'')))"

text \<open>\<open>_lesson\<close>: the skill's label in the catalog and two numbers, and nothing the author wrote.\<close>

fun label_in :: "pyval \<Rightarrow> pyval list \<Rightarrow> exn + pyval" where
  "label_in skill [] = Inr skill"
| "label_in skill (k # ks) = ebind (entry k) (\<lambda>d. ebind (item d ''id'') (\<lambda>i.
     if py_eq i skill then item d ''label'' else label_in skill ks))"

definition label_of :: "world \<Rightarrow> pyval \<Rightarrow> exn + pyval" where
  "label_of w skill = ebind (ebind (item (w_catalog w) ''skills'') iter_of) (label_in skill)"

text \<open>A rate is a whole number, as the organisation's thresholds are; any other raises here.\<close>

fun an_int :: "pyval \<Rightarrow> bool" where
  "an_int (PInt _) = True"
| "an_int (PBool _) = True"
| "an_int _ = False"

definition floor_text :: "(pyval \<Rightarrow> string) \<Rightarrow> pyval \<Rightarrow> pyval \<Rightarrow> exn + string" where
  "floor_text show minutes per_minute = (case (as_int minutes, as_int per_minute) of
     (Some m, Some per) \<Rightarrow> Inr ('' It runs '' @ show minutes @ '' minutes: write at least ''
       @ int_text (m * per) @ '' words across its blocks : a heading, paragraphs that explain each step and why ''
       @ ''it matters, a worked example taken from the sources, and a checklist the learner can follow.'')
   | _ \<Rightarrow> Inl type_error)"

definition lesson_told :: "(pyval \<Rightarrow> string) \<Rightarrow> world \<Rightarrow> pydict \<Rightarrow> pydict \<Rightarrow> exn + string" where
  "lesson_told show w spec brief =
     (if dget spec ''type'' \<noteq> PStr ''topic'' \<or> \<not> truthy (dget spec ''skill'') then Inr []
      else ebind (label_of w (dget spec ''skill'')) (\<lambda>label.
        let minutes = dget brief ''minutes_per_lesson''; per_minute = dget (w_thresholds w) ''min_words_per_minute'';
            told = [CHR 0x0A] @ ''This lesson teaches '' @ id_text show label
              @ ''; the course's other lessons teach the rest, so stay on it.''
        in if an_int minutes \<and> truthy per_minute
           then ebind (floor_text show minutes per_minute) (\<lambda>t. Inr (told @ t)) else Inr told))"

text \<open>\<open>_block\<close>: one shape per block type, exactly the catalog's row.\<close>

definition field_shape :: "pyval \<times> pyval \<Rightarrow> pyval \<times> pyval" where
  "field_shape kv = (fst kv, case map_of block_fields (fst kv) of None \<Rightarrow> snd kv | Some s \<Rightarrow> s)"

definition block_request :: "world \<Rightarrow> string \<Rightarrow> exn + pyval" where
  "block_request w kind = ebind (catalog_row w kind) (\<lambda>row. ebind (names_required row) (\<lambda>names.
     ebind (py_items (py_or (dget row ''properties'') (PDict []))) (\<lambda>ps.
     Inr (object_with (''type'' # names)
       (dmerge [(PStr ''type'', PDict [(PStr ''type'', PStr ''string''), (PStr ''enum'', strs [kind])])]
         (map field_shape ps @ [(PStr ''cites'', array_of (typed ''string''))]))))))"

definition without_keys :: "string list \<Rightarrow> pydict \<Rightarrow> pydict" where
  "without_keys ks d = filter (\<lambda>kv. fst kv \<notin> PStr ` set ks) d"

definition node_shape :: "world \<Rightarrow> pydict \<Rightarrow> pyval list \<Rightarrow> pydict" where
  "node_shape w spec blocks =
     (let limit = dget (w_thresholds w) ''max_minutes_per_lesson'';
          exam = dget spec ''type'' = PStr ''exam'';
          kept = (if dget spec ''type'' = PStr ''topic'' then without_keys [''points_total'', ''questions''] node_properties
                  else node_properties);
          timed = (if truthy limit then dput ''minutes'' (PDict [(PStr ''type'', PStr ''integer''),
                     (PStr ''minimum'', PInt 1), (PStr ''maximum'', limit)]) kept else kept)
      in [(PStr ''type'', PStr ''object''),
        (PStr ''required'', strs ([''blocks'', ''cites'', ''minutes''] @ (if exam then [''points_total''] else []))),
        (PStr ''properties'', PDict (dput ''blocks'' (array_of (PDict [(PStr ''anyOf'', PList blocks)])) timed))])"

definition node_request :: "(pyval \<Rightarrow> string) \<Rightarrow> world \<Rightarrow> string \<Rightarrow> pydict \<Rightarrow> pydict \<Rightarrow> exn + string \<times> pydict" where
  "node_request show w i spec brief =
     ebind (traverse (carries w) (w_block_types w)) (\<lambda>told.
     ebind (lesson_told show w spec brief) (\<lambda>about.
     ebind (traverse (block_request w) (w_block_types w)) (\<lambda>blocks.
     let limit = dget (w_thresholds w) ''max_minutes_per_lesson'' in
     Inr (node_rules i @ [CHR 0x0A] @ ''Block types, and what each must carry, and nothing else: '' @ joined ''; '' told
        @ ''.'' @ [CHR 0x0A] @ ''State the node's minutes''
        @ (if truthy limit then '', at most '' @ id_text show limit else [])
        @ ''. An exam is made of quiz blocks, and its points_total is the sum of their points.'' @ about,
      node_shape w spec blocks))))"

end
