(* ===== verification/Pipeline.thy ===== *)
theory Pipeline
  imports Membrane Screened_Text Retrieval Asking
begin

text \<open>
  The generation gateway (\<open>gateway/pipeline.py\<close>): the calls that cost money or leave the tenant,
  and what their answers and their silence become.  A call to a provider runs inside a request
  of the membrane, reads the machine, and writes the pipeline's own log and memory, so these
  live in the membrane's surroundings, with the providers' own world \<open>'v\<close>.

  The names of the stages and what the log says of them are constructors; the reason a refusal
  gives is left out, as in \<open>Membrane\<close>.  \<open>screen_waiting\<close> is not modelled: it reads the states of
  node objects that the membrane's legality check replaces while the loop runs.
\<close>

section \<open>The ports\<close>

text \<open>\<open>gateway/provider/port.py\<close>: what a provider may raise, and what it answers.\<close>

datatype call_exn = No_answer | Malformed_answer | Other_exn exn

record prompt =
  pr_instructions :: string
  pr_author :: string
  pr_sources :: "string list"

record generated =
  gen_content :: pyval
  gen_model :: string

record screening_verdict =
  sv_allowed :: bool
  sv_category :: pyval
  sv_version :: pyval
  sv_point :: string

record 'v ports =
  po_generate :: "prompt \<Rightarrow> pydict \<Rightarrow> ('v, call_exn, generated) comp"
  po_screen :: "string \<Rightarrow> string \<Rightarrow> string \<Rightarrow> string \<Rightarrow> ('v, call_exn, screening_verdict) comp"
  po_version :: pyval
  po_generator :: string
  po_clock :: "'v \<Rightarrow> int \<times> 'v"
  po_chunks :: "pydict list"
  po_show :: "pyval \<Rightarrow> string"

section \<open>JSON in the order of the dictionary\<close>

text \<open>\<open>json.dumps(value)\<close>, whose keys are not sorted and so need not compare.\<close>

fun written_in_order :: "(pyfloat \<Rightarrow> string) \<Rightarrow> pyval \<Rightarrow> string" where
  "written_in_order fl (PList xs) = ''['' @ joined_by '', '' (map (written_in_order fl) xs) @ '']''"
| "written_in_order fl (PDict d) = ''{'' @ joined_by '', ''
     (map (\<lambda>(k, v). quoted (key_text fl k) @ '': '' @ written_in_order fl v) d) @ ''}''"
| "written_in_order fl v = written '', '' '': '' fl v"

section \<open>State\<close>

datatype stage_name = Schema_and_policy | Rights_filter | Routing | Generation | Guardrail_at string
  | Guardrail_call | Admission | Checks_and_admission

datatype stage_result = In_state string | Sources_for pyval "string list option" | By string
  | Let_through | Denied pyval | Answered_as pyval pyval | Unreachable_at check | Already_admitted
  | Waits_while string | Not_landed string | Repaired string pyval

type_synonym stage_entry = "nat \<times> stage_name \<times> string \<times> stage_result"

type_synonym memo = "string \<times> string \<times> string \<times> pyval \<times> pyval"

record 'v outside =
  o_stages :: "stage_entry list"
  o_screened :: "(memo \<times> screening_verdict) list"
  o_world :: 'v

type_synonym ('v, 'a) port_act = "('v outside, call_exn, 'a) comp"

type_synonym ('v, 'a) pipe_act = "('v outside, 'a) gate_act"

definition on_world :: "('v, call_exn, 'a) comp \<Rightarrow> ('v, 'a) port_act" where
  "on_world c = (\<lambda>w. case c (o_world w) of (r, v) \<Rightarrow> (r, w\<lparr>o_world := v\<rparr>))"

definition log_stage :: "nat \<Rightarrow> stage_name \<Rightarrow> string \<Rightarrow> stage_result \<Rightarrow> ('v outside, 'e, unit) comp" where
  "log_stage n name matter result =
     modify (\<lambda>w. w\<lparr>o_stages := o_stages w @ [(n, name, matter, result)]\<rparr>)"

definition on_outside :: "('w, exn, 'a) comp \<Rightarrow> ('w, 'a) gate_act" where
  "on_outside c = (\<lambda>g. case c (g_outside g) of (r, w) \<Rightarrow> (r, g\<lparr>g_outside := w\<rparr>))"

definition noted :: "nat \<Rightarrow> stage_name \<Rightarrow> string \<Rightarrow> stage_result \<Rightarrow> ('v, unit) pipe_act" where
  "noted n name matter result = on_outside (log_stage n name matter result)"

fun as_other :: "exn + 'a \<Rightarrow> call_exn + 'a" where
  "as_other (Inl e) = Inl (Other_exn e)"
| "as_other (Inr x) = Inr x"

section \<open>Screening\<close>

definition guardrail_in_force :: "machine \<Rightarrow> exn + pyval" where
  "guardrail_in_force m = (case map_of (st_current (m_store m)) ''guardrail'' of
     None \<Rightarrow> Inl (PyError ''KeyError'') | Some v \<Rightarrow> Inr v)"

text \<open>\<open>screen\<close>: one screening per content, point and version; only an answer of the version in
  force is remembered.\<close>

definition screen :: "gate_env \<Rightarrow> 'v ports \<Rightarrow> machine \<Rightarrow> string \<Rightarrow> string \<Rightarrow> string \<Rightarrow> string
    \<Rightarrow> ('v, screening_verdict) port_act" where
  "screen G P m content modality point matter =
     andthen (lift (\<lambda>_. as_other (guardrail_in_force m))) (\<lambda>in_force.
     let memo = (point, matter, ge_sha G content, in_force, po_version P) in
     andthen (gets (\<lambda>w. map_of (o_screened w) memo)) (\<lambda>hit. case hit of
       Some v \<Rightarrow> ret v
     | None \<Rightarrow> andthen (on_world (po_screen P content modality point matter)) (\<lambda>v.
         andthen (only_if (sv_version v = in_force)
             (modify (\<lambda>w. w\<lparr>o_screened := AList.update memo v (o_screened w)\<rparr>))) (\<lambda>_. ret v))))"

text \<open>\<open>_verdict\<close>: an answer of a version that is not in force is no answer.\<close>

definition verdict_in_force :: "gate_env \<Rightarrow> 'v ports \<Rightarrow> machine \<Rightarrow> string \<Rightarrow> string \<Rightarrow> string \<Rightarrow> string
    \<Rightarrow> ('v, screening_verdict) port_act" where
  "verdict_in_force G P m point matter content modality =
     andthen (screen G P m content modality point matter) (\<lambda>v.
     andthen (lift (\<lambda>_. as_other (guardrail_in_force m))) (\<lambda>in_force.
       if sv_version v \<noteq> in_force
       then andthen (log_stage 6 (Guardrail_at point) matter (Answered_as (sv_version v) in_force))
              (\<lambda>_. raise No_answer)
       else andthen (log_stage (if point = ''brief-in'' then 3 else 6) (Guardrail_at point) matter
                (if sv_allowed v then Let_through else Denied (sv_category v)))
              (\<lambda>_. ret v)))"

definition verdict_payload :: "screening_verdict \<Rightarrow> pydict" where
  "verdict_payload v = [(PStr ''verdict'', PStr (if sv_allowed v then ''allow'' else ''deny'')),
     (PStr ''guardrail_version'', sv_version v)]
     @ (if truthy (sv_category v) then [(PStr ''category'', sv_category v)] else [])"

text \<open>A computation of the ports as the call a request makes.\<close>

fun reply_of :: "call_exn + pyval \<Rightarrow> reply" where
  "reply_of (Inr v) = Replied v"
| "reply_of (Inl No_answer) = Unavailable"
| "reply_of (Inl Malformed_answer) = Malformed"
| "reply_of (Inl (Other_exn e)) = Failed e"

definition calling :: "(machine \<Rightarrow> ('v, pyval) port_act) \<Rightarrow> 'v outside call" where
  "calling c = (\<lambda>key m w. case c m w of (r, w') \<Rightarrow> (reply_of r, w'))"

section \<open>Requests and events\<close>

definition gateway_error :: exn where
  "gateway_error = PyError ''GatewayRefused''"

definition read_clock :: "'v ports \<Rightarrow> ('v, int) pipe_act" where
  "read_clock P = on_outside (\<lambda>w. case po_clock P (o_world w) of (t, v) \<Rightarrow> (Inr t, w\<lparr>o_world := v\<rparr>))"

definition ask_membrane :: "gate_env \<Rightarrow> 'v ports \<Rightarrow> string \<Rightarrow> pydict \<Rightarrow> caller
    \<Rightarrow> (machine \<Rightarrow> ('v, pyval) port_act) option \<Rightarrow> ('v, outcome) pipe_act" where
  "ask_membrane G P name args who c =
     andthen (read_clock P) (request G name args who (map_option calling c))"

definition fire_event :: "gate_env \<Rightarrow> event \<Rightarrow> pydict \<Rightarrow> string \<Rightarrow> ('v, unit) pipe_act" where
  "fire_event G e kv producer = on_machine (fire_upto (Suc (ge_fuel G)) (ge_env G) e kv producer)"

definition at_machine :: "(machine \<Rightarrow> exn + 'a) \<Rightarrow> ('v, 'a) pipe_act" where
  "at_machine f = lift (\<lambda>g. f (g_machine g))"

definition current_node :: "string \<Rightarrow> machine \<Rightarrow> exn + node_record" where
  "current_node i m = ebind (current_revision m) (\<lambda>rv. case map_of (r_nodes rv) i of
     None \<Rightarrow> Inl (PyError ''KeyError'') | Some nd \<Rightarrow> Inr nd)"

definition about :: "string option \<Rightarrow> pydict" where
  "about i = (case i of None \<Rightarrow> [] | Some n \<Rightarrow> (if n = [] then [] else [(PStr ''node'', PStr n)]))"

section \<open>Admission\<close>

text \<open>What the log says of the object an admission was about.\<close>

definition result_of :: "string \<Rightarrow> pyval \<Rightarrow> stage_result" where
  "result_of state why = (if state \<in> {''ContentDrafting'', ''OutlineDrafting''} \<and> truthy why
     then Repaired state why else In_state state)"

definition admitted_object :: "string option \<Rightarrow> machine \<Rightarrow> exn + stage_result" where
  "admitted_object i m = ebind (current_revision m) (\<lambda>rv. case i of
       Some n \<Rightarrow> (case map_of (r_nodes rv) n of
           None \<Rightarrow> Inl (PyError ''AttributeError'')
         | Some nd \<Rightarrow> Inr (result_of (node_state_name (n_state nd)) (n_last_refusal nd)))
     | None \<Rightarrow> Inr (result_of (rev_state_name (r_state rv)) (r_last_refusal rv)))"

definition admit :: "gate_env \<Rightarrow> 'v ports \<Rightarrow> string \<Rightarrow> string option \<Rightarrow> string
    \<Rightarrow> (machine \<Rightarrow> ('v, pyval) port_act) \<Rightarrow> ('v, unit) pipe_act" where
  "admit G P artifact i screened c =
     andthen (ask_membrane G P ''admit_to_revision''
       ([(PStr ''artifact'', PStr artifact), (PStr ''screened'', PStr screened)] @ about i) Gateway (Some c)) (\<lambda>out.
     if o_check out \<in> {Some Effect, Some Answer}
     then andthen (noted 6 Guardrail_call artifact (Unreachable_at (the (o_check out))))
       (\<lambda>_. fire_event G ServiceUnreachable (about i) ''gateway'')
     else if o_check out = Some Idempotency_key_unused
     then noted 10 Admission artifact Already_admitted
     else andthen (at_machine current_revision) (\<lambda>rv.
       if o_check out = Some Legal_in_state \<and> about i \<noteq> [] \<and> r_state rv \<noteq> ContentInProgress
       then noted 6 Guardrail_call artifact (Waits_while (rev_state_name (r_state rv)))
       else if \<not> o_ran out then raise gateway_error
       else andthen (at_machine (admitted_object (if about i = [] then None else i))) (\<lambda>r.
         noted 10 Checks_and_admission artifact r)))"

definition screen_artifact :: "gate_env \<Rightarrow> 'v ports \<Rightarrow> string \<Rightarrow> string \<Rightarrow> string \<Rightarrow> string
    \<Rightarrow> ('v, unit) pipe_act" where
  "screen_artifact G P point matter content modality =
     admit G P matter None (ge_sha G content) (\<lambda>m.
       andthen (verdict_in_force G P m point matter content modality) (\<lambda>v. ret (PDict (verdict_payload v))))"

section \<open>A node\<close>

definition image_text :: "gate_env \<Rightarrow> pydict \<Rightarrow> exn + string" where
  "image_text G b = (case dlookup b ''src'' of
     None \<Rightarrow> Inr [] | Some (PStr s) \<Rightarrow> Inr s | Some v \<Rightarrow> spread (ge_float G) v)"

definition image_subject :: "string \<Rightarrow> nat \<Rightarrow> string" where
  "image_subject i k = i @ ''.blocks['' @ int_text (int k) @ '']''"

text \<open>The text first, then each image while nothing was denied.\<close>

definition screen_block :: "gate_env \<Rightarrow> 'v ports \<Rightarrow> machine \<Rightarrow> string \<Rightarrow> nat \<times> pydict \<Rightarrow> screening_verdict
    \<Rightarrow> ('v, screening_verdict) port_act" where
  "screen_block G P m i x v =
     (if sv_allowed v \<and> dget (snd x) ''type'' = PStr ''image''
      then andthen (lift (\<lambda>_. as_other (image_text G (snd x)))) (\<lambda>s.
        verdict_in_force G P m ''image-out'' (image_subject i (fst x)) s ''image'')
      else ret v)"

definition screen_content :: "gate_env \<Rightarrow> 'v ports \<Rightarrow> string \<Rightarrow> pyval \<Rightarrow> machine \<Rightarrow> ('v, screening_verdict) port_act" where
  "screen_content G P i content m =
     andthen (verdict_in_force G P m ''node-out'' i (screened_text content) ''text'')
       (loop (screen_block G P m i) (enumerate 0 (blocks_of content)))"

definition screen_once :: "gate_env \<Rightarrow> 'v ports \<Rightarrow> string \<Rightarrow> ('v, unit) pipe_act" where
  "screen_once G P i =
     andthen (at_machine (current_node i)) (\<lambda>nd.
     let content = py_or (n_content nd) (PDict []) in
     andthen (lift (\<lambda>_. spread (ge_float G) content)) (\<lambda>text.
       admit G P i (Some i) (ge_sha G text) (\<lambda>m.
         andthen (screen_content G P i content m) (\<lambda>v. ret (PDict (verdict_payload v))))))"

text \<open>\<open>screen_node\<close>: asked again while the node waits, at most once more than the budget.\<close>

fun screen_rounds :: "gate_env \<Rightarrow> 'v ports \<Rightarrow> string \<Rightarrow> nat \<Rightarrow> ('v, unit) pipe_act" where
  "screen_rounds G P i 0 = raise gateway_error"
| "screen_rounds G P i (Suc n) =
     andthen (gets (\<lambda>g. length (st_steps (m_store (g_machine g))))) (\<lambda>steps.
     andthen (screen_once G P i) (\<lambda>_.
     andthen (at_machine (current_node i)) (\<lambda>nd.
     andthen (gets (\<lambda>g. length (st_steps (m_store (g_machine g))))) (\<lambda>now.
       if n_state nd \<noteq> OutputGuardrail \<or> now = steps then ret () else screen_rounds G P i n))))"

definition screen_node :: "gate_env \<Rightarrow> 'v ports \<Rightarrow> string \<Rightarrow> ('v, unit) pipe_act" where
  "screen_node G P i =
     andthen (gets (\<lambda>g. budget (m_store (g_machine g)))) (\<lambda>b. screen_rounds G P i (nat (b + 1)))"

section \<open>Prompts\<close>

text \<open>\<open>digest\<close>.\<close>

definition prompt_digest :: "gate_env \<Rightarrow> prompt \<Rightarrow> exn + string" where
  "prompt_digest G p = ebind (spread (ge_float G) (PDict [(PStr ''instructions'', PStr (pr_instructions p)),
     (PStr ''author'', PStr (pr_author p)), (PStr ''sources'', strs (pr_sources p))])) (\<lambda>t. Inr (ge_sha G t))"

definition with_feedback :: "('v, 'z) ports_scheme \<Rightarrow> string \<Rightarrow> pyval \<Rightarrow> string" where
  "with_feedback P rules why = (if truthy why
     then rules @ [CHR 0x0A] @ ''The previous attempt was refused: '' @ id_text (po_show P) why else rules)"

definition source_line :: "'v ports \<Rightarrow> pydict \<Rightarrow> exn + string" where
  "source_line P c = ebind (item c ''id'') (\<lambda>i. ebind (item c ''text'') (\<lambda>t.
     Inr (id_text (po_show P) i @ '': '' @ id_text (po_show P) t)))"

definition brief_or_empty :: "revision_record \<Rightarrow> pydict" where
  "brief_or_empty rv = entries_of (py_or (r_brief rv) (PDict []))"

definition sources :: "gate_env \<Rightarrow> 'v ports \<Rightarrow> string list option \<Rightarrow> ('v, string list) pipe_act" where
  "sources G P wanted =
     andthen (at_machine current_revision) (\<lambda>rv.
     let audiences = py_or (dget (brief_or_empty rv) ''audience'') (PList []) in
     andthen (noted 3 Rights_filter ''sources'' (Sources_for audiences wanted)) (\<lambda>_.
       lift (\<lambda>_. ebind (iter_of audiences) (\<lambda>names.
         ebind (retrieve (e_world (ge_env G)) names (po_chunks P) wanted) (traverse (source_line P))))))"

text \<open>\<open>_skills_of\<close>: a lesson's own skill; an exam's, the skills of the topics it still tests.\<close>

definition tested_skill :: "revision_record \<Rightarrow> pyval \<Rightarrow> exn + string list" where
  "tested_skill rv t = ebind (hashed t) (\<lambda>k. case find (\<lambda>x. PStr (fst x) = k) (r_nodes rv) of
       None \<Rightarrow> Inr []
     | Some (n, nd) \<Rightarrow>
         (let s = dget (entries_of (n_spec nd)) ''skill'' in
          if n \<in> set (outline_ids rv) \<and> truthy s then ebind (as_name s) (\<lambda>x. Inr [x]) else Inr []))"

definition skills_for :: "pydict \<Rightarrow> revision_record \<Rightarrow> exn + string list option" where
  "skills_for spec rv =
     (if dget spec ''type'' = PStr ''exam''
      then ebind (iter_of (py_or (dget spec ''topics'') (PList []))) (\<lambda>ts.
        ebind (traverse (tested_skill rv) ts) (\<lambda>xs.
        let names = sorted_names (concat xs) in Inr (if names = [] then None else Some names)))
      else if truthy (dget spec ''skill'') then ebind (as_name (dget spec ''skill'')) (\<lambda>s. Inr (Some [s]))
      else Inr None)"

section \<open>Generation\<close>

definition generate :: "'v ports \<Rightarrow> prompt \<Rightarrow> pydict \<Rightarrow> string \<Rightarrow> ('v, pyval) port_act" where
  "generate P p schema matter =
     andthen (on_world (po_generate P p schema)) (\<lambda>x.
     andthen (log_stage 5 Generation matter (By (gen_model x))) (\<lambda>_. ret (gen_content x)))"

text \<open>\<open>_unknown_or_refused\<close>: no answer is the caller's event, a wrong answer a \<open>ModelError\<close>.\<close>

definition unknown_or_refused :: "gate_env \<Rightarrow> outcome \<Rightarrow> string option \<Rightarrow> event \<Rightarrow> ('v, unit) pipe_act" where
  "unknown_or_refused G out i e =
     (case o_check out of
        Some Effect \<Rightarrow> andthen (noted 5 Generation (case i of Some n \<Rightarrow> n | None \<Rightarrow> ''outline'') (Unreachable_at Effect))
          (\<lambda>_. fire_event G e (case i of Some n \<Rightarrow> [(PStr ''node'', PStr n)] | None \<Rightarrow> []) ''gateway'')
      | Some Answer \<Rightarrow> andthen (noted 5 Generation (case i of Some n \<Rightarrow> n | None \<Rightarrow> ''outline'') (Unreachable_at Answer))
          (\<lambda>_. fire_event G ModelError (case i of Some n \<Rightarrow> [(PStr ''node'', PStr n)] | None \<Rightarrow> []) ''gateway'')
      | _ \<Rightarrow> raise gateway_error)"

definition submit_brief :: "gate_env \<Rightarrow> 'v ports \<Rightarrow> pydict \<Rightarrow> pydict \<Rightarrow> ('v, unit) pipe_act" where
  "submit_brief G P brief actor =
     andthen (lift (\<lambda>_. item actor ''id'')) (\<lambda>who.
     andthen (fire_event G BriefSubmitted [(PStr ''brief'', PDict brief), (PStr ''actor'', who)] ''orchestrator'') (\<lambda>_.
     andthen (at_machine current_revision) (\<lambda>rv.
     andthen (noted 1 Schema_and_policy ''brief'' (In_state (rev_state_name (r_state rv)))) (\<lambda>_.
       if r_state rv = BriefValidation
       then andthen (lift (\<lambda>_. spread (ge_float G) (PDict brief))) (\<lambda>text.
         screen_artifact G P ''brief-in'' ''brief'' text ''text'')
       else ret ()))))"

definition outline_prompt :: "gate_env \<Rightarrow> 'v ports \<Rightarrow> ('v, prompt) pipe_act" where
  "outline_prompt G P =
     andthen (at_machine current_revision) (\<lambda>rv.
     andthen (lift (\<lambda>_. ebind (entry (r_brief rv)) (\<lambda>b. ebind (item b ''title'') (\<lambda>t.
         ebind (item b ''objectives'') (\<lambda>os.
         Inr (written_in_order (ge_float G) (PDict [(PStr ''title'', t), (PStr ''objectives'', os)]))))))) (\<lambda>author.
     andthen (sources G P None) (\<lambda>found.
       ret \<lparr>pr_instructions = with_feedback P (fst (outline_request (e_world (ge_env G)))) (r_last_refusal rv),
         pr_author = author, pr_sources = found\<rparr>)))"

definition draft_outline :: "gate_env \<Rightarrow> 'v ports \<Rightarrow> pydict \<Rightarrow> ('v, unit) pipe_act" where
  "draft_outline G P actor =
     andthen (outline_prompt G P) (\<lambda>p.
     andthen (noted 4 Routing ''outline'' (By (po_generator P))) (\<lambda>_.
     andthen (lift (\<lambda>_. prompt_digest G p)) (\<lambda>named.
     andthen (ask_membrane G P ''propose_outline'' [(PStr ''prompt'', PStr named)] (Asking (PDict actor))
         (Some (\<lambda>m. andthen (generate P p (snd (outline_request (e_world (ge_env G)))) ''outline'')
            (\<lambda>v. ret (PDict [(PStr ''outline'', v)]))))) (\<lambda>out.
       if \<not> o_ran out then unknown_or_refused G out None Timeout
       else andthen (at_machine current_revision) (\<lambda>rv.
         andthen (lift (\<lambda>_. Inr (written_in_order (ge_float G) (r_proposal rv)))) (\<lambda>text.
           screen_artifact G P ''outline-out'' ''outline'' text ''text''))))))"

definition node_prompt :: "gate_env \<Rightarrow> 'v ports \<Rightarrow> string \<Rightarrow> ('v, prompt \<times> pydict) pipe_act" where
  "node_prompt G P i =
     andthen (at_machine (current_node i)) (\<lambda>nd.
     andthen (at_machine current_revision) (\<lambda>rv.
     let spec = entries_of (n_spec nd) in
     andthen (lift (\<lambda>_. node_request (po_show P) (e_world (ge_env G)) i spec (brief_or_empty rv))) (\<lambda>(rules, schema).
     andthen (lift (\<lambda>_. spread (ge_float G) (PDict (dput ''course'' (dget (brief_or_empty rv) ''title'') spec)))) (\<lambda>author.
     andthen (lift (\<lambda>_. skills_for spec rv)) (\<lambda>wanted.
     andthen (sources G P wanted) (\<lambda>found.
       ret (\<lparr>pr_instructions = with_feedback P rules (n_last_refusal nd), pr_author = author,
         pr_sources = found\<rparr>, schema)))))))"

text \<open>One round of the loop: whether the loop goes on (\<open>continue\<close> or falling through) or returns.\<close>

definition draft_round :: "gate_env \<Rightarrow> 'v ports \<Rightarrow> string \<Rightarrow> pydict \<Rightarrow> ('v, bool) pipe_act" where
  "draft_round G P i actor =
     andthen (node_prompt G P i) (\<lambda>(p, schema).
     andthen (noted 4 Routing i (By (po_generator P))) (\<lambda>_.
     andthen (lift (\<lambda>_. prompt_digest G p)) (\<lambda>named.
     andthen (ask_membrane G P ''generate_node_content'' [(PStr ''node'', PStr i), (PStr ''prompt'', PStr named)]
         (Asking (PDict actor))
         (Some (\<lambda>m. andthen (generate P p schema i) (\<lambda>v. ret (PDict [(PStr ''content'', v)]))))) (\<lambda>out.
       if \<not> o_ran out \<and> o_check out = Some Legal_in_state \<and> o_key out \<noteq> None
       then andthen (at_machine (current_node i)) (\<lambda>nd.
         andthen (noted 5 Generation i (Not_landed (node_state_name (n_state nd)))) (\<lambda>_. ret False))
       else if \<not> o_ran out
       then andthen (unknown_or_refused G out (Some i) Timeout) (\<lambda>_. ret True)
       else andthen (at_machine (current_node i)) (\<lambda>nd.
         andthen (only_if (n_state nd = OutputGuardrail) (screen_node G P i)) (\<lambda>_. ret True))))))"

text \<open>
  The loop of \<open>generate_node\<close>.  What ends it is the retry budget, which the machine keeps; the
  fuel is only how many rounds are looked at, and running out is \<open>None\<close>, not a result.
\<close>

fun draft_rounds :: "nat \<Rightarrow> gate_env \<Rightarrow> 'v ports \<Rightarrow> string \<Rightarrow> pydict \<Rightarrow> ('v, unit option) pipe_act" where
  "draft_rounds 0 G P i actor = ret None"
| "draft_rounds (Suc k) G P i actor =
     andthen (at_machine (current_node i)) (\<lambda>nd.
       if n_state nd \<noteq> ContentDrafting then ret (Some ())
       else andthen (draft_round G P i actor) (\<lambda>more. if more then draft_rounds k G P i actor else ret (Some ())))"

definition generate_node :: "nat \<Rightarrow> gate_env \<Rightarrow> 'v ports \<Rightarrow> string \<Rightarrow> pydict \<Rightarrow> ('v, unit option) pipe_act" where
  "generate_node k G P i actor =
     andthen (at_machine (current_node i)) (\<lambda>nd.
     if n_state nd = OutputGuardrail then andthen (screen_node G P i) (\<lambda>_. ret (Some ()))
     else andthen (only_if (n_state nd = Planned)
         (andthen (lift (\<lambda>_. item actor ''id'')) (\<lambda>who.
            fire_event G NodeGenerationRequested [(PStr ''node'', PStr i), (PStr ''actor'', who)] ''orchestrator'')))
       (\<lambda>_. draft_rounds k G P i actor))"

section \<open>The notice to learners\<close>

text \<open>\<open>_about\<close>: the revision learners are reading, or the last one they were.\<close>

definition notice_about :: "machine \<Rightarrow> int" where
  "notice_about m = (case st_live_pointer (m_store m) of
       Some r \<Rightarrow> r
     | None \<Rightarrow>
         (let revs = map snd (st_revisions (m_store m));
              served = map r_id (filter (\<lambda>rv. r_state rv \<in> {Withdrawn, Published}) revs);
              ever = map r_id (filter r_ever_published revs)
          in if served \<noteq> [] then last served else if ever \<noteq> [] then last ever else m_current m))"

definition notify_learners :: "gate_env \<Rightarrow> 'v ports \<Rightarrow> string \<Rightarrow> int \<Rightarrow> pydict \<Rightarrow> int option \<Rightarrow> ('v, outcome) pipe_act" where
  "notify_learners G P notice recipients actor of_revision =
     andthen (gets (\<lambda>g. case of_revision of Some r \<Rightarrow> r | None \<Rightarrow> notice_about (g_machine g))) (\<lambda>r.
       ask_membrane G P ''notify_learners'' [(PStr ''notice'', PStr notice), (PStr ''recipients'', PInt recipients),
           (PStr ''revision'', PInt r)] (Asking (PDict actor))
         (Some (\<lambda>m. andthen (verdict_in_force G P m ''notice-out'' (''notice:revision-'' @ int_text r) notice ''text'')
            (\<lambda>v. ret (PDict [(PStr ''notice_screening'', PDict (verdict_payload v))])))))"

end
