(* ===== verification/Membrane_Properties.thy ===== *)
theory Membrane_Properties
  imports Membrane Machine_Properties
begin

text \<open>
  What a request can do: which checks it passed if it ran, what is left untouched if it did not,
  what a provider's answer can set, and that an act that landed does not happen again.
\<close>

section \<open>Stages\<close>

lemma andgo_eq:
  "andgo m f s = (Inr (Go z), s') \<longleftrightarrow> (\<exists>y s1. m s = (Inr (Go y), s1) \<and> f y s1 = (Inr (Go z), s'))"
  "andgo m f s = (Inr (Stop out), s') \<longleftrightarrow> m s = (Inr (Stop out), s')
     \<or> (\<exists>y s1. m s = (Inr (Go y), s1) \<and> f y s1 = (Inr (Stop out), s'))"
  "andgo m f s = (Inl x, s') \<longleftrightarrow> m s = (Inl x, s')
     \<or> (\<exists>y s1. m s = (Inr (Go y), s1) \<and> f y s1 = (Inl x, s'))"
  by (auto simp: andgo_def andthen_def ret_def split: prod.splits sum.splits stage.splits)

lemma stage_eq [simp]:
  "(case x of Stop out \<Rightarrow> Stop out | Go y \<Rightarrow> Go (h y)) = Go z \<longleftrightarrow> (\<exists>y. x = Go y \<and> h y = z)"
  "(case x of Stop out \<Rightarrow> Stop out | Go y \<Rightarrow> Go (h y)) = Stop o' \<longleftrightarrow> x = Stop o'"
  by (cases x; simp)+

lemma lift_is: "lift h g = (r, g') \<longleftrightarrow> h g = r \<and> g' = g"
  by (auto simp: lift_def)

lemma on_machine_eq:
  "on_machine c g = (x, g') \<longleftrightarrow> (\<exists>m'. c (g_machine g) = (x, m') \<and> g' = g\<lparr>g_machine := m'\<rparr>)"
  by (auto simp: on_machine_def split: prod.splits)

section \<open>The checks\<close>

text \<open>All eight, as facts about the gate the request met.\<close>

definition checks_passed :: "gate_env \<Rightarrow> string \<Rightarrow> pydict \<Rightarrow> caller \<Rightarrow> int \<Rightarrow> 'w gate
    \<Rightarrow> action_entry \<Rightarrow> pydict \<Rightarrow> string \<Rightarrow> bool" where
  "checks_passed G name args who now g ac actor key \<longleftrightarrow>
     map_of registry_of name = Some ac \<and> \<not> ge_invalid G (ac_args ac) args
     \<and> authenticated (e_world (ge_env G)) who = Inr actor
     \<and> (\<exists>v. judged_by_policy G name actor (g_machine g) = Inr v \<and> v_ok v)
     \<and> resource_ok (e_world (ge_env G)) (g_course g) actor
     \<and> named_key G name args ac g = Inr key \<and> \<not> already_done ac key g
     \<and> (\<forall>e. ac_event ac = Some e \<longrightarrow>
          (\<exists>m. legal G e (with_key key (carried_fields args actor)) (g_machine g) = (Inr True, m)))
     \<and> stands ac actor
     \<and> (name \<noteq> ''admit_to_revision'' \<longrightarrow>
          int (length (within_window now g (spent_by (dget actor ''id'') g))) < g_rate_limit g)"

text \<open>What asking leaves as it was.\<close>

definition same_standing :: "machine \<Rightarrow> machine \<Rightarrow> bool" where
  "same_standing m m' \<longleftrightarrow> m_store m' = m_store m \<and> m_current m' = m_current m \<and> m_depth m' = m_depth m"

definition untouched :: "'w gate \<Rightarrow> 'w gate \<Rightarrow> bool" where
  "untouched g g' \<longleftrightarrow> same_standing (g_machine g) (g_machine g') \<and> g_outside g' = g_outside g
     \<and> g_course g' = g_course g \<and> g_rate_limit g' = g_rate_limit g \<and> g_window g' = g_window g"

interpretation standing: state_preorder same_standing
  by unfold_locales (auto simp: same_standing_def)

interpretation untouching: state_preorder untouched
  by unfold_locales (auto simp: untouched_def same_standing_def)

lemma keeps_permits: "keeps same_standing (permits k E e kv)"
proof (rule keepsI)
  fix m
  obtain r m' where run: "permits k E e kv m = (r, m')" by fastforce
  show "same_standing m (snd (permits k E e kv m))"
    using permits_puts_back_state [OF run] by (simp add: run same_standing_def)
qed

lemma keeps_legal: "keeps same_standing (legal G e kv)"
  unfolding legal_def Let_def
  by (intro standing.combinators keeps_permits)

lemma legal_standing: "legal G e kv m = (r, m') \<Longrightarrow> same_standing m m'"
  using keeps_legal by (rule keepsD)

lemma lawful_outcome:
  "lawful G ac kv g = (r, g') \<Longrightarrow> untouched g g' \<and> g_issued g' = g_issued g \<and> g_spent g' = g_spent g"
  unfolding lawful_def
  by (auto simp: andthen_eq on_machine_eq untouched_def standing.same dest: legal_standing split: option.splits if_splits)

lemma lawful_go:
  "lawful G ac kv g = (Inr (Go u), g') \<Longrightarrow> \<forall>e. ac_event ac = Some e \<longrightarrow>
     (\<exists>m. legal G e kv (g_machine g) = (Inr True, m))"
  unfolding lawful_def by (fastforce simp: andthen_eq on_machine_eq split: option.splits if_splits)

lemma paced_outcome:
  "paced name i now g = (r, g') \<Longrightarrow> untouched g g' \<and> g_issued g' = g_issued g"
  unfolding paced_def by (auto simp: andthen_eq untouched_def standing.same)

lemma paced_go:
  "paced name i now g = (Inr (Go u), g') \<Longrightarrow> name \<noteq> ''admit_to_revision'' \<longrightarrow>
     int (length (within_window now g (spent_by i g))) < g_rate_limit g"
  unfolding paced_def by (auto simp: andthen_eq split: if_splits)

lemma admissible_go:
  "admissible G name args who calls g = Inr (Go (ac, actor)) \<longleftrightarrow>
     map_of registry_of name = Some ac \<and> \<not> ge_invalid G (ac_args ac) args \<and> lands_answer ac = calls
     \<and> authenticated (e_world (ge_env G)) who = Inr actor
     \<and> (\<exists>v. judged_by_policy G name actor (g_machine g) = Inr v \<and> v_ok v)
     \<and> resource_ok (e_world (ge_env G)) (g_course g) actor"
  unfolding admissible_def entitled_def
  by (cases "map_of registry_of name") (auto split: if_splits)

lemma unrepeated_go:
  "unrepeated G name args ac g = Inr (Go key) \<longleftrightarrow>
     named_key G name args ac g = Inr key \<and> \<not> already_done ac key g"
  unfolding unrepeated_def by auto

text \<open>The state in which the effect begins: the key is issued, and nothing else has happened.\<close>

lemma pass_checks_go:
  assumes "pass_checks G name args who calls now g = (Inr (Go (ac, kv, key)), g')"
  shows "\<exists>actor. checks_passed G name args who now g ac actor key \<and> kv = carried_fields args actor
    \<and> lands_answer ac = calls \<and> untouched g g' \<and> g_issued g' = List.insert key (g_issued g)"
proof -
  from assms obtain actor g1 g2 where
      one: "admissible G name args who calls g = Inr (Go (ac, actor))" and
      two: "unrepeated G name args ac g = Inr (Go key)" and
      three: "lawful G ac (with_key key (carried_fields args actor)) g = (Inr (Go ()), g1)" and
      four: "stands ac actor" and
      five: "paced name (dget actor ''id'') now g1 = (Inr (Go ()), g2)" and
      six: "issue key (dget actor ''id'') now g2 = (Inr (), g')" and
      kv: "kv = carried_fields args actor"
    unfolding pass_checks_def
    by (fastforce simp: andgo_eq andthen_eq lift_is split: if_splits simp del: lift_eq)
  have same: "untouched g g1" "untouched g1 g2" "g_issued g1 = g_issued g" "g_spent g1 = g_spent g"
      "g_issued g2 = g_issued g1"
    using lawful_outcome [OF three] paced_outcome [OF five] by auto
  have "untouched g2 g'" "g_issued g' = List.insert key (g_issued g2)"
    using six unfolding issue_def by (auto simp: untouched_def standing.same)
  then have "untouched g g'" "g_issued g' = List.insert key (g_issued g)"
    using same by (auto intro: untouching.compose)
  moreover have "within_window now g1 (spent_by (dget actor ''id'') g1) = within_window now g (spent_by (dget actor ''id'') g)"
      "g_rate_limit g1 = g_rate_limit g"
    using same by (simp_all add: within_window_def spent_by_def untouched_def)
  then have "checks_passed G name args who now g ac actor key"
    unfolding checks_passed_def
    using one two lawful_go [OF three] four paced_go [OF five]
    by (simp add: admissible_go unrepeated_go)
  ultimately show ?thesis
    using kv one by (auto simp: admissible_go)
qed

lemma admissible_stop: "admissible G name args who calls g = Inr (Stop out) \<Longrightarrow> \<exists>c. out = refused_at c"
  unfolding admissible_def entitled_def
  by (cases "map_of registry_of name") (auto split: if_splits)

lemma unrepeated_stop: "unrepeated G name args ac g = Inr (Stop out) \<Longrightarrow>
    out = no_under Idempotency_key_unused (projr (named_key G name args ac g))"
  unfolding unrepeated_def by (auto split: if_splits)

lemma lawful_stop: "lawful G ac kv g = (Inr (Stop out), g') \<Longrightarrow> out = refused_at Legal_in_state"
  unfolding lawful_def by (auto simp: andthen_eq split: option.splits if_splits)

lemma paced_stop: "paced name i now g = (Inr (Stop out), g') \<Longrightarrow> out = refused_at Within_rate_limit"
  unfolding paced_def by (auto simp: andthen_eq split: if_splits)

lemma no_simps [simp]: "\<not> o_ran (refused_at c)" "\<not> o_ran (no_under c key)" "o_ran (ran_under key)"
  "o_key (refused_at c) = None" "o_key (no_under c key) = Some key" "o_key (ran_under key) = Some key"
  by (simp_all add: refused_at_def no_under_def ran_under_def)

lemma paced_quiet: "paced name i now g = (r, g') \<Longrightarrow> untouched g g' \<and> g_issued g' = g_issued g
    \<and> (\<forall>out. r = Inr (Stop out) \<longrightarrow> \<not> o_ran out)"
  using paced_outcome paced_stop by (metis no_simps(1))

lemma lawful_quiet: "lawful G ac kv g = (r, g') \<Longrightarrow> untouched g g' \<and> g_issued g' = g_issued g
    \<and> (\<forall>out. r = Inr (Stop out) \<longrightarrow> \<not> o_ran out)"
  using lawful_outcome lawful_stop by (metis no_simps(1))

lemma admissible_quiet: "admissible G name args who calls g = Inr (Stop out) \<Longrightarrow> \<not> o_ran out"
  using admissible_stop no_simps(1) by metis

lemma unrepeated_quiet: "unrepeated G name args ac g = Inr (Stop out) \<Longrightarrow> \<not> o_ran out"
  using unrepeated_stop no_simps(2) by metis

lemma pass_checks_stop:
  "pass_checks G name args who calls now g = (Inr (Stop out), g') \<Longrightarrow>
     untouched g g' \<and> g_issued g' = g_issued g \<and> \<not> o_ran out"
  unfolding pass_checks_def
  by (auto simp: andgo_eq andthen_eq lift_is untouching.same issue_def split: if_splits simp del: lift_eq
      dest: admissible_quiet unrepeated_quiet dest!: lawful_quiet paced_quiet intro: untouching.compose)

lemma pass_checks_raised:
  "pass_checks G name args who calls now g = (Inl x, g') \<Longrightarrow> untouched g g' \<and> g_issued g' = g_issued g"
  unfolding pass_checks_def
  by (auto simp: andgo_eq andthen_eq lift_is untouching.same issue_def split: if_splits simp del: lift_eq
      dest!: lawful_quiet paced_quiet intro: untouching.compose)

section \<open>The effect\<close>

lemma perform_call_none [simp]: "perform_call ac key kv None g = (Inr (Go kv), g)"
  by (simp add: perform_call_def ret_def)

lemma perform_call_effect:
  assumes "perform_call ac key kv call g = (r, g')"
  shows "g_machine g' = g_machine g \<and> g_issued g' = g_issued g
    \<and> (\<forall>out. r = Inr (Stop out) \<longrightarrow> \<not> o_ran out \<and> o_key out = Some key \<and> call \<noteq> None)
    \<and> (\<forall>kv'. r = Inr (Go kv') \<longrightarrow> (if call = None then kv' = kv
         else \<exists>e v found. ac_event ac = Some e \<and> answer_of e v = Some found \<and> kv' = dmerge kv found))"
  using assms unfolding perform_call_def call_provider_def
  by (cases call) (auto simp: andthen_eq split: prod.splits reply.splits option.splits)

lemma land_go:
  "land G ac key calls kv g = (Inr (Go out), g') \<Longrightarrow> out = ran_under key \<and>
     (case ac_event ac of None \<Rightarrow> g' = g
      | Some e \<Rightarrow> \<exists>m. fire_upto (Suc (ge_fuel G)) (ge_env G) e (with_key key kv) ''orchestrator'' (g_machine g) = (Inr (), m)
          \<and> g' = g\<lparr>g_machine := on_store (use_landed key) m\<rparr>)"
  unfolding land_def
  by (auto simp: andgo_eq andthen_eq handle_eq on_machine_eq split: option.splits if_splits)

lemma land_stop:
  "land G ac key calls kv g = (Inr (Stop out), g') \<Longrightarrow> out = no_under Legal_in_state key \<and> calls \<and>
     (\<exists>e m. ac_event ac = Some e \<and> g' = g\<lparr>g_machine := m\<rparr> \<and>
        fire_upto (Suc (ge_fuel G)) (ge_env G) e (with_key key kv) ''orchestrator'' (g_machine g)
          = (Inl MachineRefused, m))"
  unfolding land_def
  by (auto simp: andgo_eq andthen_eq handle_eq on_machine_eq split: option.splits if_splits)

lemma land_raised:
  "land G ac key calls kv g = (Inl x, g') \<Longrightarrow>
     (\<exists>e m. ac_event ac = Some e \<and> g' = g\<lparr>g_machine := m\<rparr> \<and>
        fire_upto (Suc (ge_fuel G)) (ge_env G) e (with_key key kv) ''orchestrator'' (g_machine g) = (Inl x, m))"
  unfolding land_def
  by (auto simp: andgo_eq andthen_eq handle_eq on_machine_eq split: option.splits if_splits)

section \<open>A whole request\<close>

text \<open>A request stopped at a check, or it passed all eight and went on to the effect.\<close>

lemma request_cases:
  assumes "request G name args who call now g = (r, g')"
  shows "untouched g g' \<and> g_issued g' = g_issued g \<and> (\<forall>out. r = Inr out \<longrightarrow> \<not> o_ran out) \<or>
    (\<exists>ac actor key g1 x. checks_passed G name args who now g ac actor key \<and> lands_answer ac = (call \<noteq> None)
       \<and> untouched g g1 \<and> g_issued g1 = List.insert key (g_issued g)
       \<and> andgo (perform_call ac key (carried_fields args actor) call) (land G ac key (call \<noteq> None)) g1 = (x, g')
       \<and> r = map_sum id outcome_of x)"
proof -
  obtain p g1 where p: "pass_checks G name args who (call \<noteq> None) now g = (p, g1)" by fastforce
  consider x where "p = Inl x" "r = Inl x" "g' = g1"
    | out where "p = Inr (Stop out)" "r = Inr out" "g' = g1"
    | ac kv key x where "p = Inr (Go (ac, kv, key))" "r = map_sum id outcome_of x"
        "andgo (perform_call ac key kv call) (land G ac key (call \<noteq> None)) g1 = (x, g')"
  proof (cases p)
    case (Inl x)
    then show ?thesis using assms p that(1) by (simp add: request_def andthen_def andgo_def)
  next
    case (Inr st)
    show ?thesis
    proof (cases st)
      case (Stop out)
      then show ?thesis using assms p Inr that(2) by (simp add: request_def andthen_def andgo_def ret_def)
    next
      case (Go t)
      obtain ac kv key where t: "t = (ac, kv, key)" by (metis prod_cases3)
      obtain x g2 where x: "andgo (perform_call ac key kv call) (land G ac key (call \<noteq> None)) g1 = (x, g2)"
        by fastforce
      then have "andgo (pass_checks G name args who (call \<noteq> None) now) (\<lambda>(ac, kv, key).
          andgo (perform_call ac key kv call) (land G ac key (call \<noteq> None))) g = (x, g2)"
        using p Inr Go t by (simp add: andgo_def andthen_def)
      then have "r = map_sum id outcome_of x" "g' = g2"
        using assms unfolding request_def by (cases x; simp add: andthen_def ret_def)+
      then show ?thesis using that(3) Inr Go t x by blast
    qed
  qed
  then show ?thesis
  proof cases
    case 1
    then show ?thesis using pass_checks_raised [OF p [unfolded 1(1)]] by simp
  next
    case 2
    then show ?thesis using pass_checks_stop [OF p [unfolded 2(1)]] by simp
  next
    case 3
    then obtain actor where a: "checks_passed G name args who now g ac actor key" "kv = carried_fields args actor"
        "lands_answer ac = (call \<noteq> None)" "untouched g g1" "g_issued g1 = List.insert key (g_issued g)"
      using pass_checks_go [OF p [unfolded 3(1)]] by blast
    show ?thesis using 3(2,3) a by (intro disjI2 exI [of _ ac] exI [of _ actor] exI [of _ key] exI [of _ g1]
        exI [of _ x]) simp
  qed
qed

text \<open>What an effect leaves: it landed, or the machine is as it was but for the discard log.\<close>

lemma effect_cases:
  assumes "andgo (perform_call ac key kv call) (land G ac key (call \<noteq> None)) g = (x, g')"
    and "m_depth (g_machine g) = 0"
  shows "g_issued g' = g_issued g \<and>
    ((\<exists>kv'. x = Inr (Go (ran_under key))
        \<and> (if call = None then kv' = kv
           else \<exists>e v found. ac_event ac = Some e \<and> answer_of e v = Some found \<and> kv' = dmerge kv found)
        \<and> (case ac_event ac of None \<Rightarrow> g_machine g' = g_machine g
           | Some e \<Rightarrow> \<exists>m. fire_upto (Suc (ge_fuel G)) (ge_env G) e (with_key key kv') ''orchestrator'' (g_machine g) = (Inr (), m)
               \<and> g_machine g' = on_store (use_landed key) m))
     \<or> (\<forall>out. x = Inr out \<longrightarrow> \<not> o_ran (outcome_of out))
        \<and> m_current (g_machine g') = m_current (g_machine g) \<and> m_depth (g_machine g') = 0
        \<and> (m_store (g_machine g') = m_store (g_machine g)
           \<or> (\<exists>e. ac_event ac = Some e \<and> m_store (g_machine g') = discarding e (m_store (g_machine g)))))"
proof -
  obtain p g1 where p: "perform_call ac key kv call g = (p, g1)" by fastforce
  note eff = perform_call_effect [OF p]
  show ?thesis
  proof (cases p)
    case (Inl y)
    then show ?thesis using assms p eff by (auto simp: andgo_def andthen_def)
  next
    case (Inr st)
    show ?thesis
    proof (cases st)
      case (Stop out)
      then show ?thesis using assms p eff Inr by (auto simp: andgo_def andthen_def ret_def)
    next
      case (Go kv')
      have run: "land G ac key (call \<noteq> None) kv' g1 = (x, g')"
        using assms(1) p Inr Go by (simp add: andgo_def andthen_def)
      have depth: "m_depth (g_machine g1) = 0" using eff assms(2) by simp
      have failed: "m_store m = m_store (g_machine g1) \<or> m_store m = discarding e (m_store (g_machine g1))"
          "m_current m = m_current (g_machine g1)" "m_depth m = 0"
        if "fire_upto (Suc (ge_fuel G)) (ge_env G) e kw ''orchestrator'' (g_machine g1) = (Inl y, m)" for e kw y m
        using fire_outcome [OF depth that] fire_upto_grows [OF that] depth
        by (auto simp: grows_def split: if_splits)
      show ?thesis
      proof (cases x)
        case (Inl y)
        then show ?thesis using land_raised [OF run [unfolded Inl]] failed eff by fastforce
      next
        case xr: (Inr st')
        show ?thesis
        proof (cases st')
          case (Stop out)
          then show ?thesis using land_stop [OF run [unfolded xr Stop]] failed eff xr by fastforce
        next
          case (Go out)
          have "if call = None then kv' = kv
              else \<exists>e v found. ac_event ac = Some e \<and> answer_of e v = Some found \<and> kv' = dmerge kv found"
            using eff Inr \<open>st = Go kv'\<close> by blast
          moreover have "x = Inr (Go (ran_under key))" "g_issued g' = g_issued g"
            using land_go [OF run [unfolded xr Go]] eff xr Go by (auto split: option.splits)
          moreover have "case ac_event ac of None \<Rightarrow> g_machine g' = g_machine g
              | Some e \<Rightarrow> \<exists>m. fire_upto (Suc (ge_fuel G)) (ge_env G) e (with_key key kv') ''orchestrator'' (g_machine g) = (Inr (), m)
                  \<and> g_machine g' = on_store (use_landed key) m"
            using land_go [OF run [unfolded xr Go]] eff by (auto split: option.splits)
          ultimately show ?thesis by blast
        qed
      qed
    qed
  qed
qed

text \<open>The fields of a payload a provider's answer may write.\<close>

fun answer_fields :: "event \<Rightarrow> string list" where
  "answer_fields OutlineGenerated = [''outline'']"
| "answer_fields NodeGenerated = [''content'']"
| "answer_fields GuardrailVerdict = [''verdict'', ''guardrail_version'', ''category'']"
| "answer_fields LearnersNotified = [''notice_screening'']"
| "answer_fields _ = []"

lemma answer_of_fields:
  "answer_of e v = Some found \<Longrightarrow> distinct (map fst found) \<and> fst ` set found \<subseteq> PStr ` set (answer_fields e)"
  by (cases e) (auto simp: answer_of_def verdict_answer_def Let_def split: if_splits)

lemma dlookup_dmerge: "distinct (map fst found) \<Longrightarrow> PStr k \<notin> fst ` set found \<Longrightarrow>
    dlookup (dmerge kv found) k = dlookup kv k"
  by (simp add: dlookup_def map_of_dmerge split: option.split) (metis map_of_SomeD fst_conv image_eqI)

text \<open>What the code relies on the JSON Schema validator for: a schema that closes its object
  accepts no property it does not name.\<close>

definition keeps_closed :: "gate_env \<Rightarrow> bool" where
  "keeps_closed G \<longleftrightarrow> (\<forall>S args k v. dget S ''additionalProperties'' = PBool False \<longrightarrow>
     \<not> ge_invalid G S args \<longrightarrow> (k, v) \<in> set args \<longrightarrow> k \<in> fst ` set (entries_of (dget S ''properties'')))"

definition declared :: "action_entry \<Rightarrow> pyval list" where
  "declared ac = map fst (entries_of (dget (ac_args ac) ''properties''))"

lemma registry_closed:
  "(name, ac) \<in> set registry_of \<Longrightarrow> dget (ac_args ac) ''additionalProperties'' = PBool False
     \<and> PStr ''actor'' \<notin> set (declared ac) \<and> PStr ''idempotency_key'' \<notin> set (declared ac)"
proof -
  have "list_all (\<lambda>(name, ac). dget (ac_args ac) ''additionalProperties'' = PBool False
     \<and> PStr ''actor'' \<notin> set (declared ac) \<and> PStr ''idempotency_key'' \<notin> set (declared ac)) registry_of"
    by code_simp
  then show "(name, ac) \<in> set registry_of \<Longrightarrow> ?thesis" by (auto simp: list_all_iff)
qed

lemma args_name_no_actor:
  assumes "keeps_closed G" and "map_of registry_of name = Some ac" and "\<not> ge_invalid G (ac_args ac) args"
  shows "dlookup args ''actor'' = None"
proof (rule ccontr)
  assume "dlookup args ''actor'' \<noteq> None"
  then obtain v where v: "(PStr ''actor'', v) \<in> set args"
    unfolding dlookup_def by (auto dest: map_of_SomeD)
  note reg = registry_closed [OF map_of_SomeD [OF assms(2)]]
  from assms(1) have "PStr ''actor'' \<in> fst ` set (entries_of (dget (ac_args ac) ''properties''))"
    unfolding keeps_closed_def using reg assms(3) v by (elim allE impE) auto
  then show False using reg by (simp add: declared_def)
qed

section \<open>Histories of requests\<close>

inductive gate_reached :: "gate_env \<Rightarrow> 'w gate \<Rightarrow> 'w gate \<Rightarrow> bool" for G where
  start: "gate_reached G g g"
| requested: "gate_reached G g g' \<Longrightarrow> request G name args who call now g' = (r, g'') \<Longrightarrow> gate_reached G g g''"

lemma grows_same_standing: "same_standing m m' \<Longrightarrow> grows m m'"
  by (simp add: same_standing_def grows_def)

lemma store_grows_landed: "store_grows S (use_landed key S)"
  by (auto simp: store_grows_def use_landed_def revs_grow_def)

lemma request_grows:
  assumes "request G name args who call now g = (r, g')" and "m_depth (g_machine g) = 0"
  shows "grows (g_machine g) (g_machine g') \<and> set (g_issued g) \<subseteq> set (g_issued g')"
  using request_cases [OF assms(1)]
proof (elim disjE exE conjE)
  assume "untouched g g'" "g_issued g' = g_issued g"
  then show ?thesis by (simp add: untouched_def grows_same_standing)
next
  fix ac actor key g1 x
  assume same: "untouched g g1" and issued: "g_issued g1 = List.insert key (g_issued g)"
    and eff: "andgo (perform_call ac key (carried_fields args actor) call) (land G ac key (call \<noteq> None)) g1 = (x, g')"
  have g1: "grows (g_machine g) (g_machine g1)" "m_depth (g_machine g1) = 0"
    using same assms(2) by (auto simp: untouched_def grows_same_standing same_standing_def)
  note cases = effect_cases [OF eff g1(2)]
  have "grows (g_machine g1) (g_machine g')"
    using conjunct2 [OF cases]
  proof (elim disjE exE conjE)
    fix kv'
    assume landed: "case ac_event ac of None \<Rightarrow> g_machine g' = g_machine g1
        | Some e \<Rightarrow> \<exists>m. fire_upto (Suc (ge_fuel G)) (ge_env G) e (with_key key kv') ''orchestrator'' (g_machine g1) = (Inr (), m)
            \<and> g_machine g' = on_store (use_landed key) m"
    then show ?thesis
    proof (cases "ac_event ac")
      case None then show ?thesis using landed by (simp add: growth.same)
    next
      case (Some e)
      then obtain m where "fire_upto (Suc (ge_fuel G)) (ge_env G) e (with_key key kv') ''orchestrator'' (g_machine g1) = (Inr (), m)"
          "g_machine g' = on_store (use_landed key) m"
        using landed by auto
      then have "grows (g_machine g1) m" "g_machine g' = on_store (use_landed key) m"
        using fire_upto_grows by blast+
      moreover have "grows m (on_store (use_landed key) m)"
        by (simp add: grows_def on_store_def store_grows_landed)
      ultimately show ?thesis using growth.compose by metis
    qed
  next
    assume "m_depth (g_machine g') = 0" "m_store (g_machine g') = m_store (g_machine g1)"
    then show ?thesis using g1(2) by (simp add: grows_def)
  next
    fix e
    assume "m_depth (g_machine g') = 0" "m_store (g_machine g') = discarding e (m_store (g_machine g1))"
    then show ?thesis using g1(2) by (simp add: grows_def discarding_def store_grows_discard)
  qed
  then show ?thesis using g1(1) growth.compose conjunct1 [OF cases] issued by (auto 0 3)
qed

lemma gate_reached_grows:
  "gate_reached G g g' \<Longrightarrow> m_depth (g_machine g) = 0 \<Longrightarrow>
     grows (g_machine g) (g_machine g') \<and> set (g_issued g) \<subseteq> set (g_issued g')"
proof (induction rule: gate_reached.induct)
  case (start g)
  then show ?case by (simp add: growth.same)
next
  case (requested g g' name args who call now r g'')
  then have "m_depth (g_machine g') = 0" by (auto simp: grows_def)
  then show ?case using request_grows [OF requested.hyps(2)] requested growth.compose by blast
qed

end
