(* ===== verification/Pipeline_Frame.thy ===== *)
theory Pipeline_Frame
  imports Pipeline Membrane_Properties
begin

text \<open>
  What every operation of the pipeline leaves: the pipeline reaches the machine only by firing
  an event and by a request of the membrane, so a relation on gates that these two keep, and
  that does not look at the providers' surroundings, is kept by everything the pipeline does.
\<close>

locale gateway_frame = state_preorder R
  for R :: "'v outside gate \<Rightarrow> 'v outside gate \<Rightarrow> bool" +
  fixes G :: gate_env
  assumes outside: "R g (g\<lparr>g_outside := w\<rparr>)"
    and fired: "keeps R (on_machine (fire_upto (Suc (ge_fuel G)) (ge_env G) e kv producer))"
    and requested: "keeps R (request G name args who call now)"
begin

lemma keeps_on_outside: "keeps R (on_outside c)"
proof (rule keepsI)
  fix g :: "'v outside gate"
  obtain r w where "c (g_outside g) = (r, w)" by fastforce
  then show "R g (snd (on_outside c g))" by (simp add: on_outside_def outside)
qed

lemma keeps_noted: "keeps R (noted n name matter result)"
  by (simp add: noted_def keeps_on_outside)

lemma keeps_fire_event: "keeps R (fire_event G e kv producer)"
  unfolding fire_event_def by (rule fired)

lemma keeps_ask_membrane: "keeps R (ask_membrane G P name args who c)"
  unfolding ask_membrane_def read_clock_def by (intro keeps_andthen keeps_on_outside requested)

lemma keeps_at_machine: "keeps R (at_machine f)"
  by (simp add: at_machine_def keeps_lift)

lemma keeps_pairwise: "(\<And>a b. keeps R (f a b)) \<Longrightarrow> keeps R (case x of (a, b) \<Rightarrow> f a b)"
  by (cases x) simp

lemmas pipeline_steps = combinators keeps_noted keeps_fire_event keeps_ask_membrane keeps_at_machine keeps_pairwise

lemma keeps_admit: "keeps R (admit G P artifact i screened c)"
  unfolding admit_def by (intro pipeline_steps)

lemma keeps_screen_artifact: "keeps R (screen_artifact G P point matter content modality)"
  unfolding screen_artifact_def by (rule keeps_admit)

lemma keeps_screen_once: "keeps R (screen_once G P i)"
  unfolding screen_once_def Let_def by (intro pipeline_steps keeps_admit)

lemma keeps_screen_rounds: "keeps R (screen_rounds G P i n)"
  by (induction n) (auto intro!: pipeline_steps keeps_screen_once)

lemma keeps_screen_node: "keeps R (screen_node G P i)"
  unfolding screen_node_def by (intro pipeline_steps keeps_screen_rounds)

lemma keeps_unknown_or_refused: "keeps R (unknown_or_refused G out i e)"
  unfolding unknown_or_refused_def
  by (cases "o_check out"; (cases "the (o_check out)")?; auto intro!: pipeline_steps split: check.split option.split)

lemma keeps_submit_brief: "keeps R (submit_brief G P brief actor)"
  unfolding submit_brief_def by (intro pipeline_steps keeps_screen_artifact)

lemma keeps_sources: "keeps R (sources G P wanted)"
  unfolding sources_def Let_def by (intro pipeline_steps)

lemma keeps_draft_outline: "keeps R (draft_outline G P actor)"
  unfolding draft_outline_def outline_prompt_def
  by (intro pipeline_steps keeps_sources keeps_unknown_or_refused keeps_screen_artifact)

lemma keeps_draft_round: "keeps R (draft_round G P i actor)"
  unfolding draft_round_def node_prompt_def Let_def
  by (intro pipeline_steps keeps_sources keeps_unknown_or_refused keeps_screen_node)

lemma keeps_draft_rounds: "keeps R (draft_rounds k G P i actor)"
  by (induction k) (auto intro!: pipeline_steps keeps_draft_round)

lemma keeps_generate_node: "keeps R (generate_node k G P i actor)"
  unfolding generate_node_def by (intro pipeline_steps keeps_screen_node keeps_draft_rounds)

lemma keeps_notify_learners: "keeps R (notify_learners G P notice recipients actor of_revision)"
  unfolding notify_learners_def by (intro pipeline_steps)

end

section \<open>What the machine is after a request\<close>

lemma request_machine:
  assumes "request G name args who call now g = (r, g')" and "m_depth (g_machine g) = 0"
  shows "\<exists>m1. same_standing (g_machine g) m1 \<and> (g_machine g' = m1
     \<or> (\<exists>e kv key m. fire_upto (Suc (ge_fuel G)) (ge_env G) e kv ''orchestrator'' m1 = (Inr (), m)
          \<and> g_machine g' = on_store (use_landed key) m)
     \<or> m_current (g_machine g') = m_current m1 \<and> m_depth (g_machine g') = 0
          \<and> (m_store (g_machine g') = m_store m1 \<or> (\<exists>e. m_store (g_machine g') = discarding e (m_store m1))))"
  using request_cases [OF assms(1)]
proof (elim disjE exE conjE)
  assume "untouched g g'"
  then show ?thesis by (auto simp: untouched_def)
next
  fix ac actor key g1 x
  assume same: "untouched g g1"
    and eff: "andgo (perform_call ac key (carried_fields args actor) call) (land G ac key (call \<noteq> None)) g1 = (x, g')"
  have d: "m_depth (g_machine g1) = 0" using same assms(2) by (simp add: untouched_def same_standing_def)
  have s: "same_standing (g_machine g) (g_machine g1)" using same by (simp add: untouched_def)
  show ?thesis using conjunct2 [OF effect_cases [OF eff d]]
  proof (elim disjE exE conjE)
    fix kv'
    assume "case ac_event ac of None \<Rightarrow> g_machine g' = g_machine g1
        | Some e \<Rightarrow> \<exists>m. fire_upto (Suc (ge_fuel G)) (ge_env G) e (with_key key kv') ''orchestrator'' (g_machine g1) = (Inr (), m)
            \<and> g_machine g' = on_store (use_landed key) m"
    then show ?thesis using s by (cases "ac_event ac") (simp_all del: fire_upto.simps, blast+)
  qed (use s in auto)
qed

lemma same_views_landed: "same_views m (on_store (use_landed key) m)"
  by (simp add: same_views_def views_def revision_def pointer_def on_store_def use_landed_def fun_eq_iff)

lemma same_views_standing: "same_standing m m' \<Longrightarrow> same_views m m'"
  by (simp add: same_views_def views_def revision_def pointer_def same_standing_def fun_eq_iff)

lemma same_views_discarding:
  "m_store m' = m_store m \<or> (\<exists>e. m_store m' = discarding e (m_store m)) \<Longrightarrow> same_views m m'"
  by (auto simp: same_views_def views_def revision_def pointer_def discarding_def fun_eq_iff)

lemma request_seals:
  assumes "e_table (ge_env G) = spec_table" and "m_depth (g_machine g) = 0"
    and "request G name args who call now g = (r, g')"
  shows "seals (g_machine g) (g_machine g')"
  using request_machine [OF assms(3,2)]
proof (elim exE conjE)
  fix m1
  assume s: "same_standing (g_machine g) m1"
    and r: "g_machine g' = m1 \<or> (\<exists>e kv key m. fire_upto (Suc (ge_fuel G)) (ge_env G) e kv ''orchestrator'' m1 = (Inr (), m)
          \<and> g_machine g' = on_store (use_landed key) m)
     \<or> m_current (g_machine g') = m_current m1 \<and> m_depth (g_machine g') = 0
          \<and> (m_store (g_machine g') = m_store m1 \<or> (\<exists>e. m_store (g_machine g') = discarding e (m_store m1)))"
  have first: "seals (g_machine g) m1" using same_views_seals [OF same_views_standing [OF s]] .
  have d: "m_depth m1 = 0" using s assms(2) by (simp add: same_standing_def)
  from r have "seals m1 (g_machine g')"
  proof (elim disjE exE conjE)
    fix e kv key m
    assume "fire_upto (Suc (ge_fuel G)) (ge_env G) e kv ''orchestrator'' m1 = (Inr (), m)"
      and landed: "g_machine g' = on_store (use_landed key) m"
    then have "seals m1 m" using fire_seals [OF assms(1) d] by blast
    then show ?thesis using same_views_seals [OF same_views_landed] landed sealing.compose by metis
  qed (auto simp: sealing.same intro!: same_views_seals same_views_discarding)
  then show ?thesis using first sealing.compose by metis
qed

section \<open>The two relations the properties need\<close>

definition gate_grows :: "'w gate \<Rightarrow> 'w gate \<Rightarrow> bool" where
  "gate_grows g g' \<longleftrightarrow> (m_depth (g_machine g) = 0 \<longrightarrow> m_depth (g_machine g') = 0
     \<and> grows (g_machine g) (g_machine g') \<and> set (g_issued g) \<subseteq> set (g_issued g'))"

definition gate_seals :: "gate_env \<Rightarrow> 'w gate \<Rightarrow> 'w gate \<Rightarrow> bool" where
  "gate_seals G g g' \<longleftrightarrow> (e_table (ge_env G) = spec_table \<and> m_depth (g_machine g) = 0 \<longrightarrow> m_depth (g_machine g') = 0
     \<and> seals (g_machine g) (g_machine g'))"

lemma grows_depth: "grows m m' \<Longrightarrow> m_depth m' = m_depth m"
  by (simp add: grows_def)

lemma on_machine_run:
  "fire_upto (Suc k) E e kv producer (g_machine g) = (r, m) \<Longrightarrow>
     snd (on_machine (fire_upto (Suc k) E e kv producer) g) = g\<lparr>g_machine := m\<rparr>"
  by (simp only: on_machine_def prod.case snd_conv)

interpretation growing: gateway_frame gate_grows G for G
proof
  show "gate_grows g g" for g :: "'w outside gate" by (simp add: gate_grows_def growth.same)
  show "gate_grows g h \<Longrightarrow> gate_grows h k \<Longrightarrow> gate_grows g k" for g h k :: "'w outside gate"
    unfolding gate_grows_def using growth.compose by blast
  show "gate_grows g (g\<lparr>g_outside := w\<rparr>)" for g :: "'w outside gate" and w
    by (simp add: gate_grows_def growth.same)
  show "keeps gate_grows (on_machine (fire_upto (Suc (ge_fuel G)) (ge_env G) e kv producer)
      :: ('w outside, unit) gate_act)" for e kv producer
  proof (rule keepsI)
    fix g :: "'w outside gate"
    obtain r m where run: "fire_upto (Suc (ge_fuel G)) (ge_env G) e kv producer (g_machine g) = (r, m)" by fastforce
    from fire_upto_grows [OF run]
    show "gate_grows g (snd (on_machine (fire_upto (Suc (ge_fuel G)) (ge_env G) e kv producer) g))"
      unfolding on_machine_run [OF run] by (simp add: gate_grows_def grows_depth)
  qed
  show "keeps gate_grows (request G name args who call now)"
    for name args who and call :: "'w outside call option" and now
  proof (rule keepsI)
    fix g :: "'w outside gate"
    obtain r g' where run: "request G name args who call now g = (r, g')" by fastforce
    then show "gate_grows g (snd (request G name args who call now g))"
      using request_grows [OF run] grows_depth by (fastforce simp: gate_grows_def)
  qed
qed

interpretation sealed: gateway_frame "gate_seals G" G for G
proof
  show "gate_seals G g g" for g :: "'w outside gate" by (simp add: gate_seals_def sealing.same)
  show "gate_seals G g h \<Longrightarrow> gate_seals G h k \<Longrightarrow> gate_seals G g k" for g h k :: "'w outside gate"
    unfolding gate_seals_def using sealing.compose by blast
  show "gate_seals G g (g\<lparr>g_outside := w\<rparr>)" for g :: "'w outside gate" and w
    by (simp add: gate_seals_def sealing.same)
  show "keeps (gate_seals G) (on_machine (fire_upto (Suc (ge_fuel G)) (ge_env G) e kv producer)
      :: ('w outside, unit) gate_act)" for e kv producer
  proof (rule keepsI)
    fix g :: "'w outside gate"
    obtain r m where run: "fire_upto (Suc (ge_fuel G)) (ge_env G) e kv producer (g_machine g) = (r, m)" by fastforce
    show "gate_seals G g (snd (on_machine (fire_upto (Suc (ge_fuel G)) (ge_env G) e kv producer) g))"
      unfolding on_machine_run [OF run]
      using fire_seals [OF _ _ run] grows_depth [OF fire_upto_grows [OF run]] by (simp add: gate_seals_def)
  qed
  show "keeps (gate_seals G) (request G name args who call now)"
    for name args who and call :: "'w outside call option" and now
  proof (rule keepsI)
    fix g :: "'w outside gate"
    obtain r g' where run: "request G name args who call now g = (r, g')" by fastforce
    show "gate_seals G g (snd (request G name args who call now g))"
      using request_seals [OF _ _ run] request_grows [OF run] grows_depth by (fastforce simp: run gate_seals_def)
  qed
qed

end
