(* ===== verification/Gateway_Properties.thy ===== *)
theory Gateway_Properties
  imports Membrane_Properties Screened_Text
begin

text \<open>What the gateway promises about a request, with a concrete gate for the witnesses.\<close>

section \<open>A gate at work\<close>

definition machine_in :: "rev_state \<Rightarrow> machine" where
  "machine_in st = on_rev 1 (\<lambda>rv. rv\<lparr>r_state := st\<rparr>) sample_machine"

definition undeclared :: "pydict \<Rightarrow> pydict \<Rightarrow> bool" where
  "undeclared S args = (\<not> list_all (\<lambda>(k, v). k \<in> fst ` set (entries_of (dget S ''properties''))) args)"

definition sample_gates :: gate_env where
  "sample_gates = \<lparr>ge_env = sample_env, ge_fuel = 2, ge_invalid = undeclared, ge_float = \<lambda>_. ''0.5'',
     ge_sha = \<lambda>t. t\<rparr>"

definition gate_in :: "rev_state \<Rightarrow> nat gate" where
  "gate_in st = \<lparr>g_machine = machine_in st, g_course = ''c1'', g_rate_limit = 20, g_window = 60,
     g_spent = [], g_issued = [], g_outside = 0\<rparr>"

definition ana :: caller where
  "ana = Asking (PDict [(PStr ''id'', PStr ''ana''), (PStr ''kind'', PStr ''person''), (PStr ''role'', PStr ''admin'')])"

definition revision_one :: pydict where
  "revision_one = [(PStr ''revision'', PInt 1)]"

text \<open>An archival that runs, one with an argument nobody declared, and a draft whose provider is silent.\<close>

definition archive :: "(nat, outcome) gate_act" where
  "archive = request sample_gates ''archive_revision'' revision_one ana None 5"

definition archive_posing :: "(nat, outcome) gate_act" where
  "archive_posing = request sample_gates ''archive_revision''
     ((PStr ''actor'', PStr ''mallory'') # revision_one) ana None 5"

definition silent :: "nat call" where
  "silent key m n = (Unavailable, Suc n)"

definition propose :: "(nat, outcome) gate_act" where
  "propose = request sample_gates ''propose_outline'' [(PStr ''prompt'', PStr ''d1'')] ana (Some silent) 5"

lemma gate_depth: "m_depth (g_machine (gate_in st)) = 0"
  by (simp add: gate_in_def machine_in_def on_rev_def on_store_def)

lemma archive_ran: "case fst (archive (gate_in Withdrawn)) of Inr out \<Rightarrow> o_ran out | _ \<Rightarrow> False"
  by code_simp

lemma archive_request:
  obtains out where "request sample_gates ''archive_revision'' revision_one ana None 5 (gate_in Withdrawn)
      = (Inr out, snd (archive (gate_in Withdrawn)))" and "o_ran out" and "fst (archive (gate_in Withdrawn)) = Inr out"
  using archive_ran unfolding archive_def [symmetric]
  by (cases "archive (gate_in Withdrawn)") (auto split: sum.splits)

lemma sample_closed: "keeps_closed sample_gates"
  by (auto simp: keeps_closed_def sample_gates_def undeclared_def list_all_iff)

section \<open>Requests\<close>

lemma land_outside:
  assumes "land G ac key calls kv g = (x, g')"
  shows "g_issued g' = g_issued g \<and> g_outside g' = g_outside g \<and> g_spent g' = g_spent g"
proof (cases x)
  case (Inl y)
  then show ?thesis using land_raised [OF assms [unfolded Inl]] by auto
next
  case (Inr st)
  show ?thesis
  proof (cases st)
    case (Stop out)
    then show ?thesis using land_stop [OF assms [unfolded Inr Stop]] by auto
  next
    case (Go out)
    then show ?thesis using land_go [OF assms [unfolded Inr Go]] by (auto split: option.splits)
  qed
qed

lemma effect_outside:
  assumes "andgo (perform_call ac key kv call) (land G ac key (call \<noteq> None)) g = (x, g')"
  shows "g_issued g' = g_issued g \<and> g_spent g' = g_spent g \<and> (call = None \<longrightarrow> g_outside g' = g_outside g)"
proof -
  obtain p g1 where p: "perform_call ac key kv call g = (p, g1)" by fastforce
  have "g_issued g1 = g_issued g" "call = None \<longrightarrow> g_outside g1 = g_outside g"
    using perform_call_effect [OF p] p by simp_all auto
  moreover have "g_spent g1 = g_spent g"
    using p unfolding perform_call_def call_provider_def
    by (cases call) (auto simp: andthen_eq split: prod.splits reply.splits option.splits)
  ultimately have called: "g_issued g1 = g_issued g" "call = None \<longrightarrow> g_outside g1 = g_outside g"
      "g_spent g1 = g_spent g" by simp_all
  show ?thesis
  proof (cases "\<exists>kv'. p = Inr (Go kv')")
    case True
    then obtain kv' where "land G ac key (call \<noteq> None) kv' g1 = (x, g')"
      using assms p by (auto simp: andgo_def andthen_def)
    from land_outside [OF this] called show ?thesis by simp
  next
    case False
    then have "g' = g1" using assms p
      by (cases p; cases "projr p") (auto simp: andgo_def andthen_def ret_def)
    then show ?thesis using called by simp
  qed
qed

lemma answer_fields_own: "''actor'' \<notin> set (answer_fields e)"
  by (cases e) auto

text \<open>What a request that ran leaves behind of its key.\<close>

lemma ran_keeps_key:
  assumes "request G name args who call now g = (Inr out, g')" and "o_ran out"
    and "m_depth (g_machine g) = 0" and "map_of registry_of name = Some ac"
  shows "\<exists>key. o_key out = Some key \<and> key \<in> set (g_issued g')
    \<and> (ac_event ac \<noteq> None \<longrightarrow> PStr key \<in> set (st_used_keys (m_store (g_machine g'))))
    \<and> (\<exists>actor. checks_passed G name args who now g ac actor key)"
  using request_cases [OF assms(1)]
proof (elim disjE exE conjE)
  assume "\<forall>out'. Inr out = Inr out' \<longrightarrow> \<not> o_ran out'"
  then show ?thesis using assms(2) by simp
next
  fix ac' actor key g1 x
  assume passed: "checks_passed G name args who now g ac' actor key"
    and same: "untouched g g1" and issued: "g_issued g1 = List.insert key (g_issued g)"
    and eff: "andgo (perform_call ac' key (carried_fields args actor) call) (land G ac' key (call \<noteq> None)) g1 = (x, g')"
    and out: "Inr out = map_sum id outcome_of x"
  have ac: "ac' = ac" using passed assms(4) by (simp add: checks_passed_def)
  have "m_depth (g_machine g1) = 0" using same assms(3) by (simp add: untouched_def same_standing_def)
  note cases = effect_cases [OF eff this]
  have "\<not> (\<forall>o'. x = Inr o' \<longrightarrow> \<not> o_ran (outcome_of o'))" using out assms(2) by (cases x) auto
  then have landed: "x = Inr (Go (ran_under key))"
      "ac_event ac \<noteq> None \<longrightarrow> (\<exists>m. g_machine g' = on_store (use_landed key) m)"
    using cases unfolding ac by (auto split: option.splits)
  then have "ac_event ac \<noteq> None \<longrightarrow> PStr key \<in> set (st_used_keys (m_store (g_machine g')))"
    by (auto simp: on_store_def use_landed_def)
  then show ?thesis using passed landed(1) out issued cases unfolding ac by (intro exI [of _ key] conjI) auto
qed


text \<open>C15. Nothing runs that did not pass all eight checks: if a request ran, its action is registered,
  its arguments have the declared shape, the policy and the organisation allow the actor the
  gateway itself established, the machine permits the event, the required person or system is
  behind it, the rate is within the limit and the act was not done before; its key was issued,
  and when it moves the machine the key is recorded as landed.\<close>

theorem ran_only_after_checks:
  assumes "request G name args who call now g = (Inr out, g')" and "o_ran out"
    and "m_depth (g_machine g) = 0"
  shows "\<exists>ac actor key. checks_passed G name args who now g ac actor key \<and> o_key out = Some key
    \<and> key \<in> set (g_issued g')
    \<and> (ac_event ac \<noteq> None \<longrightarrow> PStr key \<in> set (st_used_keys (m_store (g_machine g'))))"
proof -
  have "map_of registry_of name \<noteq> None"
    using request_cases [OF assms(1)] assms(2) by (auto simp: checks_passed_def)
  then obtain ac where "map_of registry_of name = Some ac" by blast
  from ran_keeps_key [OF assms this] show ?thesis by blast
qed

theorem ran_only_after_checks_witness:
  "\<exists>ac actor key. checks_passed sample_gates ''archive_revision'' revision_one ana 5 (gate_in Withdrawn) ac actor key
    \<and> ac_requires ac = Person \<and> dget actor ''role'' = PStr ''editor''"
proof -
  obtain out where out: "request sample_gates ''archive_revision'' revision_one ana None 5 (gate_in Withdrawn)
      = (Inr out, snd (archive (gate_in Withdrawn)))" "o_ran out"
    by (rule archive_request)
  obtain ac actor key where passed:
      "checks_passed sample_gates ''archive_revision'' revision_one ana 5 (gate_in Withdrawn) ac actor key"
    using ran_only_after_checks [OF out gate_depth] by auto
  have "map_option ac_requires (map_of registry_of ''archive_revision'') = Some Person" by code_simp
  moreover have "authenticated (e_world (ge_env sample_gates)) ana
      = Inr (actor_entries (PStr ''ana'') ''person'' (PStr ''editor'') [])" by code_simp
  ultimately show ?thesis using passed by (intro exI conjI) (auto simp: checks_passed_def actor_entries_def)
qed

text \<open>C16. A request that did not run left the course alone: whichever check, provider or row refused
  it, and whatever exception it ended in, the store is as it was, except that the machine may
  have noted the refused event of this very action in its discard log.\<close>

theorem refused_request_changes_nothing:
  assumes "request G name args who call now g = (r, g')" and "\<forall>out. r = Inr out \<longrightarrow> \<not> o_ran out"
    and "m_depth (g_machine g) = 0"
  shows "m_current (g_machine g') = m_current (g_machine g) \<and> m_depth (g_machine g') = 0
    \<and> (m_store (g_machine g') = m_store (g_machine g)
       \<or> (\<exists>ac e. map_of registry_of name = Some ac \<and> ac_event ac = Some e
            \<and> m_store (g_machine g') = discarding e (m_store (g_machine g))))"
  using request_cases [OF assms(1)]
proof (elim disjE exE conjE)
  assume "untouched g g'"
  then show ?thesis using assms(3) by (simp add: untouched_def same_standing_def)
next
  fix ac actor key g1 x
  assume passed: "checks_passed G name args who now g ac actor key" and same: "untouched g g1"
    and eff: "andgo (perform_call ac key (carried_fields args actor) call) (land G ac key (call \<noteq> None)) g1 = (x, g')"
    and r: "r = map_sum id outcome_of x"
  have g1: "m_depth (g_machine g1) = 0" "m_store (g_machine g1) = m_store (g_machine g)"
      "m_current (g_machine g1) = m_current (g_machine g)"
    using same assms(3) by (simp_all add: untouched_def same_standing_def)
  have "x \<noteq> Inr (Go (ran_under key))" using r assms(2) by auto
  then show ?thesis
    using effect_cases [OF eff g1(1)] g1 passed by (auto simp: checks_passed_def)
qed

theorem refused_request_changes_nothing_witness:
  "fst (archive_posing (gate_in Withdrawn)) = Inr (refused_at Schema_valid)
   \<and> m_current (g_machine (snd (archive_posing (gate_in Withdrawn)))) = m_current (machine_in Withdrawn)"
proof
  show refused: "fst (archive_posing (gate_in Withdrawn)) = Inr (refused_at Schema_valid)" by code_simp
  have "request sample_gates ''archive_revision'' ((PStr ''actor'', PStr ''mallory'') # revision_one) ana None 5
      (gate_in Withdrawn) = (Inr (refused_at Schema_valid), snd (archive_posing (gate_in Withdrawn)))"
    using refused unfolding archive_posing_def by (metis prod.collapse)
  from refused_request_changes_nothing [OF this _ gate_depth]
  show "m_current (g_machine (snd (archive_posing (gate_in Withdrawn)))) = m_current (machine_in Withdrawn)"
    by (simp add: gate_in_def)
qed

text \<open>C17. A provider is asked, and money spent, only after all eight checks passed and the key was
  issued, and only for an action that lands its answer: if a request changed anything outside
  the course, that is what had happened before.\<close>

theorem provider_asked_only_after_checks:
  assumes "request G name args who call now g = (r, g')" and "g_outside g' \<noteq> g_outside g"
  shows "\<exists>ac actor key e k. checks_passed G name args who now g ac actor key \<and> call \<noteq> None
    \<and> ac_event ac = Some e \<and> produced_by e = Some k \<and> key \<in> set (g_issued g')"
  using request_cases [OF assms(1)]
proof (elim disjE exE conjE)
  assume "untouched g g'"
  then show ?thesis using assms(2) by (simp add: untouched_def)
next
  fix ac actor key g1 x
  assume passed: "checks_passed G name args who now g ac actor key" and same: "untouched g g1"
    and issued: "g_issued g1 = List.insert key (g_issued g)" and fits: "lands_answer ac = (call \<noteq> None)"
    and eff: "andgo (perform_call ac key (carried_fields args actor) call) (land G ac key (call \<noteq> None)) g1 = (x, g')"
  note out = effect_outside [OF eff]
  have "call \<noteq> None" using out same assms(2) by (auto simp: untouched_def)
  moreover from this have "\<exists>e k. ac_event ac = Some e \<and> produced_by e = Some k"
    using fits by (auto simp: lands_answer_def split: option.splits)
  moreover have "key \<in> set (g_issued g')" using out issued by simp
  ultimately show ?thesis using passed by blast
qed

theorem provider_asked_only_after_checks_witness:
  "\<exists>ac actor key. checks_passed sample_gates ''propose_outline'' [(PStr ''prompt'', PStr ''d1'')] ana 5
      (gate_in OutlineDrafting) ac actor key
    \<and> key \<in> set (g_issued (snd (propose (gate_in OutlineDrafting))))"
proof -
  have "g_outside (snd (propose (gate_in OutlineDrafting))) \<noteq> g_outside (gate_in OutlineDrafting)" by code_simp
  moreover have "request sample_gates ''propose_outline'' [(PStr ''prompt'', PStr ''d1'')] ana (Some silent) 5
      (gate_in OutlineDrafting) = (fst (propose (gate_in OutlineDrafting)), snd (propose (gate_in OutlineDrafting)))"
    by (simp add: propose_def)
  ultimately show ?thesis using provider_asked_only_after_checks by blast
qed

text \<open>C18. Nobody acts in another's name: an event the gateway fires carries as its actor the person the
  gateway established, or nobody when no person asked; its key is the one that was issued, and
  every other field is an argument of the request, except the fields the provider's answer to
  that event may set.\<close>

theorem acts_in_own_name:
  assumes "keeps_closed G" and "request G name args who call now g = (Inr out, g')" and "o_ran out"
    and "m_depth (g_machine g) = 0" and "map_of registry_of name = Some ac" and "ac_event ac = Some e"
  shows "\<exists>actor key kv m m'. authenticated (e_world (ge_env G)) who = Inr actor \<and> same_standing (g_machine g) m
    \<and> fire_upto (Suc (ge_fuel G)) (ge_env G) e kv ''orchestrator'' m = (Inr (), m')
    \<and> g_machine g' = on_store (use_landed key) m'
    \<and> dlookup kv ''actor'' = (if dget actor ''kind'' = PStr ''person'' then Some (dget actor ''id'') else None)
    \<and> dlookup kv ''idempotency_key'' = Some (PStr key)
    \<and> (\<forall>k. k \<notin> set (''actor'' # ''idempotency_key'' # answer_fields e) \<longrightarrow> dlookup kv k = dlookup args k)"
  using request_cases [OF assms(2)]
proof (elim disjE exE conjE)
  assume "\<forall>out'. Inr out = Inr out' \<longrightarrow> \<not> o_ran out'"
  then show ?thesis using assms(3) by simp
next
  fix ac' actor key g1 x
  assume passed: "checks_passed G name args who now g ac' actor key" and same: "untouched g g1"
    and eff: "andgo (perform_call ac' key (carried_fields args actor) call) (land G ac' key (call \<noteq> None)) g1 = (x, g')"
    and out: "Inr out = map_sum id outcome_of x"
  have ac: "ac' = ac" using passed assms(5) by (simp add: checks_passed_def)
  have "m_depth (g_machine g1) = 0" using same assms(4) by (simp add: untouched_def same_standing_def)
  note cases = effect_cases [OF eff this]
  have "\<not> (\<forall>o'. x = Inr o' \<longrightarrow> \<not> o_ran (outcome_of o'))" using out assms(3) by (cases x) auto
  then obtain kv' m' where kv': "if call = None then kv' = carried_fields args actor
        else \<exists>e v found. ac_event ac = Some e \<and> answer_of e v = Some found \<and> kv' = dmerge (carried_fields args actor) found"
      and fired: "fire_upto (Suc (ge_fuel G)) (ge_env G) e (with_key key kv') ''orchestrator'' (g_machine g1) = (Inr (), m')"
        "g_machine g' = on_store (use_landed key) m'"
    using cases assms(6) unfolding ac by auto
  have kept: "dlookup kv' k = dlookup (carried_fields args actor) k" if "k \<notin> set (answer_fields e)" for k
    using kv' assms(6) that answer_of_fields dlookup_dmerge by (fastforce split: if_splits)
  have "dlookup args ''actor'' = None"
    using args_name_no_actor [OF assms(1,5)] passed by (simp add: checks_passed_def ac)
  then have "dlookup kv' ''actor'' = (if dget actor ''kind'' = PStr ''person'' then Some (dget actor ''id'') else None)"
    using kept [of "''actor''"] answer_fields_own [of e] by (simp add: carried_fields_def dlookup_dput)
  moreover have "dlookup kv' k = dlookup args k" if "k \<notin> set (''actor'' # answer_fields e)" for k
    using kept [of k] that by (simp add: carried_fields_def dlookup_dput)
  moreover have "same_standing (g_machine g) (g_machine g1)" using same by (simp add: untouched_def)
  moreover have "authenticated (e_world (ge_env G)) who = Inr actor" using passed by (simp add: checks_passed_def)
  ultimately show ?thesis
    using fired by (intro exI [of _ actor] exI [of _ key] exI [of _ "with_key key kv'"] exI [of _ "g_machine g1"] exI [of _ m'])
      (simp add: with_key_def dlookup_dput)
qed

theorem acts_in_own_name_witness:
  "\<exists>kv m m'. fire_upto 3 sample_env ArchiveRequested kv ''orchestrator'' m = (Inr (), m')
     \<and> dlookup kv ''actor'' = Some (PStr ''ana'') \<and> dlookup kv ''revision'' = Some (PInt 1)"
proof -
  obtain out where out: "request sample_gates ''archive_revision'' revision_one ana None 5 (gate_in Withdrawn)
      = (Inr out, snd (archive (gate_in Withdrawn)))" "o_ran out"
    by (rule archive_request)
  have "map_option ac_event (map_of registry_of ''archive_revision'') = Some (Some ArchiveRequested)" by code_simp
  then obtain ac where ac: "map_of registry_of ''archive_revision'' = Some ac" "ac_event ac = Some ArchiveRequested"
    by auto
  have who: "authenticated (e_world (ge_env sample_gates)) ana
      = Inr (actor_entries (PStr ''ana'') ''person'' (PStr ''editor'') [])" by code_simp
  from acts_in_own_name [OF sample_closed out gate_depth ac] obtain actor key kv m m' where
      "authenticated (e_world (ge_env sample_gates)) ana = Inr actor"
      "fire_upto (Suc (ge_fuel sample_gates)) (ge_env sample_gates) ArchiveRequested kv ''orchestrator'' m = (Inr (), m')"
      "dlookup kv ''actor'' = (if dget actor ''kind'' = PStr ''person'' then Some (dget actor ''id'') else None)"
      "\<forall>k. k \<notin> set (''actor'' # ''idempotency_key'' # answer_fields ArchiveRequested) \<longrightarrow> dlookup kv k = dlookup revision_one k"
    by blast
  then show ?thesis
    using who by (intro exI [of _ kv] exI [of _ m] exI [of _ m'])
      (simp add: actor_entries_def sample_gates_def revision_one_def numeral_3_eq_3 numeral_2_eq_2)
qed

text \<open>C19. A repeat is a no-op: once an act has run, whatever requests come after it, asking for an act
  with the same key changes nothing, asks no provider and does not run.\<close>

theorem repeated_act_is_a_no_op:
  assumes "request G name args who call now g = (Inr out, g1)" and "o_ran out"
    and "m_depth (g_machine g) = 0" and "map_of registry_of name = Some ac"
    and "gate_reached G g1 g2" and "request G name args' who' call' now' g2 = (r, g3)"
    and "named_key G name args' ac g2 = Inr (the (o_key out))"
  shows "untouched g2 g3 \<and> g_issued g3 = g_issued g2 \<and> (\<forall>out. r = Inr out \<longrightarrow> \<not> o_ran out)"
proof -
  obtain key where key: "o_key out = Some key" "key \<in> set (g_issued g1)"
      "ac_event ac \<noteq> None \<longrightarrow> PStr key \<in> set (st_used_keys (m_store (g_machine g1)))"
    using ran_keeps_key [OF assms(1-4)] by blast
  have "m_depth (g_machine g1) = 0"
    using request_grows [OF assms(1,3)] assms(3) by (simp add: grows_def)
  then have "set (st_used_keys (m_store (g_machine g1))) \<subseteq> set (st_used_keys (m_store (g_machine g2)))"
      "set (g_issued g1) \<subseteq> set (g_issued g2)"
    using gate_reached_grows [OF assms(5)] by (auto simp: grows_def store_grows_def)
  then have "already_done ac key g2" using key by (auto simp: already_done_def)
  moreover have "\<not> already_done ac key g2" if "checks_passed G name args' who' now' g2 ac' actor' key'" for ac' actor' key'
    using that assms(4,7) key(1) by (auto simp: checks_passed_def)
  ultimately show ?thesis using request_cases [OF assms(6)] by blast
qed

lemma archive_key_again:
  "named_key sample_gates ''archive_revision'' revision_one (the (map_of registry_of ''archive_revision''))
     (snd (archive (gate_in Withdrawn))) = Inr (the (o_key (projr (fst (archive (gate_in Withdrawn))))))"
  by code_simp

theorem repeated_act_is_a_no_op_witness:
  "untouched (snd (archive (gate_in Withdrawn))) (snd (archive (snd (archive (gate_in Withdrawn)))))"
proof -
  obtain out where out: "request sample_gates ''archive_revision'' revision_one ana None 5 (gate_in Withdrawn)
      = (Inr out, snd (archive (gate_in Withdrawn)))" "o_ran out"
      and ran: "fst (archive (gate_in Withdrawn)) = Inr out"
    by (rule archive_request)
  have registered: "map_of registry_of ''archive_revision'' = Some (the (map_of registry_of ''archive_revision''))"
    by code_simp
  have same: "named_key sample_gates ''archive_revision'' revision_one (the (map_of registry_of ''archive_revision''))
      (snd (archive (gate_in Withdrawn))) = Inr (the (o_key out))"
    using archive_key_again unfolding ran by simp
  have again: "request sample_gates ''archive_revision'' revision_one ana None 5 (snd (archive (gate_in Withdrawn)))
      = (fst (archive (snd (archive (gate_in Withdrawn)))), snd (archive (snd (archive (gate_in Withdrawn)))))"
    unfolding archive_def by (rule prod.collapse [symmetric])
  from repeated_act_is_a_no_op [OF out gate_depth registered gate_reached.start again same]
  show ?thesis by simp
qed

section \<open>The rate\<close>

lemma spent_by_update: "spent_by i (g\<lparr>g_issued := ks, g_spent := AList.update i ts (g_spent g')\<rparr>) = ts"
  "spent_by i (g\<lparr>g_spent := AList.update i ts (g_spent g')\<rparr>) = ts"
  by (simp_all add: spent_by_def update_conv')

lemma paced_spent:
  "paced name i now g = (Inr (Go u), g') \<Longrightarrow> spent_by i g' = within_window now g (spent_by i g)"
  unfolding paced_def by (auto simp: andthen_eq spent_by_update split: if_splits)

lemma pass_checks_spent:
  assumes "pass_checks G name args who calls now g = (Inr (Go (ac, kv, key)), g')"
  shows "\<exists>actor. authenticated (e_world (ge_env G)) who = Inr actor
    \<and> spent_by (dget actor ''id'') g' = within_window now g (spent_by (dget actor ''id'') g) @ [now]"
proof -
  from assms obtain actor g1 g2 where
      one: "admissible G name args who calls g = Inr (Go (ac, actor))" and
      three: "lawful G ac (with_key key (carried_fields args actor)) g = (Inr (Go ()), g1)" and
      five: "paced name (dget actor ''id'') now g1 = (Inr (Go ()), g2)" and
      six: "issue key (dget actor ''id'') now g2 = (Inr (), g')"
    unfolding pass_checks_def
    by (fastforce simp: andgo_eq andthen_eq lift_is split: if_splits simp del: lift_eq)
  have "within_window now g1 (spent_by i g1) = within_window now g (spent_by i g)" for i
    using lawful_outcome [OF three] by (simp add: within_window_def spent_by_def untouched_def)
  then have "spent_by (dget actor ''id'') g' = within_window now g (spent_by (dget actor ''id'') g) @ [now]"
    using paced_spent [OF five] six by (auto simp: issue_def spent_by_update)
  then show ?thesis using one by (auto simp: admissible_go)
qed



end
