(* ===== verification/Pipeline_Properties.thy ===== *)
theory Pipeline_Properties
  imports Pipeline_Frame Gateway_Properties
begin

text \<open>
  What the gateway cannot do to a course, what it screens before it lets a node in, that a
  screening is paid for once, and whose sources a model is given.
\<close>

section \<open>A gateway at work\<close>

text \<open>Every way in: the operations of the pipeline, a request of its own, an event fired by hand.\<close>

inductive gateway_run :: "gate_env \<Rightarrow> 'v ports \<Rightarrow> 'v outside gate \<Rightarrow> 'v outside gate \<Rightarrow> bool" for G P where
  start: "gateway_run G P g g"
| submitted: "gateway_run G P g g' \<Longrightarrow> submit_brief G P brief actor g' = (r, g'') \<Longrightarrow> gateway_run G P g g''"
| drafted: "gateway_run G P g g' \<Longrightarrow> draft_outline G P actor g' = (r, g'') \<Longrightarrow> gateway_run G P g g''"
| written: "gateway_run G P g g' \<Longrightarrow> generate_node k G P i actor g' = (r', g'') \<Longrightarrow> gateway_run G P g g''"
| screened: "gateway_run G P g g' \<Longrightarrow> screen_node G P i g' = (r, g'') \<Longrightarrow> gateway_run G P g g''"
| notified: "gateway_run G P g g' \<Longrightarrow> notify_learners G P notice n actor of_revision g' = (out, g'') \<Longrightarrow>
    gateway_run G P g g''"
| asked: "gateway_run G P g g' \<Longrightarrow> request G name args who call now g' = (out, g'') \<Longrightarrow> gateway_run G P g g''"
| fired: "gateway_run G P g g' \<Longrightarrow> fire_event G e kv producer g' = (r, g'') \<Longrightarrow> gateway_run G P g g''"

context gateway_frame
begin

lemma run_keeps: "gateway_run G P g g' \<Longrightarrow> R g g'"
proof (induction rule: gateway_run.induct)
  case start show ?case by (rule same)
qed (blast intro: compose keepsD [OF keeps_submit_brief] keepsD [OF keeps_draft_outline] keepsD [OF keeps_generate_node]
    keepsD [OF keeps_screen_node] keepsD [OF keeps_notify_learners] keepsD [OF requested] keepsD [OF keeps_fire_event])+

end

lemma published_kept:
  assumes "e_table (ge_env G) = spec_table" and "g_machine g0 = new_machine w cfg rd en"
    and "gate_seals G g0 g" and "gate_seals G g g'" and "gate_grows g g'"
    and "revision (g_machine g) r = Some rv" and "\<not> is_draft rv"
  shows "(\<exists>rv'. revision (g_machine g') r = Some rv' \<and> \<not> is_draft rv'
      \<and> map (\<lambda>(i, n). (i, n_state n, n_content n, n_spec n)) (r_nodes rv')
          = map (\<lambda>(i, n). (i, n_state n, n_content n, n_spec n)) (r_nodes rv)
      \<and> r_committed_outline rv' = r_committed_outline rv \<and> r_outline_version rv' = r_outline_version rv)
    \<and> prefix (st_steps (m_store (g_machine g))) (st_steps (m_store (g_machine g')))
    \<and> set (st_used_keys (m_store (g_machine g))) \<subseteq> set (st_used_keys (m_store (g_machine g')))"
proof -
  have d0: "m_depth (g_machine g0) = 0" using assms(2) new_machine_depth by simp
  have first: "seals (g_machine g0) (g_machine g)" "m_depth (g_machine g) = 0"
    using assms(1,3) d0 by (simp_all add: gate_seals_def)
  have "all_ok (g_machine g)" using first(1) assms(2) new_machine_ok by (simp add: seals_def)
  moreover have "seals (g_machine g) (g_machine g')"
    using assms(1,4) first(2) by (simp add: gate_seals_def)
  moreover have "grows (g_machine g) (g_machine g')"
    using assms(5) first(2) by (simp add: gate_grows_def)
  ultimately show ?thesis
    using sealed_revision_kept assms(6,7) by (fastforce simp: grows_def store_grows_def)
qed

text \<open>C26. Whatever the gateway is asked to do, in any order and with any providers, a revision that
  is not a draft stays exactly as it was, the trace only grows at its end, and a key that
  landed stays landed.\<close>

theorem gateway_cannot_touch_published:
  assumes "e_table (ge_env G) = spec_table" and "g_machine g0 = new_machine w cfg rd en"
    and "gateway_run G P g0 g" and "gateway_run G P g g'"
    and "revision (g_machine g) r = Some rv" and "\<not> is_draft rv"
  shows "(\<exists>rv'. revision (g_machine g') r = Some rv' \<and> \<not> is_draft rv'
      \<and> map (\<lambda>(i, n). (i, n_state n, n_content n, n_spec n)) (r_nodes rv')
          = map (\<lambda>(i, n). (i, n_state n, n_content n, n_spec n)) (r_nodes rv)
      \<and> r_committed_outline rv' = r_committed_outline rv \<and> r_outline_version rv' = r_outline_version rv)
    \<and> prefix (st_steps (m_store (g_machine g))) (st_steps (m_store (g_machine g')))
    \<and> set (st_used_keys (m_store (g_machine g))) \<subseteq> set (st_used_keys (m_store (g_machine g')))"
  by (rule published_kept [OF assms(1,2) sealed.run_keeps [OF assms(3)] sealed.run_keeps [OF assms(4)]
        growing.run_keeps [OF assms(4)] assms(5,6)])

section \<open>The memory of screenings\<close>

text \<open>A verdict is remembered under the version that gave it.\<close>

definition memory_ok :: "'v outside \<Rightarrow> bool" where
  "memory_ok w \<longleftrightarrow> (\<forall>p s h f version v. map_of (o_screened w) (p, s, h, f, version) = Some v \<longrightarrow> sv_version v = f)"

definition remembers :: "'v outside \<Rightarrow> 'v outside \<Rightarrow> bool" where
  "remembers w w' \<longleftrightarrow> map_of (o_screened w) \<subseteq>\<^sub>m map_of (o_screened w') \<and> (memory_ok w \<longrightarrow> memory_ok w')"

interpretation remembering: state_preorder remembers
  by unfold_locales (auto simp: remembers_def intro: map_le_trans)

lemma keeps_on_world: "keeps remembers (on_world (c :: ('v, call_exn, 'b) comp))"
proof (rule keepsI)
  fix w :: "'v outside"
  obtain r v where "c (o_world w) = (r, v)" by fastforce
  then show "remembers w (snd (on_world c w))" by (simp add: on_world_def remembers_def memory_ok_def)
qed

lemma keeps_log_stage: "keeps remembers (log_stage n name matter result)"
  unfolding log_stage_def by (rule remembering.keeps_modify) (simp add: remembers_def memory_ok_def)

lemma screen_run:
  assumes "screen G P m content modality point matter w = (r, w')"
  shows "remembers w w' \<and> (\<forall>v f. r = Inr v \<longrightarrow> memory_ok w \<longrightarrow> guardrail_in_force m = Inr f \<longrightarrow> sv_version v = f \<longrightarrow>
    map_of (o_screened w') (point, matter, ge_sha G content, f, po_version P) = Some v)"
proof (cases "guardrail_in_force m")
  case (Inl e)
  then show ?thesis using assms by (auto simp: screen_def andthen_eq lift_is remembering.same)
next
  case (Inr f)
  let ?memo = "(point, matter, ge_sha G content, f, po_version P)"
  show ?thesis
  proof (cases "map_of (o_screened w) ?memo")
    case (Some v)
    then show ?thesis using assms Inr
      by (auto simp: screen_def andthen_def lift_def gets_def ret_def Let_def remembering.same)
  next
    case None
    obtain r1 w1 where call: "on_world (po_screen P content modality point matter) w = (r1, w1)" by fastforce
    have same: "o_screened w1 = o_screened w"
      using call by (auto simp: on_world_def split: prod.splits)
    have "remembers w (w1\<lparr>o_screened := AList.update ?memo v (o_screened w1)\<rparr>)" if "sv_version v = f" for v
      using None that by (auto simp: remembers_def memory_ok_def same update_conv' map_le_def)
    moreover have "remembers w w1" by (simp add: remembers_def memory_ok_def same)
    ultimately show ?thesis using assms Inr None call
      by (cases r1) (auto simp: screen_def andthen_def lift_def gets_def only_if_def modify_def ret_def update_conv'
          Let_def split: if_splits)
  qed
qed

lemma keeps_screen: "keeps remembers (screen G (P :: 'v ports) m content modality point matter)"
proof (rule keepsI)
  fix w :: "'v outside"
  obtain r w' where "screen G P m content modality point matter w = (r, w')" by fastforce
  with screen_run [OF this] show "remembers w (snd (screen G P m content modality point matter w))" by simp
qed

lemma keeps_verdict: "keeps remembers (verdict_in_force G P m point matter content modality)"
  unfolding verdict_in_force_def
  by (intro remembering.combinators keeps_screen keeps_log_stage)

lemma keeps_screen_block: "keeps remembers (screen_block G P m i x v)"
  unfolding screen_block_def by (intro remembering.combinators keeps_verdict)

text \<open>A verdict that stands: given by the version in force, and recorded as such.\<close>

definition recorded_as :: "gate_env \<Rightarrow> 'v ports \<Rightarrow> pyval \<Rightarrow> string \<Rightarrow> string \<Rightarrow> string \<Rightarrow> bool \<Rightarrow> 'v outside \<Rightarrow> bool" where
  "recorded_as G P f point matter content allowed w \<longleftrightarrow>
     (\<exists>v. map_of (o_screened w) (point, matter, ge_sha G content, f, po_version P) = Some v
        \<and> sv_version v = f \<and> sv_allowed v = allowed)"

lemma recorded_later: "recorded_as G P f point matter content a w \<Longrightarrow> remembers w w' \<Longrightarrow>
    recorded_as G P f point matter content a w'"
  unfolding recorded_as_def remembers_def map_le_def by (metis domI)

lemma as_other_Inr [simp]: "as_other x = Inr y \<longleftrightarrow> x = Inr y" "Inr y = as_other x \<longleftrightarrow> x = Inr y"
  by (cases x; auto)+

lemma verdict_recorded:
  assumes "verdict_in_force G P m point matter content modality w = (Inr v, w')" and "memory_ok w"
  shows "guardrail_in_force m = Inr (sv_version v)
    \<and> recorded_as G P (sv_version v) point matter content (sv_allowed v) w'
    \<and> map_of (o_screened w') (point, matter, ge_sha G content, sv_version v, po_version P) = Some v"
proof -
  from assms(1) obtain w1 f where s: "screen G P m content modality point matter w = (Inr v, w1)"
    and f: "guardrail_in_force m = Inr f" "sv_version v = f" and w': "o_screened w' = o_screened w1"
    by (auto simp: verdict_in_force_def andthen_eq lift_is log_stage_def split: if_splits)
  then have "map_of (o_screened w') (point, matter, ge_sha G content, f, po_version P) = Some v"
    using screen_run [OF s] assms(2) by simp
  then show ?thesis using f by (simp add: recorded_as_def)
qed


section \<open>A node is admitted whole\<close>

text \<open>An image block with a source that can be screened, and was, with this verdict.\<close>

definition image_recorded :: "gate_env \<Rightarrow> 'v ports \<Rightarrow> pyval \<Rightarrow> string \<Rightarrow> bool \<Rightarrow> 'v outside \<Rightarrow> nat \<times> pydict \<Rightarrow> bool" where
  "image_recorded G P f i a w x \<longleftrightarrow> dget (snd x) ''type'' = PStr ''image'' \<and>
     (\<exists>t. image_text G (snd x) = Inr t \<and> recorded_as G P f ''image-out'' (image_subject i (fst x)) t a w)"

lemma image_recorded_later: "image_recorded G P f i a w x \<Longrightarrow> remembers w w' \<Longrightarrow> image_recorded G P f i a w' x"
  unfolding image_recorded_def using recorded_later by blast

lemma loop_blocks:
  assumes "loop (screen_block G P m i) xs v w = (Inr v', w')" and "memory_ok w"
    and "guardrail_in_force m = Inr f" and "sv_version v = f"
  shows "remembers w w' \<and> sv_version v' = f
    \<and> (sv_allowed v' \<longrightarrow> sv_allowed v \<and> (\<forall>x \<in> set xs. dget (snd x) ''type'' = PStr ''image'' \<longrightarrow> image_recorded G P f i True w' x))
    \<and> (\<not> sv_allowed v' \<longrightarrow> \<not> sv_allowed v \<or> (\<exists>x \<in> set xs. image_recorded G P f i False w' x))"
  using assms
proof (induction xs arbitrary: v w)
  case Nil then show ?case by (simp add: ret_def remembering.same)
next
  case (Cons x xs)
  from Cons.prems(1) obtain u w1 where one: "screen_block G P m i x v w = (Inr u, w1)"
    and rest: "loop (screen_block G P m i) xs u w1 = (Inr v', w')"
    by (auto simp: andthen_eq)
  have r1: "remembers w w1" using keeps_screen_block one by (rule keepsD)
  then have ok: "memory_ok w1" using Cons.prems(2) by (simp add: remembers_def)
  show ?case
  proof (cases "sv_allowed v \<and> dget (snd x) ''type'' = PStr ''image''")
    case False
    then have "u = v" "w1 = w" using one by (auto simp: screen_block_def ret_def)
    then show ?thesis using Cons.IH [OF rest ok Cons.prems(3)] Cons.prems(4) False by auto
  next
    case True
    then obtain t where t: "image_text G (snd x) = Inr t"
      and v: "verdict_in_force G P m ''image-out'' (image_subject i (fst x)) t ''image'' w = (Inr u, w1)"
      using one by (auto simp: screen_block_def andthen_eq lift_is simp del: lift_eq)
    then have u: "sv_version u = f" "image_recorded G P f i (sv_allowed u) w1 x"
      using verdict_recorded [OF v Cons.prems(2)] Cons.prems(3) True by (auto simp: image_recorded_def)
    note IH = Cons.IH [OF rest ok Cons.prems(3) u(1)]
    have "image_recorded G P f i (sv_allowed u) w' x" using image_recorded_later u(2) IH by blast
    moreover have "remembers w w'" using r1 IH remembering.compose by blast
    ultimately show ?thesis using IH True by (cases "sv_allowed u") auto
  qed
qed

text \<open>C27. A node's screening is allowed only when the guardrail version in force allowed its text
  and every image in it, each under its own recorded verdict; when it is denied, one of them
  was denied.\<close>

theorem every_part_was_screened:
  assumes "screen_content G P i content m w = (Inr v, w')" and "memory_ok w"
  shows "guardrail_in_force m = Inr (sv_version v)
    \<and> (sv_allowed v \<longrightarrow> recorded_as G P (sv_version v) ''node-out'' i (screened_text content) True w'
        \<and> (\<forall>x \<in> set (enumerate 0 (blocks_of content)). dget (snd x) ''type'' = PStr ''image'' \<longrightarrow>
             image_recorded G P (sv_version v) i True w' x))
    \<and> (\<not> sv_allowed v \<longrightarrow> recorded_as G P (sv_version v) ''node-out'' i (screened_text content) False w'
        \<or> (\<exists>x \<in> set (enumerate 0 (blocks_of content)). image_recorded G P (sv_version v) i False w' x))"
proof -
  from assms(1) obtain u w1 where words: "verdict_in_force G P m ''node-out'' i (screened_text content) ''text'' w = (Inr u, w1)"
    and images: "loop (screen_block G P m i) (enumerate 0 (blocks_of content)) u w1 = (Inr v, w')"
    by (auto simp: screen_content_def andthen_eq)
  have ok: "memory_ok w1" using keepsD [OF keeps_verdict words] assms(2) by (simp add: remembers_def)
  from verdict_recorded [OF words assms(2)] have f: "guardrail_in_force m = Inr (sv_version u)"
    and u: "recorded_as G P (sv_version u) ''node-out'' i (screened_text content) (sv_allowed u) w1" by auto
  note blocks = loop_blocks [OF images ok f refl]
  have "recorded_as G P (sv_version u) ''node-out'' i (screened_text content) (sv_allowed u) w'"
    using recorded_later u blocks by blast
  then show ?thesis using f blocks by (cases "sv_allowed u"; cases "sv_allowed v") auto
qed

text \<open>C28. A content is screened once: asked again at the same point while the version in force has
  not changed, whatever was screened in between, the same verdict comes back and no service
  is called.\<close>

theorem screened_once:
  assumes "verdict_in_force G P m point matter content modality w = (Inr v, w1)" and "memory_ok w"
    and "remembers w1 w2" and "guardrail_in_force m' = guardrail_in_force m"
  shows "\<exists>w3. verdict_in_force G P m' point matter content modality w2 = (Inr v, w3)
    \<and> o_world w3 = o_world w2 \<and> o_screened w3 = o_screened w2"
proof -
  have f: "guardrail_in_force m' = Inr (sv_version v)"
    and "map_of (o_screened w1) (point, matter, ge_sha G content, sv_version v, po_version P) = Some v"
    using verdict_recorded [OF assms(1,2)] assms(4) by auto
  then have "map_of (o_screened w2) (point, matter, ge_sha G content, sv_version v, po_version P) = Some v"
    using assms(3) unfolding remembers_def map_le_def by (metis domI)
  then have "screen G P m' content modality point matter w2 = (Inr v, w2)"
    using f by (simp add: screen_def andthen_def lift_def gets_def ret_def Let_def)
  then show ?thesis using f
    by (auto simp: verdict_in_force_def andthen_def lift_def log_stage_def modify_def ret_def)
qed

section \<open>Sources\<close>

lemma py_eq_text: "py_eq x (PStr s) \<longleftrightarrow> x = PStr s"
  by (cases x) auto

lemma py_in_text: "py_in (PStr s) xs \<longleftrightarrow> PStr s \<in> set xs"
  by (auto simp: py_in_def py_eq_text)

lemma common_text: "PStr s \<in> set (common xss) \<longleftrightarrow> xss \<noteq> [] \<and> (\<forall>xs \<in> set xss. PStr s \<in> set xs)"
  by (cases xss) (auto simp: common_def list_all_iff py_in_text)

lemma traverse_member: "traverse f xs = Inr ys \<Longrightarrow> y \<in> set ys \<Longrightarrow> \<exists>x \<in> set xs. f x = Inr y"
  by (induction xs arbitrary: ys) auto

lemma traverse_covers: "traverse f xs = Inr ys \<Longrightarrow> x \<in> set xs \<Longrightarrow> \<exists>y \<in> set ys. f x = Inr y"
  by (induction xs arbitrary: ys) auto

lemma traverse_length: "traverse f xs = Inr ys \<Longrightarrow> length ys = length xs"
  by (induction xs arbitrary: ys) auto

lemma traverse_nth: "traverse f xs = Inr ys \<Longrightarrow> n < length xs \<Longrightarrow> f (xs ! n) = Inr (ys ! n)"
  by (induction xs arbitrary: ys n) (auto simp: nth_Cons split: nat.split)

text \<open>A chunk every audience may see: of an article in everyone's list.\<close>

definition open_to_everyone :: "world \<Rightarrow> pyval list \<Rightarrow> pydict \<Rightarrow> bool" where
  "open_to_everyone w audiences c \<longleftrightarrow> audiences \<noteq> [] \<and> (\<exists>art \<in> set (w_articles w). \<exists>s vs k.
     dlookup (entries_of art) ''id'' = Some (PStr s) \<and> dlookup (entries_of art) ''chunks'' = Some vs
     \<and> dlookup c ''id'' = Some k \<and> (\<exists>ks. as_set vs = Inr ks \<and> py_in k ks)
     \<and> (\<forall>a \<in> set audiences. \<exists>xs. visible_to w a = Inr xs \<and> PStr s \<in> set xs))"

lemma open_chunks_of:
  assumes "open_chunks open_to_all art = Inr ks" and "is_pstr (dget (entries_of art) ''id'')" and "ks \<noteq> []"
  shows "\<exists>s vs. dlookup (entries_of art) ''id'' = Some (PStr s) \<and> PStr s \<in> set open_to_all
    \<and> dlookup (entries_of art) ''chunks'' = Some vs \<and> as_set vs = Inr ks"
proof -
  obtain d where d: "art = PDict d" using assms(1) by (cases art) (auto simp: open_chunks_def)
  then obtain s where s: "dlookup d ''id'' = Some (PStr s)"
    using assms(2) by (cases "dlookup d ''id''") (auto simp: dget_def elim: is_pstr.elims)
  then show ?thesis using assms(1,3) d
    by (auto simp: open_chunks_def item_def hashed_def py_in_text split: if_splits option.splits)
qed

lemma retrieved:
  assumes "retrieve w audiences chunks wanted = Inr cs"
  obtains sets allowed ids kept where "traverse (visible_to w) audiences = Inr sets"
    and "traverse (open_chunks (common sets)) (w_articles w) = Inr allowed"
    and "traverse chunk_id chunks = Inr ids"
    and "kept = map snd (filter (\<lambda>(i, c). py_in i (concat allowed)) (zip ids chunks))"
    and "retrieve w audiences chunks None = Inr kept"
    and "wanted = None \<and> cs = kept \<or> (\<exists>names. wanted = Some names \<and> set cs \<subseteq> set kept
      \<and> (\<forall>c \<in> set cs. dget c ''skill'' \<in> PStr ` set names))"
proof -
  obtain sets allowed ids where f: "traverse (visible_to w) audiences = Inr sets"
    "traverse (open_chunks (common sets)) (w_articles w) = Inr allowed" "traverse chunk_id chunks = Inr ids"
    using assms by (auto simp: retrieve_def)
  let ?kept = "map snd (filter (\<lambda>(i, c). py_in i (concat allowed)) (zip ids chunks))"
  have all: "retrieve w audiences chunks None = Inr ?kept" by (simp add: retrieve_def f)
  show thesis
  proof (cases wanted)
    case None then show thesis using that [OF f refl all] assms all by simp
  next
    case (Some names)
    let ?fit = "\<lambda>c. ebind (hashed (dget c ''skill'')) (\<lambda>k. Inr (k \<in> PStr ` set names))"
    from assms Some obtain fits where fits: "traverse ?fit ?kept = Inr fits"
      and cs: "cs = map snd (filter fst (zip fits ?kept))" by (auto simp: retrieve_def f Let_def)
    have "set cs \<subseteq> set ?kept" using cs by (auto dest: set_zip_rightD)
    moreover have "dget c ''skill'' \<in> PStr ` set names" if "c \<in> set cs" for c
    proof -
      from that cs obtain n where "n < length fits" "n < length ?kept" "fits ! n" "?kept ! n = c"
        by (auto simp: set_zip)
      then have "?fit c = Inr True" using traverse_nth [OF fits, of n] by simp
      then show ?thesis by (auto simp: hashed_def split: if_splits)
    qed
    ultimately show thesis using that [OF f refl all] Some by blast
  qed
qed

text \<open>C29. A model is offered only chunks it was given to choose from, each of an article that every
  audience of the course may see; asking for a skill only narrows that.\<close>

theorem rights_before_relevance:
  assumes "retrieve w audiences chunks wanted = Inr cs"
    and "list_all (\<lambda>art. is_pstr (dget (entries_of art) ''id'')) (w_articles w)"
  shows "set cs \<subseteq> set chunks \<and> (\<forall>c \<in> set cs. open_to_everyone w audiences c)
    \<and> (\<exists>every. retrieve w audiences chunks None = Inr every \<and> set cs \<subseteq> set every)
    \<and> (\<forall>names. wanted = Some names \<longrightarrow> (\<forall>c \<in> set cs. dget c ''skill'' \<in> PStr ` set names))"
proof -
  obtain sets allowed ids kept where sets: "traverse (visible_to w) audiences = Inr sets"
    and allowed: "traverse (open_chunks (common sets)) (w_articles w) = Inr allowed"
    and ids: "traverse chunk_id chunks = Inr ids"
    and kept: "kept = map snd (filter (\<lambda>(i, c). py_in i (concat allowed)) (zip ids chunks))"
    and all: "retrieve w audiences chunks None = Inr kept"
    and cs: "wanted = None \<and> cs = kept \<or> (\<exists>names. wanted = Some names \<and> set cs \<subseteq> set kept
      \<and> (\<forall>c \<in> set cs. dget c ''skill'' \<in> PStr ` set names))"
    by (rule retrieved [OF assms(1)])
  have sub: "set cs \<subseteq> set kept" using cs by auto
  moreover have "c \<in> set chunks \<and> open_to_everyone w audiences c" if "c \<in> set kept" for c
  proof -
    from that obtain n where n: "n < length ids" "n < length chunks" "chunks ! n = c" "py_in (ids ! n) (concat allowed)"
      by (auto simp: kept set_zip)
    then have "chunk_id c = Inr (ids ! n)" using traverse_nth [OF ids, of n] by simp
    then have k: "dlookup c ''id'' = Some (ids ! n)"
      by (auto simp: chunk_id_def item_def hashed_def split: option.splits if_splits)
    from n(4) obtain ks where ks: "ks \<in> set allowed" "py_in (ids ! n) ks" by (auto simp: py_in_def)
    obtain art where art: "art \<in> set (w_articles w)" "open_chunks (common sets) art = Inr ks"
      using traverse_member [OF allowed ks(1)] by blast
    moreover have "ks \<noteq> []" using ks(2) by (auto simp: py_in_def)
    ultimately obtain s vs where s: "dlookup (entries_of art) ''id'' = Some (PStr s)" "PStr s \<in> set (common sets)"
      "dlookup (entries_of art) ''chunks'' = Some vs" "as_set vs = Inr ks"
      using open_chunks_of [OF art(2)] assms(2) by (auto simp: list_all_iff)
    then have everyone: "sets \<noteq> []" "\<forall>xs \<in> set sets. PStr s \<in> set xs" by (simp_all add: common_text)
    have "\<exists>xs. visible_to w a = Inr xs \<and> PStr s \<in> set xs" if "a \<in> set audiences" for a
      using traverse_covers [OF sets that] everyone by auto
    moreover have "audiences \<noteq> []" using everyone(1) traverse_length [OF sets] by auto
    ultimately have "open_to_everyone w audiences c"
      unfolding open_to_everyone_def using art(1) s k ks(2) by metis
    then show ?thesis using n(2,3) by auto
  qed
  ultimately show ?thesis using all cs by blast
qed

section \<open>Witnesses\<close>

text \<open>A guardrail that allows everything but one image, and counts how often it is called.\<close>

definition counting_ports :: "nat ports" where
  "counting_ports = \<lparr>po_generate = \<lambda>p schema n. (Inl No_answer, n),
     po_screen = \<lambda>content modality point matter n. (Inr \<lparr>sv_allowed = content \<noteq> ''bad.png'', sv_category = PNone,
        sv_version = PStr ''g1'', sv_point = point\<rparr>, Suc n),
     po_version = PStr ''g1'', po_generator = ''none'', po_clock = \<lambda>n. (0, n), po_chunks = [], po_show = \<lambda>_. ''?''\<rparr>"

definition empty_outside :: "nat outside" where
  "empty_outside = \<lparr>o_stages = [], o_screened = [], o_world = 0\<rparr>"

definition illustrated :: "string \<Rightarrow> pyval" where
  "illustrated src = PDict [(PStr ''blocks'', PList [PDict [(PStr ''type'', PStr ''paragraph''), (PStr ''text'', PStr ''one'')],
     PDict [(PStr ''type'', PStr ''image''), (PStr ''src'', PStr src)]])]"

definition screen_illustrated :: "string \<Rightarrow> (call_exn + screening_verdict) \<times> nat outside" where
  "screen_illustrated src = screen_content sample_gates counting_ports ''n1'' (illustrated src) sample_machine empty_outside"

lemma empty_memory: "memory_ok empty_outside"
  by (simp add: memory_ok_def empty_outside_def)

definition seen_verdict :: "call_exn + screening_verdict \<Rightarrow> bool \<Rightarrow> bool" where
  "seen_verdict r a = (case r of Inr v \<Rightarrow> sv_allowed v = a | _ \<Rightarrow> False)"

theorem every_part_was_screened_witness:
  "\<exists>v. fst (screen_illustrated ''good.png'') = Inr v \<and> sv_allowed v
     \<and> image_recorded sample_gates counting_ports (sv_version v) ''n1'' True (snd (screen_illustrated ''good.png''))
         (1, entries_of (PDict [(PStr ''type'', PStr ''image''), (PStr ''src'', PStr ''good.png'')]))"
proof -
  have "seen_verdict (fst (screen_illustrated ''good.png'')) True" by code_simp
  then obtain v where v: "fst (screen_illustrated ''good.png'') = Inr v" "sv_allowed v"
    by (auto simp: seen_verdict_def split: sum.splits)
  then have run: "screen_content sample_gates counting_ports ''n1'' (illustrated ''good.png'') sample_machine empty_outside
      = (Inr v, snd (screen_illustrated ''good.png''))"
    unfolding screen_illustrated_def [symmetric] by (metis prod.collapse)
  have blocks: "enumerate 0 (blocks_of (illustrated ''good.png'')) = [(0, [(PStr ''type'', PStr ''paragraph''), (PStr ''text'', PStr ''one'')]),
      (1, [(PStr ''type'', PStr ''image''), (PStr ''src'', PStr ''good.png'')])]" by code_simp
  from every_part_was_screened [OF run empty_memory] v blocks show ?thesis by simp
qed

theorem screened_once_witness:
  "\<exists>v w. verdict_in_force sample_gates counting_ports sample_machine ''node-out'' ''n1'' ''one'' ''text'' empty_outside = (Inr v, w)
     \<and> o_world w = 1 \<and> (\<exists>w3. verdict_in_force sample_gates counting_ports sample_machine ''node-out'' ''n1'' ''one'' ''text'' w
         = (Inr v, w3) \<and> o_world w3 = 1)"
proof -
  let ?run = "verdict_in_force sample_gates counting_ports sample_machine ''node-out'' ''n1'' ''one'' ''text'' empty_outside"
  have "seen_verdict (fst ?run) True" and once: "o_world (snd ?run) = 1" by code_simp+
  then obtain v where "fst ?run = Inr v" by (auto simp: seen_verdict_def split: sum.splits)
  then have run: "?run = (Inr v, snd ?run)" by (metis prod.collapse)
  from screened_once [OF run empty_memory remembering.same refl] once show ?thesis using run by metis
qed

text \<open>Two articles, one of which an audience may not see.\<close>

definition chunk :: "string \<Rightarrow> pydict" where
  "chunk i = [(PStr ''id'', PStr i), (PStr ''skill'', PStr ''s''), (PStr ''text'', PStr ''...'')]"

definition library_world :: world where
  "library_world = sample_world\<lparr>w_articles := [PDict [(PStr ''id'', PStr ''x''), (PStr ''chunks'', strs [''k1''])],
       PDict [(PStr ''id'', PStr ''y''), (PStr ''chunks'', strs [''k2''])]],
     w_visibility := [(PStr ''all'', strs [''x'']), (PStr ''staff'', strs [''x'', ''y''])]\<rparr>"

theorem rights_before_relevance_witness:
  "retrieve library_world [PStr ''all'', PStr ''staff''] [chunk ''k1'', chunk ''k2''] (Some [''s'']) = Inr [chunk ''k1'']
     \<and> open_to_everyone library_world [PStr ''all'', PStr ''staff''] (chunk ''k1'')"
proof -
  have run: "retrieve library_world [PStr ''all'', PStr ''staff''] [chunk ''k1'', chunk ''k2''] (Some [''s'']) = Inr [chunk ''k1'']"
    by code_simp
  have "list_all (\<lambda>art. is_pstr (dget (entries_of art) ''id'')) (w_articles library_world)" by code_simp
  from rights_before_relevance [OF run this] run show ?thesis by simp
qed

definition sample_gate :: "machine \<Rightarrow> nat outside gate" where
  "sample_gate m = \<lparr>g_machine = m, g_course = ''c1'', g_rate_limit = 20, g_window = 60, g_spent = [],
     g_issued = [], g_outside = empty_outside\<rparr>"

theorem gateway_cannot_touch_published_witness:
  "\<exists>g'. screen_node sample_gates counting_ports ''n1'' (sample_gate sample_archived) = (Inl (PyError ''KeyError''), g')
     \<and> (\<exists>rv'. revision (g_machine g') 1 = Some rv' \<and> \<not> is_draft rv')"
proof -
  let ?run = "screen_node sample_gates counting_ports ''n1'' (sample_gate sample_archived)"
  have "fst ?run = Inl (PyError ''KeyError'')" by code_simp
  then have run: "?run = (Inl (PyError ''KeyError''), snd ?run)" by (metis prod.collapse)
  have table: "e_table (ge_env sample_gates) = spec_table" by (simp add: sample_gates_def)
  have "fire_event sample_gates DraftDiscarded [] ''editor'' (sample_gate sample_machine)
      = (fst (fire_upto 3 sample_env DraftDiscarded [] ''editor'' sample_machine), sample_gate sample_archived)"
    by (simp add: fire_event_def on_machine_def sample_gate_def sample_gates_def sample_archived_def
        numeral_3_eq_3 numeral_2_eq_2 split_beta)
  then have past: "gateway_run sample_gates counting_ports (sample_gate sample_machine) (sample_gate sample_archived)"
    by (rule gateway_run.fired [OF gateway_run.start])
  have later: "gateway_run sample_gates counting_ports (sample_gate sample_archived) (snd ?run)"
    using run by (rule gateway_run.screened [OF gateway_run.start])
  have born: "g_machine (sample_gate sample_machine) = new_machine sample_world
     \<lparr>cfg_repair_budget = 2, cfg_author = PStr ''ana''\<rparr> [] (PInt 3)" by (simp add: sample_gate_def sample_machine_def)
  have was: "revision (g_machine (sample_gate sample_archived)) 1 = Some (the (revision sample_archived 1))"
    using sample_archived_revision(1) by (simp add: sample_gate_def)
  from gateway_cannot_touch_published [OF table born past later was sample_archived_revision(2)] show ?thesis
    using run by blast
qed

end
