(* ===== verification/Schema_Engine.thy ===== *)
theory Schema_Engine
  imports Asking Texts
begin

text \<open>
  \<open>engines/schema/engine.py\<close>: does an artifact have the shape the next layer can reason about,
  and does every block of a node have the shape of its row in the catalog.  JSON Schema
  validation is the library \<open>jsonschema\<close>, the parameter \<open>errs\<close>: the errors of an artifact
  against a schema, in no order.  \<open>show\<close> is Python's \<open>repr\<close>.
\<close>

section \<open>Errors of a validation\<close>

text \<open>
  Where an error is: keys of objects and places in lists.  Two paths that agree up to a place
  name members of one container there, so keys and places are never compared; the order puts
  places first.
\<close>

datatype path_part = At int | Key string

definition part_less :: "path_part \<Rightarrow> path_part \<Rightarrow> bool" where
  "part_less p q \<longleftrightarrow> (case (p, q) of (At i, At j) \<Rightarrow> i < j | (At _, Key _) \<Rightarrow> True
     | (Key _, At _) \<Rightarrow> False | (Key a, Key b) \<Rightarrow> a < b)"

instantiation path_part :: linorder
begin
definition less_path_part :: "path_part \<Rightarrow> path_part \<Rightarrow> bool" where
  "less_path_part p q \<longleftrightarrow> part_less p q"
definition less_eq_path_part :: "path_part \<Rightarrow> path_part \<Rightarrow> bool" where
  "less_eq_path_part p q \<longleftrightarrow> p = q \<or> part_less p q"
instance
  by intro_classes (auto simp: less_path_part_def less_eq_path_part_def part_less_def split: path_part.splits)
end

record schema_error =
  se_path :: "path_part list"
  se_schema :: pyval
  se_rule :: "string option"
  se_message :: string

type_synonym validation = "pyval \<Rightarrow> pyval \<Rightarrow> exn + schema_error list"

text \<open>\<open>_path\<close> and \<open>_expected\<close>.\<close>

fun part_text :: "path_part \<Rightarrow> string" where
  "part_text (At i) = ''['' @ int_text i @ '']''"
| "part_text (Key k) = ''.'' @ k"

definition path_text :: "path_part list \<Rightarrow> string" where
  "path_text ps = (let out = dropWhile (\<lambda>c. c = CHR ''.'') (concat (map part_text ps))
     in if out = [] then ''(the whole artifact)'' else out)"

definition expected :: "(pyval \<Rightarrow> string) \<Rightarrow> schema_error \<Rightarrow> string" where
  "expected show e = (case se_rule e of
       None \<Rightarrow> ''a different shape''
     | Some rule \<Rightarrow> (case dlookup (entries_of (se_schema e)) rule of
         Some v \<Rightarrow> rule @ '': '' @ id_text show v
       | None \<Rightarrow> (if rule = [] then ''a different shape'' else rule)))"

section \<open>One artifact\<close>

definition failure_at :: "(pyval \<Rightarrow> string) \<Rightarrow> string \<Rightarrow> schema_error \<Rightarrow> pyval" where
  "failure_at show shape e = PDict [(PStr ''path'', PStr (shape @ ''.'' @ path_text (se_path e))),
     (PStr ''expected'', PStr (expected show e)), (PStr ''message'', PStr (se_message e))]"

definition failure_text :: "string \<Rightarrow> pyval \<Rightarrow> string" where
  "failure_text k f = str_of (dget (entries_of f) k)"

definition failing_path :: "pyval list \<Rightarrow> verdict" where
  "failing_path fs = refuse ''failing-path''
     (failure_text ''path'' (hd fs) @ '': expected '' @ failure_text ''expected'' (hd fs)) (PList fs) ''schema''"

definition shape_allowed :: "string \<Rightarrow> verdict" where
  "shape_allowed shape = Allowed [(PStr ''engine'', PStr ''schema''), (PStr ''shape'', PStr shape)]"

definition against :: "validation \<Rightarrow> (pyval \<Rightarrow> string) \<Rightarrow> pyval \<Rightarrow> pydict \<Rightarrow> string \<Rightarrow> exn + verdict" where
  "against errs show artifact schema shape = ebind (errs (PDict schema) artifact) (\<lambda>es.
     Inr (if es = [] then shape_allowed shape
          else failing_path (map (failure_at show shape) (sort_key se_path es))))"

definition shapes :: "string \<Rightarrow> pydict option" where
  "shapes name = map_of [(''brief'', brief_shape), (''outline'', outline_shape outline_node_properties)] name"

definition check_shape :: "validation \<Rightarrow> (pyval \<Rightarrow> string) \<Rightarrow> pyval \<Rightarrow> string \<Rightarrow> string list option \<Rightarrow> exn + verdict" where
  "check_shape errs show artifact shape block_types =
     (if shape = ''block'' then (case block_types of
         None \<Rightarrow> Inr (refuse ''unstated-requirement'' ''no block types were supplied, so a block cannot be checked''
           (PDict [(PStr ''shape'', PStr shape)]) ''schema'')
       | Some kinds \<Rightarrow> against errs show artifact (block_shape kinds) shape)
      else (case shapes shape of
         None \<Rightarrow> Inl EngineUnavailable
       | Some schema \<Rightarrow> against errs show artifact schema shape))"

section \<open>The blocks of a node\<close>

text \<open>\<open>closed\<close>: what the catalog's row defines, the type and the citations, and nothing else.\<close>

definition closed :: "pydict \<Rightarrow> exn + pydict" where
  "closed row = ebind (case dlookup row ''properties'' of None \<Rightarrow> Inr [] | Some v \<Rightarrow> entry v) (\<lambda>ps.
     Inr (dmerge row [(PStr ''additionalProperties'', PBool False),
       (PStr ''properties'', PDict (dmerge [(PStr ''type'', PDict []), (PStr ''cites'', PDict [])] ps))]))"

definition row_of :: "pydict \<Rightarrow> pyval \<Rightarrow> exn + pydict" where
  "row_of rows kind = (if \<not> hashable kind then Inl type_error
     else case dfind rows kind of None \<Rightarrow> Inl (PyError ''KeyError'') | Some row \<Rightarrow> entry row)"

text \<open>An answer of a quiz is an index into the options beside it.\<close>

definition quiz_wants :: "pydict \<Rightarrow> exn + string option" where
  "quiz_wants d = (let given = dget d ''answer'' in
     if \<not> an_int given then Inr (Some ''an integer index'')
     else ebind (ebind (item d ''options'') py_len) (\<lambda>n.
       let k = the (as_int given) in
       Inr (if 0 \<le> k \<and> k < n then None else Some (''an index below '' @ int_text n))))"

definition wrong_answer :: "pydict \<Rightarrow> string \<Rightarrow> verdict" where
  "wrong_answer d wanted = refuse ''failing-path'' (''block.answer: expected '' @ wanted)
     (PList [PDict [(PStr ''path'', PStr ''block.answer''), (PStr ''found'', dget d ''answer''),
        (PStr ''expected'', PStr wanted)]]) ''schema''"

definition quiz_verdict :: "pydict \<Rightarrow> verdict \<Rightarrow> exn + verdict" where
  "quiz_verdict d v = ebind (quiz_wants d) (\<lambda>w. Inr (case w of None \<Rightarrow> v | Some wanted \<Rightarrow> wrong_answer d wanted))"

definition check_row :: "validation \<Rightarrow> (pyval \<Rightarrow> string) \<Rightarrow> pydict \<Rightarrow> pyval \<Rightarrow> exn + verdict" where
  "check_row errs show rows one =
     ebind (entry one) (\<lambda>d. ebind (item d ''type'') (\<lambda>kind. ebind (row_of rows kind) (\<lambda>row.
     ebind (closed row) (\<lambda>schema. ebind (against errs show one schema ''block'') (\<lambda>v.
       if v_ok v \<and> kind = PStr ''quiz'' then quiz_verdict d v else Inr v)))))"

definition check_block :: "validation \<Rightarrow> (pyval \<Rightarrow> string) \<Rightarrow> string list \<Rightarrow> pydict option \<Rightarrow> pyval \<Rightarrow> exn + verdict" where
  "check_block errs show kinds rows one = ebind (check_shape errs show one ''block'' (Some kinds)) (\<lambda>v.
     if \<not> v_ok v then Inr v else case rows of None \<Rightarrow> Inr v | Some rs \<Rightarrow> check_row errs show rs one)"

text \<open>A failure of a block, by its path in the node.\<close>

definition without_start :: "string \<Rightarrow> string \<Rightarrow> string" where
  "without_start p s = (if starts_with p s then drop (length p) s else s)"

definition in_block :: "string \<Rightarrow> nat \<Rightarrow> string" where
  "in_block i k = i @ ''.blocks['' @ int_text (int k) @ ''].''"

definition in_node :: "string \<Rightarrow> nat \<Rightarrow> pyval \<Rightarrow> exn + pyval" where
  "in_node i k f = ebind (entry f) (\<lambda>d. ebind (ebind (item d ''path'') as_name) (\<lambda>p.
     Inr (PDict (dput ''path'' (PStr (in_block i k @ without_start ''block.'' p)) d))))"

definition block_failures :: "validation \<Rightarrow> (pyval \<Rightarrow> string) \<Rightarrow> string list \<Rightarrow> pydict option \<Rightarrow> string
    \<Rightarrow> nat \<times> pyval \<Rightarrow> exn + pyval list" where
  "block_failures errs show kinds rows i x = ebind (check_block errs show kinds rows (snd x)) (\<lambda>v. case v of
       Allowed _ \<Rightarrow> Inr []
     | RefusedBy r \<Rightarrow> traverse (in_node i (fst x)) (items_of (ref_detail r)))"

definition stray_failure :: "string \<Rightarrow> string \<Rightarrow> pyval" where
  "stray_failure i key = PDict [(PStr ''path'', PStr (i @ ''.'' @ key)),
     (PStr ''expected'', PStr ''a field the node schema defines''), (PStr ''found'', PStr key)]"

definition blocks_allowed :: "pyval \<Rightarrow> nat \<Rightarrow> verdict" where
  "blocks_allowed i n = Allowed [(PStr ''engine'', PStr ''schema''), (PStr ''node'', i), (PStr ''blocks'', PInt (int n))]"

definition check_blocks :: "validation \<Rightarrow> (pyval \<Rightarrow> string) \<Rightarrow> pydict \<Rightarrow> string list \<Rightarrow> pydict option \<Rightarrow> string list
    \<Rightarrow> exn + verdict" where
  "check_blocks errs show nd kinds rows stray =
     (let i = id_text show (dget nd ''id'') in
      if stray \<noteq> [] then Inr (failing_path (map (stray_failure i) stray))
      else case dget nd ''blocks'' of
        PList (b # bs) \<Rightarrow> ebind (traverse (block_failures errs show kinds rows i) (enumerate 0 (b # bs))) (\<lambda>fs.
          Inr (if concat fs = []
               then blocks_allowed (dget nd ''id'') (length (b # bs))
               else failing_path (concat fs)))
      | v \<Rightarrow> Inr (refuse ''failing-path'' (i @ ''.blocks: expected at least one content block'')
          (PList [PDict [(PStr ''path'', PStr (i @ ''.blocks'')), (PStr ''expected'', PStr ''minItems: 1''),
             (PStr ''found'', PStr (show v))]]) ''schema''))"

end
