(* ===== verification/Schema_Properties.thy ===== *)
theory Schema_Properties
  imports Schema_Engine Sample
begin

text \<open>
  When the block guard allows a node, what its refusal says of which block, that a block which
  passes carries nothing its row does not name, and that a model is offered exactly the fields
  the guard accepts.
\<close>

section \<open>One block\<close>

text \<open>A block fits: the shape of a block, the closed row of its type, and a quiz's own rule.\<close>

definition fits_row :: "validation \<Rightarrow> pydict \<Rightarrow> pyval \<Rightarrow> bool" where
  "fits_row errs rows b \<longleftrightarrow> (\<exists>d kind row schema. b = PDict d \<and> dlookup d ''type'' = Some kind
     \<and> row_of rows kind = Inr row \<and> closed row = Inr schema \<and> errs (PDict schema) b = Inr []
     \<and> (kind = PStr ''quiz'' \<longrightarrow> quiz_wants d = Inr None))"

definition block_fits :: "validation \<Rightarrow> string list \<Rightarrow> pydict option \<Rightarrow> pyval \<Rightarrow> bool" where
  "block_fits errs kinds rows b \<longleftrightarrow> errs (PDict (block_shape kinds)) b = Inr []
     \<and> (case rows of None \<Rightarrow> True | Some rs \<Rightarrow> fits_row errs rs b)"

text \<open>A refusal that names at least one failure.\<close>

fun failures_of :: "verdict \<Rightarrow> pyval list" where
  "failures_of (Allowed _) = []"
| "failures_of (RefusedBy r) = items_of (ref_detail r)"

lemma entry_eq [simp]: "entry x = Inr d \<longleftrightarrow> x = PDict d"
  by (cases x) auto

lemma item_eq [simp]: "item d k = Inr v \<longleftrightarrow> dlookup d k = Some v"
  by (simp add: item_def split: option.splits)

lemma as_name_eq [simp]: "as_name x = Inr s \<longleftrightarrow> x = PStr s"
  by (cases x) auto

lemma failing_path_simps [simp]: "\<not> v_ok (failing_path fs)" "failures_of (failing_path fs) = fs"
  by (simp_all add: failing_path_def refuse_def)

lemma sort_key_Nil_iff [simp]: "sort_key f xs = [] \<longleftrightarrow> xs = []"
  by (metis length_0_conv length_sort)

lemma allowed_simps [simp]: "v_ok (shape_allowed shape)" "v_ok (blocks_allowed i n)"
    "failures_of (blocks_allowed i n) = []"
  by (simp_all add: shape_allowed_def blocks_allowed_def)

lemma wrong_answer_simps [simp]: "\<not> v_ok (wrong_answer d wanted)" "failures_of (wrong_answer d wanted) \<noteq> []"
  by (simp_all add: wrong_answer_def refuse_def)

lemma against_eq:
  assumes "against errs show b schema shape = Inr v"
  shows "v_ok v \<longleftrightarrow> errs (PDict schema) b = Inr []" "\<not> v_ok v \<Longrightarrow> failures_of v \<noteq> []"
proof -
  from assms obtain es where es: "errs (PDict schema) b = Inr es" and v: "v = (if es = []
      then shape_allowed shape else failing_path (map (failure_at show shape) (sort_key se_path es)))"
    by (auto simp: against_def)
  then show "v_ok v \<longleftrightarrow> errs (PDict schema) b = Inr []" by simp
  show "failures_of v \<noteq> []" if "\<not> v_ok v" using that v by (cases "es = []") simp_all
qed

lemma quiz_verdict_eq:
  assumes "quiz_verdict d v = Inr u" and "v_ok v"
  shows "v_ok u \<longleftrightarrow> quiz_wants d = Inr None" "\<not> v_ok u \<Longrightarrow> failures_of u \<noteq> []"
proof -
  from assms(1) obtain w where "quiz_wants d = Inr w" and "u = (case w of None \<Rightarrow> v | Some wanted \<Rightarrow> wrong_answer d wanted)"
    by (auto simp: quiz_verdict_def)
  then show "v_ok u \<longleftrightarrow> quiz_wants d = Inr None" "\<not> v_ok u \<Longrightarrow> failures_of u \<noteq> []"
    using assms(2) by (cases w; simp)+
qed

lemma check_row_eq:
  assumes "check_row errs show rows b = Inr v"
  shows "(v_ok v \<longleftrightarrow> fits_row errs rows b) \<and> (\<not> v_ok v \<longrightarrow> failures_of v \<noteq> [])"
proof -
  from assms obtain d kind row schema u where d: "b = PDict d" "dlookup d ''type'' = Some kind"
    "row_of rows kind = Inr row" "closed row = Inr schema" and u: "against errs show b schema ''block'' = Inr u"
    and v: "(if v_ok u \<and> kind = PStr ''quiz'' then quiz_verdict d u else Inr u) = Inr v"
    by (auto simp: check_row_def)
  have "fits_row errs rows b \<longleftrightarrow> errs (PDict schema) b = Inr [] \<and> (kind = PStr ''quiz'' \<longrightarrow> quiz_wants d = Inr None)"
    using d by (auto simp: fits_row_def)
  then show ?thesis using v against_eq [OF u] quiz_verdict_eq [of d u v] by (auto split: if_splits)
qed

lemma check_block_eq:
  assumes "check_block errs show kinds rows b = Inr v"
  shows "(v_ok v \<longleftrightarrow> block_fits errs kinds rows b) \<and> (\<not> v_ok v \<longrightarrow> failures_of v \<noteq> [])"
proof -
  from assms obtain u where u: "against errs show b (block_shape kinds) ''block'' = Inr u"
    and v: "(if \<not> v_ok u then Inr u else case rows of None \<Rightarrow> Inr u | Some rs \<Rightarrow> check_row errs show rs b) = Inr v"
    by (auto simp: check_block_def check_shape_def)
  show ?thesis using v against_eq [OF u] check_row_eq [of errs "show" _ b v]
    by (cases rows) (auto simp: block_fits_def split: if_splits)
qed

section \<open>A node\<close>

lemma starts_with_append [simp]: "starts_with p (p @ s)"
  by (simp add: starts_with_def)

lemma in_node_path: "in_node i k f = Inr g \<Longrightarrow> starts_with (in_block i k) (failure_text ''path'' g)"
  by (auto simp: in_node_def failure_text_def dget_dput)

lemma block_failures_eq:
  assumes "block_failures errs show kinds rows i (k, b) = Inr fs"
  shows "(fs = [] \<longleftrightarrow> block_fits errs kinds rows b)
    \<and> (\<forall>f \<in> set fs. starts_with (in_block i k) (failure_text ''path'' f))"
proof -
  from assms obtain v where v: "check_block errs show kinds rows b = Inr v"
    and fs: "(case v of Allowed _ \<Rightarrow> Inr [] | RefusedBy r \<Rightarrow> traverse (in_node i k) (items_of (ref_detail r))) = Inr fs"
    unfolding block_failures_def by auto
  show ?thesis
  proof (cases v)
    case (Allowed x) then show ?thesis using fs check_block_eq [OF v] by simp
  next
    case (RefusedBy r)
    then have all: "list_all2 (\<lambda>f g. in_node i k f = Inr g) (failures_of v) fs" using fs by (simp add: traverse_eq_Inr)
    then have "fs \<noteq> []" using check_block_eq [OF v] RefusedBy by auto
    moreover have "starts_with (in_block i k) (failure_text ''path'' f)" if f: "f \<in> set fs" for f
    proof -
      from f obtain n where "n < length fs" and "f = fs ! n" by (auto simp: in_set_conv_nth)
      then have "in_node i k (failures_of v ! n) = Inr f" using all by (simp add: list_all2_conv_all_nth)
      then show ?thesis by (rule in_node_path)
    qed
    ultimately show ?thesis using check_block_eq [OF v] RefusedBy by auto
  qed
qed

lemma blocks_guard:
  assumes "check_blocks errs show nd kinds rows stray = Inr v"
  shows "(v_ok v \<longleftrightarrow> stray = [] \<and> (\<exists>bs. dget nd ''blocks'' = PList bs \<and> bs \<noteq> []
      \<and> (\<forall>b \<in> set bs. block_fits errs kinds rows b)))
    \<and> (\<forall>bs. stray = [] \<and> dget nd ''blocks'' = PList bs \<and> bs \<noteq> [] \<longrightarrow> (\<exists>parts. failures_of v = concat parts
        \<and> length parts = length bs \<and> (\<forall>k < length bs. (parts ! k = [] \<longleftrightarrow> block_fits errs kinds rows (bs ! k))
          \<and> (\<forall>f \<in> set (parts ! k). starts_with (in_block (id_text show (dget nd ''id'')) k) (failure_text ''path'' f)))))"
proof (cases "stray = [] \<and> (\<exists>b bs. dget nd ''blocks'' = PList (b # bs))")
  case False
  then have "\<not> v_ok v" using assms
    by (auto simp: check_blocks_def Let_def refuse_def split: if_splits pyval.splits list.splits)
  then show ?thesis using False by (metis neq_Nil_conv)
next
  case True
  then obtain b0 bs0 where blocks: "dget nd ''blocks'' = PList (b0 # bs0)" and [simp]: "stray = []" by auto
  define bs where "bs = b0 # bs0"
  let ?i = "id_text show (dget nd ''id'')"
  from assms blocks obtain parts where parts: "traverse (block_failures errs show kinds rows ?i) (enumerate 0 bs) = Inr parts"
    and v: "v = (if concat parts = [] then blocks_allowed (dget nd ''id'') (length bs) else failing_path (concat parts))"
    by (auto simp: check_blocks_def bs_def simp del: enumerate_simps)
  have len: "length parts = length bs" using parts by (auto simp: traverse_eq_Inr dest: list_all2_lengthD)
  have each: "(parts ! k = [] \<longleftrightarrow> block_fits errs kinds rows (bs ! k))
      \<and> (\<forall>f \<in> set (parts ! k). starts_with (in_block ?i k) (failure_text ''path'' f))" if "k < length bs" for k
  proof -
    have "block_failures errs show kinds rows ?i (k, bs ! k) = Inr (parts ! k)"
      using parts that by (simp add: traverse_eq_Inr list_all2_conv_all_nth nth_enumerate_eq)
    then show ?thesis by (rule block_failures_eq)
  qed
  have "v_ok v \<longleftrightarrow> concat parts = []" using v by simp
  also have "\<dots> \<longleftrightarrow> (\<forall>k < length bs. parts ! k = [])"
    unfolding concat_eq_Nil_conv all_set_conv_all_nth len by simp
  finally have "v_ok v \<longleftrightarrow> (\<forall>k < length bs. parts ! k = [])" .
  then have "v_ok v \<longleftrightarrow> (\<forall>b \<in> set bs. block_fits errs kinds rows b)"
    unfolding all_set_conv_all_nth using each by (metis (no_types, lifting))
  moreover have "failures_of v = concat parts" using v by simp
  moreover have "dget nd ''blocks'' = PList bs" "bs \<noteq> []" using blocks by (simp_all add: bs_def)
  ultimately show ?thesis using each len by auto
qed

text \<open>C30. The block guard allows a node exactly when its content has no stray field and it is a
  non-empty list of blocks that each fit; and it refuses the blocks with the failures of each
  block in turn, under a path that leads to that block, none for a block that fits and at
  least one for any other.\<close>

theorem blocks_verdict:
  assumes "check_blocks errs show nd kinds rows stray = Inr v"
  shows "(v_ok v \<longleftrightarrow> stray = [] \<and> (\<exists>bs. dget nd ''blocks'' = PList bs \<and> bs \<noteq> []
      \<and> (\<forall>b \<in> set bs. block_fits errs kinds rows b)))
    \<and> (\<forall>bs. stray = [] \<and> dget nd ''blocks'' = PList bs \<and> bs \<noteq> [] \<longrightarrow> (\<exists>parts. failures_of v = concat parts
        \<and> length parts = length bs \<and> (\<forall>k < length bs. (parts ! k = [] \<longleftrightarrow> block_fits errs kinds rows (bs ! k))
          \<and> (\<forall>f \<in> set (parts ! k). starts_with (in_block (id_text show (dget nd ''id'')) k) (failure_text ''path'' f)))))"
  using assms by (rule blocks_guard)

section \<open>What a block may carry\<close>

text \<open>
  What the code relies on JSON Schema for: where additional properties are not allowed, an object
  without errors has only the properties the schema names, unless it names patterns.
\<close>

definition closes :: "validation \<Rightarrow> bool" where
  "closes errs \<longleftrightarrow> (\<forall>s d. errs (PDict s) (PDict d) = Inr [] \<and> dget s ''additionalProperties'' = PBool False
     \<and> \<not> dhas s ''patternProperties'' \<longrightarrow> fst ` set d \<subseteq> fst ` set (entries_of (dget s ''properties'')))"

definition row_fields :: "pydict \<Rightarrow> pyval set" where
  "row_fields row = {PStr ''type'', PStr ''cites''} \<union> fst ` set (entries_of (dget row ''properties''))"

lemma fst_fold_update: "fst ` set (fold (\<lambda>(k, v) d. AList.update k v d) b a) = fst ` set a \<union> fst ` set b"
proof (induction b arbitrary: a)
  case (Cons x b)
  obtain k v where "x = (k, v)" by fastforce
  then show ?case using Cons [of "AList.update k v a"] by (simp add: dom_update)
qed simp

lemma dmerge_keys: "fst ` set (dmerge a b) = fst ` set a \<union> fst ` set b"
  by (simp add: dmerge_def fst_fold_update)

lemma closed_eq:
  assumes "closed row = Inr schema"
  shows "dget schema ''additionalProperties'' = PBool False"
    "fst ` set (entries_of (dget schema ''properties'')) = row_fields row"
    "k \<notin> {''additionalProperties'', ''properties''} \<Longrightarrow> dlookup schema k = dlookup row k"
proof -
  from assms obtain ps where ps: "(case dlookup row ''properties'' of None \<Rightarrow> Inr [] | Some v \<Rightarrow> entry v) = Inr ps"
    and schema: "schema = dput ''properties'' (PDict (dmerge [(PStr ''type'', PDict []), (PStr ''cites'', PDict [])] ps))
       (dput ''additionalProperties'' (PBool False) row)"
    by (auto simp: closed_def dmerge_def dput_def)
  have "ps = entries_of (dget row ''properties'')"
    using ps by (cases "dlookup row ''properties''") (auto simp: dget_def)
  then show "dget schema ''additionalProperties'' = PBool False"
    "fst ` set (entries_of (dget schema ''properties'')) = row_fields row"
    "k \<notin> {''additionalProperties'', ''properties''} \<Longrightarrow> dlookup schema k = dlookup row k"
    by (simp_all add: schema pydict_simps dmerge_keys row_fields_def)
qed

lemma fits_row_fields:
  assumes "fits_row errs rows (PDict d)" and "closes errs"
    and "list_all (\<lambda>(k, row). \<not> dhas (entries_of row) ''patternProperties'') rows"
  shows "\<exists>row. row_of rows (dget d ''type'') = Inr row \<and> fst ` set d \<subseteq> row_fields row"
proof -
  from assms(1) obtain kind row schema where row: "dget d ''type'' = kind" "row_of rows kind = Inr row"
    and schema: "closed row = Inr schema" and ok: "errs (PDict schema) (PDict d) = Inr []"
    by (auto simp: fits_row_def dget_def)
  from row(2) obtain k where "(k, PDict row) \<in> set rows"
    by (auto simp: row_of_def dfind_def find_Some_iff split: if_splits option.splits) (metis nth_mem)
  then have "\<not> dhas schema ''patternProperties''"
    using assms(3) closed_eq(3) [OF schema] by (fastforce simp: list_all_iff dhas_def)
  then have "fst ` set d \<subseteq> row_fields row"
    using ok assms(2) closed_eq(1,2) [OF schema] unfolding closes_def by metis
  then show ?thesis using row by auto
qed

text \<open>C31. A node that passes the block guard of the machine carries nothing that no check reads: its
  content has only the fields of a node and of the outline, and each of its blocks only the
  fields of its catalog row, its type and its citations.\<close>

theorem nothing_rides_along:
  assumes "adapter I w G_block_schemas_valid l c m = Inr v" and "v_ok v"
    and "i_block_schemas_valid I = (\<lambda>nd kinds rows. check_blocks errs show nd kinds (Some rows))"
    and "closes errs"
    and "list_all (\<lambda>(k, row). \<not> dhas (entries_of row) ''patternProperties'') (w_block_schemas w)"
    and "rev_at c m = Inr rv" and "c_node c \<noteq> None" and "node_at c rv = Inr n"
  shows "fst ` set (entries_of (n_content n)) \<subseteq> PStr ` set (content_fields @ outline_owned)
    \<and> (\<exists>bs. dget (engine_node n) ''blocks'' = PList bs \<and> bs \<noteq> [] \<and> (\<forall>b \<in> set bs. \<exists>d row. b = PDict d
        \<and> row_of (w_block_schemas w) (dget d ''type'') = Inr row \<and> fst ` set d \<subseteq> row_fields row))"
proof -
  have checked: "check_blocks errs show (engine_node n) (w_block_types w) (Some (w_block_schemas w)) (stray_fields n) = Inr v"
    using assms(1,3,6,7,8) by (simp add: every_node_def)
  then have none: "stray_fields n = []" and "\<exists>bs. dget (engine_node n) ''blocks'' = PList bs \<and> bs \<noteq> []
      \<and> (\<forall>b \<in> set bs. block_fits errs (w_block_types w) (Some (w_block_schemas w)) b)"
    using blocks_guard [OF checked] assms(2) by auto
  then obtain bs where bs: "dget (engine_node n) ''blocks'' = PList bs" "bs \<noteq> []"
    and fit: "\<And>b. b \<in> set bs \<Longrightarrow> fits_row errs (w_block_schemas w) b"
    by (auto simp: block_fits_def)
  have "\<exists>d row. b = PDict d \<and> row_of (w_block_schemas w) (dget d ''type'') = Inr row \<and> fst ` set d \<subseteq> row_fields row"
    if "b \<in> set bs" for b
  proof -
    from fit [OF that] obtain d where "b = PDict d" by (auto simp: fits_row_def)
    then show ?thesis using fit [OF that] fits_row_fields [OF _ assms(4,5)] by auto
  qed
  moreover have "fst ` set (entries_of (n_content n)) \<subseteq> PStr ` set (content_fields @ outline_owned)"
    using none by (auto simp: stray_fields_def filter_empty_conv simp del: set_append)
  ultimately show ?thesis using bs by auto
qed

lemma find_dlookup: "dfind d (PStr k) = dlookup d k"
  by (induction d) (auto simp: dfind_def dlookup_def)

section \<open>What a model is offered\<close>

text \<open>C32. The shape a model is offered for a block and the shape its answer is checked against name
  the same fields, and the offer asks for the type and for every field the row requires; so what
  is asked for is never refused as a field too many or missing.\<close>

theorem offered_is_accepted:
  assumes "block_request w kind = Inr (PDict offer)" and "row_of (w_block_schemas w) (PStr kind) = Inr row"
    and "closed row = Inr schema"
  shows "fst ` set (entries_of (dget offer ''properties'')) = fst ` set (entries_of (dget schema ''properties''))
    \<and> dget schema ''additionalProperties'' = PBool False
    \<and> (\<exists>names. names_required row = Inr names \<and> dget offer ''required'' = strs (''type'' # names)
        \<and> dlookup schema ''required'' = dlookup row ''required'')"
proof -
  have row: "catalog_row w kind = Inr row"
    using assms(2) find_dlookup [of "w_block_schemas w" kind]
    by (auto simp: row_of_def catalog_row_def item_def split: if_splits option.splits)
  from assms(1) row obtain names ps where names: "names_required row = Inr names"
    and ps: "py_items (py_or (dget row ''properties'') (PDict [])) = Inr ps"
    and offer: "offer = entries_of (object_with (''type'' # names)
       (dmerge [(PStr ''type'', PDict [(PStr ''type'', PStr ''string''), (PStr ''enum'', strs [kind])])]
         (map field_shape ps @ [(PStr ''cites'', array_of (typed ''string''))])))"
    by (auto simp: block_request_def)
  have "ps = entries_of (dget row ''properties'')"
    using ps by (cases "dget row ''properties''") (auto simp: py_or_def split: if_splits)
  then have "fst ` set (entries_of (dget offer ''properties'')) = row_fields row"
    by (auto simp: offer object_with_def dmerge_keys row_fields_def field_shape_def image_image)
  moreover have "dget offer ''required'' = strs (''type'' # names)"
    by (simp add: offer object_with_def)
  ultimately show ?thesis using names closed_eq [OF assms(3)] by simp
qed

section \<open>Witnesses\<close>

text \<open>The part of JSON Schema about additional properties, as a validator.\<close>

fun only_additional :: validation where
  "only_additional (PDict s) (PDict d) = Inr (if dget s ''additionalProperties'' = PBool False
      \<and> \<not> dhas s ''patternProperties'' \<and> \<not> list_all (\<lambda>(k, v). k \<in> fst ` set (entries_of (dget s ''properties''))) d
     then [\<lparr>se_path = [], se_schema = PDict s, se_rule = Some ''additionalProperties'', se_message = ''unexpected''\<rparr>]
     else [])"
| "only_additional _ _ = Inr []"

lemma only_additional_closes: "closes only_additional"
  by (auto simp: closes_def list_all_iff)

definition paragraph_rows :: pydict where
  "paragraph_rows = [(PStr ''paragraph'', PDict [(PStr ''required'', strs [''text'']),
     (PStr ''properties'', PDict [(PStr ''text'', PDict [])])])]"

definition a_paragraph :: "pydict \<Rightarrow> pyval" where
  "a_paragraph more_of_it = PDict ([(PStr ''type'', PStr ''paragraph''), (PStr ''text'', PStr ''wash'')] @ more_of_it)"

definition two_blocks :: pydict where
  "two_blocks = [(PStr ''id'', PStr ''n1''),
     (PStr ''blocks'', PList [a_paragraph [], a_paragraph [(PStr ''html'', PStr ''x'')]])]"

lemma second_block_misfits:
  "\<not> block_fits only_additional [''paragraph''] (Some paragraph_rows) (a_paragraph [(PStr ''html'', PStr ''x'')])"
proof -
  let ?run = "check_block only_additional (\<lambda>_. []) [''paragraph''] (Some paragraph_rows)
    (a_paragraph [(PStr ''html'', PStr ''x'')])"
  have "case ?run of Inr v \<Rightarrow> \<not> v_ok v | Inl _ \<Rightarrow> False" by code_simp
  then obtain v where "?run = Inr v" "\<not> v_ok v" by (auto split: sum.splits)
  then show ?thesis using check_block_eq by blast
qed

lemma blocks_verdict_witness:
  "\<exists>v f. check_blocks only_additional (\<lambda>_. []) two_blocks [''paragraph''] (Some paragraph_rows) [] = Inr v
    \<and> \<not> v_ok v \<and> f \<in> set (failures_of v) \<and> starts_with ''n1.blocks[1].'' (failure_text ''path'' f)"
proof -
  let ?run = "check_blocks only_additional (\<lambda>_. []) two_blocks [''paragraph''] (Some paragraph_rows) []"
  let ?bs = "[a_paragraph [], a_paragraph [(PStr ''html'', PStr ''x'')]]"
  have "case ?run of Inr v \<Rightarrow> \<not> v_ok v | Inl _ \<Rightarrow> False" by code_simp
  then obtain v where v: "?run = Inr v" "\<not> v_ok v" by (auto split: sum.splits)
  have "dget two_blocks ''blocks'' = PList ?bs" by (simp add: two_blocks_def)
  then obtain parts where "failures_of v = concat parts" and len: "length parts = length ?bs"
    and parts: "\<forall>k < length ?bs. (parts ! k = [] \<longleftrightarrow> block_fits only_additional [''paragraph''] (Some paragraph_rows) (?bs ! k))
      \<and> (\<forall>f \<in> set (parts ! k). starts_with (in_block (id_text (\<lambda>_. []) (dget two_blocks ''id'')) k) (failure_text ''path'' f))"
    using blocks_verdict [OF v(1)] by blast
  have "parts ! 1 \<noteq> []" using parts second_block_misfits by simp
  then obtain f where "f \<in> set (parts ! 1)" by (meson list.set_sel(1))
  moreover have "parts ! 1 \<in> set parts" using len by simp
  moreover have "in_block (id_text (\<lambda>_. []) (dget two_blocks ''id'')) 1 = ''n1.blocks[1].''" by code_simp
  ultimately show ?thesis using v parts \<open>failures_of v = concat parts\<close> by fastforce
qed

definition guarded_node :: node_record where
  "guarded_node = (new_node ''n1'' (PDict [(PStr ''type'', PStr ''topic'')]))
     \<lparr>n_content := PDict [(PStr ''blocks'', PList [a_paragraph []])]\<rparr>"

definition guarded_machine :: machine where
  "guarded_machine = snd (add_node 1 ''n1'' guarded_node sample_machine)"

definition guarded_world :: world where
  "guarded_world = sample_world\<lparr>w_block_types := [''paragraph''], w_block_schemas := paragraph_rows\<rparr>"

definition guarding :: implemented where
  "guarding = sample_engines\<lparr>i_block_schemas_valid := (\<lambda>nd kinds rows. check_blocks only_additional (\<lambda>_. []) nd kinds (Some rows))\<rparr>"

definition at_node :: ctx where
  "at_node = \<lparr>c_rev = 1, c_node = Some ''n1'', c_payload = no_payload\<rparr>"

definition any_literal :: literal where
  "any_literal = \<lparr>l_name = G_block_schemas_valid, l_negated = False, l_arg = None,
     l_compare = None, l_qualifier = None\<rparr>"

lemma nothing_rides_along_witness:
  "\<exists>b d row. dget (engine_node guarded_node) ''blocks'' = PList [b] \<and> b = PDict d
    \<and> row_of paragraph_rows (dget d ''type'') = Inr row \<and> fst ` set d \<subseteq> row_fields row"
proof -
  let ?run = "adapter guarding guarded_world G_block_schemas_valid any_literal at_node guarded_machine"
  have "case ?run of Inr v \<Rightarrow> v_ok v | Inl _ \<Rightarrow> False" by code_simp
  then obtain v where v: "?run = Inr v" "v_ok v" by (auto split: sum.splits)
  obtain rv where rv: "rev_at at_node guarded_machine = Inr rv" "node_at at_node rv = Inr guarded_node"
  proof
    show "rev_at at_node guarded_machine = Inr (projr (rev_at at_node guarded_machine))" by code_simp
    show "node_at at_node (projr (rev_at at_node guarded_machine)) = Inr guarded_node" by code_simp
  qed
  have "list_all (\<lambda>(k, row). \<not> dhas (entries_of row) ''patternProperties'') (w_block_schemas guarded_world)" by code_simp
  then have "\<exists>bs. dget (engine_node guarded_node) ''blocks'' = PList bs \<and> bs \<noteq> [] \<and> (\<forall>b \<in> set bs. \<exists>d row. b = PDict d
        \<and> row_of (w_block_schemas guarded_world) (dget d ''type'') = Inr row \<and> fst ` set d \<subseteq> row_fields row)"
    using nothing_rides_along [OF v, of only_additional "\<lambda>_. []" rv guarded_node] rv only_additional_closes
    by (simp add: guarding_def at_node_def)
  moreover have "dget (engine_node guarded_node) ''blocks'' = PList [a_paragraph []]" by code_simp
  ultimately show ?thesis by (auto simp: guarded_world_def)
qed

lemma offered_is_accepted_witness:
  "\<exists>offer schema. block_request guarded_world ''paragraph'' = Inr (PDict offer)
    \<and> fst ` set (entries_of (dget offer ''properties'')) = fst ` set (entries_of (dget schema ''properties''))
    \<and> dget offer ''required'' = strs [''type'', ''text'']"
proof -
  let ?row = "[(PStr ''required'', strs [''text'']), (PStr ''properties'', PDict [(PStr ''text'', PDict [])])]"
  have "block_request guarded_world ''paragraph'' = Inr (PDict (entries_of (projr (block_request guarded_world ''paragraph''))))"
    by code_simp
  moreover have "row_of (w_block_schemas guarded_world) (PStr ''paragraph'') = Inr ?row"
    "closed ?row = Inr (projr (closed ?row))" "names_required ?row = Inr [''text'']" by code_simp+
  ultimately show ?thesis
    using offered_is_accepted [of guarded_world "''paragraph''" _ ?row "projr (closed ?row)"]
    by (metis sum.inject(2))
qed

end
