(* ===== verification/Coverage.thy ===== *)
theory Coverage
  imports Datalog_Checks Texts "HOL-Library.Sublist"
begin

text \<open>
  \<open>engines/prolog/engine.py\<close> and \<open>engines/prolog/coverage.pl\<close>: is every objective closed by a
  node, and why not.  The code writes facts as Prolog text, runs \<open>swipl\<close> on them and reads what it
  printed.  The program is here as the relations its clauses define; \<open>swipl\<close> is a parameter, and
  what the code relies on it for is \<open>runs_coverage\<close>: text that reads as facts is answered with the
  program's solutions over these facts.  \<open>show\<close> is Python's \<open>repr\<close>.
\<close>

section \<open>Writing facts\<close>

definition newline :: char where "newline = CHR 0x0A"
definition quote_sign :: char where "quote_sign = CHR 0x27"
definition backslash :: char where "backslash = CHR 0x5C"

definition replaced :: "char \<Rightarrow> string \<Rightarrow> string \<Rightarrow> string" where
  "replaced c t s = concat (map (\<lambda>x. if x = c then t else [x]) s)"

text \<open>\<open>_atom\<close>.\<close>

definition atom_text :: "string \<Rightarrow> string" where
  "atom_text s = quote_sign # replaced newline '' '' (replaced quote_sign [backslash, quote_sign]
     (replaced backslash [backslash, backslash] s)) @ [quote_sign]"

text \<open>A clause is its predicate and its arguments, which are quoted as it is written.\<close>

type_synonym prolog_fact = "string \<times> string list"

definition clause_text :: "prolog_fact \<Rightarrow> string" where
  "clause_text f = fst f @ ''('' @ joined '', '' (map atom_text (snd f)) @ '').''"

definition counts :: "string \<Rightarrow> pydict \<Rightarrow> bool" where
  "counts scope n \<longleftrightarrow> scope = ''node'' \<or> dget n ''state'' = PStr ''NodeApproved''"

text \<open>The clauses, by predicate: over a course only an approved node counts.\<close>

definition coverage_facts :: "(pyval \<Rightarrow> string) \<Rightarrow> string \<Rightarrow> pyval list \<Rightarrow> pydict list
    \<Rightarrow> (string \<times> pyval list) list \<Rightarrow> string \<Rightarrow> exn + prolog_fact list" where
  "coverage_facts show course objectives nodes developed scope =
     ebind (traverse (\<lambda>n. item n ''id'') nodes) (\<lambda>ids.
     let named = zip ids nodes; told = id_text show in
     Inr (map (\<lambda>ob. (''requires'', [course, told ob])) objectives
        @ map (\<lambda>(i, n). (''contains'', [course, told i])) named
        @ map (\<lambda>(i, n). (''approved'', [told i])) (filter (\<lambda>(i, n). counts scope n) named)
        @ map (\<lambda>(i, n). (''teaches'', [told i, told (dget n ''skill'')]))
            (filter (\<lambda>(i, n). truthy (dget n ''skill'')) named)
        @ concat (map (\<lambda>(skill, obs). map (\<lambda>ob. (''develops'', [skill, told ob])) obs) developed)))"

definition declarations :: string where
  "declarations = '':- dynamic requires/2, contains/2, approved/1, teaches/2, develops/2.''"

definition facts_text :: "prolog_fact list \<Rightarrow> string" where
  "facts_text facts = declarations @ [newline] @ joined [newline] (map clause_text facts) @ [newline]"

definition goal_around :: "string \<Rightarrow> string" where
  "goal_around atom = ''forall(why_uncovered('' @ atom @ '', O, E), (print(E), nl)), halt.''"

section \<open>Reading what it printed\<close>

text \<open>\<open>str.splitlines\<close>; the empty lines it would not give are dropped by both of its uses.\<close>

definition line_breaks :: "char list" where
  "line_breaks = map char_of [10, 11, 12, 13, 28, 29, 30, 133 :: nat]"

definition lines_of :: "string \<Rightarrow> string list" where
  "lines_of s = split_on line_breaks s"

definition complaint :: "string \<Rightarrow> bool" where
  "complaint line \<longleftrightarrow> stripped line \<noteq> [] \<and> \<not> starts_with ''Warning:'' line \<and> \<not> starts_with [CHR 0x09] line"

definition after_spaces :: "string \<Rightarrow> string" where
  "after_spaces s = dropWhile space s"

text \<open>
  The pattern \<open>,\s*\[\s*\]\s*,\s*[a-z_]+\)?$\<close> at the start of a text: a comma, an empty list, a
  comma, a word of small letters, perhaps a parenthesis, the end.
\<close>

definition small_letter :: "char \<Rightarrow> bool" where
  "small_letter c \<longleftrightarrow> CHR ''a'' \<le> c \<and> c \<le> CHR ''z'' \<or> c = CHR ''_''"

definition expect_char :: "char \<Rightarrow> string \<Rightarrow> string option" where
  "expect_char c s = (case s of [] \<Rightarrow> None | x # r \<Rightarrow> if x = c then Some r else None)"

definition ends_in_word :: "string \<Rightarrow> bool" where
  "ends_in_word s \<longleftrightarrow> takeWhile small_letter s \<noteq> [] \<and> dropWhile small_letter s \<in> {[], '')''}"

definition empty_list_here :: "string \<Rightarrow> bool" where
  "empty_list_here s \<longleftrightarrow> (case Option.bind (expect_char (CHR '','') s) (\<lambda>r.
       Option.bind (expect_char (CHR ''['') (after_spaces r)) (\<lambda>r.
       Option.bind (expect_char (CHR '']'') (after_spaces r)) (\<lambda>r.
       expect_char (CHR '','') (after_spaces r))))
     of None \<Rightarrow> False | Some r \<Rightarrow> ends_in_word (after_spaces r))"

definition partial_match :: "string \<Rightarrow> bool" where
  "partial_match inner \<longleftrightarrow> \<not> list_ex empty_list_here (suffixes inner)"

definition word_end :: "string \<Rightarrow> string" where
  "word_end s = rev (dropWhile (\<lambda>c. c = CHR '')'') (rev s))"

definition parse_explanation :: "string \<Rightarrow> exn + pyval" where
  "parse_explanation line =
     (let inner = butlast (drop (length ''explanation('') line);
          objective = strip_chars [quote_sign] (stripped (cut_at '','' inner))
      in if CHR '','' \<notin> set inner then Inl (PyError ''IndexError'')
         else Inr (PDict [(PStr ''objective'', PStr objective),
           (PStr ''reason'', PStr (stripped (word_end (stripped (rev (cut_at '','' (rev inner))))))),
           (PStr ''has_partial_match'', PBool (partial_match inner)), (PStr ''raw'', PStr line)]))"

section \<open>The check\<close>

record swipl_port =
  sw_found :: bool
  sw_run :: "string \<Rightarrow> string \<Rightarrow> (int \<times> string \<times> string) option"

definition reason_told :: "string \<Rightarrow> string" where
  "reason_told r = (if r = ''no_node_teaches_it'' then ''no node in this course teaches it''
     else if r = ''taught_but_not_approved'' then ''a node teaches it, and nobody has approved that node''
     else r)"

definition proof_tree :: "pyval list \<Rightarrow> verdict" where
  "proof_tree tree = (let first = entries_of (hd tree) in
     refuse ''proof-tree'' (str_of (dget first ''objective'') @ '' is not covered: ''
       @ reason_told (str_of (dget first ''reason''))) (PList tree) ''prolog'')"

definition printed_answer :: "nat \<Rightarrow> int \<times> string \<times> string \<Rightarrow> exn + verdict" where
  "printed_answer n out = (case out of (code, stdout, stderr) \<Rightarrow>
     if code \<noteq> 0 \<or> list_ex complaint (lines_of stderr) then Inl EngineUnavailable
     else let lines = filter (starts_with ''explanation('') (lines_of stdout) in
       if lines = [] then Inr (Allowed [(PStr ''engine'', PStr ''prolog''), (PStr ''objectives'', PInt (int n))])
       else ebind (traverse parse_explanation lines) (\<lambda>tree. Inr (proof_tree tree)))"

definition check_coverage :: "swipl_port \<Rightarrow> (pyval \<Rightarrow> string) \<Rightarrow> string \<Rightarrow> pyval list \<Rightarrow> pydict list
    \<Rightarrow> (string \<times> pyval list) list \<Rightarrow> string \<Rightarrow> exn + verdict" where
  "check_coverage S show course objectives nodes developed scope =
     (if scope \<notin> {''course'', ''node''} then Inl (PyError ''ValueError'')
      else if \<not> sw_found S then Inl EngineUnavailable
      else ebind (coverage_facts show course objectives nodes developed scope) (\<lambda>facts.
        case sw_run S (facts_text facts) (goal_around (atom_text course)) of
          None \<Rightarrow> Inl EngineUnavailable
        | Some out \<Rightarrow> printed_answer (length objectives) out))"

section \<open>The program\<close>

record coverage_program =
  p_requires :: "(string \<times> string) list"
  p_contains :: "(string \<times> string) list"
  p_approved :: "string list"
  p_teaches :: "(string \<times> string) list"
  p_develops :: "(string \<times> string) list"

definition covers :: "coverage_program \<Rightarrow> string \<Rightarrow> string \<Rightarrow> bool" where
  "covers F n ob \<longleftrightarrow> n \<in> set (p_approved F)
     \<and> list_ex (\<lambda>(m, s). m = n \<and> (s, ob) \<in> set (p_develops F)) (p_teaches F)"

definition uncovered :: "coverage_program \<Rightarrow> string \<Rightarrow> string list" where
  "uncovered F course = filter (\<lambda>ob. \<not> list_ex (\<lambda>(c, n). c = course \<and> covers F n ob) (p_contains F))
     (map snd (filter (\<lambda>(c, ob). c = course) (p_requires F)))"

datatype explanation = Explanation string "string list" "(string \<times> string) list"

definition partial_matches :: "coverage_program \<Rightarrow> string \<Rightarrow> string list \<Rightarrow> (string \<times> string) list" where
  "partial_matches F course wanted = concat (map (\<lambda>(c, n). if c \<noteq> course then []
     else concat (map (\<lambda>(m, s). if m \<noteq> n then [] else map (\<lambda>_. (n, s)) (filter (\<lambda>t. t = s) wanted))
       (p_teaches F))) (p_contains F))"

definition why_uncovered :: "coverage_program \<Rightarrow> string \<Rightarrow> explanation list" where
  "why_uncovered F course = map (\<lambda>ob.
     let wanted = map fst (filter (\<lambda>(s, o'). o' = ob) (p_develops F))
     in Explanation ob wanted (partial_matches F course wanted)) (uncovered F course)"

definition reason_of :: "(string \<times> string) list \<Rightarrow> string" where
  "reason_of partial = (if partial = [] then ''no_node_teaches_it'' else ''taught_but_not_approved'')"

section \<open>What swipl does with its text\<close>

text \<open>
  A quoted atom as Prolog reads it: a backslash makes the next backslash or quote plain, two
  quotes are one, and a line may not end inside.  Other escapes, which the code never writes, are
  not read here.
\<close>

fun read_quoted :: "string \<Rightarrow> (string \<times> string) option" where
  "read_quoted [] = None"
| "read_quoted (c # s) =
     (if c = newline then None
      else if c = backslash then (case s of
          [] \<Rightarrow> None
        | d # r \<Rightarrow> (if d \<in> {backslash, quote_sign} then map_option (\<lambda>(a, rest). (d # a, rest)) (read_quoted r) else None))
      else if c = quote_sign then (case s of
          [] \<Rightarrow> Some ([], [])
        | d # r \<Rightarrow> (if d = quote_sign then map_option (\<lambda>(a, rest). (d # a, rest)) (read_quoted r) else Some ([], s)))
      else map_option (\<lambda>(a, rest). (c # a, rest)) (read_quoted s))"

definition read_atom :: "string \<Rightarrow> (string \<times> string) option" where
  "read_atom s = (case s of [] \<Rightarrow> None | c # r \<Rightarrow> if c = quote_sign then read_quoted r else None)"

definition read_clause :: "string \<Rightarrow> prolog_fact option" where
  "read_clause line = (let name = takeWhile (\<lambda>c. c \<noteq> CHR ''('') line in
     Option.bind (read_atom (drop (Suc (length name)) line)) (\<lambda>(a, r).
       if r = '').'' then Some (name, [a])
       else if \<not> starts_with '', '' r then None
       else Option.bind (read_atom (drop 2 r)) (\<lambda>(b, r').
         if r' = '').'' then Some (name, [a, b]) else None)))"

definition read_facts :: "string \<Rightarrow> prolog_fact list option" where
  "read_facts txt = (case split_on [newline] txt of
       [] \<Rightarrow> None
     | first # ls \<Rightarrow> (if first = declarations then those (map read_clause (filter (\<lambda>l. l \<noteq> []) ls)) else None))"

definition pairs_named :: "string \<Rightarrow> prolog_fact list \<Rightarrow> (string \<times> string) list" where
  "pairs_named name facts = concat (map (\<lambda>(p, args). if p = name then (case args of [a, b] \<Rightarrow> [(a, b)] | _ \<Rightarrow> []) else []) facts)"

definition singles_named :: "string \<Rightarrow> prolog_fact list \<Rightarrow> string list" where
  "singles_named name facts = concat (map (\<lambda>(p, args). if p = name then (case args of [a] \<Rightarrow> [a] | _ \<Rightarrow> []) else []) facts)"

definition program_of :: "prolog_fact list \<Rightarrow> coverage_program" where
  "program_of facts = \<lparr>p_requires = pairs_named ''requires'' facts, p_contains = pairs_named ''contains'' facts,
     p_approved = singles_named ''approved'' facts,
     p_teaches = pairs_named ''teaches'' facts, p_develops = pairs_named ''develops'' facts\<rparr>"

text \<open>
  \<open>print\<close> writes an atom as \<open>q\<close> does: as it is, or in quotes where Prolog needs them; of a text
  with a sign in it that would need an escape nothing is said.
\<close>

definition plain_word :: "string \<Rightarrow> bool" where
  "plain_word s \<longleftrightarrow> s \<noteq> [] \<and> stripped s = s \<and> set s \<inter> ({quote_sign, backslash, CHR '',''} \<union> set line_breaks) = {}"

definition quotes_plainly :: "(string \<Rightarrow> string) \<Rightarrow> bool" where
  "quotes_plainly q \<longleftrightarrow> (\<forall>s. plain_word s \<longrightarrow> q s = s \<or> q s = quote_sign # s @ [quote_sign])"

fun printed :: "(string \<Rightarrow> string) \<Rightarrow> explanation \<Rightarrow> string" where
  "printed q (Explanation ob wanted partial) = ''explanation('' @ q ob @ '',['' @ joined '','' (map q wanted) @ ''],[''
     @ joined '','' (map (\<lambda>(n, s). q n @ ''-'' @ q s) partial) @ ''],'' @ reason_of partial @ '')''"

text \<open>
  The reliance: text that reads as facts, run with a goal that asks about an atom, is answered
  by the program's explanations of what is uncovered, a line each and in order, and no complaint.
\<close>

definition runs_coverage :: "(string \<Rightarrow> string) \<Rightarrow> swipl_port \<Rightarrow> bool" where
  "runs_coverage q S \<longleftrightarrow> sw_found S \<and> (\<forall>txt facts atom c.
     read_facts txt = Some facts \<and> read_atom atom = Some (c, []) \<longrightarrow>
     sw_run S txt (goal_around atom) = Some (0, concat (map (\<lambda>e. printed q e @ [newline])
       (why_uncovered (program_of facts) c)), []))"

end
