(* ===== verification/Coverage_Properties.thy ===== *)
theory Coverage_Properties
  imports Coverage
begin

text \<open>
  What swipl reads is what was written; the verdict is what the program says of the facts; and
  the refusal names the gaps, where names are plain.
\<close>

section \<open>Round trip\<close>

text \<open>What becomes of a text on its way through a quoted atom: a line break is a space.\<close>

definition spaced :: "string \<Rightarrow> string" where
  "spaced s = map (\<lambda>c. if c = newline then CHR '' '' else c) s"

lemma signs_distinct [simp]:
  "newline \<noteq> quote_sign" "quote_sign \<noteq> newline" "newline \<noteq> backslash" "backslash \<noteq> newline"
  "quote_sign \<noteq> backslash" "backslash \<noteq> quote_sign" "CHR '' '' \<noteq> newline" "newline \<noteq> CHR '' ''"
  by (simp_all add: newline_def quote_sign_def backslash_def)

lemma replaced_simps [simp]: "replaced c t [] = []"
    "replaced c t (x # s) = (if x = c then t else [x]) @ replaced c t s"
    "replaced c t (s @ s') = replaced c t s @ replaced c t s'"
  by (simp_all add: replaced_def)

definition escaped :: "string \<Rightarrow> string" where
  "escaped s = replaced newline '' '' (replaced quote_sign [backslash, quote_sign] (replaced backslash [backslash, backslash] s))"

lemma escaped_simps [simp]: "escaped [] = []"
    "escaped (c # s) = (if c = newline then '' '' else if c = quote_sign then [backslash, quote_sign]
       else if c = backslash then [backslash, backslash] else [c]) @ escaped s"
  by (simp_all add: escaped_def)

lemma space_sign [simp]: "CHR '' '' \<noteq> quote_sign" "CHR '' '' \<noteq> backslash"
  by (simp_all add: quote_sign_def backslash_def)

lemma read_escaped:
  "rest = [] \<or> hd rest \<noteq> quote_sign \<Longrightarrow> read_quoted (escaped s @ quote_sign # rest) = Some (spaced s, rest)"
proof (induction s)
  case Nil then show ?case by (cases rest) (auto simp: spaced_def)
next
  case (Cons c s) then show ?case by (auto simp: spaced_def)
qed

lemma read_atom_text:
  "rest = [] \<or> hd rest \<noteq> quote_sign \<Longrightarrow> read_atom (atom_text s @ rest) = Some (spaced s, rest)"
  using read_escaped [of rest s] by (simp add: atom_text_def read_atom_def flip: escaped_def)

lemma newline_escaped: "newline \<notin> set (escaped s)"
  by (induction s) auto

lemma newline_atom: "newline \<notin> set (atom_text s)"
  using newline_escaped by (simp add: atom_text_def flip: escaped_def)

definition clause_ok :: "prolog_fact \<Rightarrow> bool" where
  "clause_ok f \<longleftrightarrow> newline \<notin> set (fst f) \<and> CHR ''('' \<notin> set (fst f) \<and> (\<exists>a. snd f = [a] \<or> (\<exists>b. snd f = [a, b]))"

definition as_read :: "prolog_fact \<Rightarrow> prolog_fact" where
  "as_read f = (fst f, map spaced (snd f))"

lemma read_clause_text: "clause_ok f \<Longrightarrow> read_clause (clause_text f) = Some (as_read f)"
proof -
  assume ok: "clause_ok f"
  have name: "takeWhile (\<lambda>c. c \<noteq> CHR ''('') (fst f @ ''('' @ r) = fst f" for r
    using ok by (subst takeWhile_append2) (auto simp: clause_ok_def)
  from ok consider a where "snd f = [a]" | a b where "snd f = [a, b]" by (auto simp: clause_ok_def)
  then show ?thesis
  proof cases
    case 1
    have "read_atom (atom_text a @ '').'') = Some (spaced a, '').'')" by (rule read_atom_text) (simp add: quote_sign_def)
    then show ?thesis using 1 name [of "atom_text a @ '').''"] by (simp add: read_clause_def clause_text_def as_read_def)
  next
    case 2
    let ?r = "'', '' @ atom_text b @ '').''"
    have "read_atom (atom_text a @ ?r) = Some (spaced a, ?r)" by (rule read_atom_text) (simp add: quote_sign_def)
    moreover have "read_atom (atom_text b @ '').'') = Some (spaced b, '').'')" by (rule read_atom_text) (simp add: quote_sign_def)
    ultimately show ?thesis using 2 name [of "atom_text a @ ?r"]
      by (simp add: read_clause_def clause_text_def as_read_def starts_with_def)
  qed
qed

lemma newline_clause: "clause_ok f \<Longrightarrow> newline \<notin> set (clause_text f)"
  using newline_atom by (auto simp: clause_ok_def clause_text_def newline_def)

lemma clause_text_not_Nil [simp]: "clause_text f \<noteq> []"
  by (simp add: clause_text_def)

lemma split_on_line: "set l \<inter> set seps = {} \<Longrightarrow> c \<in> set seps \<Longrightarrow> split_on seps (l @ c # s) = l # split_on seps s"
  by (induction l) (auto split: list.splits)

lemma split_on_lines:
  assumes "\<And>l. l \<in> set ls \<Longrightarrow> c \<notin> set l"
  shows "split_on [c] (joined [c] ls @ [c]) = (if ls = [] then [[], []] else ls @ [[]])"
  using assms
proof (induction ls rule: joined.induct [of "\<lambda>_ ls. _ ls", case_names none one many])
  case none then show ?case by simp
next
  case (one sep l) then show ?case using split_on_line [of l "[c]" c "[]"] by simp
next
  case (many sep l l' ls)
  then show ?case using split_on_line [of l "[c]" c "joined [c] (l' # ls) @ [c]"] by simp
qed

lemma those_map_Some: "(\<And>x. x \<in> set xs \<Longrightarrow> f x = Some (g x)) \<Longrightarrow> those (map f xs) = Some (map g xs)"
  by (induction xs) auto

lemma read_facts_text:
  assumes "\<And>f. f \<in> set facts \<Longrightarrow> clause_ok f"
  shows "read_facts (facts_text facts) = Some (map as_read facts)"
proof -
  let ?ls = "map clause_text facts"
  have "split_on [newline] (facts_text facts) = declarations # split_on [newline] (joined [newline] ?ls @ [newline])"
    using split_on_line [of declarations "[newline]" newline "joined [newline] ?ls @ [newline]"]
    by (simp add: facts_text_def declarations_def newline_def)
  moreover have "filter (\<lambda>l. l \<noteq> []) (split_on [newline] (joined [newline] ?ls @ [newline])) = ?ls"
  proof -
    have "newline \<notin> set l" if "l \<in> set ?ls" for l using that newline_clause assms by auto
    then have "split_on [newline] (joined [newline] ?ls @ [newline]) = (if ?ls = [] then [[], []] else ?ls @ [[]])"
      by (rule split_on_lines)
    then show ?thesis by (auto simp: filter_id_conv)
  qed
  moreover have "those (map read_clause ?ls) = Some (map as_read facts)"
    using those_map_Some [of facts "read_clause \<circ> clause_text" as_read] assms read_clause_text by simp
  ultimately show ?thesis by (simp add: read_facts_def)
qed

lemma facts_ok:
  assumes "coverage_facts show course objectives nodes developed scope = Inr facts" and "f \<in> set facts"
  shows "clause_ok f"
  using assms by (auto simp: coverage_facts_def Let_def clause_ok_def newline_def)

text \<open>C36. What swipl reads from the file is what the code wrote: every fact, in order, each argument as
  it was but for line breaks, which are spaces, whatever quotes and backslashes it holds.\<close>

theorem facts_read_back:
  assumes "coverage_facts show course objectives nodes developed scope = Inr facts"
  shows "read_facts (facts_text facts) = Some (map as_read facts)"
  using read_facts_text facts_ok [OF assms] by blast

section \<open>What the program says of the facts\<close>

definition flat :: "(pyval \<Rightarrow> string) \<Rightarrow> pyval \<Rightarrow> string" where
  "flat show v = spaced (id_text show v)"

text \<open>A node teaches a skill that develops the objective, and one under that id counts.\<close>

definition teaches_it :: "(pyval \<Rightarrow> string) \<Rightarrow> (string \<times> pyval list) list \<Rightarrow> pyval \<Rightarrow> pydict \<Rightarrow> bool" where
  "teaches_it show developed ob n \<longleftrightarrow> truthy (dget n ''skill'') \<and> (\<exists>(skill, obs) \<in> set developed.
     spaced skill = flat show (dget n ''skill'') \<and> flat show ob \<in> flat show ` set obs)"

definition closed_by :: "(pyval \<Rightarrow> string) \<Rightarrow> string \<Rightarrow> pydict list \<Rightarrow> (string \<times> pyval list) list \<Rightarrow> pyval \<Rightarrow> bool" where
  "closed_by show scope nodes developed ob \<longleftrightarrow> (\<exists>n \<in> set nodes. teaches_it show developed ob n
     \<and> (\<exists>n' \<in> set nodes. counts scope n' \<and> flat show (dget n' ''id'') = flat show (dget n ''id'')))"

lemma pairs_named_simps [simp]:
  "pairs_named p [] = []" "pairs_named p (xs @ ys) = pairs_named p xs @ pairs_named p ys"
  by (simp_all add: pairs_named_def)

lemma pairs_named_Cons: "pairs_named p (f # fs) = (if fst f = p then (case snd f of [a, b] \<Rightarrow> [(a, b)] | _ \<Rightarrow> []) else [])
    @ pairs_named p fs"
  by (simp add: pairs_named_def split_def)

lemma singles_named_Cons: "singles_named p (f # fs) = (if fst f = p then (case snd f of [a] \<Rightarrow> [a] | _ \<Rightarrow> []) else [])
    @ singles_named p fs"
  by (simp add: singles_named_def split_def)

lemma singles_named_simps [simp]:
  "singles_named p [] = []" "singles_named p (xs @ ys) = singles_named p xs @ singles_named p ys"
  by (simp_all add: singles_named_def)

lemma pairs_named_map [simp]:
  "pairs_named p (map (\<lambda>x. (p', [f x, g x])) xs) = (if p' = p then map (\<lambda>x. (f x, g x)) xs else [])"
  by (induction xs) (simp_all add: pairs_named_Cons)

lemma pairs_named_single [simp]: "pairs_named p (map (\<lambda>x. (p', [f x])) xs) = []"
  by (induction xs) (simp_all add: pairs_named_Cons)

lemma singles_named_map [simp]:
  "singles_named p (map (\<lambda>x. (p', [f x])) xs) = (if p' = p then map f xs else [])"
  by (induction xs) (simp_all add: singles_named_Cons)

lemma singles_named_pair [simp]: "singles_named p (map (\<lambda>x. (p', [f x, g x])) xs) = []"
  by (induction xs) (simp_all add: singles_named_Cons)

lemma named_nodes: "traverse (\<lambda>n. item n k) ns = Inr vs \<Longrightarrow> zip vs ns = map (\<lambda>n. (dget n k, n)) ns"
  by (induction ns arbitrary: vs) (auto simp: item_def dget_def split: option.splits)

definition developed_facts :: "(pyval \<Rightarrow> string) \<Rightarrow> (string \<times> pyval list) list \<Rightarrow> prolog_fact list" where
  "developed_facts show developed = concat (map (\<lambda>(skill, obs). map (\<lambda>ob. (''develops'', [skill, id_text show ob])) obs) developed)"

definition developed_pairs :: "(pyval \<Rightarrow> string) \<Rightarrow> (string \<times> pyval list) list \<Rightarrow> (string \<times> string) list" where
  "developed_pairs show developed = concat (map (\<lambda>(skill, obs). map (\<lambda>ob. (spaced skill, flat show ob)) obs) developed)"

lemma developed_named:
  "pairs_named p (map as_read (developed_facts show developed)) = (if p = ''develops'' then developed_pairs show developed else [])"
  "singles_named p (map as_read (developed_facts show developed)) = []"
proof -
  have one: "map as_read (map (\<lambda>ob. (''develops'', [skill, id_text show ob])) obs)
      = map (\<lambda>ob. (''develops'', [spaced skill, flat show ob])) obs" for skill obs
    by (simp add: as_read_def flat_def)
  show "pairs_named p (map as_read (developed_facts show developed)) = (if p = ''develops'' then developed_pairs show developed else [])"
  proof (induction developed)
    case (Cons x developed)
    then show ?case using one by (cases x) (simp add: developed_facts_def developed_pairs_def del: map_map)
  qed (simp add: developed_facts_def developed_pairs_def)
  show "singles_named p (map as_read (developed_facts show developed)) = []"
  proof (induction developed)
    case (Cons x developed)
    then show ?case using one by (cases x) (simp add: developed_facts_def del: map_map)
  qed (simp add: developed_facts_def)
qed

lemma program_read:
  assumes "coverage_facts show course objectives nodes developed scope = Inr facts"
  shows "program_of (map as_read facts) = \<lparr>p_requires = map (\<lambda>ob. (spaced course, flat show ob)) objectives,
    p_contains = map (\<lambda>n. (spaced course, flat show (dget n ''id''))) nodes,
    p_approved = map (\<lambda>n. flat show (dget n ''id'')) (filter (counts scope) nodes),
    p_teaches = map (\<lambda>n. (flat show (dget n ''id''), flat show (dget n ''skill''))) (filter (\<lambda>n. truthy (dget n ''skill'')) nodes),
    p_develops = developed_pairs show developed\<rparr>"
proof -
  let ?i = "\<lambda>n. id_text show (dget n ''id'')"
  from assms obtain ids where "traverse (\<lambda>n. item n ''id'') nodes = Inr ids" and
    facts: "facts = map (\<lambda>ob. (''requires'', [course, id_text show ob])) objectives
      @ map (\<lambda>(i, n). (''contains'', [course, id_text show i])) (zip ids nodes)
      @ map (\<lambda>(i, n). (''approved'', [id_text show i])) (filter (\<lambda>(i, n). counts scope n) (zip ids nodes))
      @ map (\<lambda>(i, n). (''teaches'', [id_text show i, id_text show (dget n ''skill'')]))
          (filter (\<lambda>(i, n). truthy (dget n ''skill'')) (zip ids nodes)) @ developed_facts show developed"
    by (auto simp: coverage_facts_def developed_facts_def Let_def)
  then have named: "zip ids nodes = map (\<lambda>n. (dget n ''id'', n)) nodes" by (simp add: named_nodes)
  have "map as_read facts = map (\<lambda>ob. (''requires'', [spaced course, flat show ob])) objectives
      @ map (\<lambda>n. (''contains'', [spaced course, flat show (dget n ''id'')])) nodes
      @ map (\<lambda>n. (''approved'', [flat show (dget n ''id'')])) (filter (counts scope) nodes)
      @ map (\<lambda>n. (''teaches'', [flat show (dget n ''id''), flat show (dget n ''skill'')]))
          (filter (\<lambda>n. truthy (dget n ''skill'')) nodes) @ map as_read (developed_facts show developed)"
    unfolding facts named by (simp add: as_read_def flat_def filter_map comp_def)
  then show ?thesis by (simp add: program_of_def developed_named)
qed

lemma developed_pairs_iff: "(s, flat show ob) \<in> set (developed_pairs show developed)
    \<longleftrightarrow> (\<exists>(skill, obs) \<in> set developed. spaced skill = s \<and> flat show ob \<in> flat show ` set obs)"
  by (fastforce simp: developed_pairs_def)

text \<open>The program on the facts the code writes.\<close>

definition program_for :: "(pyval \<Rightarrow> string) \<Rightarrow> string \<Rightarrow> pyval list \<Rightarrow> pydict list \<Rightarrow> (string \<times> pyval list) list
    \<Rightarrow> string \<Rightarrow> coverage_program" where
  "program_for show course objectives nodes developed scope =
     \<lparr>p_requires = map (\<lambda>ob. (spaced course, flat show ob)) objectives,
      p_contains = map (\<lambda>n. (spaced course, flat show (dget n ''id''))) nodes,
      p_approved = map (\<lambda>n. flat show (dget n ''id'')) (filter (counts scope) nodes),
      p_teaches = map (\<lambda>n. (flat show (dget n ''id''), flat show (dget n ''skill''))) (filter (\<lambda>n. truthy (dget n ''skill'')) nodes),
      p_develops = developed_pairs show developed\<rparr>"

lemma covers_iff: "covers (program_for show course objectives nodes developed scope) i (flat show ob) \<longleftrightarrow>
    (\<exists>n' \<in> set nodes. counts scope n' \<and> flat show (dget n' ''id'') = i)
    \<and> (\<exists>n \<in> set nodes. teaches_it show developed ob n \<and> flat show (dget n ''id'') = i)"
  by (auto simp: covers_def program_for_def list_ex_iff teaches_it_def developed_pairs_iff)

lemma uncovered_eq: "uncovered (program_for show course objectives nodes developed scope) (spaced course)
    = map (flat show) (filter (\<lambda>ob. \<not> closed_by show scope nodes developed ob) objectives)"
proof -
  let ?F = "program_for show course objectives nodes developed scope"
  have "list_ex (\<lambda>(c, n). c = spaced course \<and> covers ?F n (flat show ob)) (p_contains ?F)
      \<longleftrightarrow> closed_by show scope nodes developed ob" for ob
  proof -
    have "list_ex (\<lambda>(c, n). c = spaced course \<and> covers ?F n (flat show ob)) (p_contains ?F)
        \<longleftrightarrow> (\<exists>m \<in> set nodes. covers ?F (flat show (dget m ''id'')) (flat show ob))"
      by (auto simp: list_ex_iff program_for_def)
    also have "\<dots> \<longleftrightarrow> closed_by show scope nodes developed ob"
      unfolding covers_iff closed_by_def by metis
    finally show ?thesis .
  qed
  then show ?thesis by (simp add: uncovered_def program_for_def filter_map comp_def)
qed

lemma in_partial_matches: "(n, s) \<in> set (partial_matches F c wanted) \<longleftrightarrow>
    (c, n) \<in> set (p_contains F) \<and> (n, s) \<in> set (p_teaches F) \<and> s \<in> set wanted"
  by (fastforce simp: partial_matches_def split: if_splits)

lemma partial_matches_iff:
  "partial_matches F c wanted \<noteq> [] \<longleftrightarrow> (\<exists>n s. (c, n) \<in> set (p_contains F) \<and> (n, s) \<in> set (p_teaches F) \<and> s \<in> set wanted)"
  unfolding in_partial_matches [symmetric] by (cases "partial_matches F c wanted") auto

lemma reason_iff:
  assumes "F = program_for show course objectives nodes developed scope"
    and "wanted = map fst (filter (\<lambda>(s, o'). o' = flat show ob) (p_develops F))"
  shows "partial_matches F (spaced course) wanted \<noteq> [] \<longleftrightarrow> (\<exists>n \<in> set nodes. teaches_it show developed ob n)"
proof -
  have wanted: "s \<in> set wanted \<longleftrightarrow> (s, flat show ob) \<in> set (developed_pairs show developed)" for s
    using assms by (force simp: program_for_def)
  show ?thesis
    unfolding partial_matches_iff wanted developed_pairs_iff teaches_it_def by (fastforce simp: assms(1) program_for_def)
qed

section \<open>What swipl prints\<close>

lemma begins_with_start: "starts_with p (p @ s)"
  by (simp add: starts_with_def)

lemma split_on_first: "set p \<inter> set seps = {} \<Longrightarrow> \<exists>w ws. split_on seps (p @ s) = (p @ w) # ws"
proof (induction p)
  case Nil then show ?case by (cases "split_on seps s") auto
qed (auto split: list.splits)

lemma printed_starts: "\<exists>r. printed q e = ''explanation('' @ r"
  by (cases e) simp

lemma some_line: "es \<noteq> [] \<Longrightarrow> filter (starts_with ''explanation('') (lines_of (concat (map (\<lambda>e. printed q e @ [newline]) es))) \<noteq> []"
proof -
  assume "es \<noteq> []"
  then obtain e es' where es: "es = e # es'" by (cases es) auto
  obtain r where "printed q e = ''explanation('' @ r" using printed_starts by blast
  then have "\<exists>t. concat (map (\<lambda>e. printed q e @ [newline]) es) = ''explanation('' @ t" by (simp add: es)
  then obtain t where t: "concat (map (\<lambda>e. printed q e @ [newline]) es) = ''explanation('' @ t" ..
  have "set ''explanation('' \<inter> set line_breaks = {}" by code_simp
  from split_on_first [OF this, of t] show ?thesis
    by (auto simp: t lines_of_def begins_with_start simp del: append.simps)
qed

lemma cut_at_char: "c \<notin> set l \<Longrightarrow> cut_at [c] (l @ c # r) = l"
  by (induction l) (auto simp: starts_with_def)

lemma dropWhile_none: "(\<And>c. c \<in> set s \<Longrightarrow> \<not> P c) \<Longrightarrow> dropWhile P s = s"
  by (cases s) auto

lemma strip_quotes: "quote_sign \<notin> set s \<Longrightarrow> strip_chars [quote_sign] s = s"
  "quote_sign \<notin> set s \<Longrightarrow> s \<noteq> [] \<Longrightarrow> strip_chars [quote_sign] (quote_sign # s @ [quote_sign]) = s"
proof -
  assume none: "quote_sign \<notin> set s"
  then have ends: "dropWhile (\<lambda>c. c \<in> set [quote_sign]) s = s" "dropWhile (\<lambda>c. c \<in> set [quote_sign]) (rev s) = rev s"
    by (auto intro!: dropWhile_none)
  then show "strip_chars [quote_sign] s = s" by (simp add: strip_chars_def)
  assume "s \<noteq> []"
  then have "dropWhile (\<lambda>c. c \<in> set [quote_sign]) (s @ [quote_sign]) = s @ [quote_sign]" using none by (cases s) auto
  then show "strip_chars [quote_sign] (quote_sign # s @ [quote_sign]) = s" using ends by (simp add: strip_chars_def)
qed

lemma stripped_quoted: "stripped (quote_sign # s @ [quote_sign]) = quote_sign # s @ [quote_sign]"
  by (simp add: stripped_def space_def quote_sign_def)

lemma shown_atom:
  assumes "quotes_plainly q" and "plain_word s"
  shows "strip_chars [quote_sign] (stripped (q s)) = s" "CHR '','' \<notin> set (q s)" "set (q s) \<inter> set line_breaks = {}"
proof -
  have signs: "quote_sign \<noteq> CHR '',''" "quote_sign \<notin> set line_breaks" by code_simp+
  from assms consider "q s = s" | "q s = quote_sign # s @ [quote_sign]" by (auto simp: quotes_plainly_def)
  then show "strip_chars [quote_sign] (stripped (q s)) = s" "CHR '','' \<notin> set (q s)" "set (q s) \<inter> set line_breaks = {}"
    using assms(2) signs by (cases; auto simp: plain_word_def stripped_quoted strip_quotes)+
qed

definition plainly :: "explanation \<Rightarrow> bool" where
  "plainly e = (case e of Explanation ob wanted partial \<Rightarrow> plain_word ob \<and> (\<forall>s \<in> set wanted. plain_word s)
     \<and> (\<forall>(n, s) \<in> set partial. plain_word n \<and> plain_word s))"

lemma set_joined: "c \<in> set (joined sep xs) \<Longrightarrow> c \<in> set sep \<or> (\<exists>x \<in> set xs. c \<in> set x)"
  by (induction sep xs rule: joined.induct) auto

lemma reason_plain: "set (reason_of partial) \<inter> set line_breaks = {}" "CHR '','' \<notin> set (reason_of partial)"
  "stripped (word_end (stripped (reason_of partial))) = reason_of partial"
  unfolding reason_of_def by (cases "partial = []"; simp only: if_True if_False; code_simp)+

lemma printed_one_line: "quotes_plainly q \<Longrightarrow> plainly e \<Longrightarrow> set (printed q e) \<inter> set line_breaks = {}"
proof (cases e)
  case (Explanation ob wanted partial)
  assume q: "quotes_plainly q" and "plainly e"
  then have names: "set (q ob) \<inter> set line_breaks = {}" "\<forall>s \<in> set wanted. set (q s) \<inter> set line_breaks = {}"
    "\<forall>(n, s) \<in> set partial. set (q n @ ''-'' @ q s) \<inter> set line_breaks = {}"
  proof -
    have "CHR ''-'' \<notin> set line_breaks" by code_simp
    then show "set (q ob) \<inter> set line_breaks = {}" "\<forall>s \<in> set wanted. set (q s) \<inter> set line_breaks = {}"
      "\<forall>(n, s) \<in> set partial. set (q n @ ''-'' @ q s) \<inter> set line_breaks = {}"
      using \<open>plainly e\<close> shown_atom(3) [OF q] by (fastforce simp: plainly_def Explanation)+
  qed
  have lits: "set '','' \<inter> set line_breaks = {}" "set ''explanation('' \<inter> set line_breaks = {}" "set '',['' \<inter> set line_breaks = {}"
    "set ''],['' \<inter> set line_breaks = {}" "set ''],'' \<inter> set line_breaks = {}" "set '')'' \<inter> set line_breaks = {}"
    by code_simp+
  have lists: "set (joined '','' (map q wanted)) \<inter> set line_breaks = {}"
    "set (joined '','' (map (\<lambda>(n, s). q n @ ''-'' @ q s) partial)) \<inter> set line_breaks = {}"
    using set_joined names lits(1) by (fastforce simp del: set_append)+
  show ?thesis unfolding Explanation printed.simps set_append Int_Un_distrib2
    using names(1) lists lits reason_plain(1) by (simp only: Un_empty_left)
qed

lemma printed_lines:
  "quotes_plainly q \<Longrightarrow> \<forall>e \<in> set es. plainly e \<Longrightarrow>
     filter (starts_with ''explanation('') (lines_of (concat (map (\<lambda>e. printed q e @ [newline]) es))) = map (printed q) es"
proof (induction es)
  case Nil then show ?case by (simp add: lines_of_def starts_with_def)
next
  case (Cons e es)
  obtain r where r: "printed q e = ''explanation('' @ r" using printed_starts by blast
  have "newline \<in> set line_breaks" by code_simp
  then have "lines_of (printed q e @ newline # concat (map (\<lambda>e. printed q e @ [newline]) es))
      = printed q e # lines_of (concat (map (\<lambda>e. printed q e @ [newline]) es))"
    unfolding lines_of_def using Cons.prems by (intro split_on_line printed_one_line) simp_all
  moreover have "starts_with ''explanation('' (printed q e)" unfolding r by (rule begins_with_start)
  ultimately show ?case using Cons by simp
qed

definition told_gap :: "pyval \<Rightarrow> pyval \<times> pyval" where
  "told_gap t = (dget (entries_of t) ''objective'', dget (entries_of t) ''reason'')"

lemma parse_printed:
  assumes "quotes_plainly q" and "plainly (Explanation ob wanted partial)"
  shows "\<exists>t. parse_explanation (printed q (Explanation ob wanted partial)) = Inr t
    \<and> told_gap t = (PStr ob, PStr (reason_of partial))"
proof -
  let ?z = "q ob @ '',['' @ joined '','' (map q wanted) @ ''],['' @ joined '','' (map (\<lambda>(n, s). q n @ ''-'' @ q s) partial) @ '']''"
  let ?x = "?z @ '','' @ reason_of partial"
  have inner: "butlast (drop (length ''explanation('') (printed q (Explanation ob wanted partial))) = ?x"
    by (simp add: butlast_append)
  have "plain_word ob" using assms(2) by (simp add: plainly_def)
  note name = shown_atom [OF assms(1) this]
  obtain r where r: "?x = q ob @ CHR '','' # r" by simp
  then have first: "cut_at '','' ?x = q ob" using name(2) by (simp only: cut_at_char not_False_eq_True)
  have "rev ?x = rev (reason_of partial) @ CHR '','' # rev ?z" by simp
  then have second: "cut_at '','' (rev ?x) = rev (reason_of partial)"
    using reason_plain(2) [of partial] by (simp only: cut_at_char set_rev not_False_eq_True)
  have "CHR '','' \<in> set ?x" by simp
  then show ?thesis unfolding parse_explanation_def inner Let_def first second
    by (simp add: told_gap_def name(1) reason_plain(3) del: append.simps append_assoc)
qed

section \<open>The verdict\<close>

definition gaps :: "(pyval \<Rightarrow> string) \<Rightarrow> string \<Rightarrow> pyval list \<Rightarrow> pydict list \<Rightarrow> (string \<times> pyval list) list \<Rightarrow> pyval list" where
  "gaps show scope objectives nodes developed = filter (\<lambda>ob. \<not> closed_by show scope nodes developed ob) objectives"

fun proofs_of :: "verdict \<Rightarrow> pyval list" where
  "proofs_of (Allowed _) = []"
| "proofs_of (RefusedBy r) = items_of (ref_detail r)"

lemma proof_tree_simps [simp]: "\<not> v_ok (proof_tree tree)" "proofs_of (proof_tree tree) = tree"
  by (simp_all add: proof_tree_def refuse_def Let_def)

lemma check_coverage_run:
  assumes "runs_coverage q S" and "check_coverage S show course objectives nodes developed scope = Inr v"
  shows "\<exists>facts. coverage_facts show course objectives nodes developed scope = Inr facts
    \<and> program_of (map as_read facts) = program_for show course objectives nodes developed scope
    \<and> printed_answer (length objectives) (0, concat (map (\<lambda>e. printed q e @ [newline])
        (why_uncovered (program_for show course objectives nodes developed scope) (spaced course))), []) = Inr v"
proof -
  from assms(2) obtain facts out where facts: "coverage_facts show course objectives nodes developed scope = Inr facts"
    and out: "sw_run S (facts_text facts) (goal_around (atom_text course)) = Some out"
      "printed_answer (length objectives) out = Inr v"
    by (auto simp: check_coverage_def split: if_splits option.splits)
  have read: "read_facts (facts_text facts) = Some (map as_read facts)"
    using read_facts_text facts_ok [OF facts] by blast
  have program: "program_of (map as_read facts) = program_for show course objectives nodes developed scope"
    using program_read [OF facts] by (simp add: program_for_def)
  have "read_atom (atom_text course) = Some (spaced course, [])" using read_atom_text [of "[]" course] by simp
  then show ?thesis using assms(1) read facts program out by (fastforce simp: runs_coverage_def)
qed

lemma no_complaint: "\<not> list_ex complaint (lines_of [])"
  by code_simp

lemma why_uncovered_objectives:
  "map (\<lambda>e. case e of Explanation ob wanted partial \<Rightarrow> (PStr ob, PStr (reason_of partial)))
       (why_uncovered (program_for show course objectives nodes developed scope) (spaced course))
     = map (\<lambda>ob. (PStr (flat show ob), PStr (if list_ex (teaches_it show developed ob) nodes
         then ''taught_but_not_approved'' else ''no_node_teaches_it''))) (gaps show scope objectives nodes developed)"
  unfolding why_uncovered_def uncovered_eq gaps_def
  by (simp add: Let_def reason_of_def list_ex_iff) (metis reason_iff [OF refl refl])

lemma pair_of_args: "(a, b) \<in> set (case xs of [x, y] \<Rightarrow> [(x, y)] | _ \<Rightarrow> []) \<Longrightarrow> xs = [a, b]"
  by (cases xs rule: remdups_adj.cases; cases "tl (tl xs)"; simp)

lemma pairs_named_in: "(a, b) \<in> set (pairs_named p fs) \<Longrightarrow> \<exists>f \<in> set fs. snd f = [a, b]"
proof (induction fs)
  case (Cons f fs)
  from Cons.prems [unfolded pairs_named_Cons set_append] show ?case
  proof (rule UnE)
    assume "(a, b) \<in> set (if fst f = p then (case snd f of [x, y] \<Rightarrow> [(x, y)] | _ \<Rightarrow> []) else [])"
    then have "(a, b) \<in> set (case snd f of [x, y] \<Rightarrow> [(x, y)] | _ \<Rightarrow> [])" by (cases "fst f = p") simp_all
    then show ?thesis using pair_of_args by auto
  next
    assume "(a, b) \<in> set (pairs_named p fs)"
    then show ?thesis using Cons.IH by auto
  qed
qed simp

lemma facts_plain:
  assumes "coverage_facts show course objectives nodes developed scope = Inr facts"
    and plain: "\<forall>f \<in> set facts. \<forall>a \<in> set (snd f). plain_word a"
    and "e \<in> set (why_uncovered (program_of (map as_read facts)) c)"
  shows "plainly e"
proof -
  have "newline \<in> set line_breaks" by code_simp
  then have "spaced a = a" if "plain_word a" for a
    using that by (auto simp: plain_word_def spaced_def intro!: map_idI)
  then have same: "map as_read facts = facts" using plain by (auto simp: as_read_def intro!: map_idI prod_eqI)
  have args: "plain_word a \<and> plain_word b" if "(a, b) \<in> set (pairs_named p facts)" for a b p
  proof -
    from that obtain f where "f \<in> set facts" "snd f = [a, b]" using pairs_named_in by blast
    then show ?thesis using plain by fastforce
  qed
  from assms(3) obtain ob where ob: "ob \<in> set (uncovered (program_of facts) c)"
    and e: "e = (let wanted = map fst (filter (\<lambda>(s, o'). o' = ob) (p_develops (program_of facts)))
      in Explanation ob wanted (partial_matches (program_of facts) c wanted))"
    unfolding same by (auto simp: why_uncovered_def)
  from ob obtain c' where "(c', ob) \<in> set (pairs_named ''requires'' facts)" by (auto simp: uncovered_def program_of_def)
  then have "plain_word ob" using args by blast
  moreover have "plain_word s" if "s \<in> fst ` set (p_develops (program_of facts))" for s
    using that args by (auto simp: program_of_def)
  moreover have "plain_word n \<and> plain_word s" if "(n, s) \<in> set (partial_matches (program_of facts) c wanted)" for n s wanted
    using that args by (auto simp: in_partial_matches program_of_def)
  ultimately show ?thesis by (auto simp: e plainly_def Let_def)
qed

lemma coverage_decided:
  assumes "runs_coverage q S" and "check_coverage S show course objectives nodes developed scope = Inr v"
  shows "v_ok v \<longleftrightarrow> (\<forall>ob \<in> set objectives. closed_by show scope nodes developed ob)"
proof -
  let ?es = "why_uncovered (program_for show course objectives nodes developed scope) (spaced course)"
  let ?lines = "filter (starts_with ''explanation('') (lines_of (concat (map (\<lambda>e. printed q e @ [newline]) ?es)))"
  have v: "printed_answer (length objectives) (0, concat (map (\<lambda>e. printed q e @ [newline]) ?es), []) = Inr v"
    using check_coverage_run [OF assms] by blast
  then have answer: "if ?lines = [] then v_ok v else \<not> v_ok v"
    using no_complaint by (auto simp: printed_answer_def Let_def simp del: not_None_eq)
  have lines: "?lines = [] \<longleftrightarrow> ?es = []"
    using some_line [of ?es q] by (cases "?es = []") (simp_all add: lines_of_def starts_with_def)
  have "?es = [] \<longleftrightarrow> gaps show scope objectives nodes developed = []"
    using arg_cong [OF why_uncovered_objectives, of length "show" course objectives nodes developed scope] by auto
  then show ?thesis
    using answer lines by (auto simp: gaps_def filter_empty_conv split: if_splits)
qed

text \<open>C35. Prolog's verdict is the specification's: with a swipl that runs the program, the check allows
  exactly when every objective is closed by a node in scope that teaches a skill developing it and
  counts (over a course only approved nodes do); and where names are plain its refusal lists
  exactly the objectives that are not, in order, each with the reason that holds of it.\<close>

theorem coverage_verdict:
  assumes "runs_coverage q S" and "check_coverage S show course objectives nodes developed scope = Inr v"
  shows "(v_ok v \<longleftrightarrow> (\<forall>ob \<in> set objectives. closed_by show scope nodes developed ob))
    \<and> (quotes_plainly q \<and> (\<exists>facts. coverage_facts show course objectives nodes developed scope = Inr facts
          \<and> (\<forall>f \<in> set facts. \<forall>a \<in> set (snd f). plain_word a)) \<longrightarrow>
        map told_gap (proofs_of v) = map (\<lambda>ob. (PStr (flat show ob), PStr (if list_ex (teaches_it show developed ob) nodes
          then ''taught_but_not_approved'' else ''no_node_teaches_it''))) (gaps show scope objectives nodes developed))"
proof -
  let ?es = "why_uncovered (program_for show course objectives nodes developed scope) (spaced course)"
  let ?lines = "filter (starts_with ''explanation('') (lines_of (concat (map (\<lambda>e. printed q e @ [newline]) ?es)))"
  obtain facts where facts: "coverage_facts show course objectives nodes developed scope = Inr facts"
    and program: "program_of (map as_read facts) = program_for show course objectives nodes developed scope"
    and v: "printed_answer (length objectives) (0, concat (map (\<lambda>e. printed q e @ [newline]) ?es), []) = Inr v"
    using check_coverage_run [OF assms] by blast
  have answer: "if ?lines = [] then v_ok v \<and> proofs_of v = [] else \<exists>tree. traverse parse_explanation ?lines = Inr tree
      \<and> \<not> v_ok v \<and> proofs_of v = tree"
    using v no_complaint by (auto simp: printed_answer_def Let_def simp del: not_None_eq)
  have verdict: "v_ok v \<longleftrightarrow> (\<forall>ob \<in> set objectives. closed_by show scope nodes developed ob)"
    by (rule coverage_decided [OF assms])
  have "map told_gap (proofs_of v) = map (\<lambda>e. case e of Explanation ob wanted partial \<Rightarrow> (PStr ob, PStr (reason_of partial))) ?es"
    if q: "quotes_plainly q" and plain: "\<forall>f \<in> set facts. \<forall>a \<in> set (snd f). plain_word a"
  proof -
    have es: "\<forall>e \<in> set ?es. plainly e" using facts_plain [OF facts plain] program by metis
    then have "?lines = map (printed q) ?es" using q by (simp add: printed_lines)
    then have "list_all2 (\<lambda>e t. parse_explanation (printed q e) = Inr t) ?es (proofs_of v)"
      using answer by (auto simp: traverse_eq_Inr list_all2_map1 split: if_splits)
    then show ?thesis using es
    proof (induction rule: list_all2_induct)
      case (Cons e es t ts)
      then show ?case using parse_printed [OF q] by (cases e) fastforce
    qed simp
  qed
  then show ?thesis using verdict facts unfolding why_uncovered_objectives by auto
qed

section \<open>Witnesses\<close>

lemma read_quoted_more:
  "read_quoted s = Some (a, []) \<Longrightarrow> rest = [] \<or> hd rest \<noteq> quote_sign \<Longrightarrow> read_quoted (s @ rest) = Some (a, rest)"
proof (induction s arbitrary: a rule: read_quoted.induct)
  case (2 c s)
  then show ?case by (cases s) (auto split: if_splits list.splits)
qed simp

text \<open>A swipl that runs the program, and quotes every atom it prints.\<close>

definition always_quoted :: "string \<Rightarrow> string" where
  "always_quoted s = quote_sign # s @ [quote_sign]"

definition small_swipl :: swipl_port where
  "small_swipl = \<lparr>sw_found = True, sw_run = (\<lambda>txt goal. case read_facts txt of None \<Rightarrow> None | Some facts \<Rightarrow>
     (case read_atom (drop (length ''forall(why_uncovered('') goal) of None \<Rightarrow> None | Some (c, rest) \<Rightarrow>
       Some (0, concat (map (\<lambda>e. printed always_quoted e @ [newline]) (why_uncovered (program_of facts) c)), [])))\<rparr>"

lemma small_swipl_runs: "runs_coverage always_quoted small_swipl"
proof -
  have "read_atom (drop (length ''forall(why_uncovered('') (goal_around atom)) = Some (c, '', O, E), (print(E), nl)), halt.'')"
    if "read_atom atom = Some (c, [])" for atom c
    using that read_quoted_more [of _ c "'', O, E), (print(E), nl)), halt.''"]
    by (auto simp: read_atom_def goal_around_def quote_sign_def split: list.splits if_splits)
  then show ?thesis by (auto simp: runs_coverage_def small_swipl_def)
qed

definition waiting_lesson :: pydict where
  "waiting_lesson = [(PStr ''id'', PStr ''n-1''), (PStr ''skill'', PStr ''hand-hygiene''), (PStr ''state'', PStr ''NodeReview'')]"

lemma facts_read_back_witness:
  "read_facts (facts_text (projr (coverage_facts (\<lambda>_. []) ''rev-1'' [PStr ''it's''] [waiting_lesson] [] ''course'')))
     = Some (map as_read (projr (coverage_facts (\<lambda>_. []) ''rev-1'' [PStr ''it's''] [waiting_lesson] [] ''course'')))"
proof -
  have "coverage_facts (\<lambda>_. []) ''rev-1'' [PStr ''it's''] [waiting_lesson] [] ''course''
      = Inr (projr (coverage_facts (\<lambda>_. []) ''rev-1'' [PStr ''it's''] [waiting_lesson] [] ''course''))" by code_simp
  then show ?thesis by (rule facts_read_back)
qed

lemma coverage_verdict_witness:
  "\<exists>v. check_coverage small_swipl (\<lambda>_. []) ''rev-1'' [PStr ''hand-hygiene''] [waiting_lesson]
      [(''hand-hygiene'', [PStr ''hand-hygiene''])] ''course'' = Inr v \<and> \<not> v_ok v
    \<and> map told_gap (proofs_of v) = [(PStr ''hand-hygiene'', PStr ''taught_but_not_approved'')]"
proof -
  let ?develops = "[(''hand-hygiene'', [PStr ''hand-hygiene''])]"
  let ?run = "check_coverage small_swipl (\<lambda>_. []) ''rev-1'' [PStr ''hand-hygiene''] [waiting_lesson] ?develops ''course''"
  let ?facts = "coverage_facts (\<lambda>_. []) ''rev-1'' [PStr ''hand-hygiene''] [waiting_lesson] ?develops ''course''"
  have "?run = Inr (projr ?run)" by code_simp
  then obtain v where run: "?run = Inr v" by blast
  have "?facts = Inr (projr ?facts)" "\<forall>f \<in> set (projr ?facts). \<forall>a \<in> set (snd f). plain_word a" by code_simp+
  moreover have "quotes_plainly always_quoted" by (simp add: quotes_plainly_def always_quoted_def)
  ultimately have "map told_gap (proofs_of v) = map (\<lambda>ob. (PStr (flat (\<lambda>_. []) ob),
      PStr (if list_ex (teaches_it (\<lambda>_. []) ?develops ob) [waiting_lesson] then ''taught_but_not_approved''
        else ''no_node_teaches_it''))) (gaps (\<lambda>_. []) ''course'' [PStr ''hand-hygiene''] [waiting_lesson] ?develops)"
    using coverage_verdict [OF small_swipl_runs run] by blast
  also have "\<dots> = [(PStr ''hand-hygiene'', PStr ''taught_but_not_approved'')]" by code_simp
  finally have "map told_gap (proofs_of v) = [(PStr ''hand-hygiene'', PStr ''taught_but_not_approved'')]" .
  moreover from this have "\<not> v_ok v" by (cases v) auto
  ultimately show ?thesis using run by (intro exI [of _ v] conjI)
qed

text \<open>Where a name is not plain: an objective with a comma in it is told up to the comma.\<close>

lemma comma_cuts_the_objective:
  "map_sum id told_gap (parse_explanation (printed always_quoted (Explanation ''wash, then dry'' [] [])))
     = Inr (PStr ''wash'', PStr ''no_node_teaches_it'')"
  by code_simp

end
