(* ===== verification/Policy_Engine.thy ===== *)
theory Policy_Engine
  imports Datalog_Checks
begin

text \<open>
  \<open>engines/opa/engine.py\<close> and the policy it asks, \<open>engines/opa/policy.rego\<close> and
  \<open>engines/opa/approval.rego\<close>.  A Rego reference may be undefined, which is \<open>None\<close>: a comparison
  of something undefined does not hold, and \<open>not\<close> of it does.  The binary is a parameter, and
  what the code relies on it for is \<open>runs_policy\<close>: it answers a query with the policy's value.
  \<open>fmt\<close> writes a value in a message.
\<close>

section \<open>Rego's values\<close>

definition at_key :: "pyval option \<Rightarrow> string \<Rightarrow> pyval option" where
  "at_key x k = (case x of Some (PDict d) \<Rightarrow> dlookup d k | _ \<Rightarrow> None)"

definition at_value :: "pyval option \<Rightarrow> pyval option \<Rightarrow> pyval option" where
  "at_value x k = (case k of Some (PStr s) \<Rightarrow> at_key x s | _ \<Rightarrow> None)"

text \<open>A reference as a statement holds unless it is undefined or false.\<close>

definition stated :: "pyval option \<Rightarrow> bool" where
  "stated x \<longleftrightarrow> x \<noteq> None \<and> x \<noteq> Some (PBool False)"

definition is_text :: "pyval option \<Rightarrow> string \<Rightarrow> bool" where
  "is_text x s \<longleftrightarrow> x = Some (PStr s)"

definition is_array :: "pyval option \<Rightarrow> bool" where
  "is_array x \<longleftrightarrow> (case x of Some (PList _) \<Rightarrow> True | _ \<Rightarrow> False)"

text \<open>Equality of JSON values: numbers by value, a boolean is not a number.\<close>

function (sequential) same_json :: "pyval \<Rightarrow> pyval \<Rightarrow> bool" where
  "same_json (PList xs) (PList ys) \<longleftrightarrow> length xs = length ys \<and> (\<forall>(x, y) \<in> set (zip xs ys). same_json x y)"
| "same_json (PDict a) (PDict b) \<longleftrightarrow> length a = length b \<and>
     (\<forall>(k, v) \<in> set a. case map_of b k of None \<Rightarrow> False | Some w \<Rightarrow> same_json v w)"
| "same_json (PBool a) w \<longleftrightarrow> w = PBool a"
| "same_json v (PBool b) \<longleftrightarrow> False"
| "same_json v w \<longleftrightarrow> py_eq v w"
  by pat_completeness auto
termination
proof (relation "measure (size \<circ> fst)", goal_cases)
  case 1 show ?case by simp
next
  case (2 xs ys z x y)
  then have "x \<in> set xs" by (auto dest: set_zip_leftD)
  then have "size x < Suc (size_list size xs)" by (induction xs) auto
  then show ?case by simp
next
  case (3 a b z k v w) then show ?case by (auto dest: size_entry)
qed

text \<open>What \<open>some x in c\<close> ranges over.\<close>

definition elements :: "pyval option \<Rightarrow> pyval list" where
  "elements x = (case x of Some (PList xs) \<Rightarrow> xs | Some (PDict d) \<Rightarrow> map snd d | _ \<Rightarrow> [])"

definition collection :: "pyval option \<Rightarrow> bool" where
  "collection x \<longleftrightarrow> (case x of Some (PList _) \<Rightarrow> True | Some (PDict _) \<Rightarrow> True | _ \<Rightarrow> False)"

definition member :: "pyval \<Rightarrow> pyval option \<Rightarrow> bool" where
  "member v c \<longleftrightarrow> list_ex (same_json v) (elements c)"

definition counted :: "pyval option \<Rightarrow> nat option" where
  "counted x = (case x of Some (PList xs) \<Rightarrow> Some (length xs) | Some (PDict d) \<Rightarrow> Some (length d)
     | Some (PStr s) \<Rightarrow> Some (length s) | _ \<Rightarrow> None)"

text \<open>Numbers are exact; values of two kinds are ordered by their kinds.\<close>

fun number :: "pyval \<Rightarrow> (int \<times> int) option" where
  "number (PInt i) = Some (i, 0)"
| "number (PFloat (Finite m e)) = Some (m, e)"
| "number _ = None"

definition number_less :: "int \<times> int \<Rightarrow> int \<times> int \<Rightarrow> bool" where
  "number_less a b \<longleftrightarrow> (let e = min (snd a) (snd b) in
     fst a * 2 ^ nat (snd a - e) < fst b * 2 ^ nat (snd b - e))"

fun kind_rank :: "pyval \<Rightarrow> nat" where
  "kind_rank PNone = 0"
| "kind_rank (PBool _) = 1"
| "kind_rank (PInt _) = 2"
| "kind_rank (PFloat _) = 2"
| "kind_rank (PStr _) = 3"
| "kind_rank (PList _) = 4"
| "kind_rank (PDict _) = 5"

text \<open>Two arrays or two objects, which OPA orders too, are never compared by this policy's data.\<close>

definition rego_less :: "pyval \<Rightarrow> pyval \<Rightarrow> bool" where
  "rego_less v w \<longleftrightarrow> (case (number v, number w) of
       (Some a, Some b) \<Rightarrow> number_less a b
     | _ \<Rightarrow> (case (v, w) of
         (PStr s, PStr t) \<Rightarrow> s < t
       | (PBool a, PBool b) \<Rightarrow> \<not> a \<and> b
       | _ \<Rightarrow> kind_rank v < kind_rank w))"

definition is_number :: "pyval option \<Rightarrow> bool" where
  "is_number x \<longleftrightarrow> (case x of None \<Rightarrow> False | Some v \<Rightarrow> number v \<noteq> None)"

definition less_than :: "pyval option \<Rightarrow> pyval option \<Rightarrow> bool" where
  "less_than x y \<longleftrightarrow> (case (x, y) of (Some v, Some w) \<Rightarrow> rego_less v w | _ \<Rightarrow> False)"

definition at_most :: "pyval option \<Rightarrow> pyval option \<Rightarrow> bool" where
  "at_most x y \<longleftrightarrow> (case (x, y) of (Some v, Some w) \<Rightarrow> \<not> rego_less w v | _ \<Rightarrow> False)"

section \<open>Reasons\<close>

text \<open>\<open>sprintf\<close>; a reason with an argument that is undefined is no reason.\<close>

fun filled :: "(pyval \<Rightarrow> string) \<Rightarrow> string \<Rightarrow> pyval list \<Rightarrow> string" where
  "filled fmt [] vs = []"
| "filled fmt (c # s) [] = c # s"
| "filled fmt [c] (v # vs) = [c]"
| "filled fmt (c # d # s) (v # vs) = (if c = CHR ''%'' \<and> d = CHR ''v'' then fmt v @ filled fmt s vs
     else c # filled fmt (d # s) (v # vs))"

definition because :: "(pyval \<Rightarrow> string) \<Rightarrow> bool \<Rightarrow> string \<Rightarrow> string \<Rightarrow> pyval option list \<Rightarrow> pyval list" where
  "because fmt cond rule sentence args = (case those args of
       None \<Rightarrow> []
     | Some vs \<Rightarrow> (if cond then [PDict [(PStr ''rule'', PStr rule), (PStr ''message'', PStr (filled fmt sentence vs))]] else []))"

section \<open>Approval\<close>

text \<open>\<open>approval.rego\<close>; \<open>i\<close> is the input and \<open>g\<close> is \<open>data.org\<close>.\<close>

definition valid_signature :: "pyval option \<Rightarrow> pyval \<Rightarrow> bool" where
  "valid_signature g s \<longleftrightarrow> (case (at_key (Some s) ''actor'', at_key (Some s) ''role'') of
       (Some (PStr who), Some (PStr role)) \<Rightarrow> is_text (at_key (at_key (at_key g ''people'') who) ''role'') role
     | _ \<Rightarrow> False)"

definition valid_signatures :: "pyval option \<Rightarrow> pyval option \<Rightarrow> pyval list" where
  "valid_signatures g i = filter (valid_signature g) (elements (at_key i ''signatures''))"

definition false_signatures :: "pyval option \<Rightarrow> pyval option \<Rightarrow> pyval list" where
  "false_signatures g i = filter (\<lambda>s. \<not> valid_signature g s) (elements (at_key i ''signatures''))"

definition signers :: "pyval option \<Rightarrow> pyval option \<Rightarrow> string list" where
  "signers g i = remdups (map (\<lambda>s. str_of (the (at_key (Some s) ''actor''))) (valid_signatures g i))"

definition signs_as :: "pyval \<Rightarrow> pyval \<Rightarrow> bool" where
  "signs_as role s \<longleftrightarrow> at_key (Some s) ''role'' = Some role"

definition minimum :: "pyval option \<Rightarrow> pyval option" where
  "minimum g = at_key (at_key g ''approval'') ''minimum_signatures''"

definition required_roles :: "pyval option \<Rightarrow> pyval option" where
  "required_roles g = at_key (at_key g ''approval'') ''required_roles''"

definition minimum_unstated :: "pyval option \<Rightarrow> bool" where
  "minimum_unstated g \<longleftrightarrow> \<not> stated (minimum g)
     \<or> stated (minimum g) \<and> \<not> is_number (minimum g)
     \<or> is_number (minimum g) \<and> as_int (the (minimum g)) = None
     \<or> is_number (minimum g) \<and> less_than (minimum g) (Some (PInt 1))"

definition roles_unstated :: "pyval option \<Rightarrow> bool" where
  "roles_unstated g \<longleftrightarrow> \<not> stated (required_roles g)
     \<or> stated (required_roles g) \<and> \<not> is_array (required_roles g)
     \<or> counted (required_roles g) = Some 0"

definition signatures_malformed :: "pyval option \<Rightarrow> bool" where
  "signatures_malformed i \<longleftrightarrow> \<not> stated (at_key i ''signatures'')
     \<or> stated (at_key i ''signatures'') \<and> \<not> is_array (at_key i ''signatures'')"

definition signer_count :: "pyval option \<Rightarrow> pyval option \<Rightarrow> pyval option" where
  "signer_count g i = Some (PInt (int (length (signers g i))))"

definition approval_chain_satisfied :: "pyval option \<Rightarrow> pyval option \<Rightarrow> bool" where
  "approval_chain_satisfied g i \<longleftrightarrow> is_array (at_key i ''signatures'') \<and> \<not> roles_unstated g \<and> \<not> minimum_unstated g
     \<and> collection (required_roles g)
     \<and> list_all (\<lambda>role. list_ex (signs_as role) (valid_signatures g i)) (elements (required_roles g))
     \<and> at_most (minimum g) (signer_count g i) \<and> false_signatures g i = []"

definition missing_roles :: "pyval option \<Rightarrow> pyval option \<Rightarrow> pyval list" where
  "missing_roles g i = filter (\<lambda>role. \<not> list_ex (signs_as role) (valid_signatures g i)) (elements (required_roles g))"

definition approval_denials :: "(pyval \<Rightarrow> string) \<Rightarrow> pyval option \<Rightarrow> pyval option \<Rightarrow> pyval list" where
  "approval_denials fmt g i = (let approving = is_text (at_key i ''action'') ''grant_approval'';
      signed = is_array (at_key i ''signatures''); chain = ''approval_chain_satisfied'' in concat (
     [because fmt (approving \<and> signatures_malformed i) chain ''the signatures are not a list of signatures'' [],
      because fmt (approving \<and> signed \<and> missing_roles g i \<noteq> []) chain ''publication needs a signature from %v''
        [Some (PList (missing_roles g i))],
      because fmt (approving \<and> signed \<and> is_number (minimum g) \<and> less_than (signer_count g i) (minimum g)) chain
        ''%v distinct signers present, %v required'' [signer_count g i, minimum g],
      because fmt (approving \<and> minimum_unstated g) chain ''the organisation has not said how many signatures publication needs, as a whole number of at least one'' []]
     @ map (\<lambda>s. because fmt (approving \<and> signed) chain
         ''%v is not a signature by a person of this organisation in the role they hold'' [Some s]) (false_signatures g i)
     @ [because fmt (approving \<and> roles_unstated g) chain ''the organisation has not said whose signatures publication needs'' []]))"

section \<open>Authorship and acts on a course\<close>

definition authoring :: "string list" where
  "authoring = [''submit_brief'', ''generate_outline'', ''generate_node'']"

definition person_acts :: "(string \<times> string list) list" where
  "person_acts = [(''approve_node'', [''course-author'', ''training-administrator'']),
     (''publish_revision'', [''training-administrator'']), (''withdraw_revision'', [''training-administrator'']),
     (''archive_revision'', [''training-administrator'']), (''notify_learners'', [''training-administrator''])]"

definition system_acts :: "string list" where
  "system_acts = [''admit_to_revision'', ''move_live_pointer'', ''retrieve_sources'']"

definition known_acts :: "string list" where
  "known_acts = authoring @ map fst person_acts @ system_acts @ [''grant_approval'']"

definition one_of :: "pyval option \<Rightarrow> string list \<Rightarrow> bool" where
  "one_of x names \<longleftrightarrow> (case x of Some (PStr s) \<Rightarrow> s \<in> set names | _ \<Rightarrow> False)"

definition asked_act :: "pyval option \<Rightarrow> pyval option" where
  "asked_act i = at_key i ''action''"

definition doer :: "pyval option \<Rightarrow> string \<Rightarrow> pyval option" where
  "doer i k = at_key (at_key i ''actor'') k"

definition roles_for :: "pyval option \<Rightarrow> string list option" where
  "roles_for i = (case asked_act i of Some (PStr a) \<Rightarrow> map_of person_acts a | _ \<Rightarrow> None)"

definition audience :: "pyval option \<Rightarrow> pyval option" where
  "audience i = at_key (at_key i ''brief'') ''audience''"

definition granted :: "pyval option \<Rightarrow> pyval option \<Rightarrow> pyval option" where
  "granted g i = at_key (at_value (at_key g ''grants'') (doer i ''id'')) ''may_author_for''"

definition audience_permitted :: "pyval option \<Rightarrow> pyval option \<Rightarrow> bool" where
  "audience_permitted g i \<longleftrightarrow> (case counted (audience i) of None \<Rightarrow> False | Some n \<Rightarrow> 0 < n)
     \<and> collection (audience i) \<and> list_all (\<lambda>team. member team (granted g i)) (elements (audience i))"

definition asked_nodes :: "pyval option \<Rightarrow> pyval option" where
  "asked_nodes i = at_key (at_key i ''brief'') ''node_count''"

definition node_limit :: "pyval option \<Rightarrow> pyval option" where
  "node_limit g = at_key (at_key g ''thresholds'') ''max_nodes_per_course''"

definition within_limits :: "pyval option \<Rightarrow> pyval option \<Rightarrow> bool" where
  "within_limits g i \<longleftrightarrow> at_most (asked_nodes i) (node_limit g)"

definition state_permits :: "pyval option \<Rightarrow> bool" where
  "state_permits i \<longleftrightarrow> asked_act i \<noteq> None \<and> asked_act i \<noteq> Some (PStr ''generate_node'')
     \<or> is_text (asked_act i) ''generate_node'' \<and> is_text (at_key i ''course_state'') ''ContentInProgress''"

definition may_author :: "string list" where
  "may_author = [''course-author'', ''training-administrator'']"

definition allow :: "pyval option \<Rightarrow> pyval option \<Rightarrow> bool" where
  "allow g i \<longleftrightarrow>
     (case roles_for i of None \<Rightarrow> False
      | Some roles \<Rightarrow> is_text (doer i ''kind'') ''person'' \<and> one_of (doer i ''role'') roles \<and> audience_permitted g i)
     \<or> one_of (asked_act i) system_acts \<and> is_text (doer i ''kind'') ''system''
     \<or> one_of (asked_act i) authoring \<and> one_of (doer i ''role'') may_author \<and> audience_permitted g i \<and> within_limits g i
       \<and> state_permits i
     \<or> is_text (asked_act i) ''grant_approval'' \<and> approval_chain_satisfied g i"

definition audience_question :: "pyval option \<Rightarrow> bool" where
  "audience_question i \<longleftrightarrow> one_of (asked_act i) authoring \<or> roles_for i \<noteq> None \<and> is_text (doer i ''kind'') ''person''"

text \<open>\<open>object.get(data.org.grants, [id, "may_author_for"], [])\<close>.\<close>

definition granted_or_none :: "pyval option \<Rightarrow> pyval option \<Rightarrow> pyval option" where
  "granted_or_none g i = (if at_key g ''grants'' = None \<or> doer i ''id'' = None then None
     else Some (case granted g i of None \<Rightarrow> PList [] | Some v \<Rightarrow> v))"

definition ungranted :: "pyval option \<Rightarrow> pyval option \<Rightarrow> pyval list" where
  "ungranted g i = filter (\<lambda>team. \<not> member team (granted_or_none g i)) (elements (audience i))"

definition audience_empty :: "pyval option \<Rightarrow> bool" where
  "audience_empty i \<longleftrightarrow> \<not> stated (audience i) \<or> counted (audience i) = Some 0"

definition act_denials :: "(pyval \<Rightarrow> string) \<Rightarrow> pyval option \<Rightarrow> pyval option \<Rightarrow> pyval list" where
  "act_denials fmt g i = (let writes = one_of (asked_act i) authoring; who = doer i ''id'';
      roles = (case roles_for i of None \<Rightarrow> [] | Some rs \<Rightarrow> rs) in concat
     [because fmt (roles_for i \<noteq> None \<and> is_text (doer i ''kind'') ''person'' \<and> \<not> one_of (doer i ''role'') roles) ''known_role''
        ''%v may not %v; it needs one of %v'' [who, asked_act i, Some (strs roles)],
      because fmt (roles_for i \<noteq> None \<and> \<not> is_text (doer i ''kind'') ''person'') ''person_only''
        ''%v is a person's act; %v is not a person'' [asked_act i, who],
      because fmt (one_of (asked_act i) system_acts \<and> \<not> is_text (doer i ''kind'') ''system'') ''system_only''
        ''%v is taken by the system on its own behalf, not by %v'' [asked_act i, who],
      because fmt (audience_question i \<and> \<not> audience_permitted g i \<and> granted_or_none g i \<noteq> None \<and> ungranted g i \<noteq> [])
        ''audience_permitted'' ''%v may not author for %v'' [who, Some (PList (ungranted g i))],
      because fmt (audience_question i \<and> audience_empty i) ''audience_permitted''
        ''the course names no audience, and a course for no one cannot be authored'' [],
      because fmt (writes \<and> less_than (node_limit g) (asked_nodes i)) ''within_limits''
        ''%v nodes requested, the limit is %v'' [asked_nodes i, node_limit g],
      because fmt (is_text (asked_act i) ''generate_node'' \<and> at_key i ''course_state'' \<noteq> None
          \<and> \<not> is_text (at_key i ''course_state'') ''ContentInProgress'') ''state_permits''
        ''a node cannot be generated while the revision is %v'' [at_key i ''course_state''],
      because fmt (writes \<and> \<not> one_of (doer i ''role'') may_author) ''known_role''
        ''%v is not a role that may author'' [doer i ''role''],
      because fmt (writes \<and> \<not> stated (asked_nodes i)) ''within_limits''
        ''the brief does not say how many nodes it asks for'' [],
      because fmt (writes \<and> \<not> stated (node_limit g)) ''within_limits''
        ''the organisation's node limit is not configured'' [],
      because fmt (\<not> one_of (asked_act i) known_acts) ''known_action''
        ''%v is not an action this policy governs'' [asked_act i]])"

definition denials :: "(pyval \<Rightarrow> string) \<Rightarrow> pyval option \<Rightarrow> pyval option \<Rightarrow> pyval list" where
  "denials fmt g i = approval_denials fmt g i @ act_denials fmt g i"

section \<open>The engine\<close>

record opa_port =
  op_found :: bool
  op_run :: "string \<Rightarrow> pydict \<Rightarrow> pydict \<Rightarrow> (int \<times> pyval) option"

text \<open>\<open>results[0]["expressions"][0]["value"]\<close>.\<close>

fun head_of :: "pyval \<Rightarrow> exn + pyval" where
  "head_of (PList []) = Inl (PyError ''IndexError'')"
| "head_of (PList (x # _)) = Inr x"
| "head_of _ = Inl type_error"

definition eval_query :: "opa_port \<Rightarrow> string \<Rightarrow> pydict \<Rightarrow> pydict \<Rightarrow> exn + pyval" where
  "eval_query S query input data =
     (if \<not> op_found S then Inl EngineUnavailable
      else case op_run S query input data of
        None \<Rightarrow> Inl EngineUnavailable
      | Some (code, out) \<Rightarrow> (if code \<noteq> 0 then Inl EngineUnavailable
          else ebind (py_items out) (\<lambda>d. let results = py_or (dget d ''result'') (PList []) in
            if \<not> truthy results then Inr PNone
            else ebind (ebind (head_of results) entry) (\<lambda>r. ebind (item r ''expressions'') (\<lambda>es.
              ebind (ebind (head_of es) entry) (\<lambda>e. item e ''value''))))))"

definition reason_key :: "pyval \<Rightarrow> exn + string \<times> string" where
  "reason_key v = ebind (entry v) (\<lambda>d. ebind (ebind (item d ''rule'') as_name) (\<lambda>r.
     ebind (ebind (item d ''message'') as_name) (\<lambda>m. Inr (r, m))))"

definition by_reason :: "(string \<times> string) list \<Rightarrow> pyval list \<Rightarrow> pyval list" where
  "by_reason keys ds = map snd (sort_key (\<lambda>((r, m), d). [r, m]) (zip keys ds))"

definition policy_allowed :: verdict where
  "policy_allowed = Allowed [(PStr ''engine'', PStr ''opa''), (PStr ''rule'', PStr ''allow'')]"

definition named_rule :: "pyval list \<Rightarrow> verdict" where
  "named_rule ds = (let first = entries_of (hd ds) in refuse ''named-rule''
     (str_of (dget first ''rule'') @ '': '' @ str_of (dget first ''message'')) (PList ds) ''opa'')"

definition decide_policy :: "opa_port \<Rightarrow> pydict \<Rightarrow> pydict \<Rightarrow> exn + verdict" where
  "decide_policy S input org = (let data = [(PStr ''org'', PDict org)] in
     ebind (eval_query S ''data.course.policy.allow'' input data) (\<lambda>a.
       if a = PBool True then Inr policy_allowed
       else ebind (eval_query S ''data.course.policy.deny'' input data) (\<lambda>d.
         ebind (iter_of (py_or d (PList []))) (\<lambda>ds. ebind (traverse reason_key ds) (\<lambda>keys.
           if ds = [] then Inl (PyError ''RefusalWithoutArtifact'')
           else Inr (named_rule (by_reason keys ds)))))))"

definition check_approval :: "opa_port \<Rightarrow> int \<Rightarrow> pydict list \<Rightarrow> pydict \<Rightarrow> exn + verdict" where
  "check_approval S r signatures org = decide_policy S [(PStr ''action'', PStr ''grant_approval''),
     (PStr ''revision'', PInt r), (PStr ''signatures'', PList (map PDict signatures))] org"

definition check_policy :: "opa_port \<Rightarrow> string \<Rightarrow> pydict \<Rightarrow> pydict \<Rightarrow> string \<Rightarrow> pydict \<Rightarrow> exn + verdict" where
  "check_policy S action actor brief course_state org = decide_policy S [(PStr ''action'', PStr action),
     (PStr ''actor'', PDict actor), (PStr ''brief'', PDict brief), (PStr ''course_state'', PStr course_state)] org"

text \<open>The reliance: a query is answered with the policy's value, a set in any order.\<close>

definition answered :: "pyval \<Rightarrow> (int \<times> pyval) option" where
  "answered v = Some (0, PDict [(PStr ''result'', PList [PDict [(PStr ''expressions'', PList [PDict [(PStr ''value'', v)]])]])])"

definition runs_policy :: "(pyval \<Rightarrow> string) \<Rightarrow> opa_port \<Rightarrow> bool" where
  "runs_policy fmt S \<longleftrightarrow> op_found S \<and> (\<forall>input org.
     let g = Some (PDict org); i = Some (PDict input); data = [(PStr ''org'', PDict org)] in
     op_run S ''data.course.policy.allow'' input data = answered (PBool (allow g i))
     \<and> (\<exists>ds. set ds = set (denials fmt g i) \<and> op_run S ''data.course.policy.deny'' input data = answered (PList ds)))"

end
