(* ===== verification/Policy_Properties.thy ===== *)
theory Policy_Properties
  imports Policy_Engine Sample
begin

text \<open>
  What the policy decides, said without Rego: whose signatures publish a revision, and who may do
  what.  Each theorem also says that a verdict is given, so the policy never refuses without a
  rule to name.
\<close>

section \<open>From the policy to a verdict\<close>

lemma entry_dict [simp]: "entry (PDict d) = Inr d"
  by simp

lemma eval_answered:
  assumes "op_found S" and "op_run S query input data = answered v"
  shows "eval_query S query input data = Inr v"
  using assms by (simp add: eval_query_def answered_def py_or_def item_def)

lemma because_shape: "d \<in> set (because fmt c rule sentence args) \<Longrightarrow>
    \<exists>r m. d = PDict [(PStr ''rule'', PStr r), (PStr ''message'', PStr m)]"
  by (auto simp: because_def split: option.splits if_splits)

lemma denials_shape: "d \<in> set (denials fmt g i) \<Longrightarrow>
    \<exists>r m. d = PDict [(PStr ''rule'', PStr r), (PStr ''message'', PStr m)]"
  unfolding denials_def approval_denials_def act_denials_def Let_def
  by (auto dest!: because_shape simp del: because_def)

lemma reason_keys: "\<forall>d \<in> set ds. \<exists>r m. d = PDict [(PStr ''rule'', PStr r), (PStr ''message'', PStr m)] \<Longrightarrow>
    \<exists>keys. traverse reason_key ds = Inr keys"
  by (induction ds) (auto simp: reason_key_def item_def)

lemma named_rule_refuses [simp]: "\<not> v_ok (named_rule ds)" "v_ok policy_allowed"
  by (simp_all add: named_rule_def Let_def refuse_def policy_allowed_def)

lemma policy_verdict:
  assumes "runs_policy fmt S" and "\<not> allow (Some (PDict org)) (Some (PDict input)) \<Longrightarrow>
      denials fmt (Some (PDict org)) (Some (PDict input)) \<noteq> []"
  shows "\<exists>v. decide_policy S input org = Inr v \<and> (v_ok v \<longleftrightarrow> allow (Some (PDict org)) (Some (PDict input)))"
proof -
  let ?g = "Some (PDict org)" and ?i = "Some (PDict input)" and ?data = "[(PStr ''org'', PDict org)]"
  have found: "op_found S" using assms(1) by (simp add: runs_policy_def)
  have asked: "op_run S ''data.course.policy.allow'' input ?data = answered (PBool (allow ?g ?i))"
    using assms(1) by (simp add: runs_policy_def Let_def)
  obtain ds where ds: "set ds = set (denials fmt ?g ?i)"
    and denied: "op_run S ''data.course.policy.deny'' input ?data = answered (PList ds)"
    using assms(1) unfolding runs_policy_def Let_def by metis
  obtain keys where keys: "traverse reason_key ds = Inr keys"
    using reason_keys [of ds] denials_shape ds by blast
  have items: "iter_of (py_or (PList ds) (PList [])) = Inr ds" by (cases ds) (simp_all add: py_or_def)
  note evals = eval_answered [OF found asked] eval_answered [OF found denied]
  show ?thesis
  proof (cases "allow ?g ?i")
    case True then show ?thesis using evals by (simp add: decide_policy_def)
  next
    case False
    then have "ds \<noteq> []" using assms(2) ds by auto
    then show ?thesis using False evals items keys by (simp add: decide_policy_def)
  qed
qed

section \<open>Signatures\<close>

lemma number_less_whole:
  assumes "number v = Some p" and "as_int v = Some n"
  shows "number_less p (k, 0) \<longleftrightarrow> n < k" "number_less (k, 0) p \<longleftrightarrow> k < n"
proof -
  have "(number_less p (k, 0) \<longleftrightarrow> n < k) \<and> (number_less (k, 0) p \<longleftrightarrow> k < n)"
  proof (cases v)
    case (PFloat f)
    then obtain m e where f: "f = Finite m e" using assms(1) by (cases f) auto
    show ?thesis
    proof (cases "0 \<le> e")
      case True then show ?thesis using assms PFloat f by (auto simp: number_less_def)
    next
      case False
      then have "m = n * 2 ^ nat (- e)" using assms PFloat f by (auto split: if_splits)
      then show ?thesis using assms PFloat f False by (auto simp: number_less_def)
    qed
  qed (use assms in \<open>auto simp: number_less_def\<close>)
  then show "number_less p (k, 0) \<longleftrightarrow> n < k" "number_less (k, 0) p \<longleftrightarrow> k < n" by simp_all
qed

text \<open>A whole number of at least one, however it is written.\<close>

definition asks_for :: "pyval option \<Rightarrow> int \<Rightarrow> bool" where
  "asks_for x n \<longleftrightarrow> is_number x \<and> as_int (the x) = Some n \<and> 1 \<le> n"

lemma minimum_stated: "\<not> minimum_unstated g \<longleftrightarrow> (\<exists>n. asks_for (minimum g) n)"
proof (cases "minimum g")
  case None then show ?thesis by (simp add: minimum_unstated_def stated_def asks_for_def is_number_def)
next
  case (Some v)
  show ?thesis
  proof (cases "number v")
    case None
    then show ?thesis using Some by (cases "v = PBool False") (auto simp: minimum_unstated_def stated_def asks_for_def is_number_def)
  next
    case (Some p)
    then have "v \<noteq> PBool False" by auto
    then show ?thesis using \<open>minimum g = Some v\<close> Some number_less_whole [OF Some]
      by (cases "as_int v") (auto simp: minimum_unstated_def stated_def asks_for_def is_number_def less_than_def
          rego_less_def split: option.splits)
  qed
qed

lemma signer_count_compared:
  assumes "asks_for (minimum g) n"
  shows "at_most (minimum g) (signer_count g i) \<longleftrightarrow> n \<le> int (length (signers g i))"
    "less_than (signer_count g i) (minimum g) \<longleftrightarrow> int (length (signers g i)) < n"
proof -
  from assms obtain v p where v: "minimum g = Some v" "number v = Some p" "as_int v = Some n"
    by (auto simp: asks_for_def is_number_def split: option.splits)
  then show "at_most (minimum g) (signer_count g i) \<longleftrightarrow> n \<le> int (length (signers g i))"
    "less_than (signer_count g i) (minimum g) \<longleftrightarrow> int (length (signers g i)) < n"
    using number_less_whole [OF v(2,3)]
    by (auto simp: at_most_def less_than_def signer_count_def rego_less_def)
qed

text \<open>A signature by a person of the organisation, in the role they hold.\<close>

definition genuine :: "pydict \<Rightarrow> pyval \<Rightarrow> bool" where
  "genuine org s \<longleftrightarrow> (\<exists>d who role. s = PDict d \<and> dlookup d ''actor'' = Some (PStr who) \<and> dlookup d ''role'' = Some (PStr role)
     \<and> at_key (at_key (at_key (Some (PDict org)) ''people'') who) ''role'' = Some (PStr role))"

lemma at_key_dict [simp]: "at_key (Some (PDict d)) k = dlookup d k"
  by (simp add: at_key_def)

lemma two_texts: "(case (x, y) of (Some (PStr a), Some (PStr b)) \<Rightarrow> P a b | _ \<Rightarrow> False)
    \<longleftrightarrow> (\<exists>a b. x = Some (PStr a) \<and> y = Some (PStr b) \<and> P a b)"
  by (cases x; cases "the x"; cases y; cases "the y"; simp)

lemma valid_signature_iff: "valid_signature (Some (PDict org)) s \<longleftrightarrow> genuine org s"
proof (cases s)
  case (PDict d)
  then show ?thesis unfolding valid_signature_def two_texts by (simp add: genuine_def is_text_def)
qed (simp_all add: valid_signature_def genuine_def at_key_def)

definition actors :: "pydict list \<Rightarrow> string set" where
  "actors sigs = {who. \<exists>d \<in> set sigs. dlookup d ''actor'' = Some (PStr who)}"

text \<open>What the organisation asks of a publication.\<close>

definition chain_holds :: "pydict \<Rightarrow> pydict list \<Rightarrow> bool" where
  "chain_holds org sigs \<longleftrightarrow> (\<exists>roles n. required_roles (Some (PDict org)) = Some (PList roles) \<and> roles \<noteq> []
     \<and> asks_for (minimum (Some (PDict org))) n
     \<and> (\<forall>d \<in> set sigs. genuine org (PDict d))
     \<and> (\<forall>role \<in> set roles. \<exists>d \<in> set sigs. dlookup d ''role'' = Some role)
     \<and> n \<le> int (card (actors sigs)))"

lemma roles_stated: "\<not> roles_unstated g \<longleftrightarrow> (\<exists>roles. required_roles g = Some (PList roles) \<and> roles \<noteq> [])"
  by (cases "required_roles g"; cases "the (required_roles g)")
    (auto simp: roles_unstated_def stated_def is_array_def counted_def)

definition approval_input :: "int \<Rightarrow> pydict list \<Rightarrow> pydict" where
  "approval_input r sigs = [(PStr ''action'', PStr ''grant_approval''), (PStr ''revision'', PInt r),
     (PStr ''signatures'', PList (map PDict sigs))]"

lemma approval_input_simps [simp]:
  "dlookup (approval_input r sigs) ''action'' = Some (PStr ''grant_approval'')"
  "dlookup (approval_input r sigs) ''signatures'' = Some (PList (map PDict sigs))"
  by (simp_all add: approval_input_def)

lemma signatures_split:
  "valid_signatures (Some (PDict org)) (Some (PDict (approval_input r sigs))) = map PDict (filter (\<lambda>d. genuine org (PDict d)) sigs)"
  "false_signatures (Some (PDict org)) (Some (PDict (approval_input r sigs))) = map PDict (filter (\<lambda>d. \<not> genuine org (PDict d)) sigs)"
proof -
  have "valid_signature (Some (PDict org)) = genuine org" by (rule ext) (rule valid_signature_iff)
  then show "valid_signatures (Some (PDict org)) (Some (PDict (approval_input r sigs))) = map PDict (filter (\<lambda>d. genuine org (PDict d)) sigs)"
    "false_signatures (Some (PDict org)) (Some (PDict (approval_input r sigs))) = map PDict (filter (\<lambda>d. \<not> genuine org (PDict d)) sigs)"
    by (simp_all add: valid_signatures_def false_signatures_def elements_def filter_map comp_def)
qed

lemma signer_number:
  assumes "\<forall>d \<in> set sigs. genuine org (PDict d)"
  shows "length (signers (Some (PDict org)) (Some (PDict (approval_input r sigs)))) = card (actors sigs)"
proof -
  let ?name = "\<lambda>d. str_of (the (dlookup d ''actor''))"
  have "filter (\<lambda>d. genuine org (PDict d)) sigs = sigs" using assms by simp
  then have "signers (Some (PDict org)) (Some (PDict (approval_input r sigs))) = remdups (map ?name sigs)"
    by (simp add: signers_def signatures_split comp_def)
  moreover have "?name ` set sigs = actors sigs"
  proof (intro equalityI subsetI)
    fix who assume "who \<in> ?name ` set sigs"
    then show "who \<in> actors sigs" using assms by (fastforce simp: genuine_def actors_def)
  next
    fix who assume "who \<in> actors sigs"
    then obtain d where "d \<in> set sigs" "dlookup d ''actor'' = Some (PStr who)" by (auto simp: actors_def)
    then show "who \<in> ?name ` set sigs" by (intro image_eqI [of _ _ d]) simp_all
  qed
  ultimately show ?thesis by (simp add: length_remdups_card_conv)
qed

lemma because_nonempty: "because fmt c rule sentence args = [] \<longleftrightarrow> \<not> c \<or> those args = None"
  by (simp add: because_def split: option.splits)

lemma chain_satisfied:
  assumes "g = Some (PDict org)" and "i = Some (PDict (approval_input r sigs))"
  shows "approval_chain_satisfied g i \<longleftrightarrow> chain_holds org sigs"
proof -
  have all: "false_signatures g i = [] \<longleftrightarrow> (\<forall>d \<in> set sigs. genuine org (PDict d))"
    using assms by (auto simp: signatures_split filter_empty_conv)
  have held: "list_ex (signs_as role) (valid_signatures g i) \<longleftrightarrow> (\<exists>d \<in> set sigs. dlookup d ''role'' = Some role)"
    if "\<forall>d \<in> set sigs. genuine org (PDict d)" for role
    using that assms by (auto simp: signatures_split list_ex_iff signs_as_def)
  have "is_array (at_key i ''signatures'')" using assms by (simp add: is_array_def)
  then have "approval_chain_satisfied g i \<longleftrightarrow> (\<exists>roles n. required_roles g = Some (PList roles) \<and> roles \<noteq> []
      \<and> asks_for (minimum g) n \<and> (\<forall>d \<in> set sigs. genuine org (PDict d))
      \<and> (\<forall>role \<in> set roles. list_ex (signs_as role) (valid_signatures g i))
      \<and> at_most (minimum g) (signer_count g i))"
    unfolding approval_chain_satisfied_def roles_stated minimum_stated all
    by (auto simp: collection_def elements_def list_all_iff)
  also have "\<dots> \<longleftrightarrow> chain_holds org sigs"
  proof (cases "\<forall>d \<in> set sigs. genuine org (PDict d)")
    case True
    have "at_most (minimum g) (signer_count g i) \<longleftrightarrow> n \<le> int (card (actors sigs))" if "asks_for (minimum g) n" for n
      using signer_count_compared(1) [OF that, of i] signer_number [OF True, of r] assms by simp
    then show ?thesis unfolding chain_holds_def assms(1) [symmetric] using held [OF True] by blast
  qed (auto simp: chain_holds_def)
  finally show ?thesis .
qed

lemma approval_denied:
  assumes "g = Some (PDict org)" and "i = Some (PDict (approval_input r sigs))" and "\<not> approval_chain_satisfied g i"
  shows "approval_denials fmt g i \<noteq> []"
proof
  assume "approval_denials fmt g i = []"
  then have none: "missing_roles g i = []" "\<not> minimum_unstated g" "\<not> roles_unstated g" "false_signatures g i = []"
    and count: "\<not> (is_number (minimum g) \<and> less_than (signer_count g i) (minimum g))"
    using assms(1,2) by (auto simp: approval_denials_def Let_def because_nonempty is_text_def is_array_def
        is_number_def signer_count_def split: option.splits)
  obtain n where n: "asks_for (minimum g) n" using none(2) by (auto simp: minimum_stated)
  then have "at_most (minimum g) (signer_count g i)"
    using count signer_count_compared [OF n] by (auto simp: asks_for_def)
  moreover have "list_all (\<lambda>role. list_ex (signs_as role) (valid_signatures g i)) (elements (required_roles g))"
    using none(1) by (simp add: missing_roles_def filter_empty_conv list_all_iff)
  moreover have "collection (required_roles g)" using none(3) by (auto simp: roles_stated collection_def)
  moreover have "is_array (at_key i ''signatures'')" using assms(2) by (simp add: is_array_def)
  ultimately show False using assms(3) none(2,3,4) by (simp add: approval_chain_satisfied_def)
qed

text \<open>C33. A revision is approved for publication exactly when the organisation has said whose signatures
  it needs and how many, a whole number of at least one, each signature is by a person of the
  organisation in the role they hold, every required role has signed, and enough different
  people have; and the check always gives a verdict.\<close>

theorem signatures_decide:
  assumes "runs_policy fmt S"
  shows "\<exists>v. check_approval S r sigs org = Inr v \<and> (v_ok v \<longleftrightarrow> chain_holds org sigs)"
proof -
  let ?g = "Some (PDict org)" and ?i = "Some (PDict (approval_input r sigs))"
  have "allow ?g ?i \<longleftrightarrow> chain_holds org sigs"
    using chain_satisfied [OF refl refl, of org r sigs]
    by (simp add: allow_def roles_for_def asked_act_def one_of_def is_text_def person_acts_def system_acts_def authoring_def)
  moreover have "denials fmt ?g ?i \<noteq> []" if "\<not> allow ?g ?i"
    using that approval_denied [OF refl refl, of org r sigs fmt] chain_satisfied [OF refl refl, of org r sigs] calculation
    by (simp add: denials_def)
  ultimately show ?thesis using policy_verdict [OF assms, of org "approval_input r sigs"]
    by (simp add: check_approval_def approval_input_def)
qed

section \<open>Acts on a course\<close>

text \<open>A course is for somebody, and for nobody the person was not granted.\<close>

definition writes_for :: "pydict \<Rightarrow> string \<Rightarrow> pyval list \<Rightarrow> bool" where
  "writes_for org who teams \<longleftrightarrow> teams \<noteq> [] \<and> (\<forall>team \<in> set teams.
     member team (at_key (at_key (at_key (Some (PDict org)) ''grants'') who) ''may_author_for''))"

definition fits_limit :: "pydict \<Rightarrow> int \<Rightarrow> bool" where
  "fits_limit org n \<longleftrightarrow> (\<exists>l. node_limit (Some (PDict org)) = Some l \<and> \<not> rego_less l (PInt n))"

text \<open>Who may do what: writing, a person's act on a course, an act of the system's own.\<close>

definition may_act :: "pydict \<Rightarrow> string \<Rightarrow> pydict \<Rightarrow> string \<Rightarrow> string \<Rightarrow> pyval list \<Rightarrow> int \<Rightarrow> string \<Rightarrow> bool" where
  "may_act org action actor who role teams n course_state \<longleftrightarrow>
     action \<in> set authoring \<and> role \<in> set may_author \<and> writes_for org who teams \<and> fits_limit org n
       \<and> (action = ''generate_node'' \<longrightarrow> course_state = ''ContentInProgress'')
     \<or> dlookup actor ''kind'' = Some (PStr ''person'') \<and> (\<exists>roles. map_of person_acts action = Some roles \<and> role \<in> set roles)
       \<and> writes_for org who teams
     \<or> dlookup actor ''kind'' = Some (PStr ''system'') \<and> action \<in> set system_acts"

definition act_input :: "string \<Rightarrow> pydict \<Rightarrow> pydict \<Rightarrow> string \<Rightarrow> pydict" where
  "act_input action actor brief course_state = [(PStr ''action'', PStr action), (PStr ''actor'', PDict actor),
     (PStr ''brief'', PDict brief), (PStr ''course_state'', PStr course_state)]"

lemma act_input_simps [simp]:
  "dlookup (act_input a actor brief c) ''action'' = Some (PStr a)"
  "dlookup (act_input a actor brief c) ''actor'' = Some (PDict actor)"
  "dlookup (act_input a actor brief c) ''brief'' = Some (PDict brief)"
  "dlookup (act_input a actor brief c) ''course_state'' = Some (PStr c)"
  "dlookup (act_input a actor brief c) ''signatures'' = None"
  by (simp_all add: act_input_def)

lemma one_of_text [simp]: "one_of (Some (PStr s)) names \<longleftrightarrow> s \<in> set names"
  by (simp add: one_of_def)

lemma acts_apart:
  "a \<in> set authoring \<Longrightarrow> map_of person_acts a = None \<and> a \<notin> set system_acts"
  "a \<in> set system_acts \<Longrightarrow> map_of person_acts a = None"
  "map_of person_acts ''grant_approval'' = None" "''grant_approval'' \<notin> set authoring" "''grant_approval'' \<notin> set system_acts"
  by (auto simp: authoring_def person_acts_def system_acts_def)

lemma known_act_iff: "a \<in> set known_acts \<longleftrightarrow> a \<in> set authoring \<or> map_of person_acts a \<noteq> None \<or> a \<in> set system_acts
    \<or> a = ''grant_approval''"
  by (auto simp: known_acts_def map_of_eq_None_iff)

section \<open>Policy on typed input\<close>

lemma act_facts:
  assumes "g = Some (PDict org)" and "i = Some (PDict (act_input action actor brief course_state))"
    and "dlookup actor ''id'' = Some (PStr who)" and "dlookup actor ''role'' = Some (PStr role)"
    and "dlookup brief ''audience'' = Some (PList teams)" and "dlookup brief ''node_count'' = Some (PInt n)"
  shows "asked_act i = Some (PStr action)" "doer i k = dlookup actor k" "roles_for i = map_of person_acts action"
    "audience_permitted g i \<longleftrightarrow> writes_for org who teams"
    "within_limits g i \<longleftrightarrow> fits_limit org n"
    "state_permits i \<longleftrightarrow> (action = ''generate_node'' \<longrightarrow> course_state = ''ContentInProgress'')"
    "\<not> approval_chain_satisfied g i"
  using assms by (auto simp: asked_act_def doer_def roles_for_def audience_permitted_def audience_def counted_def collection_def
      elements_def writes_for_def granted_def at_value_def list_all_iff within_limits_def at_most_def asked_nodes_def
      fits_limit_def state_permits_def is_text_def approval_chain_satisfied_def is_array_def split: option.splits)

lemma act_allowed:
  assumes "g = Some (PDict org)" and "i = Some (PDict (act_input action actor brief course_state))"
    and "dlookup actor ''id'' = Some (PStr who)" and "dlookup actor ''role'' = Some (PStr role)"
    and "dlookup brief ''audience'' = Some (PList teams)" and "dlookup brief ''node_count'' = Some (PInt n)"
  shows "allow g i \<longleftrightarrow> may_act org action actor who role teams n course_state"
  using act_facts [OF assms] assms(4)
  by (auto simp: allow_def may_act_def is_text_def split: option.splits)

lemma granted_teams:
  assumes "granted_or_none g i \<noteq> None" and "ungranted g i = []"
  shows "list_all (\<lambda>team. member team (granted g i)) (elements (audience i))"
proof -
  have "granted_or_none g i = (case granted g i of None \<Rightarrow> Some (PList []) | Some v \<Rightarrow> Some v)"
    using assms(1) by (auto simp: granted_or_none_def split: if_splits option.splits)
  then have "member team (granted_or_none g i) \<longleftrightarrow> member team (granted g i)" for team
    by (auto simp: member_def elements_def split: option.splits)
  then show ?thesis using assms(2) by (simp add: ungranted_def filter_empty_conv list_all_iff)
qed

lemma act_denied:
  assumes "g = Some (PDict org)" and "i = Some (PDict (act_input action actor brief course_state))"
    and "dlookup actor ''id'' = Some (PStr who)" and "dlookup actor ''role'' = Some (PStr role)"
    and "dlookup brief ''audience'' = Some (PList teams)" and "dlookup brief ''node_count'' = Some (PInt n)"
    and "dhas org ''grants''" and "\<not> allow g i"
  shows "denials fmt g i \<noteq> []"
proof
  assume "denials fmt g i = []"
  then have acts: "act_denials fmt g i = []" and approvals: "approval_denials fmt g i = []" by (simp_all add: denials_def)
  note facts = act_facts [OF assms(1-6)]
  have said: "granted_or_none g i \<noteq> None" using assms(1,3,7) facts(2) by (simp add: granted_or_none_def dhas_def)
  have person: "roles_for i \<noteq> None \<Longrightarrow> is_text (doer i ''kind'') ''person''"
    and role_known: "roles_for i = Some roles \<Longrightarrow> one_of (doer i ''role'') roles"
    and system: "one_of (asked_act i) system_acts \<Longrightarrow> is_text (doer i ''kind'') ''system''"
    and writer: "one_of (asked_act i) authoring \<Longrightarrow> one_of (doer i ''role'') may_author"
    and known: "one_of (asked_act i) known_acts" for roles
    using acts facts(1,2) assms(3,4) by (auto simp: act_denials_def Let_def because_nonempty)
  have audience: "audience_question i \<Longrightarrow> audience_permitted g i"
  proof (rule ccontr)
    assume asked: "audience_question i" and no: "\<not> audience_permitted g i"
    then have "ungranted g i = []" "\<not> audience_empty i"
      using acts said facts(2) assms(3) by (auto simp: act_denials_def Let_def because_nonempty)
    then show False using no granted_teams [OF said] assms(2,5)
      by (auto simp: audience_permitted_def audience_def counted_def collection_def audience_empty_def elements_def)
  qed
  have limits: "one_of (asked_act i) authoring \<Longrightarrow> within_limits g i"
    using acts assms(2,6) by (auto simp: act_denials_def Let_def because_nonempty within_limits_def at_most_def
        less_than_def asked_nodes_def stated_def split: option.splits)
  have state: "state_permits i"
    using acts facts(1,6) assms(2) by (auto simp: act_denials_def Let_def because_nonempty is_text_def)
  have "action \<noteq> ''grant_approval''"
    using approvals assms(2) by (auto simp: approval_denials_def Let_def because_nonempty is_text_def
        signatures_malformed_def stated_def)
  then consider "action \<in> set authoring" | roles where "map_of person_acts action = Some roles" | "action \<in> set system_acts"
    using known facts(1) by (auto simp: known_act_iff)
  then show False
  proof cases
    case 1
    then have "audience_question i" using facts(1) by (simp add: audience_question_def)
    then show ?thesis using 1 facts(1) writer limits state audience assms(8) by (simp add: allow_def)
  next
    case 2
    then have "audience_question i" using facts(3) person by (simp add: audience_question_def)
    then show ?thesis using 2 facts(3) person role_known audience assms(8) by (simp add: allow_def)
  next
    case 3 then show ?thesis using facts(1) system assms(8) by (simp add: allow_def)
  qed
qed

text \<open>C34. Asked about an act by somebody with an id and a role, on a brief with a list of teams and a
  number of nodes, the policy check always gives a verdict, and allows exactly who may do it: those
  who may author write for teams they were granted, within the organisation's limit and, for a node,
  while content is in progress; a person acts on a course in a role the act needs; the system's own
  acts are the system's.  A refusal always has a rule to name.\<close>

theorem policy_decides_acts:
  assumes "runs_policy fmt S" and "dhas org ''grants''"
    and "dlookup actor ''id'' = Some (PStr who)" and "dlookup actor ''role'' = Some (PStr role)"
    and "dlookup brief ''audience'' = Some (PList teams)" and "dlookup brief ''node_count'' = Some (PInt n)"
  shows "\<exists>v. check_policy S action actor brief course_state org = Inr v
    \<and> (v_ok v \<longleftrightarrow> may_act org action actor who role teams n course_state)"
  using policy_verdict [OF assms(1), of org "act_input action actor brief course_state"]
    act_allowed [OF refl refl assms(3-6), of org action course_state]
    act_denied [OF refl refl assms(3-6,2), of action course_state fmt]
  by (auto simp: check_policy_def act_input_def)

section \<open>Witnesses\<close>

text \<open>An OPA that runs the policy.\<close>

definition small_opa :: opa_port where
  "small_opa = \<lparr>op_found = True, op_run = (\<lambda>query input data.
     let g = at_key (Some (PDict data)) ''org''; i = Some (PDict input) in
     answered (if query = ''data.course.policy.allow'' then PBool (allow g i) else PList (denials (\<lambda>_. []) g i)))\<rparr>"

lemma small_opa_runs: "runs_policy (\<lambda>_. []) small_opa"
  by (auto simp: runs_policy_def small_opa_def Let_def)

definition small_org :: pydict where
  "small_org = [(PStr ''people'', PDict [(PStr ''ana'', PDict [(PStr ''role'', PStr ''training-administrator'')])]),
     (PStr ''grants'', PDict [(PStr ''ana'', PDict [(PStr ''may_author_for'', strs [''nurses''])])]),
     (PStr ''thresholds'', PDict [(PStr ''max_nodes_per_course'', PInt 30)]),
     (PStr ''approval'', PDict [(PStr ''required_roles'', strs [''training-administrator'']),
        (PStr ''minimum_signatures'', PInt 1)])]"

definition by_ana :: pydict where
  "by_ana = [(PStr ''actor'', PStr ''ana''), (PStr ''role'', PStr ''training-administrator'')]"

definition forged :: pydict where
  "forged = [(PStr ''actor'', PStr ''bob''), (PStr ''role'', PStr ''training-administrator'')]"

lemma signatures_decide_witness:
  "(\<exists>v. check_approval small_opa 1 [by_ana] small_org = Inr v \<and> v_ok v)
    \<and> (\<exists>v. check_approval small_opa 1 [by_ana, forged] small_org = Inr v \<and> \<not> v_ok v)"
proof -
  have "asks_for (minimum (Some (PDict small_org))) 1" by code_simp
  moreover have "required_roles (Some (PDict small_org)) = Some (PList [PStr ''training-administrator''])" by code_simp
  moreover have "actors [by_ana] = {''ana''}" by (auto simp: actors_def by_ana_def)
  moreover have "valid_signature (Some (PDict small_org)) (PDict by_ana)"
    "\<not> valid_signature (Some (PDict small_org)) (PDict forged)" by code_simp+
  then have "genuine small_org (PDict by_ana)" "\<not> genuine small_org (PDict forged)"
    unfolding valid_signature_iff .
  moreover have "dlookup by_ana ''role'' = Some (PStr ''training-administrator'')" by code_simp
  ultimately have "chain_holds small_org [by_ana]" "\<not> chain_holds small_org [by_ana, forged]"
    by (auto simp: chain_holds_def intro!: exI [of _ "1::int"])
  then show ?thesis
    using signatures_decide [OF small_opa_runs, of 1 "[by_ana]" small_org]
      signatures_decide [OF small_opa_runs, of 1 "[by_ana, forged]" small_org] by blast
qed

lemma policy_decides_acts_witness:
  "\<exists>v. check_policy small_opa ''publish_revision''
      [(PStr ''id'', PStr ''ana''), (PStr ''role'', PStr ''training-administrator''), (PStr ''kind'', PStr ''person'')]
      [(PStr ''audience'', strs [''nurses'']), (PStr ''node_count'', PInt 4)] ''PendingApproval'' small_org = Inr v \<and> v_ok v"
proof -
  let ?ana = "[(PStr ''id'', PStr ''ana''), (PStr ''role'', PStr ''training-administrator''), (PStr ''kind'', PStr ''person'')]"
  let ?brief = "[(PStr ''audience'', PList [PStr ''nurses'']), (PStr ''node_count'', PInt 4)]"
  have "writes_for small_org ''ana'' [PStr ''nurses'']"
    by (simp add: writes_for_def small_org_def member_def elements_def strs_def)
  then have "may_act small_org ''publish_revision'' ?ana ''ana'' ''training-administrator'' [PStr ''nurses''] 4 ''PendingApproval''"
    by (simp add: may_act_def person_acts_def)
  moreover have "dhas small_org ''grants''" by code_simp
  ultimately show ?thesis
    using policy_decides_acts [OF small_opa_runs, of small_org ?ana "''ana''" "''training-administrator''" ?brief
        "[PStr ''nurses'']" 4 "''publish_revision''" "''PendingApproval''"] by (simp add: strs_def)
qed

end
