(* ===== verification/Fuel.thy ===== *)
theory Fuel
  imports Sample
begin

text \<open>
  Firing an event is a recursion on a bound, Python's recursion limit.  A bound that is enough
  for one run gives the result every larger bound gives: what the machine does never depends on
  how deep it may go, only whether it ends.
\<close>

section \<open>A computation that ends where another may not\<close>

definition finer :: "('s, exn, 'a) comp \<Rightarrow> ('s, exn, 'a) comp \<Rightarrow> bool" where
  "finer m m' \<longleftrightarrow> (\<forall>s. fst (m s) = Inl RecursionLimit \<or> m s = m' s)"

lemma finerD: "finer m m' \<Longrightarrow> fst (m s) \<noteq> Inl RecursionLimit \<Longrightarrow> m s = m' s"
  by (auto simp: finer_def)

lemma finer_refl: "finer m m"
  by (simp add: finer_def)

lemma finer_trans: "finer m m' \<Longrightarrow> finer m' m'' \<Longrightarrow> finer m m''"
  unfolding finer_def by metis

lemma finer_andthen:
  assumes "finer m m'" and "\<And>x. finer (f x) (f' x)"
  shows "finer (andthen m f) (andthen m' f')"
  unfolding finer_def
proof
  fix s
  show "fst (andthen m f s) = Inl RecursionLimit \<or> andthen m f s = andthen m' f' s"
  proof (cases "fst (m s) = Inl RecursionLimit")
    case True then show ?thesis by (auto simp: andthen_def split: prod.splits sum.splits)
  next
    case False
    then have "m' s = m s" using finerD [OF assms(1)] by simp
    then show ?thesis using assms(2) by (auto simp: andthen_def finer_def split: prod.splits sum.splits)
  qed
qed

lemma finer_if: "finer a a' \<Longrightarrow> finer b b' \<Longrightarrow> finer (if c then a else b) (if c then a' else b')"
  by simp

lemma finer_case_option:
  "finer a a' \<Longrightarrow> (\<And>y. finer (f y) (f' y)) \<Longrightarrow>
     finer (case x of None \<Rightarrow> a | Some y \<Rightarrow> f y) (case x of None \<Rightarrow> a' | Some y \<Rightarrow> f' y)"
  by (cases x) simp_all

lemma finer_block: "list_all2 finer ms ms' \<Longrightarrow> finer (block ms) (block ms')"
  by (induction rule: list_all2_induct) (auto intro: finer_refl finer_andthen)

lemmas finer_intros = finer_refl finer_andthen finer_if finer_case_option

section \<open>Settling and firing\<close>

text \<open>One firing that ends where another may not.\<close>

definition finer_fire :: "firing \<Rightarrow> firing \<Rightarrow> bool" where
  "finer_fire f g \<longleftrightarrow> (\<forall>e kv producer. finer (f e kv producer) (g e kv producer))"

lemma finer_fireD: "finer_fire f g \<Longrightarrow> finer (f e kv producer) (g e kv producer)"
  by (simp add: finer_fire_def)

lemma finer_after_auto: "finer_fire f g \<Longrightarrow> finer (after_auto E f x prior taken) (after_auto E g x prior taken)"
  unfolding after_auto_def by (intro finer_intros finer_fireD)

lemma finer_auto: "finer_fire f g \<Longrightarrow> finer (auto E f x) (auto E g x)"
  unfolding auto_def by (intro finer_intros finer_fireD finer_after_auto)

lemma finer_settle_nodes: "finer_fire f g \<Longrightarrow> finer (settle_nodes E f r is) (settle_nodes E g r is)"
  by (induction "is") (auto intro!: finer_intros finer_auto simp del: if_split)

lemma finer_move_pointer: "finer_fire f g \<Longrightarrow> finer (move_pointer f r rv) (move_pointer g r rv)"
  unfolding move_pointer_def by (intro finer_intros finer_fireD)

lemma finer_settle_revisions: "finer_fire f g \<Longrightarrow> finer (settle_revisions E f rs) (settle_revisions E g rs)"
  by (induction rs) (auto intro!: finer_intros finer_auto finer_settle_nodes finer_move_pointer simp del: if_split)

lemma finer_settle_upto: "finer_fire f g \<Longrightarrow> finer (settle_upto k E f) (settle_upto k E g)"
  by (induction k) (auto simp: settle_once_def simp del: if_split intro!: finer_intros finer_settle_revisions)

lemma finer_conclude:
  "finer_fire f g \<Longrightarrow> finer (conclude E f e p producer revs rested a) (conclude E g e p producer revs rested a)"
  unfolding conclude_def settle_def
  by (intro finer_block list_all2_Cons [THEN iffD2] conjI list_all2_Nil [THEN iffD2] finer_refl finer_settle_upto) simp_all

lemma finer_inner: "finer_fire f g \<Longrightarrow> finer_fire (fire_inner E f) (fire_inner E g)"
  unfolding finer_fire_def [of "fire_inner E f"] fire_inner_def fire_body_def carry_out_def
  by (intro allI finer_intros finer_conclude)

lemma finer_with:
  assumes "finer_fire f g"
  shows "finer_fire (fire_with E f) (fire_with E g)"
  unfolding finer_fire_def finer_def
proof (intro allI)
  fix e kv producer m
  have inner: "fst (fire_inner E f e kv producer s) = Inl RecursionLimit \<or>
      fire_inner E f e kv producer s = fire_inner E g e kv producer s" for s
    using finer_inner [OF assms, of E] by (simp add: finer_fire_def finer_def)
  show "fst (fire_with E f e kv producer m) = Inl RecursionLimit \<or>
      fire_with E f e kv producer m = fire_with E g e kv producer m"
    using inner [of m] inner [of "deeper m"] by (auto simp: fire_with_def split: prod.splits sum.splits)
qed

lemma finer_step: "finer_fire (fire_upto k E) (fire_upto (Suc k) E)"
proof (induction k)
  case 0 then show ?case by (simp add: finer_fire_def finer_def raise_def)
next
  case (Suc k) then show ?case using finer_with [OF Suc] by simp
qed

lemma finer_upto: "k \<le> k' \<Longrightarrow> finer_fire (fire_upto k E) (fire_upto k' E)"
proof (induction k' rule: dec_induct)
  case base then show ?case by (simp add: finer_fire_def finer_refl)
next
  case (step n) then show ?case using finer_step unfolding finer_fire_def by (blast intro: finer_trans)
qed



end
