(* ===== verification/Guard_Parser.thy ===== *)
theory Guard_Parser
  imports Vocabulary Texts
begin

text \<open>
  The guard column read as expressions (\<open>machine/guard_expressions.py\<close>).  What cannot be placed
  is a refusal, here \<open>None\<close>; the messages are left out.  The regular expressions are written
  out over texts without line breaks: a word, then an argument list, then a comparison.
\<close>

section \<open>The glossary\<close>

text \<open>\<open>model/guards.yaml\<close>, in order: each name with the constructor that stands for it.\<close>

definition guard_entries :: "(string \<times> gname) list" where
  "guard_entries = [
     (''schema_valid(artifact)'', G_schema_valid),
     (''policy_allows(action, role, state)'', G_policy_allows),
     (''guardrail_clean(artifact)'', G_guardrail_clean),
     (''feasible(brief)'', G_feasible),
     (''skills_grounded(outline)'', G_skills_grounded),
     (''grounded(node)'', G_grounded),
     (''references_live(node)'', G_references_live),
     (''no_permission_leak(scope)'', G_no_permission_leak),
     (''ordering_acyclic(course)'', G_ordering_acyclic),
     (''objectives_covered(scope)'', G_objectives_covered),
     (''content_approved(topics(exam))'', G_content_approved),
     (''depends_on(node, edited)'', G_depends_on),
     (''trace_satisfies_ltl(course)'', G_trace_satisfies_ltl),
     (''block_schemas_valid(node)'', G_block_schemas_valid),
     (''hand_edited(node)'', G_hand_edited),
     (''all_visuals_reviewed(node)'', G_all_visuals_reviewed),
     (''course_state(revision)'', G_course_state),
     (''outline_version(revision)'', G_outline_version),
     (''has_nodes(revision)'', G_has_nodes),
     (''has_outline(revision)'', G_has_outline),
     (''reason_given(action)'', G_reason_given),
     (''arithmetic_consistent(node)'', G_arithmetic_consistent),
     (''notice_approved(recipient_set)'', G_notice_approved),
     (''lost_live_pointer(revision)'', G_lost_live_pointer),
     (''blocked_at(revision)'', G_blocked_at),
     (''in_outline(node, committed_outline)'', G_in_outline),
     (''all_nodes_approved(revision)'', G_all_nodes_approved),
     (''no_stale_nodes(revision)'', G_no_stale_nodes),
     (''recovery_from(node)'', G_recovery_from),
     (''retry_budget_left(scope)'', G_retry_budget_left),
     (''waiting_for_topics(node)'', G_waiting_for_topics),
     (''idempotency_key_unused(operation)'', G_idempotency_key_unused),
     (''versions_current(artifact)'', G_versions_current),
     (''in_live_lineage(revision)'', G_in_live_lineage),
     (''no_open_draft(course)'', G_no_open_draft),
     (''is_draft_revision(revision)'', G_is_draft_revision),
     (''differs_from_live(revision)'', G_differs_from_live),
     (''affected(revision)'', G_affected),
     (''has_active_readers(revision)'', G_has_active_readers),
     (''rollback_requested(revision)'', G_rollback_requested),
     (''approval_chain_satisfied(revision)'', G_approval_chain_satisfied)]"

text \<open>\<open>glossary()\<close>: by bare name; two entries with one bare name are refused.\<close>

type_synonym glossary_index = "(string \<times> gname) list"

fun add_entries :: "(string \<times> gname) list \<Rightarrow> glossary_index \<Rightarrow> glossary_index option" where
  "add_entries [] ix = Some ix"
| "add_entries ((name, g) # es) ix = (let bare = takeWhile (\<lambda>c. c \<noteq> CHR ''('') name in
     if map_of ix bare \<noteq> None then None else add_entries es (ix @ [(bare, g)]))"

definition glossary :: "glossary_index option" where
  "glossary = add_entries guard_entries []"

section \<open>Phrases\<close>

definition not_guards :: "string list" where
  "not_guards = [''constraint violated'', ''any of the above fails'']"

definition qualifiers :: "(string \<times> string) list" where
  "qualifiers = [(''under current versions'', ''current_versions'')]"

section \<open>Terms\<close>

text \<open>\<open>_split_top\<close>: at the and-sign, outside parentheses; empty parts are dropped.\<close>

fun split_top_from :: "int \<Rightarrow> string \<Rightarrow> string \<Rightarrow> string list" where
  "split_top_from depth current [] = [stripped current]"
| "split_top_from depth current (c # s) =
     (let d = depth + (if c = CHR ''('' then 1 else 0) - (if c = CHR '')'' then 1 else 0) in
      if c = and_sign \<and> d = 0 then stripped current # split_top_from d [] s
      else split_top_from d (current @ [c]) s)"

definition split_top :: "string \<Rightarrow> string list" where
  "split_top s = filter (\<lambda>p. p \<noteq> []) (split_top_from 0 [] s)"

text \<open>A word at the start, and what follows it.\<close>

definition leading_word :: "string \<Rightarrow> (string \<times> string) option" where
  "leading_word s = (let w = takeWhile word_char s in
     if w = [] then None else Some (w, drop (length w) s))"

text \<open>\<open>_COMPARE\<close>: word, perhaps an argument list without a closing parenthesis in it, sign, rest.\<close>

definition compare_sign :: "string \<Rightarrow> (bool \<times> string) option" where
  "compare_sign s = (case dropWhile space s of
       c # v \<Rightarrow> (if c \<in> {CHR ''='', notin_sign} \<and> v \<noteq> [] then Some (c = notin_sign, v) else None)
     | [] \<Rightarrow> None)"

definition match_compare :: "string \<Rightarrow> (string \<times> string option \<times> bool \<times> string) option" where
  "match_compare s = (case leading_word s of
       None \<Rightarrow> None
     | Some (w, r) \<Rightarrow>
         (let inner = takeWhile (\<lambda>c. c \<noteq> CHR '')'') (tl r); beyond = drop (length inner) (tl r) in
          if r \<noteq> [] \<and> hd r = CHR ''('' \<and> beyond \<noteq> []
          then map_option (\<lambda>(notin, v). (w, Some inner, notin, v)) (compare_sign (tl beyond))
          else map_option (\<lambda>(notin, v). (w, None, notin, v)) (compare_sign r)))"

text \<open>\<open>_ATOM\<close>: word, perhaps everything up to a last closing parenthesis.\<close>

definition match_atom :: "string \<Rightarrow> (string \<times> string option) option" where
  "match_atom s = (case leading_word s of
       None \<Rightarrow> None
     | Some (w, r) \<Rightarrow>
         (if r = [] then Some (w, None)
          else if hd r = CHR ''('' \<and> 2 \<le> length r \<and> last r = CHR '')'' then Some (w, Some (butlast (tl r)))
          else None))"

definition match_state :: "string \<Rightarrow> bool" where
  "match_state s \<longleftrightarrow> 2 \<le> length s \<and> upper_case (hd s) \<and> list_all letter (tl s)"

text \<open>The signs of an argument are spelled out, as in \<open>Spec_Tables\<close>.\<close>

definition spelled :: "string \<Rightarrow> string" where
  "spelled s = concat (map (\<lambda>c. if c = and_sign then ''and'' else if c = or_sign then ''or'' else [c]) s)"

definition tagged :: "string \<Rightarrow> string \<times> string option" where
  "tagged s = fold (\<lambda>(phrase, tag) (t, q). if ends_with ('' '' @ phrase) t
     then (stripped (without_end phrase t), Some tag) else (t, q)) qualifiers (s, None)"

definition names_in :: "string \<Rightarrow> string list" where
  "names_in v = map stripped (split_on [CHR '',''] (strip_chars [CHR ''{'', CHR ''}''] v))"

definition literal_for :: "glossary_index \<Rightarrow> string list \<Rightarrow> string \<Rightarrow> literal option" where
  "literal_for ix node_states raw =
     (let negated = starts_with [not_sign] raw;
          (t, q) = tagged (stripped (dropWhile (\<lambda>c. c = not_sign) raw)) in
      if match_state t
      then (if t \<in> set node_states
            then Some \<lparr>l_name = G_node_state, l_negated = negated, l_arg = None,
              l_compare = Some (Equals t), l_qualifier = None\<rparr> else None)
      else case match_compare t of
        Some (bare, arg, notin, v) \<Rightarrow> map_option (\<lambda>g. \<lparr>l_name = g, l_negated = negated,
            l_arg = map_option spelled arg,
            l_compare = Some (if notin then NotIn (names_in (stripped v)) else Equals (stripped v)),
            l_qualifier = q\<rparr>) (map_of ix bare)
      | None \<Rightarrow> (case match_atom t of
          Some (bare, arg) \<Rightarrow> map_option (\<lambda>g. \<lparr>l_name = g, l_negated = negated,
            l_arg = map_option spelled arg, l_compare = None, l_qualifier = q\<rparr>) (map_of ix bare)
        | None \<Rightarrow> None))"

section \<open>Guards\<close>

fun literals_for :: "glossary_index \<Rightarrow> string list \<Rightarrow> string list \<Rightarrow> literal list option" where
  "literals_for ix node_states [] = Some []"
| "literals_for ix node_states (t # ts) =
     (if t \<in> set not_guards then literals_for ix node_states ts
      else case literal_for ix node_states t of
        None \<Rightarrow> None
      | Some l \<Rightarrow> map_option ((#) l) (literals_for ix node_states ts))"

definition some_node_phrase :: string where
  "some_node_phrase = exists_sign # '' node:''"

definition parse_guard :: "glossary_index \<Rightarrow> string list \<Rightarrow> string \<Rightarrow> guard option" where
  "parse_guard ix node_states raw =
     (let t = stripped (cut_at ('' '' @ [dash_sign] @ '' '') raw) in
      if t \<in> {[], [dash_sign]} then Some \<lparr>g_literals = [], g_exists_node = False, g_complement = False\<rparr>
      else if t = ''any of the above fails''
      then Some \<lparr>g_literals = [], g_exists_node = False, g_complement = True\<rparr>
      else let some = starts_with some_node_phrase t;
               body = (if some then stripped (drop (length some_node_phrase) t) else t)
           in map_option (\<lambda>ls. \<lparr>g_literals = ls, g_exists_node = some, g_complement = False\<rparr>)
                (literals_for ix node_states (split_top body)))"

end
