(* ===== verification/Table_Loader.thy ===== *)
theory Table_Loader
  imports Guard_Parser Spec_Tables
begin

text \<open>
  The transition tables as \<open>model/transitions.yaml\<close> writes them, and \<open>load\<close> of
  \<open>machine/transition_table.py\<close>: each row parsed, every name in it looked up, and a table with
  any problem refused.  \<open>typed_row\<close> reads the names of a loaded row as the constructors of
  \<open>Vocabulary\<close>.
\<close>

section \<open>The file\<close>

record raw_row =
  raw_event :: string
  raw_from :: "string list"
  raw_from_expression :: "string option"
  raw_guard :: string
  raw_to :: "string list"
  raw_to_expression :: "string option"
  raw_to_note :: "string option"
  raw_other_object :: bool

definition cells_row :: "string \<Rightarrow> string list \<Rightarrow> string \<Rightarrow> string list \<Rightarrow> raw_row" where
  "cells_row e ss g ts = \<lparr>raw_event = e, raw_from = ss, raw_from_expression = None, raw_guard = g,
     raw_to = ts, raw_to_expression = None, raw_to_note = None, raw_other_object = False\<rparr>"

definition from_expression :: "string \<Rightarrow> raw_row \<Rightarrow> raw_row" where
  "from_expression x r = r\<lparr>raw_from_expression := Some x\<rparr>"

definition to_expression :: "string \<Rightarrow> raw_row \<Rightarrow> raw_row" where
  "to_expression x r = r\<lparr>raw_to_expression := Some x\<rparr>"

definition to_note :: "string \<Rightarrow> raw_row \<Rightarrow> raw_row" where
  "to_note x r = r\<lparr>raw_to_note := Some x\<rparr>"

definition to_other_object :: "raw_row \<Rightarrow> raw_row" where
  "to_other_object r = r\<lparr>raw_other_object := True\<rparr>"

definition raw_revision_rows :: "raw_row list" where
  "raw_revision_rows = [
     cells_row ''BriefSubmitted'' [''AwaitingBrief''] [dash_sign] [''BriefValidation''],
     cells_row ''(auto)'' [''BriefValidation''] ([not_sign] @ ''schema_valid(brief)'')
       [''BlockedRecoverable''],
     cells_row ''(auto)'' [''BriefValidation''] (''schema_valid '' @ [and_sign] @ '' '' @
       [not_sign] @ ''policy_allows(author, audience)'') [''BlockedFinal''],
     cells_row ''GuardrailVerdict(deny)'' [''BriefValidation''] (''schema_valid '' @ [and_sign] @
       '' policy_allows '' @ [and_sign] @ '' '' @ [not_sign] @ ''guardrail_clean(brief)'')
       [''BlockedFinal''],
     cells_row ''GuardrailVerdict(allow)'' [''BriefValidation''] (''schema_valid '' @ [and_sign] @
       '' policy_allows'') [''BriefFeasibility''],
     cells_row (''Timeout '' @ [dot_sign] @ '' ServiceUnreachable'') [''BriefValidation'']
       [dash_sign] [''ErrorRecovery''],
     cells_row ''(auto)'' [''BriefFeasibility''] ''feasible(brief)'' [''OutlineDrafting''],
     cells_row ''(auto)'' [''BriefFeasibility''] ([not_sign] @ ''feasible(brief) '' @ [dash_sign] @
       '' unsat core'') [''BlockedRecoverable''],
     cells_row ''OutlineRevised'' [''ContentInProgress'', ''BlockedRecoverable'']
       (''is_draft_revision '' @ [and_sign] @ '' has_outline(revision)'') [''OutlineChecks''],
     cells_row ''BriefSubmitted'' [''BlockedRecoverable''] ''blocked_at = brief''
       [''BriefValidation''],
     cells_row ''BlockedInputFixed'' [''BlockedRecoverable''] (''blocked_at = outline '' @
       [and_sign] @ '' '' @ [not_sign] @ ''has_outline(revision)'') [''OutlineDrafting''],
     to_expression ''the state that blocked'' (cells_row ''BlockedInputFixed''
       [''BlockedRecoverable''] (''blocked_at '' @ [notin_sign] @ '' {brief, outline}'') []),
     cells_row ''OutlineGenerated'' [''OutlineDrafting''] [dash_sign] [''OutlineGuardrail''],
     cells_row (''Timeout '' @ [dot_sign] @ '' ModelError'') [''OutlineDrafting''] [dash_sign]
       [''ErrorRecovery''],
     cells_row (''Timeout '' @ [dot_sign] @ '' ServiceUnreachable'') [''OutlineGuardrail'']
       [dash_sign] [''ErrorRecovery''],
     cells_row ''GuardrailVerdict(allow)'' [''OutlineGuardrail''] ''guardrail_clean(outline)''
       [''OutlineChecks''],
     cells_row ''GuardrailVerdict(deny)'' [''OutlineGuardrail''] ([not_sign] @
       ''guardrail_clean(outline)'') [''OutlineRepair''],
     cells_row ''(auto)'' [''OutlineChecks''] (''schema_valid '' @ [and_sign] @
       '' skills_grounded '' @ [and_sign] @ '' policy_allows '' @ [and_sign] @ '' feasible'')
       [''OutlineReview''],
     cells_row (''CheckFailed(opa, '' @ [dots_sign] @ '')'') [''OutlineChecks''] ([not_sign] @
       ''policy_allows(structure)'') [''BlockedFinal''],
     cells_row (''CheckFailed(datalog '' @ [dot_sign] @ '' z3 '' @ [dot_sign] @ '' schema)'')
       [''OutlineChecks''] (''policy_allows '' @ [and_sign] @ '' constraint violated'')
       [''OutlineRepair''],
     cells_row ''(auto)'' [''OutlineRepair''] (''retry_budget_left(revision) '' @ [and_sign] @
       '' '' @ [not_sign] @ ''has_nodes(revision)'') [''OutlineDrafting''],
     cells_row ''(auto)'' [''OutlineRepair''] ''has_nodes(revision)'' [''BlockedRecoverable''],
     cells_row ''(auto)'' [''OutlineRepair''] ([not_sign] @ ''retry_budget_left(revision) '' @
       [and_sign] @ '' '' @ [not_sign] @ ''has_nodes(revision)'') [''BlockedRecoverable''],
     cells_row ''OutlineRejected'' [''OutlineReview''] (''reason_given '' @ [and_sign] @ '' '' @
       [not_sign] @ ''has_nodes(revision)'') [''OutlineDrafting''],
     to_note ''proposal discarded; outline_version unchanged'' (cells_row ''OutlineRejected''
       [''OutlineReview''] (''reason_given '' @ [and_sign] @ '' has_nodes(revision)'')
       [''ContentInProgress'']),
     cells_row ''OutlineRevised'' [''OutlineReview''] (''is_draft_revision '' @ [and_sign] @
       '' has_outline(revision)'') [''OutlineChecks''],
     to_note ''outline_version +1'' (cells_row ''OutlineApproved'' [''OutlineReview''] [dash_sign]
       [''ContentInProgress'']),
     cells_row ''(node -> BlockedFinal)'' [''ContentInProgress''] ([exists_sign] @
       '' node: BlockedFinal'') [''BlockedRecoverable''],
     to_note ''blocked_at = node'' (cells_row ''(node -> NodeRecovery)'' [''ContentInProgress'']
       ([exists_sign] @ '' node: NodeRecovery '' @ [and_sign] @ '' '' @ [not_sign] @
       ''retry_budget_left(node)'') [''BlockedRecoverable'']),
     cells_row ''(node state changed)'' [''ContentInProgress''] (''all_nodes_approved '' @
       [and_sign] @ '' no_stale_nodes '' @ [and_sign] @ '' differs_from_live'')
       [''ReadyForReview''],
     cells_row ''NodeEdited(any)'' [''ReadyForReview''] ''is_draft_revision''
       [''ContentInProgress''],
     cells_row ''NodeEdited(any)'' [''WholeCourseChecks'', ''PendingApproval'', ''Approved'']
       ''is_draft_revision'' [''ContentInProgress''],
     cells_row (''PolicyChanged '' @ [dot_sign] @ '' GuardrailChanged '' @ [dot_sign] @
       '' CatalogChanged '' @ [dot_sign] @ '' KBUpdated'') [''ReadyForReview'',
       ''WholeCourseChecks'', ''PendingApproval'', ''Approved''] (''is_draft_revision '' @
       [and_sign] @ '' '' @ [not_sign] @ ''versions_current(revision)'') [''ContentInProgress''],
     cells_row ''CourseChecksRequested'' [''ReadyForReview''] [dash_sign] [''WholeCourseChecks''],
     cells_row ''(auto)'' [''WholeCourseChecks''] (''objectives_covered '' @ [and_sign] @
       '' ordering_acyclic '' @ [and_sign] @ '' no_permission_leak '' @ [and_sign] @
       '' trace_satisfies_ltl'') [''PendingApproval''],
     cells_row ''CheckFailed(layer, nodes)'' [''WholeCourseChecks''] ''any of the above fails''
       [''ContentInProgress''],
     cells_row ''ApprovalRejected'' [''PendingApproval''] ''reason_given'' [''ContentInProgress''],
     cells_row ''ApprovalGranted'' [''PendingApproval''] ''approval_chain_satisfied''
       [''Approved''],
     cells_row ''ReturnedToWork'' [''Approved''] [dash_sign] [''ContentInProgress''],
     cells_row ''PublishRequested'' [''Approved''] (''all_nodes_approved '' @ [and_sign] @
       '' no_stale_nodes '' @ [and_sign] @ '' versions_current '' @ [and_sign] @
       '' differs_from_live'') [''Published''],
     to_other_object (to_note ''spawn; this revision does not move'' (cells_row ''ReviseRequested''
       [''Published''] ''no_open_draft(course)'' [''ContentInProgress''])),
     cells_row (''PolicyChanged '' @ [dot_sign] @ '' GuardrailChanged '' @ [dot_sign] @
       '' CatalogChanged '' @ [dot_sign] @ '' KBUpdated'') [''Published''] ''affected(revision)''
       [''StaleReview''],
     from_expression ''any state in the live lineage'' (cells_row ''WithdrawRequested'' []
       (''in_live_lineage(revision) '' @ [and_sign] @ '' reason_given'') [''Withdrawn'']),
     cells_row ''LivePointerMoved'' [''Published''] ''lost_live_pointer(revision)''
       [''Superseded''],
     to_note ''no move; the notice is recorded'' (cells_row ''LearnersNotified'' [''Published'']
       ''notice_approved(recipient_set)'' [''Published'']),
     to_note ''no move; consent to the notice is recorded'' (cells_row ''ApprovalGranted''
       [''Published''] ''approval_chain_satisfied'' [''Published'']),
     to_note ''re-stamped'' (cells_row ''(auto)'' [''StaleReview''] (''guardrail_clean '' @
       [and_sign] @ '' no_permission_leak '' @ [and_sign] @ '' grounded '' @ [and_sign] @
       '' block_schemas_valid '' @ [and_sign] @ '' policy_allows under current versions '' @
       [and_sign] @ '' '' @ [not_sign] @ ''lost_live_pointer(revision)'') [''Published'']),
     to_note ''re-stamped'' (cells_row ''(auto)'' [''StaleReview''] (''guardrail_clean '' @
       [and_sign] @ '' no_permission_leak '' @ [and_sign] @ '' grounded '' @ [and_sign] @
       '' block_schemas_valid '' @ [and_sign] @ '' policy_allows under current versions '' @
       [and_sign] @ '' lost_live_pointer(revision) '' @ [and_sign] @
       '' rollback_requested(revision)'') [''Published'']),
     to_note ''re-stamped'' (cells_row ''(auto)'' [''StaleReview''] (''guardrail_clean '' @
       [and_sign] @ '' no_permission_leak '' @ [and_sign] @ '' grounded '' @ [and_sign] @
       '' block_schemas_valid '' @ [and_sign] @ '' policy_allows under current versions '' @
       [and_sign] @ '' lost_live_pointer(revision) '' @ [and_sign] @ '' '' @ [not_sign] @
       ''rollback_requested(revision)'') [''Superseded'']),
     cells_row ''(auto)'' [''StaleReview''] ''any of the above fails'' [''Withdrawn''],
     cells_row (''Timeout '' @ [dot_sign] @ '' ServiceUnreachable'') [''StaleReview''] [dash_sign]
       [''ErrorRecovery''],
     cells_row ''WithdrawRequested'' [''StaleReview''] ''reason_given'' [''Withdrawn''],
     cells_row ''RollbackRequested'' [''Superseded''] ''reason_given'' [''StaleReview''],
     cells_row (''PolicyChanged '' @ [dot_sign] @ '' GuardrailChanged '' @ [dot_sign] @
       '' CatalogChanged '' @ [dot_sign] @ '' KBUpdated'') [''Superseded'']
       (''affected(revision) '' @ [and_sign] @ '' has_active_readers'') [''StaleReview''],
     cells_row ''ArchiveRequested'' [''Superseded''] ([not_sign] @ ''has_active_readers'')
       [''Archived''],
     to_note ''no move; the notice is recorded'' (cells_row ''LearnersNotified'' [''Withdrawn'']
       ''notice_approved(recipient_set)'' [''Withdrawn'']),
     to_note ''no move; consent to the notice is recorded'' (cells_row ''ApprovalGranted''
       [''Withdrawn''] ''approval_chain_satisfied'' [''Withdrawn'']),
     cells_row ''ArchiveRequested'' [''Withdrawn''] [dash_sign] [''Archived''],
     to_other_object (to_note ''spawn'' (cells_row ''ReviseRequested'' [''Withdrawn'']
       ''no_open_draft(course)'' [''ContentInProgress''])),
     from_expression ''any non-terminal draft state'' (cells_row ''DraftDiscarded'' []
       ''is_draft_revision'' [''Archived'']),
     to_expression ''the state after the operation'' (cells_row ''(auto)'' [''ErrorRecovery'']
       ([not_sign] @ ''idempotency_key_unused(op) '' @ [dash_sign] @ '' the write landed'') []),
     to_expression ''the state that issued the operation'' (cells_row ''(auto)''
       [''ErrorRecovery''] (''idempotency_key_unused(op) '' @ [and_sign] @ '' retry_budget_left'')
       []),
     cells_row ''(auto)'' [''ErrorRecovery''] (''idempotency_key_unused(op) '' @ [and_sign] @ '' ''
       @ [not_sign] @ ''retry_budget_left'') [''BlockedRecoverable'']]"

definition raw_node_rows :: "raw_row list" where
  "raw_node_rows = [
     cells_row ''NodeGenerationRequested'' [''Planned''] (''course_state = ContentInProgress '' @
       [and_sign] @ '' is_draft_revision '' @ [and_sign] @ '' policy_allows(generate, node) '' @
       [and_sign] @ '' content_approved(topics(node))'') [''ContentDrafting''],
     cells_row ''NodeGenerated'' [''ContentDrafting''] (''course_state = ContentInProgress '' @
       [and_sign] @ '' content_approved(topics(node))'') [''Generated''],
     to_note ''recovery_from = generation'' (cells_row (''Timeout '' @ [dot_sign] @
       '' ModelError'') [''ContentDrafting''] [dash_sign] [''NodeRecovery'']),
     cells_row ''(auto)'' [''Generated''] [dash_sign] [''OutputGuardrail''],
     to_note ''recovery_from = guardrail'' (cells_row (''Timeout '' @ [dot_sign] @
       '' ServiceUnreachable'') [''OutputGuardrail''] [dash_sign] [''NodeRecovery'']),
     cells_row ''(auto)'' [''NodeRecovery''] (''recovery_from(node) = generation '' @ [and_sign] @
       '' '' @ [not_sign] @ ''idempotency_key_unused(op) '' @ [dash_sign] @ '' the write landed'')
       [''Generated''],
     to_note ''repair_count +1'' (cells_row ''(auto)'' [''NodeRecovery'']
       (''course_state = ContentInProgress '' @ [and_sign] @ '' recovery_from(node) = generation ''
       @ [and_sign] @ '' idempotency_key_unused(op) '' @ [and_sign] @ '' retry_budget_left(node) ''
       @ [and_sign] @ '' content_approved(topics(node))'') [''ContentDrafting'']),
     to_note ''repair_count +1'' (cells_row ''(auto)'' [''NodeRecovery'']
       (''course_state = ContentInProgress '' @ [and_sign] @ '' recovery_from(node) = guardrail ''
       @ [and_sign] @ '' retry_budget_left(node) '' @ [dash_sign] @
       '' a screening writes no course state, so there is nothing to reconcile; it does cost a paid call, so it costs a retry'')
       [''OutputGuardrail'']),
     to_note ''repair_count = 0'' (cells_row ''BlockedInputFixed'' [''NodeRecovery'']
       (''course_state = ContentInProgress '' @ [and_sign] @ '' '' @ [not_sign] @
       ''retry_budget_left(node) '' @ [and_sign] @ '' recovery_from(node) = generation '' @
       [and_sign] @ '' content_approved(topics(node))'') [''ContentDrafting'']),
     to_note ''repair_count = 0'' (cells_row ''BlockedInputFixed'' [''NodeRecovery'']
       (''course_state = ContentInProgress '' @ [and_sign] @ '' '' @ [not_sign] @
       ''retry_budget_left(node) '' @ [and_sign] @ '' recovery_from(node) = guardrail'')
       [''OutputGuardrail'']),
     cells_row ''GuardrailVerdict(allow)'' [''OutputGuardrail'']
       (''course_state = ContentInProgress '' @ [and_sign] @ '' guardrail_clean(text '' @
       [and_sign] @ '' images)'') [''NodeChecks''],
     cells_row ''GuardrailVerdict(deny)'' [''OutputGuardrail'']
       (''course_state = ContentInProgress '' @ [and_sign] @ '' '' @ [not_sign] @
       ''guardrail_clean(text '' @ [and_sign] @ '' images)'') [''NodeRepair''],
     cells_row ''(auto)'' [''NodeChecks''] (''block_schemas_valid '' @ [and_sign] @ '' grounded ''
       @ [and_sign] @ '' references_live '' @ [and_sign] @ '' arithmetic_consistent '' @ [and_sign]
       @ '' no_permission_leak '' @ [and_sign] @ '' objectives_covered'') [''Validated''],
     cells_row (''CheckFailed(opa, '' @ [dots_sign] @ '')'') [''NodeChecks''] ([not_sign] @
       ''policy_allows(content)'') [''BlockedFinal''],
     cells_row (''CheckFailed(datalog '' @ [dot_sign] @ '' z3 '' @ [dot_sign] @ '' schema '' @
       [dot_sign] @ '' prolog)'') [''NodeChecks''] (''policy_allows '' @ [and_sign] @
       '' constraint violated'') [''NodeRepair''],
     cells_row ''(auto)'' [''NodeRepair''] (''course_state = ContentInProgress '' @ [and_sign] @
       '' '' @ [not_sign] @ ''waiting_for_topics(node) '' @ [and_sign] @
       '' retry_budget_left(node) '' @ [and_sign] @ '' content_approved(topics(node))'')
       [''ContentDrafting''],
     cells_row ''(auto)'' [''NodeRepair''] (''course_state = ContentInProgress '' @ [and_sign] @
       '' waiting_for_topics(node) '' @ [and_sign] @ '' content_approved(topics(node))'')
       [''ContentDrafting''],
     to_expression ''course -> BlockedRecoverable'' (cells_row ''(auto)'' [''NodeRepair'']
       ([not_sign] @ ''waiting_for_topics(node) '' @ [and_sign] @ '' '' @ [not_sign] @
       ''retry_budget_left(node)'') []),
     to_note ''repair_count = 0'' (cells_row ''BlockedInputFixed'' [''NodeRepair'']
       (''course_state = ContentInProgress '' @ [and_sign] @ '' '' @ [not_sign] @
       ''retry_budget_left(node) '' @ [and_sign] @ '' content_approved(topics(node))'')
       [''ContentDrafting'']),
     to_note ''repair_count = 0'' (cells_row ''BlockedInputFixed'' [''NodeRepair'']
       (''course_state = ContentInProgress '' @ [and_sign] @ '' '' @ [not_sign] @
       ''waiting_for_topics(node) '' @ [and_sign] @ '' '' @ [not_sign] @
       ''retry_budget_left(node) '' @ [and_sign] @ '' '' @ [not_sign] @
       ''content_approved(topics(node))'') [''NodeRepair'']),
     cells_row ''NodeApproved'' [''Validated''] (''all_visuals_reviewed(node) '' @ [and_sign] @
       '' content_approved(topics(node))'') [''NodeApproved''],
     cells_row ''NodeRejected'' [''Validated''] ''reason_given'' [''NodeRepair''],
     cells_row ''NodeEdited'' [''NodeApproved''] ''is_draft_revision'' [''NeedsRevalidation''],
     cells_row (''PolicyChanged '' @ [dot_sign] @ '' GuardrailChanged '' @ [dot_sign] @
       '' CatalogChanged '' @ [dot_sign] @ '' KBUpdated'') [''NodeApproved'', ''Validated'']
       (''is_draft_revision '' @ [and_sign] @ '' '' @ [not_sign] @ ''versions_current(node)'')
       [''NeedsRevalidation''],
     cells_row ''(dependency changed)'' [''NodeApproved''] (''depends_on(node, edited '' @
       [or_sign] @ '' removed)'') [''NeedsRevalidation''],
     to_note ''waiting_for_topics'' (cells_row ''(dependency changed)'' [''ContentDrafting'',
       ''NodeRecovery''] (''depends_on(node, edited '' @ [or_sign] @ '' removed) '' @ [and_sign] @
       '' '' @ [not_sign] @ ''content_approved(topics(node))'') [''NodeRepair'']),
     cells_row ''(auto)'' [''NeedsRevalidation''] (''course_state = ContentInProgress '' @
       [and_sign] @ '' hand_edited(node)'') [''OutputGuardrail''],
     cells_row ''(auto)'' [''NeedsRevalidation''] (''course_state = ContentInProgress '' @
       [and_sign] @ '' '' @ [not_sign] @ ''hand_edited(node) '' @ [and_sign] @
       '' versions_current(node)'') [''NodeChecks''],
     cells_row ''(auto)'' [''NeedsRevalidation''] (''course_state = ContentInProgress '' @
       [and_sign] @ '' '' @ [not_sign] @ ''hand_edited(node) '' @ [and_sign] @ '' '' @ [not_sign] @
       ''versions_current(node)'') [''OutputGuardrail''],
     from_expression ''any state but Removed'' (cells_row ''OutlineApproved'' []
       (''is_draft_revision '' @ [and_sign] @ '' '' @ [not_sign] @
       ''in_outline(node, committed_outline) '' @ [and_sign] @ '' reason_given'') [''Removed''])]"

fun raw_rows :: "mach \<Rightarrow> raw_row list" where
  "raw_rows Revision = raw_revision_rows"
| "raw_rows Node = raw_node_rows"

section \<open>Names the loader knows\<close>

text \<open>The keys of \<open>endpoints.SOURCES\<close>, \<open>endpoints.TARGETS\<close> and \<open>bookkeeping.NOTES\<close>.\<close>

definition known_sources :: "(string \<times> source_rule) list" where
  "known_sources = [(''any state in the live lineage'', LiveLineage),
     (''any non-terminal draft state'', NonTerminalDraft), (''any state but Removed'', NotRemoved)]"

definition known_targets :: "(string \<times> target_rule) list" where
  "known_targets = [(''the state that blocked'', StateThatBlocked),
     (''the state after the operation'', StateAfterOperation),
     (''the state that issued the operation'', StateThatIssued),
     (''course -> BlockedRecoverable'', CourseBlocked)]"

definition known_notes :: "(string \<times> row_note) list" where
  "known_notes = [(''outline_version +1'', OutlineVersionPlus1),
     (''proposal discarded; outline_version unchanged'', ProposalDiscarded),
     (''blocked_at = node'', BlockedAtNode),
     (''spawn; this revision does not move'', Spawn),
     (''spawn'', Spawn),
     (''no move; the notice is recorded'', NoticeRecorded),
     (''no move; consent to the notice is recorded'', ConsentRecorded),
     (''re-stamped'', Restamped),
     (''recovery_from = generation'', RecoveryFromGeneration),
     (''recovery_from = guardrail'', RecoveryFromGuardrail),
     (''repair_count +1'', RepairPlus1),
     (''repair_count = 0'', RepairZero),
     (''waiting_for_topics'', WaitingForTopics)]"

fun state_names :: "mach \<Rightarrow> string list" where
  "state_names Revision = map rev_state_name all_rev_states"
| "state_names Node = map node_state_name all_node_states"

section \<open>Event cells\<close>

definition any_value :: "string list" where
  "any_value = [''any'', ''layer, nodes'']"

text \<open>\<open>_QUALIFIED\<close>: a word and, in parentheses up to the end, at least one character.\<close>

definition match_qualified :: "string \<Rightarrow> (string \<times> string) option" where
  "match_qualified s = (case match_atom s of Some (w, Some q) \<Rightarrow> (if q = [] then None else Some (w, q)) | _ \<Rightarrow> None)"

definition events_in :: "string \<Rightarrow> (string \<times> string list option) list" where
  "events_in cell =
     (if cell = event_name Auto \<or> cell \<in> set (map event_name reactions) then [(cell, None)]
      else case match_qualified cell of
        Some (e, inner) \<Rightarrow>
          (if stripped inner \<in> set any_value then [(e, None)]
           else [(e, Some (filter (\<lambda>v. v \<notin> {[], [dots_sign]})
                  (map stripped (split_on [dot_sign, CHR '',''] (stripped inner)))))])
      | None \<Rightarrow> map (\<lambda>n. (stripped n, None)) (split_on [dot_sign] cell))"

section \<open>Loading\<close>

record loaded_row =
  lr_row :: nat
  lr_event :: string
  lr_qualifier :: "string list option"
  lr_sources :: "string list"
  lr_source_rule :: "string option"
  lr_guard :: guard
  lr_target :: "string option"
  lr_target_rule :: "string option"
  lr_note :: "string option"
  lr_spawn :: bool

datatype load_problem = Unknown_guard | Nothing_above | No_source_rule string | No_target_rule string
  | No_note string | Not_a_state string | Not_an_event string

type_synonym load_problems = "(mach \<times> nat \<times> load_problem) list"

definition previous_auto :: "loaded_row list \<Rightarrow> raw_row \<Rightarrow> loaded_row option" where
  "previous_auto rows r = find (\<lambda>t. lr_event t = event_name Auto \<and> set (lr_sources t) = set (raw_from r)) (rev rows)"

definition unknown_name :: "(string \<Rightarrow> load_problem) \<Rightarrow> string list \<Rightarrow> string option \<Rightarrow> load_problem list" where
  "unknown_name p known x = (case x of None \<Rightarrow> []
     | Some s \<Rightarrow> (if s \<noteq> [] \<and> s \<notin> set known then [p s] else []))"

definition row_problems :: "mach \<Rightarrow> loaded_row list \<Rightarrow> raw_row \<Rightarrow> guard \<Rightarrow> load_problem list" where
  "row_problems mc rows r g =
     (if g_complement g \<and> previous_auto rows r = None then [Nothing_above] else [])
     @ unknown_name No_source_rule (map fst known_sources) (raw_from_expression r)
     @ unknown_name No_target_rule (map fst known_targets) (raw_to_expression r)
     @ unknown_name No_note (map fst known_notes) (raw_to_note r)
     @ map Not_a_state (filter (\<lambda>s. s \<notin> set (state_names mc))
         (remdups (raw_from r @ (if raw_other_object r then [] else raw_to r))))
     @ map (\<lambda>(e, q). Not_an_event e) (filter (\<lambda>(e, q).
         e \<notin> set (map event_name catalog_events) \<and> e \<notin> set (map event_name reactions)) (events_in (raw_event r)))"

definition rows_for :: "nat \<Rightarrow> raw_row \<Rightarrow> guard \<Rightarrow> loaded_row list" where
  "rows_for i r g = map (\<lambda>(e, q). \<lparr>lr_row = i, lr_event = e, lr_qualifier = q,
       lr_sources = raw_from r, lr_source_rule = raw_from_expression r, lr_guard = g,
       lr_target = (if raw_to r \<noteq> [] \<and> raw_to_expression r \<in> {None, Some []} then Some (hd (raw_to r)) else None),
       lr_target_rule = raw_to_expression r, lr_note = raw_to_note r, lr_spawn = raw_other_object r\<rparr>)
     (events_in (raw_event r))"

text \<open>A row whose guard cannot be read is a problem and is skipped.\<close>

definition load_row :: "glossary_index \<Rightarrow> mach \<Rightarrow> nat \<times> raw_row \<Rightarrow> loaded_row list \<times> load_problems
    \<Rightarrow> loaded_row list \<times> load_problems" where
  "load_row ix mc x acc = (case parse_guard ix (state_names Node) (raw_guard (snd x)) of
       None \<Rightarrow> (fst acc, snd acc @ [(mc, fst x, Unknown_guard)])
     | Some g \<Rightarrow> (fst acc @ rows_for (fst x) (snd x) g,
         snd acc @ map (\<lambda>p. (mc, fst x, p)) (row_problems mc (fst acc) (snd x) g)))"

definition load_rows :: "glossary_index \<Rightarrow> mach \<Rightarrow> raw_row list \<Rightarrow> loaded_row list \<times> load_problems" where
  "load_rows ix mc rs = fold (load_row ix mc) (enumerate 0 rs) ([], [])"

text \<open>\<open>load\<close>: both tables, or every problem of both.\<close>

definition load_tables :: "glossary_index \<Rightarrow> (mach \<Rightarrow> raw_row list) \<Rightarrow> load_problems + loaded_row list \<times> loaded_row list" where
  "load_tables ix raw =
     (let (rs, p) = load_rows ix Revision (raw Revision); (ns, q) = load_rows ix Node (raw Node) in
      if p @ q = [] then Inr (rs, ns) else Inl (p @ q))"

section \<open>The constructors the names stand for\<close>

definition event_called :: "string \<Rightarrow> event option" where
  "event_called s = find (\<lambda>e. event_name e = s) (catalog_events @ reactions)"

fun state_called :: "mach \<Rightarrow> string \<Rightarrow> st option" where
  "state_called Revision s = map_option RevSt (find (\<lambda>x. rev_state_name x = s) all_rev_states)"
| "state_called Node s = map_option NodeSt (find (\<lambda>x. node_state_name x = s) all_node_states)"

definition called :: "(string \<Rightarrow> 'b option) \<Rightarrow> string option \<Rightarrow> 'b option option" where
  "called f x = (case x of None \<Rightarrow> Some None | Some s \<Rightarrow> (if s = [] then Some None else map_option Some (f s)))"

fun all_some :: "'a option list \<Rightarrow> 'a list option" where
  "all_some [] = Some []"
| "all_some (None # xs) = None"
| "all_some (Some x # xs) = map_option ((#) x) (all_some xs)"

definition typed_row :: "mach \<Rightarrow> loaded_row \<Rightarrow> transition option" where
  "typed_row mc r = (case (event_called (lr_event r), all_some (map (state_called mc) (lr_sources r)),
       called (map_of known_sources) (lr_source_rule r), called (state_called mc) (lr_target r),
       called (map_of known_targets) (lr_target_rule r), called (map_of known_notes) (lr_note r)) of
     (Some e, Some ss, Some sr, Some tg, Some tr, Some n) \<Rightarrow> Some \<lparr>t_machine = mc, t_row = lr_row r,
       t_event = e, t_qualifier = lr_qualifier r, t_sources = ss, t_source_rule = sr, t_guard = lr_guard r,
       t_target = tg, t_target_rule = tr, t_note = n, t_spawn = lr_spawn r\<rparr>
   | _ \<Rightarrow> None)"

text \<open>What \<open>load()\<close> gives the machine: nothing when it refuses.\<close>

definition loaded_table :: "table option" where
  "loaded_table = (case glossary of None \<Rightarrow> None | Some ix \<Rightarrow> (case load_tables ix raw_rows of
       Inl problems \<Rightarrow> None
     | Inr (rs, ns) \<Rightarrow> (case (all_some (map (typed_row Revision) rs), all_some (map (typed_row Node) ns)) of
         (Some a, Some b) \<Rightarrow> Some \<lparr>revision_rows = a, node_rows = b\<rparr> | _ \<Rightarrow> None)))"

section \<open>The shipped table\<close>

text \<open>Each table evaluated on its own.\<close>

lemma glossary_read: "glossary = Some (the glossary)"
  by code_simp

definition loads_as :: "loaded_row list \<times> load_problems \<Rightarrow> mach \<Rightarrow> transition list \<Rightarrow> bool" where
  "loads_as x mc ts \<longleftrightarrow> snd x = [] \<and> map (typed_row mc) (fst x) = map Some ts"

lemma revision_rows_load: "loads_as (load_rows (the glossary) Revision raw_revision_rows) Revision spec_revision_rows"
  by code_simp

lemma node_rows_load: "loads_as (load_rows (the glossary) Node raw_node_rows) Node spec_node_rows"
  by code_simp

lemma all_some_Some: "all_some (map Some xs) = Some xs"
  by (induction xs) simp_all

text \<open>C24. The loader takes the shipped tables without a problem, and the rows it builds from the
  text of every cell are exactly the rows the machine of this development runs on.\<close>

theorem loader_builds_the_table: "loaded_table = Some spec_table"
proof -
  obtain rs p where r: "load_rows (the glossary) Revision raw_revision_rows = (rs, p)" by fastforce
  obtain ns q where n: "load_rows (the glossary) Node raw_node_rows = (ns, q)" by fastforce
  have "p = []" "map (typed_row Revision) rs = map Some spec_revision_rows"
    using revision_rows_load by (simp_all add: loads_as_def r)
  moreover have "q = []" "map (typed_row Node) ns = map Some spec_node_rows"
    using node_rows_load by (simp_all add: loads_as_def n)
  ultimately have load: "load_tables (the glossary) raw_rows = Inr (rs, ns)"
    and typed: "all_some (map (typed_row Revision) rs) = Some spec_revision_rows"
      "all_some (map (typed_row Node) ns) = Some spec_node_rows"
    by (simp_all add: load_tables_def r n all_some_Some)
  show ?thesis unfolding loaded_table_def
    by (subst glossary_read) (simp add: load typed spec_table_def)
qed

text \<open>What a load that reports no problem has checked of every row.\<close>

lemma load_row_clean:
  "snd (load_row ix mc x acc) = [] \<Longrightarrow> snd acc = [] \<and> (\<exists>g. parse_guard ix (state_names Node) (raw_guard (snd x)) = Some g
     \<and> row_problems mc (fst acc) (snd x) g = [] \<and> fst (load_row ix mc x acc) = fst acc @ rows_for (fst x) (snd x) g)"
  by (auto simp: load_row_def split: option.splits)

definition clean_row :: "glossary_index \<Rightarrow> mach \<Rightarrow> raw_row \<Rightarrow> loaded_row \<Rightarrow> bool" where
  "clean_row ix mc r l \<longleftrightarrow> (\<exists>i g rows. parse_guard ix (state_names Node) (raw_guard r) = Some g
     \<and> row_problems mc rows r g = [] \<and> l \<in> set (rows_for i r g))"

lemma fold_clean:
  "snd (fold (load_row ix mc) xs acc) = [] \<Longrightarrow> snd acc = []
     \<and> (\<forall>l \<in> set (fst (fold (load_row ix mc) xs acc)). l \<in> set (fst acc) \<or> (\<exists>x \<in> set xs. clean_row ix mc (snd x) l))
     \<and> (\<forall>x \<in> set xs. parse_guard ix (state_names Node) (raw_guard (snd x)) \<noteq> None)"
proof (induction xs arbitrary: acc)
  case (Cons x xs)
  let ?acc = "load_row ix mc x acc"
  have later: "snd ?acc = []" and each: "\<And>l. l \<in> set (fst (fold (load_row ix mc) xs ?acc)) \<Longrightarrow>
      l \<in> set (fst ?acc) \<or> (\<exists>x \<in> set xs. clean_row ix mc (snd x) l)"
    and rest: "\<forall>x \<in> set xs. parse_guard ix (state_names Node) (raw_guard (snd x)) \<noteq> None"
    using Cons.IH [of ?acc] Cons.prems by auto
  from load_row_clean [OF later] obtain g where g: "snd acc = []"
    "parse_guard ix (state_names Node) (raw_guard (snd x)) = Some g" "row_problems mc (fst acc) (snd x) g = []"
    "fst ?acc = fst acc @ rows_for (fst x) (snd x) g" by auto
  then have "l \<in> set (fst ?acc) \<Longrightarrow> l \<in> set (fst acc) \<or> clean_row ix mc (snd x) l" for l
    by (auto simp: clean_row_def)
  then show ?case using each rest g by fastforce
qed simp

lemma find_called: "x \<in> set xs \<Longrightarrow> find (\<lambda>y. f y = f x) xs \<noteq> None"
  by (auto simp: find_None_iff)

lemma event_called_known: "s \<in> set (map event_name catalog_events) \<or> s \<in> set (map event_name reactions) \<Longrightarrow>
    event_called s \<noteq> None"
  unfolding event_called_def by (auto simp: find_None_iff)

lemma state_called_known: "s \<in> set (state_names mc) \<Longrightarrow> state_called mc s \<noteq> None"
  by (cases mc) (auto simp: find_None_iff)

lemma all_some_known: "\<forall>x \<in> set xs. f x \<noteq> None \<Longrightarrow> all_some (map f xs) \<noteq> None"
  by (induction xs) auto

lemma called_known: "unknown_name p (map fst tab) x = [] \<Longrightarrow> called (map_of tab) x \<noteq> None"
  by (cases x) (auto simp: unknown_name_def called_def map_of_eq_None_iff image_iff simp del: not_None_eq
      split: if_splits)

lemma clean_row_typed:
  assumes "clean_row ix mc r l"
  shows "lr_spawn l \<or> typed_row mc l \<noteq> None"
proof -
  from assms obtain i g rows where ok: "row_problems mc rows r g = []" and l: "l \<in> set (rows_for i r g)"
    by (auto simp: clean_row_def)
  have u: "unknown_name No_source_rule (map fst known_sources) (raw_from_expression r) = []"
    "unknown_name No_target_rule (map fst known_targets) (raw_to_expression r) = []"
    "unknown_name No_note (map fst known_notes) (raw_to_note r) = []"
    using ok by (simp_all add: row_problems_def)
  have known: "called (map_of known_sources) (raw_from_expression r) \<noteq> None"
    "called (map_of known_targets) (raw_to_expression r) \<noteq> None"
    "called (map_of known_notes) (raw_to_note r) \<noteq> None"
    by (rule called_known [OF u(1)], rule called_known [OF u(2)], rule called_known [OF u(3)])
  have states: "\<forall>s \<in> set (raw_from r @ (if raw_other_object r then [] else raw_to r)). s \<in> set (state_names mc)"
    using ok by (auto simp: row_problems_def filter_empty_conv)
  have events: "\<forall>(e, q) \<in> set (events_in (raw_event r)). event_called e \<noteq> None"
    using ok by (fastforce simp: row_problems_def filter_empty_conv intro!: event_called_known)
  have sources: "all_some (map (state_called mc) (lr_sources l)) \<noteq> None"
    using l states by (intro all_some_known) (auto simp: rows_for_def simp del: not_None_eq intro!: state_called_known)
  have "\<exists>y. called (state_called mc) (Some s) = Some y" if "s \<in> set (state_names mc)" for s
    using state_called_known [OF that] by (simp add: called_def)
  then have target: "lr_spawn l \<or> called (state_called mc) (lr_target l) \<noteq> None"
    using l states by (cases "raw_to r") (auto simp: rows_for_def called_def [of _ None] split: if_splits)
  have "event_called (lr_event l) \<noteq> None" "lr_source_rule l = raw_from_expression r"
    "lr_target_rule l = raw_to_expression r" "lr_note l = raw_to_note r"
    using l events by (auto simp: rows_for_def)
  then show ?thesis using known sources target by (auto simp: typed_row_def)
qed


text \<open>A table of two rows.\<close>

fun small_tables :: "mach \<Rightarrow> raw_row list" where
  "small_tables Revision = [cells_row ''BriefSubmitted'' [''AwaitingBrief''] [dash_sign] [''BriefValidation''],
     cells_row ''(auto)'' [''BriefValidation''] ([not_sign] @ ''schema_valid(brief)'') [''BlockedRecoverable'']]"
| "small_tables Node = []"


end
