(* ===== verification/Whole_Course.thy ===== *)
theory Whole_Course
  imports Sealed_Machine Schema_Engine Policy_Engine Arithmetic Coverage_Properties Datalog_Properties
    Temporal_Properties
begin

text \<open>
  The engines behind the machine.  \<open>engines/registry.py\<close> names the check that answers each guard;
  here they are put together, and what the machine asks of them before a course waits for approval
  is followed through \<open>machine/evaluation.py\<close>: the cache, the facts the leak check writes down,
  and the engines' verdicts on the one revision they are all asked about.
\<close>

section \<open>The registry\<close>

text \<open>The services the engines rest on: the validator, OPA, Z3, the Datalog solver, swipl, and \<open>str\<close>.\<close>

record services =
  ve_validates :: validation
  ve_opa :: opa_port
  ve_arith :: arith_solver
  ve_datalog :: solver
  ve_swipl :: swipl_port
  ve_text :: "pyval \<Rightarrow> string"

definition answering :: "services \<Rightarrow> implemented" where
  "answering V = \<lparr>
     i_schema_valid = \<lambda>artifact shape. check_shape (ve_validates V) (ve_text V) artifact shape None,
     i_policy_allows = check_policy (ve_opa V),
     i_feasible = check_feasible (ve_arith V),
     i_skills_grounded = check_skills_grounded (ve_datalog V) (ve_text V),
     i_grounded = check_grounding (ve_datalog V) (ve_text V),
     i_references_live = check_references_live (ve_datalog V) (ve_text V),
     i_no_permission_leak = check_permission_leak (ve_datalog V) (ve_text V),
     i_ordering_acyclic = check_ordering_acyclic (ve_datalog V) (ve_text V),
     i_objectives_covered = check_coverage (ve_swipl V) (ve_text V),
     i_content_approved = check_content_approved (ve_datalog V) (ve_text V),
     i_trace_satisfies_ltl = check_trace,
     i_block_schemas_valid = \<lambda>nd kinds rows stray. check_blocks (ve_validates V) (ve_text V) nd kinds (Some rows) stray,
     i_arithmetic_consistent = check_arithmetic (ve_arith V) (ve_text V),
     i_approval_chain_satisfied = check_approval (ve_opa V),
     i_depends_on = cascade (ve_datalog V) (ve_text V)\<rparr>"

section \<open>Asking the engines about one course\<close>

text \<open>Nothing an engine reads is changed by asking: only the cache and what the leak check notes.\<close>

definition but_rights :: "revision_record \<Rightarrow> revision_record \<Rightarrow> bool" where
  "but_rights rv rv' \<longleftrightarrow> rv' = rv\<lparr>r_permission_checked := r_permission_checked rv',
     r_used_restricted := r_used_restricted rv'\<rparr>"

definition same_course :: "machine \<Rightarrow> machine \<Rightarrow> bool" where
  "same_course m m' \<longleftrightarrow> st_steps (m_store m') = st_steps (m_store m)
     \<and> (\<forall>r. rel_option but_rights (revision m r) (revision m' r))"

lemma but_rights_refl: "but_rights rv rv"
  by (simp add: but_rights_def)

lemma but_rights_trans: "but_rights a b \<Longrightarrow> but_rights b c \<Longrightarrow> but_rights a c"
  by (cases a; cases b; cases c) (simp add: but_rights_def)

lemma same_course_refl: "same_course m m"
  by (simp add: same_course_def option.rel_refl but_rights_refl)

lemma same_course_trans:
  assumes "same_course m m'" "same_course m' m''"
  shows "same_course m m''"
proof -
  have "rel_option but_rights (revision m r) (revision m'' r)" for r
    using assms unfolding same_course_def
    by (cases "revision m r"; cases "revision m' r"; cases "revision m'' r")
      (auto dest!: spec [of _ r] intro: but_rights_trans)
  then show ?thesis using assms by (simp add: same_course_def)
qed

lemma same_course_on_rev:
  assumes "\<And>rv. but_rights rv (f rv)"
  shows "same_course m (on_rev r f m)"
  unfolding same_course_def
proof (intro conjI allI)
  show "st_steps (m_store (on_rev r f m)) = st_steps (m_store m)" by (simp add: on_rev_def on_store_def)
  show "rel_option but_rights (revision m k) (revision (on_rev r f m) k)" for k
    using assms by (cases "revision m k") (auto simp: revision_on_rev but_rights_refl)
qed

lemma refresh_store [simp]: "m_store (refresh m) = m_store m" "revision (refresh m) = revision m"
  by (auto simp: refresh_def Let_def fun_eq_iff revision_def)

lemma refreshed_at: "m_cached_at (refresh m) = int (length (st_steps (m_store m)))"
  by (auto simp: refresh_def Let_def)

lemma refresh_again: "m_cached_at m = int (length (st_steps (m_store m))) \<Longrightarrow> refresh m = m"
  by (simp add: refresh_def Let_def)

text \<open>The key of a literal that the cache of this step does not know.\<close>

definition unasked :: "ctx \<Rightarrow> machine \<Rightarrow> literal \<Rightarrow> bool" where
  "unasked c m l \<longleftrightarrow> map_of (m_cache (refresh m)) (key_of l c) = None"

definition an_engines :: "literal \<Rightarrow> bool" where
  "an_engines l \<longleftrightarrow> \<not> l_negated l \<and> l_name l \<noteq> G_node_state \<and> l_name l \<notin> set store_guard_names"

lemma on_rev_cache [simp]: "m_cache (on_rev r f m) = m_cache m" "m_cached_at (on_rev r f m) = m_cached_at m"
  "st_steps (m_store (on_rev r f m)) = st_steps (m_store m)"
  by (simp_all add: on_rev_def on_store_def)

lemma asked_engine:
  assumes "engine_verdict E l c m = (Inr v, m')" and "unasked c m l"
  shows "adapter (e_impl E) (e_world E) (l_name l) l c (refresh m) = Inr v"
    and "same_course m m'" and "refresh m' = m'"
    and "m_cache m' = AList.update (key_of l c) v (m_cache (refresh m))"
proof -
  let ?m1 = "(refresh m)\<lparr>m_cache := AList.update (key_of l c) v (m_cache (refresh m))\<rparr>"
  obtain w where ask: "adapter (e_impl E) (e_world E) (l_name l) l c (refresh m) = Inr v"
    and noted: "note_rights l c v ?m1 = (Inr w, m')"
    using assms by (auto simp: engine_verdict_def unasked_def andthen_eq)
  then show "adapter (e_impl E) (e_world E) (l_name l) l c (refresh m) = Inr v" by simp
  have m1: "same_course m ?m1" "m_cached_at ?m1 = int (length (st_steps (m_store ?m1)))"
    using same_course_refl [of m] by (simp_all add: same_course_def refreshed_at revision_def)
  have "same_course ?m1 m' \<and> m_cache m' = m_cache ?m1 \<and> m_cached_at m' = m_cached_at ?m1"
  proof (cases "l_name l = G_no_permission_leak")
    case True
    then obtain rv f where "but_rights rv (f rv)" "m' = on_rev (c_rev c) f ?m1" "\<And>x. but_rights x (f x)"
      using noted by (auto simp: note_rights_def andthen_eq Let_def but_rights_def)
    then show ?thesis using same_course_on_rev [of f ?m1 "c_rev c"] by simp
  next
    case False
    then show ?thesis using noted by (simp add: note_rights_def same_course_refl)
  qed
  then have after: "same_course ?m1 m'" "m_cache m' = m_cache ?m1" "m_cached_at m' = m_cached_at ?m1" by blast+
  show "same_course m m'" using m1(1) after(1) by (rule same_course_trans)
  show "refresh m' = m'" using after m1(2) by (intro refresh_again) (simp add: same_course_def)
  show "m_cache m' = AList.update (key_of l c) v (m_cache (refresh m))" using after(2) by simp
qed

text \<open>
  Before the row is read, the checks of the state are each asked in turn.  When none refuses, every
  one has allowed the course, about which nothing has changed since, and the cache knows it.
\<close>

definition allowed_by :: "env \<Rightarrow> ctx \<Rightarrow> machine \<Rightarrow> machine \<Rightarrow> literal \<Rightarrow> bool" where
  "allowed_by E c m m' l \<longleftrightarrow> (\<exists>m0 v. same_course m m0
     \<and> adapter (e_impl E) (e_world E) (l_name l) l c m0 = Inr v \<and> v_ok v
     \<and> map_of (m_cache m') (key_of l c) = Some v)"

lemma no_failure:
  assumes "first_failure E x c ls m = (Inr None, m')" and "distinct (map l_name ls)"
    and "list_all (unasked c m) ls" and "ls \<noteq> []"
  shows "same_course m m' \<and> refresh m' = m' \<and> list_all (allowed_by E c m m') ls
    \<and> (\<forall>k. k \<notin> (\<lambda>l. key_of l c) ` set ls \<longrightarrow> map_of (m_cache m') k = map_of (m_cache (refresh m)) k)"
  using assms
proof (induction ls arbitrary: m)
  case (Cons a ls)
  then obtain v m1 where first: "engine_verdict E a c m = (Inr v, m1)"
    and after: "(case v of RefusedBy r \<Rightarrow> ret (Some (failure_of x r)) | Allowed _ \<Rightarrow> first_failure E x c ls) m1 = (Inr None, m')"
    by (auto simp: andthen_eq)
  have ok: "v_ok v" and rest: "first_failure E x c ls m1 = (Inr None, m')" using after by (cases v; simp)+
  have "unasked c m a" using Cons.prems by simp
  note asked = asked_engine [OF first this]
  have other: "key_of l c \<noteq> key_of a c" if "l \<in> set ls" for l
    using Cons.prems(2) that by (auto simp: key_of_def image_iff)
  have "same_course m (refresh m)" using same_course_refl [of m] by (simp add: same_course_def)
  then have now: "allowed_by E c m m2 a" if "map_of (m_cache m2) (key_of a c) = Some v" for m2
    unfolding allowed_by_def using asked(1) ok that by blast
  show ?case
  proof (cases "ls = []")
    case True
    then show ?thesis using rest asked(2-4) now [of m1] by (auto simp: update_conv')
  next
    case False
    have "list_all (unasked c m1) ls"
      using Cons.prems(3) other by (auto simp: unasked_def asked(3,4) update_conv list_all_iff)
    from Cons.IH [OF rest _ this False] Cons.prems(2) have
      IH: "same_course m1 m'" "refresh m' = m'" "list_all (allowed_by E c m1 m') ls"
        "\<And>k. k \<notin> (\<lambda>l. key_of l c) ` set ls \<Longrightarrow> map_of (m_cache m') k = map_of (m_cache (refresh m1)) k"
      by simp_all
    have "map_of (m_cache m') (key_of a c) = Some v"
      using IH(4) [of "key_of a c"] other by (force simp: asked(3,4) update_conv)
    then have "allowed_by E c m m' a" by (rule now)
    moreover have "allowed_by E c m m' l" if "l \<in> set ls" for l
      using IH(3) that same_course_trans [OF asked(2)] by (fastforce simp: list_all_iff allowed_by_def)
    moreover have "map_of (m_cache m') k = map_of (m_cache (refresh m)) k"
      if "k \<notin> (\<lambda>l. key_of l c) ` set (a # ls)" for k
      using IH(4) [of k] that by (simp add: asked(3,4) update_conv)
    ultimately show ?thesis using IH(1,2) same_course_trans [OF asked(2)] by (simp add: list_all_iff)
  qed
qed simp

lemma conjunction_cached:
  assumes "refresh m = m" and "list_all an_engines ls"
    and "\<And>l. l \<in> set ls \<Longrightarrow> \<exists>v. map_of (m_cache m) (key_of l c) = Some v \<and> v_ok v"
  shows "conjunction E ls c m = (Inr (Some True), m)"
  using assms(2,3)
proof (induction ls)
  case (Cons l ls)
  then obtain v where "map_of (m_cache m) (key_of l c) = Some v" "v_ok v" by auto
  then have "engine_verdict E l c m = (Inr v, m)"
    by (simp add: engine_verdict_def andthen_eq assms(1))
  then show ?case
    using Cons \<open>v_ok v\<close> by (auto simp: andthen_def handle_def ret_def literal_value_def an_engines_def)
qed simp

section \<open>The one row\<close>

lemma take_first_skip:
  "(\<And>t. t \<in> set ts \<Longrightarrow> \<not> candidate t x e p m) \<Longrightarrow>
     take_first E (ts @ us) x e p u m = take_first E us x e p u m"
  by (induction ts) (auto simp: andthen_def gets_def)

lemma take_first_only:
  assumes other: "\<And>t'. t' \<in> set ts \<Longrightarrow> \<not> candidate t' x e p m"
    and t: "candidate t x e p m" "decide E t (rev_of x) (node_of x) p m = (Inr (Some True), m)"
  shows "take_first E (ts @ t # us) x e p u m = andthen (apply_row E t x p) (\<lambda>_. ret (True, u)) m"
  using take_first_skip [of ts x e p m] other t by (simp add: andthen_def gets_def)

definition whole_course_row :: transition where
  "whole_course_row = spec_revision_rows ! 40"

lemma whole_course_row_fields:
  "t_target whole_course_row = Some (RevSt PendingApproval)" "t_target_rule whole_course_row = None"
  "t_note whole_course_row = None" "\<not> t_spawn whole_course_row"
  "t_event whole_course_row = Auto" "t_qualifier whole_course_row = None" "t_source_rule whole_course_row = None"
  "t_sources whole_course_row = [RevSt WholeCourseChecks]"
  "\<not> g_complement (t_guard whole_course_row)" "\<not> g_exists_node (t_guard whole_course_row)"
  "g_literals (t_guard whole_course_row) = map (\<lambda>n. \<lparr>l_name = n, l_negated = False, l_arg = None, l_compare = None,
     l_qualifier = None\<rparr>) [G_objectives_covered, G_ordering_acyclic, G_no_permission_leak, G_trace_satisfies_ltl]"
  by code_simp+

lemma whole_course_rows:
  "spec_revision_rows = take 40 spec_revision_rows @ whole_course_row # drop 41 spec_revision_rows"
proof -
  have "40 < length spec_revision_rows" by code_simp
  then show ?thesis unfolding whole_course_row_def using id_take_nth_drop [of 40 spec_revision_rows] by simp
qed

lemma other_rows:
  "t \<in> set (take 40 spec_revision_rows) \<union> set (drop 41 spec_revision_rows) \<Longrightarrow> t_event t = Auto \<Longrightarrow>
     t_source_rule t = None \<and> RevSt WholeCourseChecks \<notin> set (t_sources t)"
proof -
  have "list_all (\<lambda>t. t_event t = Auto \<longrightarrow> t_source_rule t = None \<and> RevSt WholeCourseChecks \<notin> set (t_sources t))
      (take 40 spec_revision_rows @ drop 41 spec_revision_rows)" by code_simp
  then show "t \<in> set (take 40 spec_revision_rows) \<union> set (drop 41 spec_revision_rows) \<Longrightarrow> t_event t = Auto \<Longrightarrow> ?thesis"
    by (auto simp: list_all_iff)
qed

lemma whole_course_taken:
  assumes "e_table E = spec_table" and "in_state m r WholeCourseChecks"
    and "decide E whole_course_row r None p m = (Inr (Some True), m)"
  shows "takes E (ORev r) Auto p m = andthen (apply_row E whole_course_row (ORev r) p) (\<lambda>_. ret True) m"
proof -
  obtain rv where stands: "revision m r = Some rv" "r_state rv = WholeCourseChecks"
    using assms(2) by (auto simp: in_state_def split: option.splits)
  have "\<not> candidate t (ORev r) Auto p m" if "t \<in> set (take 40 spec_revision_rows)" for t
    using other_rows [of t] that stands by (auto simp: candidate_def stands_at_def)
  moreover have "candidate whole_course_row (ORev r) Auto p m"
    using stands by (simp add: candidate_def stands_at_def qualifies_def whole_course_row_fields)
  moreover have "rows_of (e_table E) (mach_of (ORev r)) = take 40 spec_revision_rows @ whole_course_row # drop 41 spec_revision_rows"
    using assms(1) whole_course_rows by (simp add: spec_table_def)
  ultimately have "take_row E (ORev r) Auto p m
      = andthen (apply_row E whole_course_row (ORev r) p) (\<lambda>_. ret (True, False)) m"
    using take_first_only [of "take 40 spec_revision_rows" "ORev r" Auto p m whole_course_row E "drop 41 spec_revision_rows" False]
      assms(3) by (simp add: take_row_def)
  then show ?thesis by (auto simp: takes_def andthen_def ret_def split: prod.splits sum.splits)
qed

lemma whole_course_moves:
  assumes "apply_row E whole_course_row (ORev r) p m1 = (Inr (), m')" and "e_table E = spec_table"
  shows "in_state m' r PendingApproval"
proof -
  obtain rv where "revision m1 r = Some rv"
    using assms(1) by (auto simp: apply_row_def andthen_eq the_state_def split: option.splits)
  then obtain v where v: "views m1 r = Some v" by (auto simp: views_def)
  from lands_move [OF assms(1) _ _ assms(2) v] obtain s where
    s: "lands whole_course_row v s" "move whole_course_row (ORev r) (RevSt s) p m1 = (Inr (), m')"
    by (auto simp: whole_course_row_fields)
  then have "s = PendingApproval" by (simp add: lands_def whole_course_row_fields)
  moreover obtain v0 where "views m1 r = Some v0" "acts r (\<lambda>v. moved_v None s v0) m1 m'"
    using move_rev [OF s(2)] by (auto simp: whole_course_row_fields)
  ultimately show ?thesis
    by (auto simp: acts_def in_state_views moved_v_def note_v_def option_rel_Some1 state_v_def after_defs
        leave_v_def answer_v_def split: if_splits)
qed

section \<open>The gate\<close>

definition whole_course_question :: "int \<Rightarrow> ctx" where
  "whole_course_question r = \<lparr>c_rev = r, c_node = None, c_payload = no_payload\<rparr>"

text \<open>No verdict on the course is left in the cache from before the step it is in.\<close>

definition asked_afresh :: "int \<Rightarrow> machine \<Rightarrow> bool" where
  "asked_afresh r m \<longleftrightarrow> list_all (unasked (whole_course_question r) m) (g_literals (t_guard whole_course_row))"

lemma same_course_revision:
  "same_course m m' \<Longrightarrow> revision m r = Some rv \<Longrightarrow> \<exists>rv'. revision m' r = Some rv' \<and> but_rights rv rv'"
  by (auto simp: same_course_def option_rel_Some1 dest!: spec [of _ r])

lemma but_rights_course:
  assumes "but_rights rv rv'"
  shows "course_nodes rv' = course_nodes rv" "brief_entries rv' = brief_entries rv" "course_key rv' = course_key rv"
proof -
  have "r_nodes rv' = r_nodes rv" "r_brief rv' = r_brief rv" "r_id rv' = r_id rv"
    using assms by (cases rv; cases rv'; simp add: but_rights_def)+
  then show "course_nodes rv' = course_nodes rv" "brief_entries rv' = brief_entries rv" "course_key rv' = course_key rv"
    by (simp_all add: course_nodes_def live_nodes_def brief_entries_def course_key_def)
qed

lemma trace_allowed:
  assumes "check_trace raw = Inr v" and "v_ok v"
  shows "\<exists>tr. build raw = Inr (tr, []) \<and> ((\<forall>s \<in> set tr. recorded s) \<longrightarrow> legal_run tr)"
proof -
  obtain tr problems where b: "build raw = Inr (tr, problems)" using assms(1) by (auto simp: check_trace_def)
  moreover from this have "problems = []" using assms by (auto simp: check_trace_def refuse_def split: if_splits)
  moreover from this have "violations_of tr = Inr []"
    using assms b by (cases "violations_of tr") (auto simp: check_trace_def refuse_def split: list.splits)
  ultimately obtain tr where "build raw = Inr (tr, [])" "violations_of tr = Inr []" by blast
  then show ?thesis using violations_none legal_run_walks by blast
qed

text \<open>
  What is promised of a course that waits for approval: its objectives are closed by approved
  nodes, no lesson needs itself or stands before what it requires, no audience is shown a source it
  may not see, and the run so far obeys the temporal properties.
\<close>

definition sound_course :: "services \<Rightarrow> world \<Rightarrow> revision_record \<Rightarrow> pydict list \<Rightarrow> bool" where
  "sound_course V w rv raw \<longleftrightarrow>
     (\<forall>ob \<in> set (items_of (dget (brief_entries rv) ''objectives'')).
        closed_by (ve_text V) ''course'' (course_nodes rv) (develops w) ob)
     \<and> (plain (ve_text V) (course_nodes rv) \<longrightarrow>
          acyclic (requirements (ve_text V) (course_nodes rv)) \<and> too_early (ve_text V) (course_nodes rv) = {})
     \<and> (plain_sources (ve_text V) (course_nodes rv) (w_articles w)
            (py_or (dget (brief_entries rv) ''audience'') (PList [])) (w_visibility w) \<longrightarrow>
          leaks (ve_text V) (course_nodes rv) (w_articles w)
            (py_or (dget (brief_entries rv) ''audience'') (PList [])) (w_visibility w) = {})
     \<and> (\<exists>tr. build raw = Inr (tr, []) \<and> ((\<forall>s \<in> set tr. recorded s) \<longrightarrow> legal_run tr))"

lemma sound_when_allowed:
  assumes "e_impl E = answering V" and "runs_coverage q (ve_swipl V)" and "solves (ve_datalog V)"
    and "revision m r = Some rv"
    and "list_all (allowed_by E (whole_course_question r) m m') (g_literals (t_guard whole_course_row))"
  shows "sound_course V (e_world E) rv (st_steps (m_store m))"
proof -
  let ?c = "whole_course_question r"
  have rev: "\<exists>rv'. rev_at ?c m0 = Inr rv' \<and> but_rights rv rv'" if "same_course m m0" for m0
    using same_course_revision [OF that assms(4)] by (auto simp: rev_at_def whole_course_question_def)
  have named: "\<exists>m0 v rv'. same_course m m0 \<and> rev_at ?c m0 = Inr rv' \<and> but_rights rv rv' \<and> v_ok v
      \<and> adapter (answering V) (e_world E) n \<lparr>l_name = n, l_negated = False, l_arg = None, l_compare = None,
           l_qualifier = None\<rparr> ?c m0 = Inr v"
    if "n \<in> {G_objectives_covered, G_ordering_acyclic, G_no_permission_leak, G_trace_satisfies_ltl}" for n
  proof -
    have "allowed_by E ?c m m' \<lparr>l_name = n, l_negated = False, l_arg = None, l_compare = None, l_qualifier = None\<rparr>"
      using assms(5) that unfolding whole_course_row_fields by auto
    then show ?thesis using rev assms(1) unfolding allowed_by_def by auto
  qed
  have q: "c_node ?c = None" by (simp add: whole_course_question_def)
  note simps = but_rights_course answering_def ask_coverage_def nodes_in_scope_def q Let_def
  have covered: "\<exists>v. check_coverage (ve_swipl V) (ve_text V) (course_key rv) (items_of (dget (brief_entries rv) ''objectives''))
      (course_nodes rv) (develops (e_world E)) ''course'' = Inr v \<and> v_ok v"
    using named [of G_objectives_covered] by (auto simp: simps)
  have ordered: "\<exists>v. check_ordering_acyclic (ve_datalog V) (ve_text V) (course_nodes rv) = Inr v \<and> v_ok v"
    using named [of G_ordering_acyclic] by (auto simp: simps)
  have shown: "\<exists>v. check_permission_leak (ve_datalog V) (ve_text V) (course_nodes rv) (w_articles (e_world E))
      (py_or (dget (brief_entries rv) ''audience'') (PList [])) (w_visibility (e_world E)) = Inr v \<and> v_ok v"
    using named [of G_no_permission_leak] by (auto simp: simps)
  have obeyed: "\<exists>v. check_trace (st_steps (m_store m)) = Inr v \<and> v_ok v"
    using named [of G_trace_satisfies_ltl] by (auto simp: simps same_course_def)
  show ?thesis
    unfolding sound_course_def
  proof (intro conjI impI)
    show "\<forall>ob \<in> set (items_of (dget (brief_entries rv) ''objectives'')).
        closed_by (ve_text V) ''course'' (course_nodes rv) (develops (e_world E)) ob"
      using covered coverage_decided [OF assms(2)] by blast
    show "acyclic (requirements (ve_text V) (course_nodes rv))" "too_early (ve_text V) (course_nodes rv) = {}"
      if "plain (ve_text V) (course_nodes rv)"
      using ordered ordering_allowed [OF assms(3) that] by blast+
    show "leaks (ve_text V) (course_nodes rv) (w_articles (e_world E))
        (py_or (dget (brief_entries rv) ''audience'') (PList [])) (w_visibility (e_world E)) = {}"
      if "plain_sources (ve_text V) (course_nodes rv) (w_articles (e_world E))
        (py_or (dget (brief_entries rv) ''audience'') (PList [])) (w_visibility (e_world E))"
      using shown leak_allowed [OF assms(3) that] by blast
    show "\<exists>tr. build (st_steps (m_store m)) = Inr (tr, []) \<and> ((\<forall>s \<in> set tr. recorded s) \<longrightarrow> legal_run tr)"
      using obeyed trace_allowed by blast
  qed
qed

lemma whole_course_checked:
  "check_literals spec_table Revision (RevSt WholeCourseChecks) = g_literals (t_guard whole_course_row)"
  "list_all an_engines (g_literals (t_guard whole_course_row))"
  "distinct (map l_name (g_literals (t_guard whole_course_row)))" "g_literals (t_guard whole_course_row) \<noteq> []"
  "RevSt WholeCourseChecks \<in> set check_states"
  by code_simp+

text \<open>C1. The whole-course checks let through sound courses and nothing else, and leave none where it is.
  When the machine settles a revision in its checks, on verdicts of the step it is in, either an
  engine refused and its refusal is fired as a failed check, or every engine allowed the course, the
  course is sound, and the revision moves on to wait for approval.\<close>

theorem only_a_sound_course_waits:
  assumes "e_table E = spec_table" and "e_impl E = answering V"
    and "runs_coverage q (ve_swipl V)" and "solves (ve_datalog V)"
    and "revision m r = Some rv" and "r_state rv = WholeCourseChecks" and "asked_afresh r m"
    and "auto E fire (ORev r) m = (Inr moved, m')"
  shows "(\<exists>failure m1. check_failure E (ORev r) m = (Inr (Some failure), m1)
        \<and> fire CheckFailed failure ''checks'' m1 = (Inr (), m') \<and> moved)
    \<or> sound_course V (e_world E) rv (st_steps (m_store m))
        \<and> (\<exists>m1 m2. check_failure E (ORev r) m = (Inr None, m1)
           \<and> takes E (ORev r) Auto no_payload m1 = (Inr True, m2) \<and> in_state m2 r PendingApproval)"
proof -
  have asked: "check_failure E (ORev r) m = first_failure E (ORev r) (whole_course_question r)
      (g_literals (t_guard whole_course_row)) m"
    using assms(5,6) whole_course_checked(1,5)
    by (simp add: check_failure_def assms(1) andthen_def gets_def whole_course_question_def)
  obtain f m1 where f: "check_failure E (ORev r) m = (Inr f, m1)"
    using assms(8) by (auto simp: auto_def andthen_eq)
  show ?thesis
  proof (cases f)
    case (Some failure)
    then show ?thesis using assms(8) f by (auto simp: auto_def andthen_eq)
  next
    case None
    from no_failure [OF f [unfolded None asked] whole_course_checked(3) _ whole_course_checked(4)] assms(7)
    have same: "same_course m m1" and fresh: "refresh m1 = m1"
      and allowed: "list_all (allowed_by E (whole_course_question r) m m1) (g_literals (t_guard whole_course_row))"
      by (simp_all add: asked_afresh_def)
    have "\<exists>v. map_of (m_cache m1) (key_of l (whole_course_question r)) = Some v \<and> v_ok v"
      if "l \<in> set (g_literals (t_guard whole_course_row))" for l
      using allowed that by (auto simp: list_all_iff allowed_by_def)
    from conjunction_cached [OF fresh whole_course_checked(2) this]
    have decided: "decide E whole_course_row r None no_payload m1 = (Inr (Some True), m1)"
      by (simp add: decide_def whole_course_row_fields(9,10) whole_course_question_def)
    obtain rv1 where rv1: "revision m1 r = Some rv1" "but_rights rv rv1"
      using same_course_revision [OF same assms(5)] by blast
    then have "in_state m1 r WholeCourseChecks"
      using assms(6) by (cases rv; cases rv1) (simp add: in_state_def but_rights_def)
    note taken = whole_course_taken [OF assms(1) this decided]
    obtain res m2 where run: "apply_row E whole_course_row (ORev r) no_payload m1 = (res, m2)" by fastforce
    have "res = Inr ()"
      using assms(8) f None taken run sturdy_apply_row [of E whole_course_row "ORev r" no_payload]
      by (cases res) (auto simp: auto_def handle_def andthen_def gets_def raise_def sturdy_def split: if_splits)
    then have "takes E (ORev r) Auto no_payload m1 = (Inr True, m2)" "in_state m2 r PendingApproval"
      using taken run whole_course_moves assms(1) by (auto simp: andthen_def ret_def)
    then show ?thesis
      using sound_when_allowed [OF assms(2-5) allowed] f None by blast
  qed
qed

section \<open>Witness\<close>

definition small_services :: services where
  "small_services = \<lparr>ve_validates = \<lambda>_ _. Inr [], ve_opa = \<lparr>op_found = False, op_run = \<lambda>_ _ _. None\<rparr>,
     ve_arith = \<lambda>_. Inl EngineUnavailable, ve_datalog = evaluate, ve_swipl = small_swipl, ve_text = \<lambda>_. []\<rparr>"

definition hygiene_env :: env where
  "hygiene_env = sample_env\<lparr>e_impl := answering small_services, e_world := sample_world\<lparr>w_catalog :=
     [(PStr ''skills'', PList [PDict [(PStr ''id'', PStr ''hygiene'')]])]\<rparr>\<rparr>"

definition approved_lesson :: node_record where
  "approved_lesson = (new_node ''n1'' (PDict [(PStr ''skill'', PStr ''hygiene'')]))\<lparr>n_state := NodeApproved\<rparr>"

definition checking_course :: revision_record where
  "checking_course = (new_revision_record 1 None)\<lparr>r_state := WholeCourseChecks,
     r_brief := PDict [(PStr ''objectives'', PList [PStr ''hygiene''])], r_nodes := [(''n1'', approved_lesson)]\<rparr>"

definition checking_machine :: machine where
  "checking_machine = on_rev 1 (\<lambda>_. checking_course) sample_machine"

theorem only_a_sound_course_waits_witness:
  "sound_course small_services (e_world hygiene_env) checking_course (st_steps (m_store checking_machine))"
proof -
  have "isl (fst (auto hygiene_env (fire_upto 2 hygiene_env) (ORev 1) checking_machine)) = False" by code_simp
  then obtain moved m' where
    run: "auto hygiene_env (fire_upto 2 hygiene_env) (ORev 1) checking_machine = (Inr moved, m')"
    by (metis isl_def obj_sumE prod.collapse)
  have "fst (check_failure hygiene_env (ORev 1) checking_machine) = Inr None" by code_simp
  then have none: "check_failure hygiene_env (ORev 1) checking_machine \<noteq> (Inr (Some f), m1)" for f m1
    by auto
  have "revision checking_machine 1 = Some checking_course" by code_simp
  moreover have "asked_afresh 1 checking_machine" by code_simp
  moreover have "r_state checking_course = WholeCourseChecks" by code_simp
  moreover have "e_table hygiene_env = spec_table" "e_impl hygiene_env = answering small_services"
    "runs_coverage always_quoted (ve_swipl small_services)" "solves (ve_datalog small_services)"
    using small_swipl_runs evaluate_solves by (simp_all add: hygiene_env_def small_services_def)
  ultimately show ?thesis
    using only_a_sound_course_waits [OF _ _ _ _ _ _ _ run] none by blast
qed

end
