(* ===== verification/Providers.thy ===== *)
theory Providers
  imports Pipeline Texts
begin

text \<open>
  The adapters behind the pipeline's two ports (\<open>gateway/provider/\<close>): answers read from a recording,
  Amazon Bedrock Guardrails for screening, Gemini for generation.  The services themselves, the
  SDKs that call them, the environment and the file system are parameters; what the adapters ask
  of them, and what they make of every answer, is here.
\<close>

section \<open>A recording\<close>

text \<open>\<open>recorded.py\<close>: queued answers, each used once.\<close>

record recording =
  rc_answers :: "(string \<times> pyval list) list"
  rc_asked :: "(string \<times> prompt) list"
  rc_verdicts :: "((string \<times> string) \<times> pyval list) list"
  rc_version :: string
  rc_screened :: "(string \<times> string \<times> string \<times> string) list"

definition task_of :: "prompt \<Rightarrow> string" where
  "task_of p = takeWhile (\<lambda>c. c \<noteq> CHR 0x0A) (pr_instructions p)"

definition recorded_generate :: "prompt \<Rightarrow> pydict \<Rightarrow> (recording, call_exn, generated) comp" where
  "recorded_generate p schema = (\<lambda>r.
     let task = task_of p; asked = r\<lparr>rc_asked := rc_asked r @ [(task, p)]\<rparr> in
     case map_of (rc_answers r) task of
       Some (a # q) \<Rightarrow>
         (if a = PStr ''timeout'' then Inl No_answer else Inr \<lparr>gen_content = a, gen_model = ''recorded-model''\<rparr>,
          asked\<lparr>rc_answers := AList.update task q (rc_answers r)\<rparr>)
     | _ \<Rightarrow> (Inl No_answer, asked))"

fun recorded_verdict :: "string \<Rightarrow> string \<Rightarrow> pyval \<Rightarrow> call_exn + screening_verdict" where
  "recorded_verdict version point answer =
     (if answer = PStr ''unreachable'' then Inl No_answer
      else if answer = PStr ''allow''
      then Inr \<lparr>sv_allowed = True, sv_category = PNone, sv_version = PStr version, sv_point = point\<rparr>
      else Inr \<lparr>sv_allowed = False, sv_category = answer, sv_version = PStr version, sv_point = point\<rparr>)"

definition recorded_screen :: "string \<Rightarrow> string \<Rightarrow> string \<Rightarrow> string \<Rightarrow> (recording, call_exn, screening_verdict) comp" where
  "recorded_screen content modality point matter = (\<lambda>r.
     let asked = r\<lparr>rc_screened := rc_screened r @ [(point, matter, modality, content)]\<rparr> in
     case map_of (rc_verdicts r) (point, matter) of
       Some (a # q) \<Rightarrow> (recorded_verdict (rc_version r) point a,
          asked\<lparr>rc_verdicts := AList.update (point, matter) q (rc_verdicts r)\<rparr>)
     | _ \<Rightarrow> (Inl No_answer, asked))"

definition unused_verdicts :: "recording \<Rightarrow> ((string \<times> string) \<times> pyval list) list" where
  "unused_verdicts r = filter (\<lambda>x. snd x \<noteq> []) (rc_verdicts r)"

section \<open>Who may call Bedrock\<close>

text \<open>The environment, and whether a path names an existing file.\<close>

record host =
  h_vars :: "(string \<times> string) list"
  h_exists :: "string \<Rightarrow> bool"

definition var :: "host \<Rightarrow> string \<Rightarrow> string" where
  "var H n = (case map_of (h_vars H) n of None \<Rightarrow> [] | Some v \<Rightarrow> v)"

definition wrong_account :: call_exn where
  "wrong_account = Other_exn (PyError ''WrongAccount'')"

definition required :: "host \<Rightarrow> string \<Rightarrow> call_exn + string" where
  "required H n = (let v = stripped (var H n) in if v = [] then Inl wrong_account else Inr v)"

definition ambient_credentials :: "host \<Rightarrow> bool" where
  "ambient_credentials H \<longleftrightarrow>
     list_ex (\<lambda>n. var H n \<noteq> []) [''AWS_ACCESS_KEY_ID'', ''AWS_SESSION_TOKEN'', ''AWS_BEARER_TOKEN_BEDROCK'']
     \<or> list_ex (\<lambda>n. var H n = [] \<or> \<not> h_exists H (var H n)) [''AWS_SHARED_CREDENTIALS_FILE'', ''AWS_CONFIG_FILE'']"

text \<open>
  \<open>session\<close>: the identity is asked once, of the session that will make the calls; a session
  that passed is kept.  \<open>who\<close> is the account the service names, none when the question fails.
\<close>

definition checked_session :: "host \<Rightarrow> string option \<Rightarrow> string option \<Rightarrow> call_exn + string" where
  "checked_session H who kept = (case kept of Some account \<Rightarrow> Inr account
     | None \<Rightarrow> ebind (required H ''BEDROCK_ACCOUNT_ID'') (\<lambda>expected.
         if ambient_credentials H then Inl wrong_account
         else case who of
           None \<Rightarrow> Inl No_answer
         | Some account \<Rightarrow> if account \<noteq> expected then Inl wrong_account else Inr account))"

section \<open>What is sent to be screened\<close>

text \<open>The parts of a resolved path, the folder of the assets, and what the files hold.\<close>

record files =
  fl_resolved :: "string \<Rightarrow> string list"
  fl_assets :: "string list"
  fl_bytes :: "string list \<Rightarrow> string option"

definition small_char :: "char \<Rightarrow> char" where
  "small_char c = (let n = of_char c :: nat in
     if 65 \<le> n \<and> n \<le> 90 \<or> 192 \<le> n \<and> n \<le> 222 \<and> n \<noteq> 215 then char_of (n + 32) else c)"

definition lowered :: "string \<Rightarrow> string" where
  "lowered s = map small_char s"

text \<open>\<open>path.suffix\<close>: from the last dot of the name, unless it begins or ends the name.\<close>

definition suffix_of :: "string \<Rightarrow> string" where
  "suffix_of name = (let after = takeWhile (\<lambda>c. c \<noteq> CHR ''.'') (rev name) in
     if length after + 1 < length name \<and> after \<noteq> [] then CHR ''.'' # rev after else [])"

definition image_kind :: "string \<Rightarrow> string option" where
  "image_kind s = map_of [(''.png'', ''png''), (''.jpg'', ''jpeg''), (''.jpeg'', ''jpeg'')] (lowered s)"

definition screened_content :: "files \<Rightarrow> string \<Rightarrow> string \<Rightarrow> call_exn + pyval" where
  "screened_content F content modality =
     (if modality = ''text'' then Inr (PDict [(PStr ''text'', PDict [(PStr ''text'', PStr content)])])
      else let path = fl_resolved F content in
        case (image_kind (suffix_of (if path = [] then [] else last path)), fl_bytes F path) of
          (Some kind, Some bytes) \<Rightarrow>
            (if take (length (fl_assets F)) path = fl_assets F
             then Inr (PDict [(PStr ''image'', PDict [(PStr ''format'', PStr kind),
                 (PStr ''source'', PDict [(PStr ''bytes'', PStr bytes)])])])
             else Inl No_answer)
        | _ \<Rightarrow> Inl No_answer)"

section \<open>What the guardrail answered\<close>

text \<open>\<open>x.get(k)\<close>, which raises on what is not a dictionary, and \<open>x.get(k, v)\<close>.\<close>

fun get_from :: "pyval \<Rightarrow> string \<Rightarrow> exn + pyval" where
  "get_from (PDict d) k = Inr (dget d k)"
| "get_from _ k = Inl (PyError ''AttributeError'')"

definition get_or :: "pydict \<Rightarrow> string \<Rightarrow> pyval \<Rightarrow> pyval" where
  "get_or d k v = (case dlookup d k of None \<Rightarrow> v | Some x \<Rightarrow> x)"

fun as_entry :: "pyval \<Rightarrow> exn + pydict" where
  "as_entry (PDict d) = Inr d"
| "as_entry _ = Inl (PyError ''AttributeError'')"

definition blocked_entries :: "pyval \<Rightarrow> exn + pydict list" where
  "blocked_entries v = ebind (iter_of (py_or v (PList []))) (\<lambda>xs. ebind (traverse as_entry xs) (\<lambda>ds.
     Inr (filter (\<lambda>d. get_or d ''action'' (PStr ''BLOCKED'') = PStr ''BLOCKED'') ds)))"

fun hyphened :: "pyval \<Rightarrow> exn + pyval" where
  "hyphened (PStr s) = Inr (PStr (map (\<lambda>c. if c = CHR ''_'' then CHR ''-'' else c) (lowered s)))"
| "hyphened _ = Inl (PyError ''AttributeError'')"

text \<open>The first entry that acted under a policy's key, if any, told by what names it.\<close>

definition first_blocked :: "pyval \<Rightarrow> string \<Rightarrow> (pydict \<Rightarrow> exn + pyval) \<Rightarrow> (exn + pyval) \<Rightarrow> exn + pyval" where
  "first_blocked policy k name otherwise = ebind (ebind (get_from policy k) blocked_entries) (\<lambda>ds.
     case ds of d # _ \<Rightarrow> name d | [] \<Rightarrow> otherwise)"

definition policy_in :: "pydict \<Rightarrow> string \<Rightarrow> pyval" where
  "policy_in a k = py_or (dget a k) (PDict [])"

fun category_of :: "pyval list \<Rightarrow> exn + pyval" where
  "category_of [] = Inr (PStr ''intervened'')"
| "category_of (v # vs) = ebind (as_entry v) (\<lambda>a.
     first_blocked (policy_in a ''topicPolicy'') ''topics'' (\<lambda>d. Inr (get_or d ''name'' (PStr ''denied-topic'')))
     (first_blocked (policy_in a ''sensitiveInformationPolicy'') ''piiEntities''
       (\<lambda>d. hyphened (get_or d ''type'' (PStr ''personal-data'')))
     (first_blocked (policy_in a ''sensitiveInformationPolicy'') ''regexes''
       (\<lambda>d. Inr (get_or d ''name'' (PStr ''personal-data'')))
     (first_blocked (policy_in a ''contentPolicy'') ''filters''
       (\<lambda>d. hyphened (get_or d ''type'' (PStr ''content'')))
     (ebind (get_from (policy_in a ''wordPolicy'') ''customWords'') (\<lambda>own.
      ebind (if truthy own then Inr PNone else get_from (policy_in a ''wordPolicy'') ''managedWordLists'') (\<lambda>lists.
        if truthy own \<or> truthy lists then Inr (PStr ''word-policy'') else category_of vs)))))))"

section \<open>Screening with Bedrock\<close>

definition digit_char :: "char \<Rightarrow> bool" where
  "digit_char c \<longleftrightarrow> (let n = of_char c :: nat in 48 \<le> n \<and> n \<le> 57 \<or> n = 178 \<or> n = 179 \<or> n = 185)"

definition published_version :: "string \<Rightarrow> bool" where
  "published_version s \<longleftrightarrow> s \<noteq> [] \<and> list_all digit_char s"

definition not_configured :: call_exn where
  "not_configured = Other_exn (PyError ''GuardrailNotConfigured'')"

definition guardrail_request :: "string \<Rightarrow> string \<Rightarrow> string \<Rightarrow> pyval \<Rightarrow> pydict" where
  "guardrail_request i version point content = [(PStr ''guardrailIdentifier'', PStr i),
     (PStr ''guardrailVersion'', PStr version),
     (PStr ''source'', PStr (if point \<in> {''brief-in'', ''image-prompt-out''} then ''INPUT'' else ''OUTPUT'')),
     (PStr ''content'', PList [content])]"

text \<open>Any failure of the call is no answer; the two refusals of this adapter's own pass through.\<close>

definition no_answer :: "call_exn \<Rightarrow> call_exn" where
  "no_answer e = (if e = not_configured then e else No_answer)"

fun read_answer :: "string \<Rightarrow> string \<Rightarrow> pyval \<Rightarrow> call_exn + screening_verdict" where
  "read_answer version point response =
     (let action = (case response of PDict d \<Rightarrow> dget d ''action'' | _ \<Rightarrow> PNone) in
      if action = PStr ''NONE''
      then Inr \<lparr>sv_allowed = True, sv_category = PNone, sv_version = PStr version, sv_point = point\<rparr>
      else if action = PStr ''GUARDRAIL_INTERVENED''
      then ebind (as_other (ebind (get_from response ''assessments'') (\<lambda>v. ebind (iter_of (py_or v (PList []))) category_of)))
        (\<lambda>why. Inr \<lparr>sv_allowed = False, sv_category = why, sv_version = PStr version, sv_point = point\<rparr>)
      else Inl No_answer)"

definition bedrock_screen :: "host \<Rightarrow> files \<Rightarrow> (pydict \<Rightarrow> ('v, call_exn, pyval) comp) \<Rightarrow> string \<Rightarrow> string \<Rightarrow> string \<Rightarrow> string
    \<Rightarrow> ('v, call_exn, screening_verdict) comp" where
  "bedrock_screen H F service content modality point matter =
     (let i = stripped (var H ''BEDROCK_GUARDRAIL_ID''); version = stripped (var H ''BEDROCK_GUARDRAIL_VERSION'') in
      if i = [] \<or> \<not> published_version version then raise not_configured
      else andthen (handle (andthen (lift (\<lambda>_. screened_content F content modality))
               (\<lambda>c. service (guardrail_request i version point c))) (\<lambda>e. raise (no_answer e)))
        (\<lambda>response. lift (\<lambda>_. read_answer version point response)))"

section \<open>Generating with Gemini\<close>

definition gemini_keywords :: "string list" where
  "gemini_keywords = [''type'', ''properties'', ''required'', ''items'', ''enum'', ''description'', ''minItems'',
     ''maxItems'', ''nullable'', ''format'', ''minimum'', ''maximum'', ''anyOf'', ''title'']"

definition kept_keyword :: "pyval \<Rightarrow> bool" where
  "kept_keyword k \<longleftrightarrow> k \<in> PStr ` set gemini_keywords \<and> k \<noteq> PStr ''properties''"

definition typed_enum :: "pydict \<Rightarrow> pydict" where
  "typed_enum out = (if dhas out ''enum'' \<and> \<not> dhas out ''type'' then dput ''type'' (PStr ''string'') out else out)"

text \<open>The schema in the subset Gemini accepts; the named properties are kept whatever their names.\<close>

fun for_gemini :: "pyval \<Rightarrow> exn + pyval"
  and each_for_gemini :: "pyval list \<Rightarrow> exn + pyval list"
  and keywords_for_gemini :: "pydict \<Rightarrow> exn + pydict"
  and named_for_gemini :: "pydict \<Rightarrow> exn + pydict"
  and properties_for_gemini :: "pydict \<Rightarrow> exn + pydict option" where
  "for_gemini (PList xs) = ebind (each_for_gemini xs) (\<lambda>ys. Inr (PList ys))"
| "for_gemini (PDict d) = ebind (keywords_for_gemini d) (\<lambda>out. ebind (properties_for_gemini d) (\<lambda>ps.
     Inr (PDict (case ps of None \<Rightarrow> typed_enum out | Some qs \<Rightarrow> dput ''properties'' (PDict qs) (typed_enum out)))))"
| "for_gemini v = Inr v"
| "each_for_gemini [] = Inr []"
| "each_for_gemini (x # xs) = ebind (for_gemini x) (\<lambda>y. ebind (each_for_gemini xs) (\<lambda>ys. Inr (y # ys)))"
| "keywords_for_gemini [] = Inr []"
| "keywords_for_gemini ((k, v) # d) = (if kept_keyword k
     then ebind (for_gemini v) (\<lambda>w. ebind (keywords_for_gemini d) (\<lambda>out. Inr ((k, w) # out)))
     else keywords_for_gemini d)"
| "named_for_gemini [] = Inr []"
| "named_for_gemini ((k, v) # d) = ebind (for_gemini v) (\<lambda>w. ebind (named_for_gemini d) (\<lambda>out. Inr ((k, w) # out)))"
| "properties_for_gemini [] = Inr None"
| "properties_for_gemini ((k, v) # d) = (if k = PStr ''properties''
     then (case v of PDict ps \<Rightarrow> ebind (named_for_gemini ps) (\<lambda>qs. Inr (Some qs)) | _ \<Rightarrow> Inl (PyError ''AttributeError''))
     else properties_for_gemini d)"

record gemini_request =
  gq_instructions :: string
  gq_parts :: "string list"
  gq_schema :: pyval

text \<open>What the SDK did: answered with text or none, failed to parse, or failed otherwise.\<close>

datatype gemini_outcome = Answered "string option" | Unparsed | Unreached

definition gemini_parts :: "prompt \<Rightarrow> string list" where
  "gemini_parts p = (let parts = (if pr_author p = [] then [] else [pr_author p])
       @ map (\<lambda>s. ''<source>'' @ s @ ''</source>'') (pr_sources p)
     in if parts = [] then [[]] else parts)"

definition gemini_generate :: "(gemini_request \<Rightarrow> ('v, call_exn, gemini_outcome) comp) \<Rightarrow> (string \<Rightarrow> pyval option)
    \<Rightarrow> prompt \<Rightarrow> pydict \<Rightarrow> ('v, call_exn, generated) comp" where
  "gemini_generate sdk parse p schema = (case for_gemini (PDict schema) of
       Inl e \<Rightarrow> raise No_answer
     | Inr s \<Rightarrow> andthen (sdk \<lparr>gq_instructions = pr_instructions p, gq_parts = gemini_parts p, gq_schema = s\<rparr>) (\<lambda>out.
         case out of
           Unreached \<Rightarrow> raise No_answer
         | Unparsed \<Rightarrow> raise Malformed_answer
         | Answered None \<Rightarrow> raise Malformed_answer
         | Answered (Some t) \<Rightarrow> (case parse t of
               None \<Rightarrow> raise Malformed_answer
             | Some v \<Rightarrow> ret \<lparr>gen_content = v, gen_model = ''gemini-2.5-flash''\<rparr>)))"

end
