(* ===== verification/Provider_Properties.thy ===== *)
theory Provider_Properties
  imports Providers Outcomes
begin

text \<open>
  What the adapters promise the pipeline: a screening lets something through only on the
  service's own word about exactly that content, a recorded answer is used once, a Bedrock session
  is only ever the configured account's, and a schema cut down for Gemini has nothing left to cut.
\<close>

section \<open>Bedrock\<close>

lemma read_answer_cases:
  assumes "read_answer version point response = Inr verdict"
  shows "\<exists>d. response = PDict d \<and> dget d ''action'' \<in> {PStr ''NONE'', PStr ''GUARDRAIL_INTERVENED''}
    \<and> (sv_allowed verdict \<longleftrightarrow> dget d ''action'' = PStr ''NONE'') \<and> sv_version verdict = PStr version
    \<and> sv_point verdict = point"
proof (cases response)
  case (PDict d)
  then show ?thesis
    using assms by (cases "dget d ''action'' = PStr ''NONE''") (auto simp: Let_def split: if_splits)
qed (use assms in auto)

lemma image_inside_assets:
  assumes "screened_content F content modality = Inr c" and "modality \<noteq> ''text''"
  shows "take (length (fl_assets F)) (fl_resolved F content) = fl_assets F
    \<and> (\<exists>kind bytes. fl_bytes F (fl_resolved F content) = Some bytes
      \<and> c = PDict [(PStr ''image'', PDict [(PStr ''format'', PStr kind), (PStr ''source'', PDict [(PStr ''bytes'', PStr bytes)])])])"
  using assms by (auto simp: screened_content_def Let_def split: option.splits if_splits)

text \<open>C38. The absence of a verdict is never a permission.  Bedrock gives a verdict only when a guardrail
  and a published version of it are configured and the service, asked about exactly this content under
  exactly that version, answered with an action; it allows exactly when that action is to do nothing;
  and an image it was asked about is the bytes of a file among the assets.\<close>

theorem no_answer_is_no_permission:
  assumes "bedrock_screen H F service content modality point matter v = (Inr verdict, v')"
  shows "\<exists>c d. screened_content F content modality = Inr c
    \<and> service (guardrail_request (stripped (var H ''BEDROCK_GUARDRAIL_ID''))
        (stripped (var H ''BEDROCK_GUARDRAIL_VERSION'')) point c) v = (Inr (PDict d), v')
    \<and> stripped (var H ''BEDROCK_GUARDRAIL_ID'') \<noteq> [] \<and> published_version (stripped (var H ''BEDROCK_GUARDRAIL_VERSION''))
    \<and> dget d ''action'' \<in> {PStr ''NONE'', PStr ''GUARDRAIL_INTERVENED''}
    \<and> (sv_allowed verdict \<longleftrightarrow> dget d ''action'' = PStr ''NONE'')
    \<and> sv_version verdict = PStr (stripped (var H ''BEDROCK_GUARDRAIL_VERSION'')) \<and> sv_point verdict = point
    \<and> (modality \<noteq> ''text'' \<longrightarrow> take (length (fl_assets F)) (fl_resolved F content) = fl_assets F
        \<and> (\<exists>kind bytes. fl_bytes F (fl_resolved F content) = Some bytes
          \<and> c = PDict [(PStr ''image'', PDict [(PStr ''format'', PStr kind),
              (PStr ''source'', PDict [(PStr ''bytes'', PStr bytes)])])]))"
proof -
  let ?i = "stripped (var H ''BEDROCK_GUARDRAIL_ID'')"
  let ?version = "stripped (var H ''BEDROCK_GUARDRAIL_VERSION'')"
  have set_up: "?i \<noteq> []" "published_version ?version"
    using assms by (auto simp: bedrock_screen_def Let_def raise_def split: if_splits)
  then obtain c response where c: "screened_content F content modality = Inr c"
    and asked: "service (guardrail_request ?i ?version point c) v = (Inr response, v')"
    and read: "read_answer ?version point response = Inr verdict"
    using assms by (auto simp: bedrock_screen_def Let_def andthen_eq handle_eq raise_def lift_def)
  from read_answer_cases [OF read] asked c set_up image_inside_assets [OF c] show ?thesis by blast
qed

definition guarded_host :: host where
  "guarded_host = \<lparr>h_vars = [(''BEDROCK_GUARDRAIL_ID'', ''g-1''), (''BEDROCK_GUARDRAIL_VERSION'', '' 4 '')], h_exists = \<lambda>_. True\<rparr>"

definition one_image :: files where
  "one_image = \<lparr>fl_resolved = \<lambda>name. [''srv'', ''assets'', name], fl_assets = [''srv'', ''assets''],
     fl_bytes = \<lambda>path. if path = [''srv'', ''assets'', ''bench.PNG''] then Some ''data'' else None\<rparr>"

definition intervening :: "pydict \<Rightarrow> (nat, call_exn, pyval) comp" where
  "intervening rq = (\<lambda>n. (Inr (PDict [(PStr ''action'', PStr ''GUARDRAIL_INTERVENED''), (PStr ''assessments'',
     PList [PDict [(PStr ''contentPolicy'', PDict [(PStr ''filters'', PList [PDict [(PStr ''type'', PStr ''HATE_SPEECH'')]])])]])]), Suc n))"

theorem no_answer_is_no_permission_witness:
  "\<exists>verdict. bedrock_screen guarded_host one_image intervening ''bench.PNG'' ''image'' ''image-out'' ''n'' 0 = (Inr verdict, 1)
    \<and> \<not> sv_allowed verdict \<and> sv_category verdict = PStr ''hate-speech'' \<and> sv_version verdict = PStr ''4''"
proof -
  let ?run = "bedrock_screen guarded_host one_image intervening ''bench.PNG'' ''image'' ''image-out'' ''n'' 0"
  have run: "?run = (Inr \<lparr>sv_allowed = False, sv_category = PStr ''hate-speech'', sv_version = PStr ''4'',
      sv_point = ''image-out''\<rparr>, 1)" (is "_ = (Inr ?v, _)") by code_simp
  have version: "stripped (var guarded_host ''BEDROCK_GUARDRAIL_VERSION'') = ''4''" by code_simp
  have "sv_version ?v = PStr ''4''"
    using no_answer_is_no_permission [OF run] version by metis
  then show ?thesis using run by auto
qed

lemma session_is_ours:
  assumes "checked_session H who None = Inr account"
  shows "who = Some account \<and> account = stripped (var H ''BEDROCK_ACCOUNT_ID'') \<and> account \<noteq> []
    \<and> \<not> ambient_credentials H"
  using assms by (auto simp: checked_session_def required_def Let_def split: if_splits option.splits)

section \<open>A recording\<close>

definition recorded_allows :: "(string \<times> string) \<Rightarrow> recording \<Rightarrow> nat" where
  "recorded_allows k r = (case map_of (rc_verdicts r) k of None \<Rightarrow> 0 | Some q \<Rightarrow> length (filter (\<lambda>a. a = PStr ''allow'') q))"

text \<open>An allowance is spent by the screening it answers, and by no other.\<close>

lemma recorded_allowance_spent:
  assumes "recorded_screen content modality point matter r = (res, r')"
  shows "recorded_allows k r' + (if k = (point, matter) \<and> (\<exists>v. res = Inr v \<and> sv_allowed v) then 1 else 0) = recorded_allows k r"
  using assms
  by (cases "map_of (rc_verdicts r) (point, matter)"; cases "the (map_of (rc_verdicts r) (point, matter))")
    (auto simp: recorded_screen_def recorded_allows_def Let_def update_conv' split: if_splits option.splits)

section \<open>Gemini\<close>

lemma update_new: "k \<notin> fst ` set d \<Longrightarrow> AList.update k v d = d @ [(k, v)]"
  by (induction d) auto

lemma keywords_snoc: "keywords_for_gemini (d @ [(k, v)]) = (if kept_keyword k
     then ebind (keywords_for_gemini d) (\<lambda>out. ebind (for_gemini v) (\<lambda>w. Inr (out @ [(k, w)])))
     else keywords_for_gemini d)"
proof (induction d)
  case (Cons x d)
  then show ?case by (cases x; cases "for_gemini (snd x)"; cases "keywords_for_gemini d"; cases "for_gemini v") auto
qed (cases "for_gemini v"; simp)

lemma properties_snoc: "\<forall>x \<in> set d. fst x \<noteq> PStr ''properties'' \<Longrightarrow>
    properties_for_gemini (d @ e) = properties_for_gemini e"
  by (induction d) auto

text \<open>A dictionary of keywords that are settled, with its type and its properties put in.\<close>

definition settled :: "pydict \<Rightarrow> bool" where
  "settled out \<longleftrightarrow> keywords_for_gemini out = Inr out \<and> list_all (\<lambda>x. kept_keyword (fst x)) out"

lemma settled_typed: "settled out \<Longrightarrow> settled (typed_enum out)"
proof -
  assume s: "settled out"
  have "kept_keyword (PStr ''type'')" by code_simp
  then show ?thesis
    using s keywords_snoc [of out "PStr ''type''" "PStr ''string''"]
    by (auto simp: settled_def list_all_iff typed_enum_def dput_def dhas_def dlookup_def map_of_eq_None_iff update_new)
qed

lemma typed_again: "typed_enum (typed_enum out) = typed_enum out"
  by (simp add: typed_enum_def dhas_def pydict_simps)

lemma not_kept_properties: "\<not> kept_keyword (PStr ''properties'')"
  by (simp add: kept_keyword_def)

lemma settled_properties: "settled out \<Longrightarrow> dput ''properties'' (PDict qs) out = out @ [(PStr ''properties'', PDict qs)]"
  using not_kept_properties by (fastforce simp: settled_def list_all_iff dput_def intro!: update_new)

lemma no_properties: "settled out \<Longrightarrow> \<forall>x \<in> set out. fst x \<noteq> PStr ''properties''"
  using not_kept_properties by (auto simp: settled_def list_all_iff)

lemma settled_dict:
  assumes "settled out" and "\<And>qs. ps = Some qs \<Longrightarrow> named_for_gemini qs = Inr qs" and "typed_enum out = out"
  shows "for_gemini (PDict (case ps of None \<Rightarrow> out | Some qs \<Rightarrow> dput ''properties'' (PDict qs) out))
    = Inr (PDict (case ps of None \<Rightarrow> out | Some qs \<Rightarrow> dput ''properties'' (PDict qs) out))"
proof (cases ps)
  case None
  then show ?thesis
    using assms properties_snoc [OF no_properties [OF assms(1)], of "[]"] by (simp add: settled_def)
next
  case (Some qs)
  have "keywords_for_gemini (out @ [(PStr ''properties'', PDict qs)]) = Inr out"
    using assms(1) not_kept_properties by (simp add: keywords_snoc settled_def)
  moreover have "properties_for_gemini (out @ [(PStr ''properties'', PDict qs)]) = Inr (Some qs)"
    using assms(2) Some by (simp add: properties_snoc [OF no_properties [OF assms(1)]])
  ultimately show ?thesis using Some assms(1,3) by (simp add: settled_properties)
qed

text \<open>Nothing is left to cut: the schema Gemini is sent is its own image.\<close>

lemma for_gemini_again:
  "for_gemini v = Inr t \<Longrightarrow> for_gemini t = Inr t"
  "each_for_gemini vs = Inr ts \<Longrightarrow> each_for_gemini ts = Inr ts"
  "keywords_for_gemini d = Inr out \<Longrightarrow> settled out"
  "named_for_gemini e = Inr qs \<Longrightarrow> named_for_gemini qs = Inr qs"
  "properties_for_gemini d' = Inr (Some qs') \<Longrightarrow> named_for_gemini qs' = Inr qs'"
proof (induction v and vs and d and e and d' arbitrary: t and ts and out and qs and qs'
    rule: for_gemini_each_for_gemini_keywords_for_gemini_named_for_gemini_properties_for_gemini.induct)
  case (2 d)
  then obtain out ps where parts: "keywords_for_gemini d = Inr out" "properties_for_gemini d = Inr ps"
    and t: "t = PDict (case ps of None \<Rightarrow> typed_enum out | Some qs \<Rightarrow> dput ''properties'' (PDict qs) (typed_enum out))"
    by auto
  then show ?case
    using settled_dict [of "typed_enum out" ps] settled_typed [OF 2(1)] typed_again 2(2) by auto
qed (auto simp: settled_def split: if_splits pyval.splits)

end
