(* ===== verification/Session.thy ===== *)
theory Session
  imports Providers Datalog_Checks
begin

text \<open>
  One course on a page (\<open>ui/session.py\<close>): the buttons a person presses, each an event the
  machine judges or an action the membrane admits, and the message each press leaves.  The log
  of what the engines said while a button ran is not modelled, nor the picture of the course the page reads
  back; a message keeps its kind and its button, not the text of a refusal.
\<close>

section \<open>The people and the presets\<close>

text \<open>\<open>AUTHOR\<close> and \<open>ADMIN\<close> of \<open>scenarios/run.py\<close>, and the consent shown by \<open>scenarios/machine_runs.py\<close>.\<close>

definition person_entries :: "string \<Rightarrow> string \<Rightarrow> pydict" where
  "person_entries i role = [(PStr ''id'', PStr i), (PStr ''kind'', PStr ''person''), (PStr ''role'', PStr role)]"

definition the_author :: pydict where "the_author = person_entries ''author-1'' ''course-author''"
definition the_admin :: pydict where "the_admin = person_entries ''admin-1'' ''training-administrator''"

definition standard_notice :: string where
  "standard_notice = ''Hand tool safety is available: complete it before your next workshop shift.''"

definition consent_of :: "string \<Rightarrow> string \<Rightarrow> string \<Rightarrow> int \<Rightarrow> pyval" where
  "consent_of i role notice n = PDict [(PStr ''actor'', PStr i), (PStr ''role'', PStr role),
     (PStr ''what_was_shown'', PDict [(PStr ''notice'', PStr notice), (PStr ''recipients'', PInt n)])]"

definition signatures_under :: "string \<Rightarrow> int \<Rightarrow> pyval" where
  "signatures_under notice n = PList [consent_of ''admin-1'' ''training-administrator'' notice n,
     consent_of ''compliance-1'' ''compliance-officer'' notice n]"

text \<open>What is fixed when a session starts: its mode, the example's brief, the gateway and the ports.\<close>

record 'v ui_env =
  ue_recorded :: bool
  ue_example :: pydict
  ue_gate :: gate_env
  ue_ports :: "'v ports"
  ue_rounds :: nat

datatype ui_message = Refused_press string | Failed_press string exn | Pressed string nat

record 'v ui =
  ui_gate :: "'v outside gate"
  ui_brief :: pydict
  ui_messages :: "ui_message list"

type_synonym ('v, 'a) ui_act = "('v ui, exn, 'a) comp"

definition on_gate :: "('v, 'a) pipe_act \<Rightarrow> ('v, 'a) ui_act" where
  "on_gate c = (\<lambda>s. case c (ui_gate s) of (r, g) \<Rightarrow> (r, s\<lparr>ui_gate := g\<rparr>))"

definition ui_machine :: "'v ui \<Rightarrow> machine" where
  "ui_machine s = g_machine (ui_gate s)"

section \<open>The brief a person fills in\<close>

definition brief_fields :: "string list" where
  "brief_fields = [''title'', ''audience'', ''objectives'', ''minutes_per_lesson'', ''requested_nodes'']"

definition picked_fields :: "pydict \<Rightarrow> pydict" where
  "picked_fields d = map (\<lambda>k. (PStr k, dget d k))
     (filter (\<lambda>k. dget d k \<notin> {PNone, PStr []}) brief_fields)"

text \<open>\<open>None\<close> keeps the brief the session has.\<close>

fun filled_in :: "'v ui_env \<Rightarrow> pyval \<Rightarrow> exn + pydict option" where
  "filled_in U PNone = Inr None"
| "filled_in U (PDict d) = (if d = [] then Inr None
     else ebind (if ue_recorded U then item (ue_example U) ''title'' else Inr PNone) (\<lambda>title.
       if ue_recorded U \<and> (case dlookup d ''title'' of None \<Rightarrow> title | Some t \<Rightarrow> t) \<noteq> title then Inl gateway_error
       else ebind (item (ue_example U) ''id'') (\<lambda>i. Inr (Some ((PStr ''id'', i) # picked_fields d)))))"
| "filled_in U _ = Inl gateway_error"

text \<open>The model is asked until the outline is no longer being drafted, at most once more than it may repair.\<close>

primrec asking_outline :: "nat \<Rightarrow> 'v ui_env \<Rightarrow> ('v, unit) ui_act" where
  "asking_outline 0 U = ret ()"
| "asking_outline (Suc n) U = andthen (on_gate (at_machine current_revision)) (\<lambda>rv.
     if r_state rv \<noteq> OutlineDrafting then ret ()
     else andthen (on_gate (draft_outline (ue_gate U) (ue_ports U) the_author)) (\<lambda>_. asking_outline n U))"

definition draft_in_turn :: "'v ui_env \<Rightarrow> ('v, unit) ui_act" where
  "draft_in_turn U = andthen (gets (\<lambda>s. nat (budget (m_store (ui_machine s)) + 1))) (\<lambda>n. asking_outline n U)"

definition submitting :: "'v ui_env \<Rightarrow> pyval \<Rightarrow> ('v, unit) ui_act" where
  "submitting U given = andthen (lift (\<lambda>_. filled_in U given)) (\<lambda>b. block
     [modify (\<lambda>s. case b of None \<Rightarrow> s | Some d \<Rightarrow> s\<lparr>ui_brief := d\<rparr>),
      andthen (gets ui_brief) (\<lambda>d. on_gate (submit_brief (ue_gate U) (ue_ports U) d the_author)),
      draft_in_turn U])"

section \<open>The outline\<close>

definition author_id :: "pyval \<times> pyval" where
  "author_id = (PStr ''actor'', PStr ''author-1'')"

definition sending :: "'v ui_env \<Rightarrow> event \<Rightarrow> pydict \<Rightarrow> ('v, unit) ui_act" where
  "sending U e kv = on_gate (fire_event (ue_gate U) e kv ''orchestrator'')"

fun given_reason :: "pyval \<Rightarrow> exn + pyval" where
  "given_reason (PStr t) = (if stripped t = [] then Inl gateway_error else Inr (PStr (stripped t)))"
| "given_reason _ = Inl gateway_error"

definition rejecting_outline :: "'v ui_env \<Rightarrow> pyval \<Rightarrow> ('v, unit) ui_act" where
  "rejecting_outline U t = andthen (lift (\<lambda>_. given_reason t)) (\<lambda>why. block
     [sending U OutlineRejected [(PStr ''reason'', why), author_id], draft_in_turn U])"

definition offered_nodes :: "pyval \<Rightarrow> exn + pyval list" where
  "offered_nodes proposal = ebind (get_from (py_or proposal (PDict [])) ''nodes'') (\<lambda>ns.
     iter_of (py_or ns (PList [])))"

definition without_topic :: "string \<Rightarrow> pydict \<Rightarrow> pydict" where
  "without_topic i d = (case dget d ''topics'' of
     PList ts \<Rightarrow> dput ''topics'' (PList (filter (\<lambda>t. t \<noteq> PStr i) ts)) d | _ \<Rightarrow> d)"

definition is_exam :: "pydict \<Rightarrow> bool" where
  "is_exam d \<longleftrightarrow> dget d ''type'' = PStr ''exam''"

text \<open>The pure part of \<open>remove_node\<close>: the edited outline, or the refusal of an edit the course could not survive.\<close>

fun outline_without :: "pyval list \<Rightarrow> pyval \<Rightarrow> exn + pydict list" where
  "outline_without ns (PStr i) =
     ebind (traverse (\<lambda>n. ebind (get_from n ''id'') hash_key) ns) (\<lambda>ids.
     if PStr i \<notin> set ids then Inl gateway_error
     else let kept = map (without_topic i) (filter (\<lambda>d. dget d ''id'' \<noteq> PStr i) (map entries_of ns)) in
       if list_ex (\<lambda>d. is_exam d \<and> \<not> truthy (dget d ''topics'')) kept then Inl gateway_error
       else if \<not> list_ex (\<lambda>d. \<not> is_exam d) kept then Inl gateway_error
       else Inr kept)"
| "outline_without ns _ = Inl gateway_error"

definition removing_node :: "'v ui_env \<Rightarrow> pyval \<Rightarrow> ('v, unit) ui_act" where
  "removing_node U i = andthen (on_gate (at_machine current_revision)) (\<lambda>rv.
     andthen (lift (\<lambda>_. ebind (offered_nodes (r_proposal rv)) (\<lambda>ns. outline_without ns i))) (\<lambda>kept.
       sending U OutlineRevised [(PStr ''outline'', PDict [(PStr ''nodes'', PList (map PDict kept))]), author_id]))"

section \<open>The lessons and the course\<close>

text \<open>\<open>nodes[node]\<close> with what the page sent for a name.\<close>

fun named_node :: "pyval \<Rightarrow> exn + string" where
  "named_node (PStr i) = Inr i"
| "named_node v = Inl (if hashable v then PyError ''KeyError'' else type_error)"

definition images_of :: "string \<Rightarrow> pyval \<Rightarrow> exn + pyval list" where
  "images_of i content = ebind (get_from (py_or content (PDict [])) ''blocks'') (\<lambda>bs.
     ebind (iter_of (py_or bs (PList []))) (\<lambda>xs.
     Inr (map (\<lambda>(k, _). PStr (i @ ''.blocks['' @ int_text (int k) @ '']''))
       (filter (\<lambda>(_, b). is_pdict b \<and> dget (entries_of b) ''type'' = PStr ''image'') (enumerate 0 xs)))))"

definition must_run :: "('v, outcome) ui_act \<Rightarrow> ('v, unit) ui_act" where
  "must_run c = andthen c (\<lambda>out. if o_ran out then ret () else raise gateway_error)"

definition asking :: "'v ui_env \<Rightarrow> string \<Rightarrow> pydict \<Rightarrow> pydict \<Rightarrow> ('v, unit) ui_act" where
  "asking U name args who = must_run (on_gate
     (ask_membrane (ue_gate U) (ue_ports U) name args (Asking (PDict who)) None))"

definition approving :: "'v ui_env \<Rightarrow> pyval \<Rightarrow> ('v, unit) ui_act" where
  "approving U i = andthen (lift (\<lambda>_. named_node i)) (\<lambda>n.
     andthen (on_gate (at_machine (current_node n))) (\<lambda>nd.
     andthen (lift (\<lambda>_. images_of n (n_content nd))) (\<lambda>images.
     asking U ''approve_node'' ([(PStr ''node'', PStr n), (PStr ''what_was_shown'', PStr ''formal verdict'')]
       @ (if images = [] then [] else [(PStr ''visuals_reviewed'', PList images)])) the_author)))"

definition generating :: "'v ui_env \<Rightarrow> pyval \<Rightarrow> ('v, unit) ui_act" where
  "generating U i = andthen (lift (\<lambda>_. named_node i)) (\<lambda>n.
     andthen (on_gate (generate_node (ue_rounds U) (ue_gate U) (ue_ports U) n the_author)) (\<lambda>done.
       if done = None then raise RecursionLimit else ret ()))"

definition publishing :: "'v ui_env \<Rightarrow> ('v, unit) ui_act" where
  "publishing U = andthen (gets (\<lambda>s. m_current (ui_machine s))) (\<lambda>r.
     asking U ''publish_revision'' [(PStr ''revision'', PInt r)] the_admin)"

section \<open>Pressing a button\<close>

datatype button = Submit_b pyval | Reject_outline_b pyval | Remove_node_b pyval | Approve_outline_b
  | Generate_b pyval | Approve_b pyval | Reject_b pyval pyval | Release_b | Course_checks_b | Sign_b | Publish_b

fun method_of :: "button \<Rightarrow> string" where
  "method_of (Submit_b _) = ''submit''"
| "method_of (Reject_outline_b _) = ''reject_outline''"
| "method_of (Remove_node_b _) = ''remove_node''"
| "method_of Approve_outline_b = ''approve_outline''"
| "method_of (Generate_b _) = ''generate''"
| "method_of (Approve_b _) = ''approve''"
| "method_of (Reject_b _ _) = ''reject''"
| "method_of Release_b = ''release''"
| "method_of Course_checks_b = ''course_checks''"
| "method_of Sign_b = ''sign''"
| "method_of Publish_b = ''publish''"

fun pressing :: "'v ui_env \<Rightarrow> button \<Rightarrow> ('v, unit) ui_act" where
  "pressing U (Submit_b given) = submitting U given"
| "pressing U (Reject_outline_b why) = rejecting_outline U why"
| "pressing U (Remove_node_b i) = removing_node U i"
| "pressing U Approve_outline_b = sending U OutlineApproved [author_id]"
| "pressing U (Generate_b i) = generating U i"
| "pressing U (Approve_b i) = approving U i"
| "pressing U (Reject_b i why) = sending U NodeRejected [(PStr ''node'', i), (PStr ''reason'', why), author_id]"
| "pressing U Release_b = sending U BlockedInputFixed [author_id]"
| "pressing U Course_checks_b = sending U CourseChecksRequested []"
| "pressing U Sign_b = sending U ApprovalGranted [(PStr ''signatures'', signatures_under standard_notice 40)]"
| "pressing U Publish_b = publishing U"

text \<open>\<open>MachineRefused\<close> and the gateway's own refusal are told as refusals, anything else as an error.\<close>

definition a_refusal :: "exn \<Rightarrow> bool" where
  "a_refusal e \<longleftrightarrow> e \<in> {MachineRefused, gateway_error}"

definition ui_steps :: "'v ui \<Rightarrow> nat" where
  "ui_steps s = length (st_steps (m_store (ui_machine s)))"

definition act_on :: "'v ui_env \<Rightarrow> button \<Rightarrow> 'v ui \<Rightarrow> bool \<times> 'v ui" where
  "act_on U b s = (case pressing U b s of (r, s') \<Rightarrow>
     let message = (case r of
         Inl e \<Rightarrow> (if a_refusal e then Refused_press (method_of b) else Failed_press (method_of b) e)
       | Inr _ \<Rightarrow> Pressed (method_of b) (ui_steps s' - ui_steps s))
     in (\<not> isl r, s'\<lparr>ui_messages := ui_messages s' @ [message]\<rparr>))"

section \<open>What the page shows before there are nodes\<close>

fun offered_row :: "(pyval \<Rightarrow> string) \<Rightarrow> string \<Rightarrow> pyval \<Rightarrow> pyval list" where
  "offered_row fmt state (PDict d) = (if truthy (dget d ''id'') then [PDict
     [(PStr ''id'', PStr (case dget d ''id'' of PStr i \<Rightarrow> i | v \<Rightarrow> fmt v)), (PStr ''type'', dget d ''type''),
      (PStr ''skill'', dget d ''skill''), (PStr ''topics'', dget d ''topics''), (PStr ''state'', PStr state),
      (PStr ''repairs'', PInt 0), (PStr ''last_refusal'', PNone), (PStr ''content'', PNone)]] else [])"
| "offered_row fmt state _ = []"

definition offered_outline :: "(pyval \<Rightarrow> string) \<Rightarrow> revision_record \<Rightarrow> pyval list" where
  "offered_outline fmt rv = concat (map
     (offered_row fmt (if r_state rv = OutlineReview then ''Proposed'' else ''Refused''))
     (case r_proposal rv of PDict d \<Rightarrow> (case dget d ''nodes'' of PList ns \<Rightarrow> ns | _ \<Rightarrow> []) | _ \<Rightarrow> []))"

definition labelled_with :: "string \<Rightarrow> pyval \<Rightarrow> exn + pyval" where
  "labelled_with k v = ebind (entry v) (\<lambda>d. ebind (item d k) (\<lambda>i. ebind (item d ''label'') (\<lambda>l.
     Inr (PDict [(PStr ''id'', i), (PStr ''label'', l)]))))"

definition listed :: "pydict \<Rightarrow> string \<Rightarrow> string \<Rightarrow> exn + pyval" where
  "listed d k i = ebind (item d k) (\<lambda>v. ebind (iter_of v) (\<lambda>xs.
     ebind (traverse (labelled_with i) xs) (\<lambda>rows. Inr (PList rows))))"

definition form_options :: "world \<Rightarrow> exn + pydict" where
  "form_options w = ebind (item (w_org w) ''organisation'') (\<lambda>o'. ebind (entry o') (\<lambda>org.
     ebind (listed org ''audiences'' ''slug'') (\<lambda>audiences.
     ebind (listed (w_catalog w) ''skills'' ''id'') (\<lambda>offered_skills.
     ebind (traverse (item (w_thresholds w)) [''max_minutes_per_lesson'', ''max_nodes_per_course'',
         ''max_audience_breadth'']) (\<lambda>limits.
       Inr [(PStr ''audiences'', audiences), (PStr ''skills'', offered_skills), (PStr ''limits'', PDict
         (zip (map PStr [''minutes_per_lesson'', ''requested_nodes'', ''audience'']) limits))])))))"

end
