(* ===== verification/Page.thy ===== *)
theory Page
  imports Session Schema_Engine
begin

text \<open>
  The page's server (\<open>ui/server.py\<close>): which requests may press a button, which button a path
  presses with which fields, and what a reset does.  Reading a request off the socket and
  parsing its JSON is Python's; a body that does not parse arrives as none.
\<close>

record page_request =
  rq_host :: "string option"
  rq_origin :: "string option"
  rq_type :: "string option"
  rq_body :: "pyval option"

record 'v page =
  pg_env :: "'v ui_env"
  pg_ui :: "'v ui"

definition local_names :: "nat \<Rightarrow> string list" where
  "local_names port = [''localhost:'' @ decimal port, ''127.0.0.1:'' @ decimal port]"

definition from_this_page :: "nat \<Rightarrow> page_request \<Rightarrow> bool" where
  "from_this_page port rq \<longleftrightarrow>
     (case rq_host rq of None \<Rightarrow> False | Some h \<Rightarrow> h \<in> set (local_names port))
     \<and> (case rq_origin rq of None \<Rightarrow> True | Some origin \<Rightarrow> without_start ''http://'' origin \<in> set (local_names port))
     \<and> starts_with ''application/json'' (case rq_type rq of None \<Rightarrow> [] | Some kind \<Rightarrow> kind)"

text \<open>\<open>ACTIONS\<close>: a path, the method it presses and the fields it reads.\<close>

definition page_button :: "string \<Rightarrow> pydict \<Rightarrow> button option" where
  "page_button name d = map_of [(''submit'', Submit_b (dget d ''brief'')), (''approve-outline'', Approve_outline_b),
     (''generate'', Generate_b (dget d ''node'')), (''approve'', Approve_b (dget d ''node'')),
     (''reject'', Reject_b (dget d ''node'') (dget d ''reason'')), (''checks'', Course_checks_b),
     (''sign'', Sign_b), (''publish'', Publish_b), (''release'', Release_b),
     (''reject-outline'', Reject_outline_b (dget d ''reason'')), (''remove-node'', Remove_node_b (dget d ''node''))] name"

definition preset_names :: "string list" where
  "preset_names = [''course'', ''forbidden'', ''infeasible'', ''audience'']"

definition one_among :: "string list \<Rightarrow> pyval \<Rightarrow> string" where
  "one_among names v = (case v of PStr s \<Rightarrow> (if s \<in> set names then s else hd names) | _ \<Rightarrow> hd names)"

text \<open>A reset builds a session anew; one that cannot be built leaves the old one and says why.\<close>

definition resetting :: "(string \<Rightarrow> string \<Rightarrow> exn + 'v page) \<Rightarrow> pydict \<Rightarrow> 'v page \<Rightarrow> (exn + nat \<times> bool) \<times> 'v page" where
  "resetting fresh d p =
     (if \<not> hashable (dget d ''preset'') then (Inl type_error, p)
      else case fresh (one_among [''recorded'', ''live''] (dget d ''mode'')) (one_among preset_names (dget d ''preset'')) of
        Inl e \<Rightarrow> (Inr (200, False), p)
      | Inr p' \<Rightarrow> (Inr (200, True), p'))"

text \<open>\<open>do_POST\<close>: the status and whether the reply says ok.\<close>

definition post :: "(string \<Rightarrow> string \<Rightarrow> exn + 'v page) \<Rightarrow> nat \<Rightarrow> string \<Rightarrow> page_request \<Rightarrow> 'v page
    \<Rightarrow> (exn + nat \<times> bool) \<times> 'v page" where
  "post fresh port path rq p =
     (if \<not> from_this_page port rq then (Inr (403, False), p)
      else case rq_body rq of
        Some (PDict d) \<Rightarrow>
          (let name = without_start ''/api/'' path in
           if name = ''reset'' then resetting fresh d p
           else case page_button name d of
             None \<Rightarrow> (Inr (404, False), p)
           | Some b \<Rightarrow> (case act_on (pg_env p) b (pg_ui p) of (ok, s) \<Rightarrow> (Inr (200, ok), p\<lparr>pg_ui := s\<rparr>)))
      | _ \<Rightarrow> (Inr (400, False), p))"

end
