(* ===== verification/Page_Properties.thy ===== *)
theory Page_Properties
  imports Page Pipeline_Properties
begin

text \<open>
  What the page can do to a course: press buttons, each of which leaves a message and none of
  which reaches a published revision; take a node out of an outline without leaving a trace of
  it; and nothing at all for a request that did not come from the page itself.
\<close>

section \<open>What every button keeps\<close>

definition ui_rel :: "('v outside gate \<Rightarrow> 'v outside gate \<Rightarrow> bool) \<Rightarrow> 'v ui \<Rightarrow> 'v ui \<Rightarrow> bool" where
  "ui_rel R s s' \<longleftrightarrow> R (ui_gate s) (ui_gate s') \<and> ui_messages s' = ui_messages s"

sublocale gateway_frame \<subseteq> screen: state_preorder "ui_rel R"
proof
  show "ui_rel R s s" for s by (simp add: ui_rel_def same)
  show "ui_rel R s t \<Longrightarrow> ui_rel R t u \<Longrightarrow> ui_rel R s u" for s t u
    unfolding ui_rel_def using compose by metis
qed

context gateway_frame
begin

lemma keeps_on_gate: "keeps R c \<Longrightarrow> keeps (ui_rel R) (on_gate c)"
proof (rule keepsI)
  fix s :: "'v ui"
  assume c: "keeps R c"
  obtain r g where run: "c (ui_gate s) = (r, g)" by fastforce
  then have "R (ui_gate s) g" using c by (rule keepsD [rotated])
  then show "ui_rel R s (snd (on_gate c s))" by (simp add: on_gate_def run ui_rel_def)
qed

lemma keeps_reading: "keeps (ui_rel R) (on_gate (at_machine f))"
  by (intro keeps_on_gate keeps_at_machine)

lemma keeps_asking_outline: "ue_gate U = G \<Longrightarrow> keeps (ui_rel R) (asking_outline n U)"
proof (induction n)
  case (Suc n)
  show ?case
    unfolding asking_outline.simps Suc.prems
    by (intro screen.combinators keeps_reading keeps_on_gate keeps_draft_outline Suc)
qed (simp add: screen.keeps_ret)

lemma keeps_draft_in_turn: "ue_gate U = G \<Longrightarrow> keeps (ui_rel R) (draft_in_turn U)"
  unfolding draft_in_turn_def by (intro screen.combinators keeps_asking_outline)

lemma keeps_sending: "ue_gate U = G \<Longrightarrow> keeps (ui_rel R) (sending U e kv)"
  by (simp add: sending_def keeps_on_gate keeps_fire_event)

lemma keeps_asking: "ue_gate U = G \<Longrightarrow> keeps (ui_rel R) (asking U name args who)"
  by (simp add: asking_def must_run_def, intro screen.combinators keeps_on_gate keeps_ask_membrane)

lemma keeps_new_brief: "keeps (ui_rel R) (modify (\<lambda>s. case b of None \<Rightarrow> s | Some d \<Rightarrow> s\<lparr>ui_brief := d\<rparr>))"
  by (rule screen.keeps_modify) (auto simp: ui_rel_def same split: option.split)

lemma keeps_block: "(\<And>c. c \<in> set cs \<Longrightarrow> keeps (ui_rel R) c) \<Longrightarrow> keeps (ui_rel R) (block cs)"
  by (induction cs) (auto intro!: screen.keeps_ret screen.keeps_andthen)

lemma keeps_pressing:
  assumes "ue_gate U = G"
  shows "keeps (ui_rel R) (pressing U b)"
proof (cases b)
  case (Submit_b given)
  have "keeps (ui_rel R) (andthen (gets ui_brief) (\<lambda>d. on_gate (submit_brief (ue_gate U) (ue_ports U) d the_author)))"
    unfolding assms by (intro screen.combinators keeps_on_gate keeps_submit_brief)
  then show ?thesis
    using Submit_b assms
    by (auto simp: submitting_def simp del: block.simps
        intro!: screen.combinators keeps_block keeps_new_brief keeps_draft_in_turn)
next
  case (Reject_outline_b why)
  then show ?thesis
    using assms by (auto simp: rejecting_outline_def simp del: block.simps
        intro!: screen.combinators keeps_block keeps_sending keeps_draft_in_turn)
next
  case (Generate_b i)
  then show ?thesis
    by (simp add: generating_def assms, intro screen.combinators keeps_on_gate keeps_generate_node)
qed (auto simp: removing_node_def approving_def publishing_def assms
    intro!: screen.combinators keeps_reading keeps_sending keeps_asking)

lemma act_on_keeps: "ue_gate U = G \<Longrightarrow> act_on U b s = (ok, s') \<Longrightarrow>
    R (ui_gate s) (ui_gate s') \<and> length (ui_messages s') = Suc (length (ui_messages s))"
  using keepsD [OF keeps_pressing, of U b s]
  by (auto simp: act_on_def ui_rel_def Let_def split: prod.splits)

lemma post_keeps:
  assumes "post fresh port path rq p = (r, p')" and "ue_gate (pg_env p) = G" and "without_start ''/api/'' path \<noteq> ''reset''"
  shows "pg_env p' = pg_env p \<and> R (ui_gate (pg_ui p)) (ui_gate (pg_ui p'))"
  using assms act_on_keeps [OF assms(2)]
  by (auto simp: post_def Let_def same split: if_splits option.splits pyval.splits prod.splits)

end

section \<open>A page that is posted to\<close>

primrec posted :: "(string \<Rightarrow> string \<Rightarrow> exn + 'v page) \<Rightarrow> nat \<Rightarrow> (string \<times> page_request) list \<Rightarrow> 'v page \<Rightarrow> 'v page" where
  "posted fresh port [] p = p"
| "posted fresh port (x # xs) p = posted fresh port xs (snd (post fresh port (fst x) (snd x) p))"

definition no_reset :: "(string \<times> page_request) list \<Rightarrow> bool" where
  "no_reset xs \<longleftrightarrow> list_all (\<lambda>x. without_start ''/api/'' (fst x) \<noteq> ''reset'') xs"

context gateway_frame
begin

lemma posted_keeps:
  "ue_gate (pg_env p) = G \<Longrightarrow> no_reset xs \<Longrightarrow>
     R (ui_gate (pg_ui p)) (ui_gate (pg_ui (posted fresh port xs p)))"
proof (induction xs arbitrary: p)
  case (Cons x xs)
  let ?p = "snd (post fresh port (fst x) (snd x) p)"
  have "pg_env ?p = pg_env p \<and> R (ui_gate (pg_ui p)) (ui_gate (pg_ui ?p))"
    using post_keeps [OF prod.collapse [symmetric] Cons.prems(1)] Cons.prems(2) by (simp add: no_reset_def)
  then show ?case using Cons.IH [of ?p] Cons.prems compose by (auto simp: no_reset_def)
qed (simp add: same)

end

text \<open>C39. Whatever is posted to the page, by whom and in whatever order, short of starting the session
  over: a revision that is not a draft keeps its outline and the state, content and spec of its nodes,
  the trace only grows at its end, and keys that landed stay landed.\<close>

theorem posts_keep_published:
  assumes "e_table (ge_env G) = spec_table" and "g_machine g0 = new_machine w cfg rd en"
    and "gateway_run G P g0 (ui_gate (pg_ui p))" and "ue_gate (pg_env p) = G" and "no_reset xs"
    and "revision (ui_machine (pg_ui p)) r = Some rv" and "\<not> is_draft rv"
  shows "(\<exists>rv'. revision (ui_machine (pg_ui (posted fresh port xs p))) r = Some rv' \<and> \<not> is_draft rv'
      \<and> map (\<lambda>(i, n). (i, n_state n, n_content n, n_spec n)) (r_nodes rv')
          = map (\<lambda>(i, n). (i, n_state n, n_content n, n_spec n)) (r_nodes rv)
      \<and> r_committed_outline rv' = r_committed_outline rv \<and> r_outline_version rv' = r_outline_version rv)
    \<and> prefix (st_steps (m_store (ui_machine (pg_ui p))))
        (st_steps (m_store (ui_machine (pg_ui (posted fresh port xs p)))))
    \<and> set (st_used_keys (m_store (ui_machine (pg_ui p))))
        \<subseteq> set (st_used_keys (m_store (ui_machine (pg_ui (posted fresh port xs p)))))"
  using published_kept [OF assms(1,2) sealed.run_keeps [OF assms(3)] sealed.posted_keeps [OF assms(4,5)]
      growing.posted_keeps [OF assms(4,5)]] assms(6,7)
  unfolding ui_machine_def by blast

text \<open>C40. Only this page presses the buttons: a request under another host or from another page's origin is
  turned away with nothing changed, and whenever a post changes anything it came from this page and
  its path named a reset, whose new session it is, or a button, of which it is the press.\<close>

theorem only_this_page:
  "((\<forall>h. rq_host rq = Some h \<longrightarrow> h \<noteq> ''localhost:'' @ decimal port \<and> h \<noteq> ''127.0.0.1:'' @ decimal port) \<or>
      (\<exists>origin. rq_origin rq = Some origin \<and> without_start ''http://'' origin \<notin> set (local_names port)) \<longrightarrow>
      post fresh port path rq p = (Inr (403, False), p))
    \<and> (snd (post fresh port path rq p) \<noteq> p \<longrightarrow> from_this_page port rq \<and> (\<exists>d. rq_body rq = Some (PDict d)
      \<and> (without_start ''/api/'' path = ''reset'' \<and> (\<exists>mode preset. fresh mode preset = Inr (snd (post fresh port path rq p)))
        \<or> (\<exists>b. page_button (without_start ''/api/'' path) d = Some b
            \<and> snd (post fresh port path rq p) = p\<lparr>pg_ui := snd (act_on (pg_env p) b (pg_ui p))\<rparr>))))"
proof (intro conjI)
  show "(\<forall>h. rq_host rq = Some h \<longrightarrow> h \<noteq> ''localhost:'' @ decimal port \<and> h \<noteq> ''127.0.0.1:'' @ decimal port) \<or>
      (\<exists>origin. rq_origin rq = Some origin \<and> without_start ''http://'' origin \<notin> set (local_names port)) \<longrightarrow>
      post fresh port path rq p = (Inr (403, False), p)"
    by (auto simp: post_def from_this_page_def local_names_def split: option.splits)
qed (auto simp: post_def resetting_def Let_def split: option.splits pyval.splits prod.splits sum.splits)

section \<open>An outline without a node\<close>

lemma removed_node_is_gone:
  assumes "outline_without (map PDict ds) v = Inr kept"
  shows "v \<in> (\<lambda>d. dget d ''id'') ` set ds"
    and "map (\<lambda>d. dget d ''id'') kept = filter (\<lambda>i. i \<noteq> v) (map (\<lambda>d. dget d ''id'') ds)"
    and "d \<in> set kept \<Longrightarrow> dget d ''topics'' = PList ts \<Longrightarrow> v \<notin> set ts"
    and "d \<in> set kept \<Longrightarrow> is_exam d \<Longrightarrow> truthy (dget d ''topics'')"
    and "\<exists>d \<in> set kept. \<not> is_exam d"
proof -
  obtain i where v: "v = PStr i" using assms by (cases v) auto
  have ids: "traverse (\<lambda>n. ebind (get_from n ''id'') hash_key) (map PDict ds) = Inr xs \<Longrightarrow>
      xs = map (\<lambda>d. dget d ''id'') ds" for xs
    by (induction ds arbitrary: xs) (auto simp: hash_key_def split: if_splits)
  have kept: "kept = map (without_topic i) (filter (\<lambda>d. dget d ''id'' \<noteq> v) ds)"
    and named: "v \<in> (\<lambda>d. dget d ''id'') ` set ds"
    and rest: "\<not> list_ex (\<lambda>d. is_exam d \<and> \<not> truthy (dget d ''topics'')) kept" "list_ex (\<lambda>d. \<not> is_exam d) kept"
    using assms by (auto simp: v o_def Let_def dest!: ids split: if_splits)
  show "v \<in> (\<lambda>d. dget d ''id'') ` set ds" by (rule named)
  have same_id: "dget (without_topic i d) ''id'' = dget d ''id''" for d
    by (simp add: without_topic_def dget_dput split: pyval.split)
  show "map (\<lambda>d. dget d ''id'') kept = filter (\<lambda>i. i \<noteq> v) (map (\<lambda>d. dget d ''id'') ds)"
    by (simp add: kept o_def same_id filter_map)
  show "v \<notin> set ts" if "d \<in> set kept" "dget d ''topics'' = PList ts"
    using that by (auto simp: kept v without_topic_def dget_dput split: pyval.splits if_splits)
  show "truthy (dget d ''topics'')" if "d \<in> set kept" "is_exam d"
    using rest(1) that by (auto simp: list_ex_iff)
  show "\<exists>d \<in> set kept. \<not> is_exam d" using rest(2) by (auto simp: list_ex_iff)
qed

section \<open>Witnesses\<close>

definition quiet_env :: "nat ui_env" where
  "quiet_env = \<lparr>ue_recorded = True, ue_example = [], ue_gate = sample_gates, ue_ports = counting_ports, ue_rounds = 1\<rparr>"

definition quiet_page :: "nat page" where
  "quiet_page = \<lparr>pg_env = quiet_env, pg_ui = \<lparr>ui_gate = sample_gate sample_archived, ui_brief = [], ui_messages = []\<rparr>\<rparr>"

definition never_fresh :: "string \<Rightarrow> string \<Rightarrow> exn + nat page" where
  "never_fresh mode preset = Inl EngineUnavailable"

definition own_request :: page_request where
  "own_request = \<lparr>rq_host = Some ''localhost:88'', rq_origin = Some ''http://localhost:88'',
     rq_type = Some ''application/json'', rq_body = Some (PDict [])\<rparr>"

definition foreign_request :: page_request where
  "foreign_request = own_request\<lparr>rq_origin := Some ''http://elsewhere''\<rparr>"

text \<open>A press is heard, and the archived course stands.\<close>

theorem posts_keep_published_witness:
  "ui_messages (pg_ui (posted never_fresh 88 [(''/api/checks'', own_request)] quiet_page)) = [Refused_press ''course_checks'']
    \<and> (\<exists>rv'. revision (ui_machine (pg_ui (posted never_fresh 88 [(''/api/checks'', own_request)] quiet_page))) 1 = Some rv'
      \<and> \<not> is_draft rv')"
proof -
  have heard: "ui_messages (pg_ui (posted never_fresh 88 [(''/api/checks'', own_request)] quiet_page))
      = [Refused_press ''course_checks'']" by code_simp
  have plain_posts: "no_reset [(''/api/checks'', own_request)]" by code_simp
  have table: "e_table (ge_env sample_gates) = spec_table" by (simp add: sample_gates_def)
  have born: "g_machine (sample_gate sample_machine) = new_machine sample_world
     \<lparr>cfg_repair_budget = 2, cfg_author = PStr ''ana''\<rparr> [] (PInt 3)" by (simp add: sample_gate_def sample_machine_def)
  have "fire_event sample_gates DraftDiscarded [] ''editor'' (sample_gate sample_machine)
      = (fst (fire_upto 3 sample_env DraftDiscarded [] ''editor'' sample_machine), sample_gate sample_archived)"
    by (simp add: fire_event_def on_machine_def sample_gate_def sample_gates_def sample_archived_def
        numeral_3_eq_3 numeral_2_eq_2 split_beta)
  then have past: "gateway_run sample_gates counting_ports (sample_gate sample_machine) (ui_gate (pg_ui quiet_page))"
    unfolding quiet_page_def by (auto intro: gateway_run.fired [OF gateway_run.start])
  have was: "revision (ui_machine (pg_ui quiet_page)) 1 = Some (the (revision sample_archived 1))"
    using sample_archived_revision(1) by (simp add: sample_gate_def quiet_page_def ui_machine_def)
  have "ue_gate (pg_env quiet_page) = sample_gates" by (simp add: quiet_page_def quiet_env_def)
  from posts_keep_published [OF table born past this plain_posts was sample_archived_revision(2)] show ?thesis
    using heard by blast
qed

theorem only_this_page_witness:
  "post never_fresh 88 ''/api/checks'' foreign_request quiet_page = (Inr (403, False), quiet_page)
    \<and> from_this_page 88 own_request"
proof
  have "rq_origin foreign_request = Some ''http://elsewhere''
      \<and> without_start ''http://'' ''http://elsewhere'' \<notin> set (local_names 88)" by code_simp
  then show "post never_fresh 88 ''/api/checks'' foreign_request quiet_page = (Inr (403, False), quiet_page)"
    using only_this_page [of foreign_request 88 never_fresh "''/api/checks''" quiet_page] by blast
  have "ui_messages (pg_ui (snd (post never_fresh 88 ''/api/checks'' own_request quiet_page))) \<noteq> ui_messages (pg_ui quiet_page)"
    by code_simp
  then have "snd (post never_fresh 88 ''/api/checks'' own_request quiet_page) \<noteq> quiet_page" by metis
  then show "from_this_page 88 own_request"
    using only_this_page [of own_request 88 never_fresh "''/api/checks''" quiet_page] by blast
qed

end
