(* ===== verification/Written_Runs.thy ===== *)
theory Written_Runs
  imports Invariants
begin

text \<open>
  \<open>scenarios/legal_run.py\<close>: the runs the specification declares legal, written step by step with
  state carried forward, and what the tests do to them: change one field, find one event.
\<close>

section \<open>A run that carries its state forward\<close>

record written_run =
  wr_state :: pydict
  wr_steps :: "pydict list"

definition default_state :: pydict where
  "default_state = [(PStr ''revision'', PInt 1), (PStr ''course_state'', PStr ''AwaitingBrief''),
     (PStr ''node_states'', PDict []), (PStr ''retry_budget_left'', PDict []), (PStr ''committed_outline'', PNone),
     (PStr ''approved_nodes'', PList []), (PStr ''permission_checked'', PList []), (PStr ''used_restricted'', PList []),
     (PStr ''stale_nodes'', PList []), (PStr ''policy_version'', PStr ''p12''), (PStr ''current_policy_version'', PStr ''p12''),
     (PStr ''guardrail_version'', PStr ''g4''), (PStr ''current_guardrail_version'', PStr ''g4''), (PStr ''affected'', PBool True),
     (PStr ''live_pointer'', PNone), (PStr ''revision_states'', PDict [(PInt 1, PStr ''AwaitingBrief'')]),
     (PStr ''forked_from'', PDict []), (PStr ''re_verified'', PList [])]"

definition run_from :: "pydict \<Rightarrow> written_run" where
  "run_from initial = (let s = dmerge default_state initial in
     \<lparr>wr_state = s, wr_steps = [dmerge [(PStr ''event'', PStr ''(initial)'')] s]\<rparr>)"

definition padded :: "nat \<Rightarrow> nat \<Rightarrow> string" where
  "padded w n = (let d = decimal n in replicate (w - length d) (CHR ''0'') @ d)"

definition keyed_events :: "string list" where
  "keyed_events = [''OutlineGenerated'', ''NodeGenerated'', ''GuardrailVerdict'', ''LivePointerMoved'', ''LearnersNotified'']"

text \<open>\<open>{**state.get(key, {}), **more}\<close>, where there is more.\<close>

definition over_state :: "written_run \<Rightarrow> string \<Rightarrow> pydict \<Rightarrow> pydict \<Rightarrow> pydict" where
  "over_state run k entries changes = (if entries = [] then changes
     else dput k (PDict (dmerge (entries_of (dget (wr_state run) k)) entries)) changes)"

definition envelope_at :: "string \<Rightarrow> nat \<Rightarrow> pydict" where
  "envelope_at e n = [(PStr ''event_id'', PStr (''e'' @ padded 3 n)),
     (PStr ''event_time'', PStr (''2026-09-01T10:'' @ padded 2 n @ '':00Z'')), (PStr ''producer'', PStr ''orchestrator''),
     (PStr ''correlation_id'', PStr ''rev-1''), (PStr ''causation_id'', PStr (''e'' @ padded 3 (n - 1))),
     (PStr ''schema_version'', PStr ''1'')]
     @ (if e \<in> set keyed_events then [(PStr ''idempotency_key'', PStr (e @ '':'' @ decimal n))] else [])"

definition and_then :: "string \<Rightarrow> pydict \<Rightarrow> pydict \<Rightarrow> pydict \<Rightarrow> pydict \<Rightarrow> written_run \<Rightarrow> written_run" where
  "and_then e ns revisions payload changes run =
     (let state = dmerge (wr_state run) (over_state run ''revision_states'' revisions
            (over_state run ''node_states'' ns changes));
          step = dmerge (dmerge (dmerge [(PStr ''event'', PStr e)] state) payload) (envelope_at e (length (wr_steps run)))
      in \<lparr>wr_state = state, wr_steps = wr_steps run @ [step]\<rparr>)"

section \<open>The legal runs\<close>

definition node_1 :: string where "node_1 = ''mt-node-001''"
definition node_2 :: string where "node_2 = ''mt-node-002''"
definition the_exam :: string where "the_exam = ''mt-node-003''"

definition states_of :: "(string \<times> string) list \<Rightarrow> pydict" where
  "states_of xs = map (\<lambda>(k, s). (PStr k, PStr s)) xs"

definition course_in :: "string \<Rightarrow> pydict" where
  "course_in s = [(PStr ''course_state'', PStr s)]"

definition revision_in :: "(int \<times> string) list \<Rightarrow> pydict" where
  "revision_in xs = map (\<lambda>(r, s). (PInt r, PStr s)) xs"

definition with_approved :: "string \<Rightarrow> written_run \<Rightarrow> pydict" where
  "with_approved i run = [(PStr ''approved_nodes'', strs (sorted_names
     (map str_of (items_of (dget (wr_state run) ''approved_nodes'')) @ [i])))]"

definition generate_and_admit :: "string \<Rightarrow> pydict \<Rightarrow> pydict \<Rightarrow> written_run \<Rightarrow> written_run" where
  "generate_and_admit i retries payload run =
     (let requested = and_then ''NodeGenerationRequested'' (states_of [(i, ''ContentDrafting'')]) [] []
            [(PStr ''retry_budget_left'', PDict (dmerge retries [(PStr i, PBool True)]))] run;
          generated = and_then ''NodeGenerated'' (states_of [(i, ''Generated'')]) []
            (dmerge [(PStr ''node'', PStr i)] payload) [] requested;
          screened = and_then ''GuardrailVerdict'' (states_of [(i, ''NodeChecks'')]) [] [(PStr ''artifact'', PStr i)] [] generated;
          validated = and_then ''(auto)'' (states_of [(i, ''Validated'')]) [] [] [] screened
      in and_then ''NodeApproved'' (states_of [(i, ''NodeApproved'')]) [] [(PStr ''node'', PStr i)]
           (with_approved i validated) validated)"

definition base_run :: written_run where
  "base_run =
     (let outlined = and_then ''OutlineApproved'' [] (revision_in [(1, ''ContentInProgress'')]) []
            (course_in ''ContentInProgress'' @ [(PStr ''committed_outline'', strs [node_1, node_2, the_exam])])
          (and_then ''GuardrailVerdict'' [] [] [(PStr ''artifact'', PStr ''outline'')] []
          (and_then ''OutlineGenerated'' (states_of [(node_1, ''Planned''), (node_2, ''Planned''), (the_exam, ''Planned'')]) [] []
            (course_in ''OutlineDrafting'')
          (and_then ''BriefSubmitted'' [] [] [] (course_in ''BriefValidation'') (run_from []))));
          written = generate_and_admit the_exam [] [(PStr ''node_type'', PStr ''exam''), (PStr ''topics'', strs [node_1, node_2])]
            (generate_and_admit node_2 [] [] (generate_and_admit node_1 [] [] outlined))
      in and_then ''LearnersNotified'' [] [] [] []
        (and_then ''LivePointerMoved'' [] [] [] [(PStr ''live_pointer'', PInt 1)]
        (and_then ''PublishRequested'' [] (revision_in [(1, ''Published'')]) [] (course_in ''Published'')
        (and_then ''ApprovalGranted'' [] (revision_in [(1, ''Approved'')]) [] (course_in ''Approved'')
        (and_then ''(auto)'' [] (revision_in [(1, ''PendingApproval'')]) [] (course_in ''PendingApproval'')
        (and_then ''CourseChecksRequested'' [] (revision_in [(1, ''WholeCourseChecks'')]) [] (course_in ''WholeCourseChecks'')
           written))))))"

definition happy_run :: "pydict list" where
  "happy_run = wr_steps base_run"

definition removal_run :: "pydict list" where
  "removal_run = wr_steps (and_then ''OutlineRevised'' (states_of [(node_2, ''Removed'')]) [] []
     (course_in ''OutlineDrafting'' @ [(PStr ''committed_outline'', strs [node_1])])
     (run_from [(PStr ''revision'', PInt 1), (PStr ''course_state'', PStr ''ContentInProgress''),
        (PStr ''node_states'', PDict (states_of [(node_1, ''NodeApproved''), (node_2, ''Planned'')])),
        (PStr ''committed_outline'', strs [node_1, node_2]), (PStr ''approved_nodes'', strs [node_1])]))"

definition rollback_run :: "pydict list" where
  "rollback_run = wr_steps
     (and_then ''LivePointerMoved'' [] (revision_in [(1, ''Published''), (2, ''Superseded'')])
        [(PStr ''rolled_back_to'', PInt 1)] [(PStr ''live_pointer'', PInt 1)]
     (and_then ''(auto)'' [] (revision_in [(1, ''Approved'')]) [] [(PStr ''re_verified'', PList [PInt 1])]
     (and_then ''RollbackRequested'' [] (revision_in [(1, ''StaleReview'')]) [] []
     (and_then ''LivePointerMoved'' [] (revision_in [(1, ''Superseded''), (2, ''Published'')]) [] [(PStr ''live_pointer'', PInt 2)]
     (run_from [(PStr ''revision'', PInt 2), (PStr ''course_state'', PStr ''Published''), (PStr ''live_pointer'', PInt 1),
        (PStr ''revision_states'', PDict (revision_in [(1, ''Published''), (2, ''Approved'')])),
        (PStr ''forked_from'', PDict [(PInt 2, PInt 1)]), (PStr ''re_verified'', PList [])])))))"

definition restricted_run :: "pydict list" where
  "restricted_run = wr_steps
     (and_then ''NodeGenerated'' [] [] [(PStr ''node'', PStr node_1)]
        [(PStr ''used_restricted'', strs [node_1]), (PStr ''node_states'', PDict (states_of [(node_1, ''Generated'')]))]
     (and_then ''(auto)'' [] [] [] [(PStr ''permission_checked'', strs [node_1])]
     (run_from [(PStr ''revision'', PInt 1), (PStr ''course_state'', PStr ''ContentInProgress''),
        (PStr ''permission_checked'', PList []), (PStr ''used_restricted'', PList [])])))"

definition held_run :: "pydict list" where
  "held_run = wr_steps
     (and_then ''Timeout'' (states_of [(node_1, ''NodeRecovery'')]) [] []
        ([(PStr ''retry_budget_left'', PDict [(PStr node_1, PBool False)])] @ course_in ''BlockedRecoverable'')
     (run_from [(PStr ''revision'', PInt 1), (PStr ''course_state'', PStr ''ContentInProgress''),
        (PStr ''node_states'', PDict (states_of [(node_1, ''OutputGuardrail'')])),
        (PStr ''retry_budget_left'', PDict [(PStr node_1, PBool True)])]))"

definition legal_scenarios :: "(string \<times> pydict list) list" where
  "legal_scenarios = [(''the happy path'', happy_run), (''a rollback through re-verification'', rollback_run),
     (''a node removed through a re-committed outline'', removal_run),
     (''a restricted source used after a rights check'', restricted_run),
     (''a node that has spent its retries'', held_run)]"

section \<open>One field changed\<close>

text \<open>\<open>mutate\<close> and \<open>find\<close>, which raise where there is no such step.\<close>

definition mutate :: "pydict list \<Rightarrow> nat \<Rightarrow> pydict \<Rightarrow> exn + pydict list" where
  "mutate run k changes = (if k < length run then Inr (run[k := dmerge (run ! k) changes]) else Inl (PyError ''IndexError''))"

definition find_event :: "pydict list \<Rightarrow> string \<Rightarrow> nat \<Rightarrow> exn + nat" where
  "find_event run e occurrence = (let hits = filter (\<lambda>k. dget (run ! k) ''event'' = PStr e) [0..<length run] in
     if length hits \<le> occurrence then Inl (PyError ''AssertionError'') else Inr (hits ! occurrence))"

text \<open>The short runs pass whole.\<close>

definition passes :: "pydict list \<Rightarrow> bool" where
  "passes run \<longleftrightarrow> (case check_trace run of Inr v \<Rightarrow> v_ok v | Inl _ \<Rightarrow> False)"

lemma short_runs_pass: "passes removal_run" "passes rollback_run" "passes restricted_run" "passes held_run"
  by code_simp+

text \<open>One field changed: a node out of retries and a course that goes on, a pointer at a revision that only waits.\<close>

lemma held_run_mutated: "\<not> passes (projr (mutate held_run 1 [(PStr ''course_state'', PStr ''ContentInProgress'')]))"
  by code_simp

lemma rollback_run_mutated:
  "\<not> passes (projr (mutate rollback_run 4 [(PStr ''revision_states'', PDict (revision_in [(1, ''Approved''), (2, ''Superseded'')]))]))"
  by code_simp

end
