(* ===== verification/Spec2Isabelle.thy ===== *)
theory Spec2Isabelle
  imports Temporal_Properties Datalog_Properties Arithmetic_Properties Pipeline_Properties Schema_Properties Coverage_Properties Policy_Properties Fuel Table_Loader
    Whole_Course Provider_Properties Page_Properties Written_Runs
begin

text \<open>
  A verification development for the governed course generator.

  The program runs two state machines over one course: a revision machine and a node machine,
  whose rows are data (\<open>model/transitions.yaml\<close>), whose guards are answered either by the
  store or by a formal engine, and whose every step is recorded in a trace that a temporal
  engine later judges.  \<open>Machine.fire\<close> (\<open>machine/machine.py\<close>) is the one way in: it finds the
  first row whose guard holds, applies it with its bookkeeping, lets the machines settle and
  records a step, or it refuses and leaves everything as it was.

  The theories, in the order the code is layered:

  \<^item> \<open>Prelude\<close>, \<open>Effects\<close>: Python values and dictionaries in insertion order; a state and
    exception computation in which, as in Python, what was written before an exception stays
    written; the relations that every outcome keeps (a locale with its combinator rules).
  \<^item> \<open>Vocabulary\<close>, \<open>Spec_Tables\<close>: states, events, guard names, rows; the two tables as
    \<open>machine/transition_table.py\<close> loads them, with \<open>complement_literals\<close>.
  \<^item> \<open>State_Store\<close>: \<open>machine/store.py\<close> and \<open>machine/recording.py\<close>.
  \<^item> \<open>Engine_Guards\<close>, \<open>Store_Guards\<close>, \<open>Evaluation\<close>: \<open>machine/engine_guards.py\<close>,
    \<open>machine/store_guards.py\<close>, \<open>machine/endpoints.py\<close>, \<open>machine/evaluation.py\<close>.  The engines
    behind \<open>engines/registry.py\<close> are a record of functions.
  \<^item> \<open>Bookkeeping\<close>, \<open>Machine_Core\<close>: \<open>machine/bookkeeping.py\<close>, \<open>machine/machine.py\<close> and
    \<open>machine/settling.py\<close>.  A nested \<open>fire\<close> (a check failure, an unreachable service, the
    pointer's own event) is the recursion of \<open>fire_upto\<close>; its fuel is Python's recursion
    limit, and running out is the error \<open>RecursionLimit\<close>, never a result.
  \<^item> \<open>Machine_Frame\<close>, \<open>Firing\<close>: what every operation keeps; the histories a machine can have.
  \<^item> \<open>Outcomes\<close>, \<open>Lifecycle\<close>, \<open>Sealing\<close>, \<open>Sealed_Machine\<close>, \<open>Sealed_Firing\<close>: the view of a
    revision the safety argument needs, the invariant on it, and its preservation by every
    row of the tables and by every operation that drives them.
  \<^item> \<open>Sample\<close>, \<open>Machine_Properties\<close>: a concrete machine for the witnesses, and the theorems.
  \<^item> \<open>Containers\<close>, \<open>Ltl\<close>, \<open>Trace\<close>, \<open>Invariants\<close>: the temporal engine
    (\<open>engines/temporal/\<close>): Python's containers with the exceptions they raise, the operators of
    \<open>ltl.py\<close>, the reader of a trace and the fifteen properties.  \<open>Legal_Runs\<close> says what each
    property means of a run that records its facts; \<open>Traced_Machine\<close> shows that every trace the
    machine writes is one the engine can read; \<open>Temporal_Properties\<close> holds the theorems.
  \<^item> \<open>Datalog\<close>, \<open>Datalog_Checks\<close>, \<open>Datalog_Properties\<close>: \<open>engines/datalog/\<close>.  The rules are
    inductive relations over the facts, pyDatalog is the parameter \<open>ask\<close> (hypothesis \<open>solves\<close>:
    an answerable query is answered with the rows the rules derive), \<open>repr\<close> is \<open>show\<close>.
  \<^item> \<open>Screened_Text\<close>, \<open>Json\<close>, \<open>Actions\<close>, \<open>Membrane\<close>: \<open>gateway/screened_text.py\<close>,
    \<open>gateway/actions.py\<close>, \<open>gateway/action_subject.py\<close> and \<open>gateway/membrane.py\<close>, with
    \<open>json.dumps\<close> as they use it.  \<open>Membrane_Properties\<close> takes a request apart into its checks and
    its effect; \<open>Gateway_Properties\<close> holds the theorems.  The JSON Schema validator, the digest,
    the clock and the provider's call are parameters.
  \<^item> \<open>Arithmetic\<close>, \<open>Arithmetic_Properties\<close>: \<open>engines/z3/engine.py\<close>.  Every assertion is a named
    claim about one whole number; Z3 is the parameter \<open>solve\<close> (hypothesis \<open>decides\<close>: a model
    satisfies every claim, a core cannot hold), and \<open>by_bounds\<close> is a solver that meets it.
  \<^item> \<open>Texts\<close>, \<open>Guard_Parser\<close>, \<open>Table_Loader\<close>: Python's text operations as the parsers use them;
    \<open>machine/guard_expressions.py\<close>; \<open>load\<close> of \<open>machine/transition_table.py\<close> on the cells of
    \<open>model/transitions.yaml\<close>.  The theorem that the shipped tables load and give \<open>spec_table\<close> ties
    the rows every other theory runs on to the text they come from.
  \<^item> \<open>Retrieval\<close>, \<open>Asking\<close>, \<open>Pipeline\<close>: \<open>gateway/retrieval.py\<close>, \<open>gateway/asking.py\<close> with the
    shapes of \<open>engines/schema/schemas.py\<close>, and \<open>gateway/pipeline.py\<close>.  A generator and a
    screener are computations over a world of their own; the pipeline's log and its memory of
    screenings live beside it.  \<open>Pipeline_Frame\<close> shows once, in a locale, what every operation
    of the pipeline keeps of a relation that requests and events keep, and takes it for two
    relations; \<open>Pipeline_Properties\<close> holds the theorems.
  \<^item> \<open>Schema_Engine\<close>, \<open>Schema_Properties\<close>: \<open>engines/schema/engine.py\<close>.  The jsonschema library
    is the parameter \<open>errs\<close>: the errors of an artifact against a schema.
  \<^item> \<open>Coverage\<close>, \<open>Coverage_Properties\<close>: \<open>engines/prolog/\<close>.  The facts as Prolog text, what the
    code reads back, and the clauses of \<open>coverage.pl\<close> as functions on facts; swipl is a parameter
    (hypothesis \<open>runs_coverage\<close>: text that reads as facts is answered with the program's
    explanations, a line each).
  \<^item> \<open>Policy_Engine\<close>, \<open>Policy_Properties\<close>: \<open>engines/opa/\<close>, both policy files included, with Rego's
    undefined references as \<open>None\<close>; opa is a parameter (hypothesis \<open>runs_policy\<close>: a query is
    answered with the policy's value).
  \<^item> \<open>Fuel\<close>: a bound on nested events that is enough gives the result of every larger one.

  \<^item> \<open>Whole_Course\<close>: the engines put behind the machine as \<open>engines/registry.py\<close> has it, and the
    checks of a whole course followed from the engines' verdicts, through the cache, to the row
    that lets the course wait for approval: what \<open>sound_course\<close> says is then true of it.
  \<^item> \<open>Providers\<close>, \<open>Provider_Properties\<close>: \<open>gateway/provider/\<close>.  The recording is a world of queues;
    Bedrock's screener is a computation over the service, a parameter, with the environment and the
    files it reads; Gemini's is one over its SDK, with the cut of the schema it sends.
  \<^item> \<open>Session\<close>, \<open>Page\<close>, \<open>Page_Properties\<close>: \<open>ui/session.py\<close> and the POST side of \<open>ui/server.py\<close>.  A
    press is an event or a request of the pipeline's gateway, so the locale of \<open>Pipeline_Frame\<close>
    carries to the page what the gateway keeps.
  \<^item> \<open>Written_Runs\<close>: \<open>scenarios/legal_run.py\<close>, the runs the specification declares legal; the short
    ones are put to the temporal engine, and refused once a field is changed.

  Not modelled: \<open>Pipeline.screen_waiting\<close>, whose loop reads node objects that a legality check
  replaces while it runs; the messages of refusals (a refusal is the check and the data behind
  it); YAML, JSON Schema, pyDatalog, Z3, swipl, opa and the services of the providers, which are
  parameters; the picture of a session the page reads back and its log of engine refusals, which
  change nothing; the scripts under \<open>scenarios/\<close> that drive the machine on fixtures and print what
  happened; the repository's own scripts, which read its files for a build.
\<close>

end
